(* ===== verification/Prelude.thy ===== *)
theory Prelude
  imports Complex_Main "HOL-Library.List_Lexorder" "HOL-Library.Char_ord"
begin

text \<open>
  Shared vocabulary of the development: the collections of hints, generic lemmas on association
  lists (Go maps) and on lists of rows (database tables), and the locale of a table that is
  updated by key.  Every SQL statement of the gateway has the shape
  \<open>UPDATE t SET ... WHERE key = ?\<close>, \<open>SELECT ... WHERE key = ?\<close>, \<open>DELETE ... WHERE ...\<close> or
  \<open>INSERT\<close>; the functions \<open>update_where\<close>, \<open>select_one\<close>, \<open>delete_where\<close> and
  \<open>insert_row\<close> are these statements on a list of rows.
\<close>

named_theorems sql_simps
named_theorems go_simps

section \<open>Go maps\<close>

text \<open>
  A Go map is an association list with distinct keys.  The order in which Go ranges over a map is
  unspecified, so code that ranges takes the order of the keys as an argument; the order of the
  list itself carries no meaning.
\<close>

type_synonym ('k, 'v) gomap = "('k \<times> 'v) list"

fun gm_put :: "'k \<Rightarrow> 'v \<Rightarrow> ('k, 'v) gomap \<Rightarrow> ('k, 'v) gomap" where
  "gm_put k v [] = [(k, v)]"
| "gm_put k v ((k', v') # m) = (if k' = k then (k, v) # m else (k', v') # gm_put k v m)"

definition gm_delete :: "'k \<Rightarrow> ('k, 'v) gomap \<Rightarrow> ('k, 'v) gomap" where
  "gm_delete k m = filter (\<lambda>kv. fst kv \<noteq> k) m"

definition gm_ok :: "('k, 'v) gomap \<Rightarrow> bool" where
  "gm_ok m \<longleftrightarrow> distinct (map fst m)"

lemma map_of_gm_put [simp]: "map_of (gm_put k v m) = (map_of m)(k \<mapsto> v)"
  by (induction k v m rule: gm_put.induct) auto

lemma set_fst_gm_put: "fst ` set (gm_put k v m) = insert k (fst ` set m)"
  by (induction k v m rule: gm_put.induct) auto

lemma gm_ok_put: "gm_ok m \<Longrightarrow> gm_ok (gm_put k v m)"
  by (induction k v m rule: gm_put.induct) (auto simp: gm_ok_def set_fst_gm_put)

lemma map_of_gm_delete [simp]: "map_of (gm_delete k m) = (map_of m)(k := None)"
  by (induction m) (auto simp: gm_delete_def)

section \<open>Tables\<close>

definition update_where :: "('r \<Rightarrow> bool) \<Rightarrow> ('r \<Rightarrow> 'r) \<Rightarrow> 'r list \<Rightarrow> 'r list" where
  "update_where P f rows = map (\<lambda>r. if P r then f r else r) rows"

definition rows_affected :: "('r \<Rightarrow> bool) \<Rightarrow> 'r list \<Rightarrow> nat" where
  "rows_affected P rows = length (filter P rows)"

definition delete_where :: "('r \<Rightarrow> bool) \<Rightarrow> 'r list \<Rightarrow> 'r list" where
  "delete_where P rows = filter (\<lambda>r. \<not> P r) rows"

definition select_one :: "('r \<Rightarrow> bool) \<Rightarrow> 'r list \<Rightarrow> 'r option" where
  "select_one P rows = find P rows"

definition insert_row :: "'r \<Rightarrow> 'r list \<Rightarrow> 'r list" where
  "insert_row r rows = rows @ [r]"

lemma update_where_Nil [simp]: "update_where P f [] = []"
  by (simp add: update_where_def)

lemma update_where_Cons [simp]:
  "update_where P f (r # rs) = (if P r then f r else r) # update_where P f rs"
  by (simp add: update_where_def)

lemma length_update_where [simp]: "length (update_where P f rs) = length rs"
  by (simp add: update_where_def)

lemma select_one_Nil [simp]: "select_one P [] = None"
  by (simp add: select_one_def)

lemma select_one_Cons [simp]:
  "select_one P (r # rs) = (if P r then Some r else select_one P rs)"
  by (simp add: select_one_def)

lemma select_one_SomeD: "select_one P rs = Some r \<Longrightarrow> P r \<and> r \<in> set rs"
  by (induction rs) (auto split: if_splits)

lemma select_one_None_iff: "select_one P rs = None \<longleftrightarrow> (\<forall>r \<in> set rs. \<not> P r)"
  by (induction rs) auto

lemma update_where_noop: "(\<And>r. r \<in> set rs \<Longrightarrow> P r \<Longrightarrow> f r = r) \<Longrightarrow> update_where P f rs = rs"
  by (induction rs) auto

lemma set_update_where: "set (update_where P f rs) = (\<lambda>r. if P r then f r else r) ` set rs"
  by (simp add: update_where_def)

lemma rows_affected_0_iff: "rows_affected P rs = 0 \<longleftrightarrow> (\<forall>r \<in> set rs. \<not> P r)"
  by (auto simp: rows_affected_def filter_empty_conv)

text \<open>
  A table with a unique key: what a lookup returns after an update, an insert or a delete by key,
  and that every statement that keeps the key keeps the table well formed.  A client of a table
  uses only these laws.
\<close>

locale keyed_table =
  fixes key :: "'r \<Rightarrow> 'k"
    and wf :: "'r list \<Rightarrow> bool"
  assumes wf_distinct: "wf rs \<longleftrightarrow> distinct (map key rs)"
begin

lemma select_update_same:
  assumes "\<And>r. key (f r) = key r"
  shows "select_one (\<lambda>r. key r = k) (update_where (\<lambda>r. key r = k \<and> Q r) f rs)
    = map_option (\<lambda>r. if Q r then f r else r) (select_one (\<lambda>r. key r = k) rs)"
  by (induction rs) (auto simp: assms)

lemma select_update_key:
  assumes "\<And>r. key (f r) = key r"
  shows "select_one (\<lambda>r. key r = k) (update_where (\<lambda>r. key r = k) f rs)
    = map_option f (select_one (\<lambda>r. key r = k) rs)"
  by (induction rs) (auto simp: assms)

lemma select_update_other:
  assumes "\<And>r. key (f r) = key r" and "k \<noteq> k'"
  shows "select_one (\<lambda>r. key r = k) (update_where (\<lambda>r. key r = k' \<and> Q r) f rs)
    = select_one (\<lambda>r. key r = k) rs"
  using assms(2) by (induction rs) (auto simp: assms(1))

lemma keys_update:
  assumes "\<And>r. key (f r) = key r"
  shows "map key (update_where P f rs) = map key rs"
  by (induction rs) (auto simp: assms)

lemma wf_update:
  assumes "\<And>r. key (f r) = key r"
  shows "wf (update_where P f rs) \<longleftrightarrow> wf rs"
  by (simp add: wf_distinct keys_update [OF assms])

lemma wf_insert:
  assumes "wf rs" and "select_one (\<lambda>x. key x = key r) rs = None"
  shows "wf (insert_row r rs)"
  using assms by (auto simp: wf_distinct insert_row_def select_one_None_iff)

lemma wf_delete: "wf rs \<Longrightarrow> wf (delete_where P rs)"
  by (simp add: wf_distinct delete_where_def distinct_map_filter)

lemma select_delete:
  "select_one (\<lambda>r. key r = k) (delete_where (\<lambda>r. key r = k) rs) = None"
  by (auto simp: select_one_None_iff delete_where_def)

lemma affected_one:
  assumes "wf rs" and "select_one (\<lambda>r. key r = k) rs = Some r"
  shows "rows_affected (\<lambda>r. key r = k \<and> Q r) rs = (if Q r then 1 else 0)"
  using assms
proof (induction rs)
  case Nil
  then show ?case by simp
next
  case (Cons a rs)
  show ?case
  proof (cases "key a = k")
    case True
    have "k \<notin> set (map key rs)"
      using Cons.prems(1) True by (simp add: wf_distinct)
    then have "key x \<noteq> k" if "x \<in> set rs" for x
      using that by auto
    then have "filter (\<lambda>r. key r = k \<and> Q r) rs = []"
      by (auto simp: filter_empty_conv)
    then show ?thesis using True Cons.prems(2) by (auto simp: rows_affected_def)
  next
    case False
    then show ?thesis using Cons by (simp add: wf_distinct rows_affected_def)
  qed
qed

lemma affected_none:
  assumes "select_one (\<lambda>r. key r = k) rs = None"
  shows "rows_affected (\<lambda>r. key r = k \<and> Q r) rs = 0"
  using assms by (auto simp: select_one_None_iff rows_affected_0_iff)

end

section \<open>Sorting with a comparator\<close>

text \<open>
  \<open>sort.SliceStable\<close> with a \<open>lt\<close> function: the stable sort of Go.  Any stable sort gives the
  same result for a strict weak order, so the model is insertion sort.
\<close>

fun insert_stable :: "('a \<Rightarrow> 'a \<Rightarrow> bool) \<Rightarrow> 'a \<Rightarrow> 'a list \<Rightarrow> 'a list" where
  "insert_stable lt x [] = [x]"
| "insert_stable lt x (y # ys) =
     (if lt y x then y # insert_stable lt x ys else x # y # ys)"

fun slice_stable :: "('a \<Rightarrow> 'a \<Rightarrow> bool) \<Rightarrow> 'a list \<Rightarrow> 'a list" where
  "slice_stable lt [] = []"
| "slice_stable lt (x # xs) = insert_stable lt x (slice_stable lt xs)"

text \<open>What a comparator must promise for the result of the sort to mean anything.\<close>

locale comparator =
  fixes lt :: "'a \<Rightarrow> 'a \<Rightarrow> bool"
  assumes irrefl: "\<not> lt x x"
    and trans: "lt x y \<Longrightarrow> lt y z \<Longrightarrow> lt x z"
    and incomp_trans: "\<not> lt x y \<Longrightarrow> \<not> lt y z \<Longrightarrow> \<not> lt x z"
begin

lemma set_insert: "set (insert_stable lt x ys) = insert x (set ys)"
  by (induction lt x ys rule: insert_stable.induct) auto

lemma set_sort: "set (slice_stable lt xs) = set xs"
  by (induction xs) (auto simp: set_insert)

lemma length_insert: "length (insert_stable lt x ys) = Suc (length ys)"
  by (induction ys) auto

lemma length_sort: "length (slice_stable lt xs) = length xs"
  by (induction xs) (auto simp: length_insert)

lemma sorted_insert:
  "sorted_wrt (\<lambda>a b. \<not> lt b a) ys \<Longrightarrow> sorted_wrt (\<lambda>a b. \<not> lt b a) (insert_stable lt x ys)"
proof (induction ys)
  case Nil
  then show ?case by simp
next
  case (Cons y ys)
  show ?case
  proof (cases "lt y x")
    case True
    then have "\<not> lt x y" using irrefl trans by blast
    then show ?thesis using Cons True by (auto simp: set_insert)
  next
    case False
    have "\<not> lt z x" if "z \<in> set ys" for z
    proof -
      from Cons.prems that have "\<not> lt z y" by simp
      from incomp_trans [OF this False] show ?thesis .
    qed
    then show ?thesis using Cons.prems False by auto
  qed
qed

lemma sorted_sort: "sorted_wrt (\<lambda>a b. \<not> lt b a) (slice_stable lt xs)"
  by (induction xs) (auto intro: sorted_insert)

lemma filter_insert:
  assumes "\<And>a b. P a \<Longrightarrow> P b \<Longrightarrow> \<not> lt a b"
  shows "filter P (insert_stable lt x ys) = (if P x then x # filter P ys else filter P ys)"
  using assms by (induction ys) auto

text \<open>Stability: elements the comparator does not tell apart keep their order.\<close>

lemma stable_sort:
  assumes "\<And>a b. P a \<Longrightarrow> P b \<Longrightarrow> \<not> lt a b"
  shows "filter P (slice_stable lt xs) = filter P xs"
  by (induction xs) (auto simp: filter_insert assms)

text \<open>The first element that satisfies a test is one that nothing satisfying it precedes.\<close>

lemma find_sorted_least:
  assumes "find P (slice_stable lt xs) = Some x" and "y \<in> set xs" and "P y"
  shows "\<not> lt y x"
proof -
  have *: "sorted_wrt (\<lambda>a b. \<not> lt b a) zs \<Longrightarrow> find P zs = Some x \<Longrightarrow> y \<in> set zs \<Longrightarrow> \<not> lt y x"
    for zs
    using \<open>P y\<close> irrefl by (induction zs) (auto split: if_splits)
  show ?thesis
    using * [OF sorted_sort assms(1)] assms(2) by (simp add: set_sort)
qed

end

text \<open>A column of a dynamic \<open>UPDATE\<close>, set only when the map of updates has its key.\<close>

definition set_opt :: "'v option \<Rightarrow> ('v \<Rightarrow> 'r \<Rightarrow> 'r) \<Rightarrow> 'r \<Rightarrow> 'r" where
  "set_opt v f r = (case v of None \<Rightarrow> r | Some x \<Rightarrow> f x r)"

section \<open>Errors\<close>

text \<open>
  A Go \<open>error\<close>: a failed database statement under the context string of the wrapping
  \<open>fmt.Errorf\<close>, or an error made by the code itself.
\<close>

datatype goerr = DbErr string | UniqueErr string | GoErr string

abbreviation Err :: "goerr \<Rightarrow> goerr + 'a" where "Err \<equiv> Inl"
abbreviation Ok :: "'a \<Rightarrow> goerr + 'a" where "Ok \<equiv> Inr"

end
