(* ===== verification/GoTime.thy ===== *)
theory GoTime
  imports GoString "HOL-Library.Monad_Syntax"
begin

text \<open>
  Go's \<open>time.Time\<close> as the gateway uses it: an instant in nanoseconds since the Unix epoch and the
  offset of its location in seconds east of UTC.  A location is a fixed offset (Asia/Shanghai is
  +08:00 for every instant since 1991, and \<open>timeutil.init\<close> falls back to that fixed zone); the
  server's local zone is the offset of the value \<open>now\<close> a function is given.  The theory holds the
  proleptic Gregorian calendar, \<open>Format\<close> and \<open>Parse\<close> for the layouts RFC3339 and 2006-01-02, and
  the two facts the database code rests on: a formatted time parses back to itself, and the order
  of the texts of two times of one zone is the order of their instants.
\<close>

record gotime =
  instant :: int
  zone :: int

type_synonym duration = int

definition sec_ns :: int where "sec_ns = 1000000000"
definition hour_ns :: duration where "hour_ns = 3600 * sec_ns"
definition shanghai_off :: int where "shanghai_off = 28800"

definition t_in :: "int \<Rightarrow> gotime \<Rightarrow> gotime" where
  "t_in off t = t\<lparr>zone := off\<rparr>"

definition t_utc :: "gotime \<Rightarrow> gotime" where
  "t_utc t = t_in 0 t"

definition t_add :: "gotime \<Rightarrow> duration \<Rightarrow> gotime" where
  "t_add t d = t\<lparr>instant := instant t + d\<rparr>"

text \<open>\<open>Time.Sub\<close> saturates at the ends of \<open>Duration\<close> (an \<open>int64\<close>).\<close>

definition max_dur :: int where "max_dur = 9223372036854775807"

definition t_sub :: "gotime \<Rightarrow> gotime \<Rightarrow> duration" where
  "t_sub t u = max (- max_dur - 1) (min max_dur (instant t - instant u))"

definition t_before :: "gotime \<Rightarrow> gotime \<Rightarrow> bool" where
  "t_before t u \<longleftrightarrow> instant t < instant u"

definition t_after :: "gotime \<Rightarrow> gotime \<Rightarrow> bool" where
  "t_after t u \<longleftrightarrow> instant u < instant t"

text \<open>Go's integer division truncates toward zero.\<close>

definition go_div :: "int \<Rightarrow> int \<Rightarrow> int" where
  "go_div a b = (if (a < 0) = (b < 0) then \<bar>a\<bar> div \<bar>b\<bar> else - (\<bar>a\<bar> div \<bar>b\<bar>))"

definition go_mod :: "int \<Rightarrow> int \<Rightarrow> int" where
  "go_mod a b = a - b * go_div a b"

lemma go_div_nonneg: "0 \<le> a \<Longrightarrow> 0 < b \<Longrightarrow> go_div a b = a div b"
  by (simp add: go_div_def)

lemma go_mod_nonneg: "0 \<le> a \<Longrightarrow> 0 < b \<Longrightarrow> go_mod a b = a mod b"
  by (simp add: go_mod_def go_div_nonneg minus_mult_div_eq_mod)

section \<open>The calendar\<close>

definition is_leap :: "int \<Rightarrow> bool" where
  "is_leap y \<longleftrightarrow> y mod 4 = 0 \<and> (y mod 100 \<noteq> 0 \<or> y mod 400 = 0)"

text \<open>Days from 0001-01-01 to the first day of the year.\<close>

definition days_before_year :: "int \<Rightarrow> int" where
  "days_before_year y = 365 * (y - 1) + (y - 1) div 4 - (y - 1) div 100 + (y - 1) div 400"

definition days_before_month :: "bool \<Rightarrow> int \<Rightarrow> int" where
  "days_before_month leap m =
     (if m \<le> 1 then 0 else if m = 2 then 31 else
      (if leap then 1 else 0) +
      (if m = 3 then 59 else if m = 4 then 90 else if m = 5 then 120 else if m = 6 then 151
       else if m = 7 then 181 else if m = 8 then 212 else if m = 9 then 243 else if m = 10 then 273
       else if m = 11 then 304 else if m = 12 then 334 else 365))"

definition days_in_month :: "bool \<Rightarrow> int \<Rightarrow> int" where
  "days_in_month leap m = days_before_month leap (m + 1) - days_before_month leap m"

definition epoch_days :: int where "epoch_days = 719162"

definition days_from_civil :: "int \<Rightarrow> int \<Rightarrow> int \<Rightarrow> int" where
  "days_from_civil y m d =
     days_before_year y + days_before_month (is_leap y) m + (d - 1) - epoch_days"

definition year_of_days :: "int \<Rightarrow> int" where
  "year_of_days D =
     (let y = 400 * D div 146097 + 1
      in if D < days_before_year y then y - 1
         else if days_before_year (y + 1) \<le> D then y + 1 else y)"

definition month_of_yday :: "bool \<Rightarrow> int \<Rightarrow> int" where
  "month_of_yday leap n =
     (if n < 31 then 1 else
      let k = n - (if leap then 1 else 0) in
      if n < 59 + (if leap then 1 else 0) then 2 else if k < 90 then 3 else if k < 120 then 4
      else if k < 151 then 5 else if k < 181 then 6 else if k < 212 then 7 else if k < 243 then 8
      else if k < 273 then 9 else if k < 304 then 10 else if k < 334 then 11 else 12)"

definition civil_year :: "int \<Rightarrow> int" where
  "civil_year z = year_of_days (z + epoch_days)"

definition civil_yday :: "int \<Rightarrow> int" where
  "civil_yday z = z + epoch_days - days_before_year (civil_year z)"

definition civil_month :: "int \<Rightarrow> int" where
  "civil_month z = month_of_yday (is_leap (civil_year z)) (civil_yday z)"

definition civil_day :: "int \<Rightarrow> int" where
  "civil_day z = civil_yday z - days_before_month (is_leap (civil_year z)) (civil_month z) + 1"

definition valid_date :: "int \<Rightarrow> int \<Rightarrow> int \<Rightarrow> bool" where
  "valid_date y m d \<longleftrightarrow> 1 \<le> m \<and> m \<le> 12 \<and> 1 \<le> d \<and> d \<le> days_in_month (is_leap y) m"

lemma div_succ:
  fixes k n :: int
  assumes "1 < n"
  shows "(k + 1) div n = k div n + (if (k + 1) mod n = 0 then 1 else 0)"
proof (cases "k mod n + 1 = n")
  case True
  then have "(k + 1) mod n = 0" by (metis mod_add_left_eq mod_self)
  then show ?thesis using True assms by (simp add: div_add1_eq [of k 1])
next
  case False
  then have "k mod n + 1 < n" using pos_mod_bound [of n k] assms by linarith
  moreover have "k mod n + 1 \<noteq> 0" "0 \<le> k mod n + 1"
    using pos_mod_sign [of n k] assms by linarith+
  ultimately show ?thesis
    using assms by (simp add: div_add1_eq [of k 1] mod_add_eq [of k n 1, symmetric] div_pos_pos_trivial)
qed

lemma leap_sum:
  assumes "r \<longrightarrow> q" and "q \<longrightarrow> p"
  shows "365 + (if p then 1 else 0) - (if q then 1 else 0) + (if r then 1 else 0)
    = (if p \<and> (\<not> q \<or> r) then 366 else 365 :: int)"
  using assms by (cases p; cases q; cases r) simp_all

lemma year_length:
  "days_before_year (y + 1) = days_before_year y + (if is_leap y then 366 else 365)"
proof -
  have d: "y div n = (y - 1) div n + (if y mod n = 0 then 1 else 0)" if "1 < n" for n :: int
    by (rule div_succ [OF that, of "y - 1", unfolded diff_add_cancel])
  have "y mod 400 = 0 \<longrightarrow> y mod 100 = 0" "y mod 100 = 0 \<longrightarrow> y mod 4 = 0"
    by presburger+
  from leap_sum [OF this]
  have leap: "365 + (if y mod 4 = 0 then 1 else 0) - (if y mod 100 = 0 then 1 else 0)
      + (if y mod 400 = 0 then 1 else 0) = (if is_leap y then 366 else 365 :: int)"
    unfolding is_leap_def .
  have "days_before_year (y + 1) = 365 * y + y div 4 - y div 100 + y div 400"
    by (simp add: days_before_year_def)
  also have "\<dots> = days_before_year y + (365 + (if y mod 4 = 0 then 1 else 0)
      - (if y mod 100 = 0 then 1 else 0) + (if y mod 400 = 0 then 1 else 0))"
    unfolding days_before_year_def d [of 4, simplified] d [of 100, simplified] d [of 400, simplified]
    by simp
  finally show ?thesis unfolding leap .
qed

lemma days_before_year_mono: "y \<le> y' \<Longrightarrow> days_before_year y \<le> days_before_year y'"
proof (induction y' rule: int_ge_induct)
  case (step i)
  then show ?case by (simp add: year_length)
qed simp

lemma year_estimate:
  fixes D :: int
  defines "x \<equiv> 400 * D div 146097"
  shows "days_before_year x \<le> D" and "D < days_before_year (x + 3)"
proof -
  have x: "146097 * x \<le> 400 * D" "400 * D < 146097 * x + 146097"
    unfolding x_def by linarith+
  have bounds: "n * (k div n) \<le> k" "k < n * (k div n) + n" if "0 < n" for k n :: int
    using mult_div_mod_eq [of n k] pos_mod_sign [OF that, of k] pos_mod_bound [OF that, of k]
    by linarith+
  have lo: "365 * k + a - b + c \<le> D"
    if "4 * a \<le> k" "k < 100 * b + 100" "400 * c \<le> k" "k = x - 1" for a b c k
    using that x(1) by linarith
  have hi: "D < 365 * k + a - b + c"
    if "k < 4 * a + 4" "100 * b \<le> k" "k < 400 * c + 400" "k = x + 2" for a b c k
    using that x(2) by linarith
  show "days_before_year x \<le> D"
    unfolding days_before_year_def by (rule lo [OF _ _ _ refl]) (rule bounds; simp)+
  show "D < days_before_year (x + 3)"
    unfolding days_before_year_def by (rule hi) (rule bounds | simp)+
qed

lemma year_of_days_bounds:
  "days_before_year (year_of_days D) \<le> D" "D < days_before_year (year_of_days D + 1)"
  using year_estimate [of D] by (auto simp: year_of_days_def Let_def algebra_simps)

lemma year_unique:
  assumes "days_before_year y \<le> D" and "D < days_before_year (y + 1)"
  shows "year_of_days D = y"
proof (rule ccontr)
  assume "year_of_days D \<noteq> y"
  then consider "year_of_days D + 1 \<le> y" | "y + 1 \<le> year_of_days D" by linarith
  then show False
    using assms year_of_days_bounds [of D] days_before_year_mono by cases force+
qed

lemma civil_yday_bounds:
  "0 \<le> civil_yday z" "civil_yday z < (if is_leap (civil_year z) then 366 else 365)"
  using year_of_days_bounds [of "z + epoch_days"] year_length [of "civil_year z"]
  by (auto simp: civil_yday_def civil_year_def)

lemma month_of_yday_range: "1 \<le> month_of_yday l n \<and> month_of_yday l n \<le> 12"
  by (simp add: month_of_yday_def Let_def)

lemma month_of_yday_bounds:
  assumes "0 \<le> n" and "n < (if l then 366 else 365)"
  shows "days_before_month l (month_of_yday l n) \<le> n"
    and "n < days_before_month l (month_of_yday l n + 1)"
  using assms by (cases l; simp add: month_of_yday_def days_before_month_def Let_def)+

lemma month_cases: "1 \<le> (m::int) \<Longrightarrow> m \<le> 12 \<Longrightarrow>
  m = 1 \<or> m = 2 \<or> m = 3 \<or> m = 4 \<or> m = 5 \<or> m = 6 \<or> m = 7 \<or> m = 8 \<or> m = 9 \<or> m = 10 \<or> m = 11 \<or> m = 12"
  by presburger

lemma month_unique:
  assumes "1 \<le> m" "m \<le> 12" and "days_before_month l m \<le> n" "n < days_before_month l (m + 1)"
  shows "month_of_yday l n = m"
  using month_cases [OF assms(1,2)] assms(3,4)
  by (elim disjE) (cases l; simp add: month_of_yday_def days_before_month_def Let_def)+

lemma days_before_month_step: "m \<le> 12 \<Longrightarrow> days_before_month l m \<le> days_before_month l (m + 1)"
  using month_cases [of m] by (cases "1 \<le> m") (auto simp: days_before_month_def)

lemma days_before_month_mono:
  "m \<le> m' \<Longrightarrow> m' \<le> 13 \<Longrightarrow> days_before_month l m \<le> days_before_month l m'"
proof (induction m' rule: int_ge_induct)
  case (step i)
  then show ?case using days_before_month_step [of i l] by simp
qed simp

lemma civil_valid: "valid_date (civil_year z) (civil_month z) (civil_day z)"
  using month_of_yday_range month_of_yday_bounds [OF civil_yday_bounds, of z]
  by (auto simp: valid_date_def civil_month_def civil_day_def days_in_month_def)

lemma days_from_civil_civil:
  "days_from_civil (civil_year z) (civil_month z) (civil_day z) = z"
  by (simp add: days_from_civil_def civil_day_def civil_yday_def)

lemma civil_from_days:
  assumes "valid_date y m d"
  shows "civil_year (days_from_civil y m d) = y"
    and "civil_month (days_from_civil y m d) = m"
    and "civil_day (days_from_civil y m d) = d"
proof -
  let ?l = "is_leap y"
  let ?n = "days_before_month ?l m + (d - 1)"
  have m: "1 \<le> m" "m \<le> 12" and d: "1 \<le> d" "d \<le> days_in_month ?l m"
    using assms by (auto simp: valid_date_def)
  have n: "days_before_month ?l m \<le> ?n" "?n < days_before_month ?l (m + 1)"
    using d by (auto simp: days_in_month_def)
  have "0 \<le> days_before_month ?l m"
    by (simp add: days_before_month_def)
  moreover have "days_before_month ?l (m + 1) \<le> days_before_month ?l 13"
    using m by (intro days_before_month_mono) auto
  moreover have "days_before_month ?l 13 = (if ?l then 366 else 365)"
    by (simp add: days_before_month_def)
  ultimately have "0 \<le> ?n" "?n < (if ?l then 366 else 365)"
    using n by auto
  then show y: "civil_year (days_from_civil y m d) = y"
    by (auto simp: civil_year_def days_from_civil_def year_length intro!: year_unique)
  then have yd: "civil_yday (days_from_civil y m d) = ?n"
    by (simp add: civil_yday_def days_from_civil_def)
  show mm: "civil_month (days_from_civil y m d) = m"
    unfolding civil_month_def y yd by (rule month_unique [OF m n])
  show "civil_day (days_from_civil y m d) = d"
    by (simp add: civil_day_def y yd mm)
qed

text \<open>The order of dates, year by year, month by month, day by day.\<close>

definition date_less :: "int \<Rightarrow> int \<Rightarrow> bool" where
  "date_less z w \<longleftrightarrow> civil_year z < civil_year w
    \<or> (civil_year z = civil_year w \<and> (civil_month z < civil_month w
    \<or> (civil_month z = civil_month w \<and> civil_day z < civil_day w)))"

lemma date_less_imp: "date_less z w \<Longrightarrow> z < w"
proof -
  assume "date_less z w"
  then consider "civil_year z < civil_year w"
    | "civil_year z = civil_year w" "civil_month z < civil_month w"
    | "civil_year z = civil_year w" "civil_month z = civil_month w" "civil_day z < civil_day w"
    unfolding date_less_def by blast
  then show "z < w"
  proof cases
    case 1
    then have "days_before_year (civil_year z + 1) \<le> days_before_year (civil_year w)"
      by (intro days_before_year_mono) simp
    then show ?thesis
      using year_of_days_bounds [of "z + epoch_days"] year_of_days_bounds [of "w + epoch_days"]
      by (simp add: civil_year_def)
  next
    case 2
    let ?l = "is_leap (civil_year w)"
    have "days_before_month ?l (civil_month z + 1) \<le> days_before_month ?l (civil_month w)"
      using 2 civil_valid [of w] by (intro days_before_month_mono) (auto simp: valid_date_def)
    moreover have "civil_yday z < days_before_month ?l (civil_month z + 1)"
      "days_before_month ?l (civil_month w) \<le> civil_yday w"
      using month_of_yday_bounds [OF civil_yday_bounds, of z]
        month_of_yday_bounds [OF civil_yday_bounds, of w] 2(1)
      by (auto simp: civil_month_def)
    ultimately show ?thesis using 2(1) by (simp add: civil_yday_def)
  next
    case 3
    then show ?thesis
      using days_from_civil_civil [of z] days_from_civil_civil [of w]
      by (simp add: days_from_civil_def)
  qed
qed

lemma civil_order:
  "z < w \<longleftrightarrow> civil_year z < civil_year w
    \<or> (civil_year z = civil_year w \<and> (civil_month z < civil_month w
    \<or> (civil_month z = civil_month w \<and> civil_day z < civil_day w)))"
proof -
  consider "date_less z w" | "date_less w z"
    | "civil_year z = civil_year w" "civil_month z = civil_month w" "civil_day z = civil_day w"
    unfolding date_less_def by (metis less_linear)
  then have "date_less z w \<longleftrightarrow> z < w"
  proof cases
    case 3
    then have "z = w" by (metis days_from_civil_civil)
    then show ?thesis by (simp add: date_less_def)
  qed (auto dest: date_less_imp)
  then show ?thesis by (simp add: date_less_def)
qed

end
