(* ===== verification/GoFormat.thy ===== *)
theory GoFormat
  imports GoTime
begin

text \<open>
  \<open>time.Date\<close>, the fields of a time, \<open>Format\<close> and \<open>Parse\<close> for the layouts the gateway uses
  (RFC3339, 2006-01-02 and 15:04), and SQLite's \<open>datetime('now')\<close>.  \<open>parse_rfc3339\<close> is the general
  parser of Go's \<open>time.Parse\<close>: one- or two-digit hours, an optional fraction of a second after a
  point or comma, a zone \<open>Z\<close> or \<open>+hh:mm\<close> with hours up to 24 and minutes up to 60.
\<close>

section \<open>Fields\<close>

definition t_secs :: "gotime \<Rightarrow> int" where
  "t_secs t = instant t div sec_ns + zone t"

definition t_days :: "gotime \<Rightarrow> int" where
  "t_days t = t_secs t div 86400"

definition t_sod :: "gotime \<Rightarrow> int" where
  "t_sod t = t_secs t mod 86400"

definition t_year :: "gotime \<Rightarrow> int" where "t_year t = civil_year (t_days t)"
definition t_month :: "gotime \<Rightarrow> int" where "t_month t = civil_month (t_days t)"
definition t_day :: "gotime \<Rightarrow> int" where "t_day t = civil_day (t_days t)"
definition t_hour :: "gotime \<Rightarrow> int" where "t_hour t = t_sod t div 3600"
definition t_minute :: "gotime \<Rightarrow> int" where "t_minute t = t_sod t mod 3600 div 60"
definition t_second :: "gotime \<Rightarrow> int" where "t_second t = t_sod t mod 60"
definition t_weekday :: "gotime \<Rightarrow> int" where "t_weekday t = (t_days t + 4) mod 7"

text \<open>\<open>time.Date\<close>; a day or an hour out of its range carries over.\<close>

definition go_date :: "int \<Rightarrow> int \<Rightarrow> int \<Rightarrow> int \<Rightarrow> int \<Rightarrow> int \<Rightarrow> int \<Rightarrow> int \<Rightarrow> gotime" where
  "go_date y m d hh mm ss ns off =
     \<lparr>instant = ((days_from_civil y m d * 86400 + hh * 3600 + mm * 60 + ss) - off) * sec_ns + ns,
      zone = off\<rparr>"

text \<open>\<open>AddDate(0, 0, k)\<close>.\<close>

definition t_add_days :: "gotime \<Rightarrow> int \<Rightarrow> gotime" where
  "t_add_days t k =
     go_date (t_year t) (t_month t) (t_day t + k) (t_hour t) (t_minute t) (t_second t)
       (instant t mod sec_ns) (zone t)"

section \<open>Format\<close>

definition fmt_date :: "gotime \<Rightarrow> string" where
  "fmt_date t = append_int 4 (t_year t) @ ''-'' @ append_int 2 (t_month t) @ ''-'' @
     append_int 2 (t_day t)"

definition fmt_hm :: "gotime \<Rightarrow> string" where
  "fmt_hm t = append_int 2 (t_hour t) @ '':'' @ append_int 2 (t_minute t)"

definition fmt_zone :: "int \<Rightarrow> string" where
  "fmt_zone off =
     (if off = 0 then ''Z'' else
      let z = go_div off 60; a = \<bar>z\<bar>
      in (if z < 0 then ''-'' else ''+'') @ append_int 2 (a div 60) @ '':'' @ append_int 2 (a mod 60))"

definition fmt_rfc3339 :: "gotime \<Rightarrow> string" where
  "fmt_rfc3339 t =
     fmt_date t @ ''T'' @ fmt_hm t @ '':'' @ append_int 2 (t_second t) @ fmt_zone (zone t)"

definition sqlite_datetime :: "gotime \<Rightarrow> string" where
  "sqlite_datetime t =
     (let u = t_utc t in fmt_date u @ '' '' @ fmt_hm u @ '':'' @ append_int 2 (t_second u))"

section \<open>Parse\<close>

definition expect :: "string \<Rightarrow> string \<Rightarrow> string option" where
  "expect p s = (if has_prefix s p then Some (drop (length p) s) else None)"

text \<open>\<open>getnum(value, false)\<close>: one or two digits.\<close>

fun take_1_2 :: "string \<Rightarrow> (nat \<times> string) option" where
  "take_1_2 [] = None"
| "take_1_2 [a] = (if is_digit a then Some (digit_val a, []) else None)"
| "take_1_2 (a # b # s) =
     (if \<not> is_digit a then None
      else if is_digit b then Some (10 * digit_val a + digit_val b, s)
      else Some (digit_val a, b # s))"

definition parse_ymd :: "string \<Rightarrow> ((int \<times> int \<times> int) \<times> string) option" where
  "parse_ymd s = do {
     (y, s) \<leftarrow> take_digits 4 s;
     s \<leftarrow> expect ''-'' s;
     (m, s) \<leftarrow> take_digits 2 s;
     s \<leftarrow> expect ''-'' s;
     (d, s) \<leftarrow> take_digits 2 s;
     if valid_date (int y) (int m) (int d) then Some ((int y, int m, int d), s) else None
   }"

text \<open>The fraction: at most nine digits count.\<close>

definition parse_frac :: "string \<Rightarrow> int \<times> string" where
  "parse_frac s =
     (case s of
        c # d # _ \<Rightarrow>
          if (c = CHR ''.'' \<or> c = CHR '','') \<and> is_digit d then
            let ds = takeWhile is_digit (tl s); k = take 9 ds
            in (int (dec_val k) * 10 ^ (9 - length k), dropWhile is_digit (tl s))
          else (0, s)
      | _ \<Rightarrow> (0, s))"

definition parse_zone :: "string \<Rightarrow> (int \<times> string) option" where
  "parse_zone s =
     (if has_prefix s ''Z'' then Some (0, tl s)
      else if length s < 6 \<or> s ! 3 \<noteq> CHR '':'' then None
      else do {
        (hr, r) \<leftarrow> take_digits 2 (tl s);
        (mm, r) \<leftarrow> take_digits 2 (tl r);
        if 24 < hr \<or> 60 < mm then None
        else let off = (int hr * 60 + int mm) * 60 in
          if hd s = CHR ''+'' then Some (off, r)
          else if hd s = CHR ''-'' then Some (- off, r) else None
      })"

definition parse_rfc3339 :: "string \<Rightarrow> gotime option" where
  "parse_rfc3339 s = do {
     ((y, m, d), s) \<leftarrow> parse_ymd s;
     s \<leftarrow> expect ''T'' s;
     (hh, s) \<leftarrow> take_1_2 s;
     if 24 \<le> hh then None else do {
     s \<leftarrow> expect '':'' s;
     (mi, s) \<leftarrow> take_digits 2 s;
     if 60 \<le> mi then None else do {
     s \<leftarrow> expect '':'' s;
     (ss, s) \<leftarrow> take_digits 2 s;
     if 60 \<le> ss then None else do {
     let (ns, s) = parse_frac s;
     (off, s) \<leftarrow> parse_zone s;
     if s \<noteq> [] then None
     else Some (go_date y m d (int hh) (int mi) (int ss) ns off)
   }}}}"

text \<open>\<open>time.Parse("2006-01-02", s)\<close> and \<open>time.ParseInLocation\<close> of the same layout.\<close>

definition parse_date_in :: "int \<Rightarrow> string \<Rightarrow> gotime option" where
  "parse_date_in off s = do {
     ((y, m, d), s) \<leftarrow> parse_ymd s;
     if s \<noteq> [] then None else Some (go_date y m d 0 0 0 0 off)
   }"

section \<open>A formatted time parses back\<close>

text \<open>The instants and zones the layout can write: years 0 to 9999, whole minutes of offset.\<close>

definition fmt_range :: "gotime \<Rightarrow> bool" where
  "fmt_range t \<longleftrightarrow> 0 \<le> t_year t \<and> t_year t \<le> 9999"

definition zone_ok :: "int \<Rightarrow> bool" where
  "zone_ok off \<longleftrightarrow> off mod 60 = 0 \<and> \<bar>off\<bar> \<le> 86400"

definition trunc_sec :: "gotime \<Rightarrow> gotime" where
  "trunc_sec t = t\<lparr>instant := instant t div sec_ns * sec_ns\<rparr>"

lemma append_int_digits: "0 \<le> i \<Longrightarrow> i < 10 ^ w \<Longrightarrow> append_int w i = digits w (nat i)"
  by (simp add: append_int_def nat_less_iff)

lemma sod_bounds: "0 \<le> t_sod t \<and> t_sod t < 86400"
  by (simp add: t_sod_def)

lemma hms_bounds:
  "0 \<le> t_hour t" "t_hour t < 24" "0 \<le> t_minute t" "t_minute t < 60" "0 \<le> t_second t" "t_second t < 60"
  using sod_bounds [of t] by (auto simp: t_hour_def t_minute_def t_second_def)

lemma hms_sod: "t_hour t * 3600 + t_minute t * 60 + t_second t = t_sod t"
proof -
  have "t_sod t mod 60 = t_sod t mod 3600 mod 60"
    by (simp add: mod_mod_cancel)
  then show ?thesis
    using div_mult_mod_eq [of "t_sod t" 3600] div_mult_mod_eq [of "t_sod t mod 3600" 60]
    by (simp add: t_hour_def t_minute_def t_second_def)
qed

lemma secs_split: "t_days t * 86400 + t_sod t = t_secs t"
  by (simp add: t_days_def t_sod_def)

lemma ymd_bounds:
  "1 \<le> t_month t" "t_month t \<le> 12" "1 \<le> t_day t" "t_day t \<le> 31" "valid_date (t_year t) (t_month t) (t_day t)"
proof -
  have v: "valid_date (t_year t) (t_month t) (t_day t)"
    by (simp add: t_year_def t_month_def t_day_def civil_valid)
  then show "1 \<le> t_month t" "t_month t \<le> 12" "1 \<le> t_day t" "valid_date (t_year t) (t_month t) (t_day t)"
    by (auto simp: valid_date_def)
  have "days_in_month l m \<le> 31" if "1 \<le> m" "m \<le> 12" for l m
    using month_cases [OF that] by (auto simp: days_in_month_def days_before_month_def)
  from this [of "t_month t" "is_leap (t_year t)"] show "t_day t \<le> 31"
    using v unfolding valid_date_def by linarith
qed

lemma fmt_date_digits:
  assumes "fmt_range t"
  shows "fmt_date t = digits 4 (nat (t_year t)) @ ''-'' @ digits 2 (nat (t_month t)) @ ''-'' @
    digits 2 (nat (t_day t))"
  using assms ymd_bounds [of t] by (simp add: fmt_date_def fmt_range_def append_int_digits)

lemma fmt_time_digits:
  "fmt_hm t @ '':'' @ append_int 2 (t_second t)
    = digits 2 (nat (t_hour t)) @ '':'' @ digits 2 (nat (t_minute t)) @ '':'' @
      digits 2 (nat (t_second t))"
  using hms_bounds [of t] by (simp add: fmt_hm_def append_int_digits)

lemma expect_append [simp]: "expect p (p @ s) = Some s"
  by (simp add: expect_def)

lemma expect_Cons [simp]: "expect [c] (c # s) = Some s"
  by (simp add: expect_def has_prefix_def)

lemma digits_2: "n < 100 \<Longrightarrow> digits 2 n = [digit_char (n div 10), digit_char (n mod 10)]"
  by (simp add: numeral_2_eq_2)

lemma take_1_2_digits [simp]: "n < 100 \<Longrightarrow> take_1_2 (digits 2 n @ s) = Some (n, s)"
  by (simp add: digits_2)

lemma parse_ymd_fmt: "fmt_range t \<Longrightarrow>
  parse_ymd (fmt_date t @ s) = Some ((t_year t, t_month t, t_day t), s)"
  using ymd_bounds [of t]
  by (simp add: fmt_date_digits parse_ymd_def fmt_range_def nat_less_iff)

lemma zone_first: "fmt_zone off = c # r \<Longrightarrow> c = CHR ''Z'' \<or> c = CHR ''+'' \<or> c = CHR ''-''"
  by (auto simp: fmt_zone_def Let_def split: if_splits)

lemma fmt_zone_nonempty: "fmt_zone off \<noteq> []"
  by (simp add: fmt_zone_def Let_def)

lemma parse_frac_zone: "parse_frac (fmt_zone off) = (0, fmt_zone off)"
  using zone_first [of off] fmt_zone_nonempty [of off]
  by (cases "fmt_zone off") (auto simp: parse_frac_def split: list.splits)

lemma parse_zone_fmt:
  assumes "zone_ok off"
  shows "parse_zone (fmt_zone off) = Some (off, [])"
proof (cases "off = 0")
  case True
  then show ?thesis by (simp add: fmt_zone_def parse_zone_def has_prefix_def)
next
  case False
  define a where "a = \<bar>off\<bar> div 60"
  have off: "\<bar>off\<bar> = a * 60" and a: "0 < a" "a \<le> 1440"
    using assms False unfolding a_def zone_ok_def by (auto simp: dvd_eq_mod_eq_0 [symmetric])
  have ab: "0 \<le> a div 60" "a div 60 \<le> 24" "0 \<le> a mod 60" "a mod 60 < 60"
    using a by auto
  have z: "go_div off 60 = (if off < 0 then - a else a)"
    by (simp add: go_div_def a_def)
  have f: "fmt_zone off = (if off < 0 then ''-'' else ''+'') @ digits 2 (nat (a div 60)) @ '':'' @
      digits 2 (nat (a mod 60)) @ []"
    using False a ab by (simp add: fmt_zone_def z append_int_digits Let_def)
  have hm: "int (nat (a div 60)) * 60 + int (nat (a mod 60)) = a"
    using ab by simp
  have d: "take_digits 2 (digits 2 (nat (a div 60)) @ r) = Some (nat (a div 60), r)"
      "take_digits 2 (digits 2 (nat (a mod 60)) @ r) = Some (nat (a mod 60), r)" for r
    using ab by (simp_all add: nat_less_iff)
  have c: "(digits 2 (nat (a div 60)) @ CHR '':'' # r) ! Suc (Suc 0) = CHR '':''" for r
    by (simp add: nth_append)
  show ?thesis
    unfolding f parse_zone_def
    using ab off hm d(2) [of "[]"]
    by (auto simp: has_prefix_def c d(1) numeral_3_eq_3 Let_def)
qed

theorem parse_fmt_rfc3339:
  assumes "fmt_range t" and "zone_ok (zone t)"
  shows "parse_rfc3339 (fmt_rfc3339 t) = Some (trunc_sec t)"
proof -
  have fmt: "fmt_rfc3339 t = fmt_date t @ ''T'' @ digits 2 (nat (t_hour t)) @ '':'' @
      digits 2 (nat (t_minute t)) @ '':'' @ digits 2 (nat (t_second t)) @ fmt_zone (zone t)"
    using fmt_time_digits [of t] by (simp add: fmt_rfc3339_def)
  have "go_date (t_year t) (t_month t) (t_day t) (t_hour t) (t_minute t) (t_second t) 0 (zone t)
      = trunc_sec t"
  proof -
    have "days_from_civil (t_year t) (t_month t) (t_day t) = t_days t"
      by (simp add: t_year_def t_month_def t_day_def days_from_civil_civil)
    then have "days_from_civil (t_year t) (t_month t) (t_day t) * 86400 + t_hour t * 3600
        + t_minute t * 60 + t_second t - zone t = instant t div sec_ns"
      using hms_sod [of t] secs_split [of t] by (simp add: t_secs_def)
    then show ?thesis
      by (simp add: go_date_def trunc_sec_def)
  qed
  then show ?thesis
    using hms_bounds [of t]
    by (simp add: parse_rfc3339_def fmt parse_ymd_fmt [OF assms(1)] nat_less_iff
        parse_frac_zone parse_zone_fmt [OF assms(2)] not_le)
qed

section \<open>Text order is the order of the instants\<close>

lemma lex_step:
  fixes x y :: "'a :: linorder list"
  assumes "length x = length y"
  shows "x @ c # u < y @ c # v \<longleftrightarrow> x < y \<or> (x = y \<and> u < v)"
  using assms by (simp add: less_append_iff)

lemma digits_nat_less:
  "0 \<le> i \<Longrightarrow> i < 10 ^ w \<Longrightarrow> 0 \<le> j \<Longrightarrow> j < 10 ^ w \<Longrightarrow>
   (digits w (nat i) < digits w (nat j) \<longleftrightarrow> i < j) \<and> (digits w (nat i) = digits w (nat j) \<longleftrightarrow> i = j)"
  by (auto simp: digits_less_iff digits_eq_iff nat_less_iff eq_nat_nat_iff)

lemma fmt_date_less:
  assumes "fmt_range t" and "fmt_range u"
  shows "fmt_date t < fmt_date u \<longleftrightarrow> t_days t < t_days u"
    and "fmt_date t = fmt_date u \<longleftrightarrow> t_days t = t_days u"
proof -
  have b: "0 \<le> t_year x" "t_year x < 10 ^ 4" "0 \<le> t_month x" "t_month x < 10 ^ 2"
    "0 \<le> t_day x" "t_day x < 10 ^ 2" if "fmt_range x" for x
    using that ymd_bounds [of x] by (auto simp: fmt_range_def)
  note bt = b [OF assms(1)] and bu = b [OF assms(2)]
  note y = digits_nat_less [OF bt(1,2) bu(1,2)]
    and m = digits_nat_less [OF bt(3,4) bu(3,4)]
    and d = digits_nat_less [OF bt(5,6) bu(5,6)]
  show "fmt_date t < fmt_date u \<longleftrightarrow> t_days t < t_days u"
    unfolding fmt_date_digits [OF assms(1)] fmt_date_digits [OF assms(2)] civil_order [of "t_days t"]
    by (simp add: lex_step y m d t_year_def [symmetric] t_month_def [symmetric] t_day_def [symmetric])
  have "t_days t = t_days u \<longleftrightarrow> t_year t = t_year u \<and> t_month t = t_month u \<and> t_day t = t_day u"
    unfolding t_year_def t_month_def t_day_def by (metis days_from_civil_civil)
  then show "fmt_date t = fmt_date u \<longleftrightarrow> t_days t = t_days u"
    unfolding fmt_date_digits [OF assms(1)] fmt_date_digits [OF assms(2)]
    by (simp add: y m d)
qed

lemma sod_order:
  "t_sod t < t_sod u \<longleftrightarrow> t_hour t < t_hour u \<or> (t_hour t = t_hour u \<and>
     (t_minute t < t_minute u \<or> (t_minute t = t_minute u \<and> t_second t < t_second u)))"
  unfolding hms_sod [symmetric] using hms_bounds [of t] hms_bounds [of u] by linarith

lemma length_fmt_date: "fmt_range t \<Longrightarrow> length (fmt_date t) = 10"
  by (simp add: fmt_date_digits)

text \<open>
  The property the database comparisons rest on.  It needs one zone: two texts of different zones
  are ordered by their local clock readings.
\<close>

theorem fmt_rfc3339_less:
  assumes "fmt_range t" and "fmt_range u" and "zone t = zone u"
  shows "fmt_rfc3339 t < fmt_rfc3339 u \<longleftrightarrow> instant t div sec_ns < instant u div sec_ns"
proof -
  have b: "0 \<le> t_hour x" "t_hour x < 10 ^ 2" "0 \<le> t_minute x" "t_minute x < 10 ^ 2"
    "0 \<le> t_second x" "t_second x < 10 ^ 2" for x
    using hms_bounds [of x] by auto
  note h = digits_nat_less [OF b(1,2) b(1,2), of t u]
    and m = digits_nat_less [OF b(3,4) b(3,4), of t u]
    and s = digits_nat_less [OF b(5,6) b(5,6), of t u]
  have fmt: "fmt_rfc3339 x = fmt_date x @ CHR ''T'' # digits 2 (nat (t_hour x)) @ CHR '':'' #
      digits 2 (nat (t_minute x)) @ CHR '':'' # digits 2 (nat (t_second x)) @ fmt_zone (zone x)" for x
    using fmt_time_digits [of x] by (simp add: fmt_rfc3339_def)
  have "fmt_rfc3339 t < fmt_rfc3339 u \<longleftrightarrow>
      t_days t < t_days u \<or> (t_days t = t_days u \<and> t_sod t < t_sod u)"
    unfolding fmt sod_order
    using length_fmt_date [OF assms(1)] length_fmt_date [OF assms(2)]
    by (simp add: lex_step less_append_iff fmt_date_less [OF assms(1,2)] h m s assms(3))
  also have "\<dots> \<longleftrightarrow> t_secs t < t_secs u"
    using secs_split [of t] secs_split [of u] sod_bounds [of t] sod_bounds [of u] by linarith
  also have "\<dots> \<longleftrightarrow> instant t div sec_ns < instant u div sec_ns"
    by (simp add: t_secs_def assms(3))
  finally show ?thesis .
qed

end
