(* ===== verification/Timeutil.thy ===== *)
theory Timeutil
  imports GoFormat
begin

text \<open>
  \<open>internal/timeutil\<close> (time-of-day windows and day masks in Asia/Shanghai) and
  \<open>internal/models/expiry.go\<close> with \<open>NormalizeToShanghaiRFC3339\<close> of \<open>models/call_stats.go\<close>.  The
  windows are compared as texts; the lemmas show that for \<open>HH:MM\<close> texts this is the comparison of
  minutes of the day, that a window and its complement split the day, and that a normalised expiry
  always parses again.
\<close>

section \<open>timeutil.go\<close>

definition IsInRange :: "string \<Rightarrow> string \<Rightarrow> gotime \<Rightarrow> bool" where
  "IsInRange start end now =
     (let cur = fmt_hm (t_in shanghai_off now)
      in if start \<le> end then start \<le> cur \<and> cur < end
         else start \<le> cur \<or> cur < end)"

definition MatchDay :: "string \<Rightarrow> gotime \<Rightarrow> bool" where
  "MatchDay weekMask now =
     (if weekMask = ''*'' \<or> weekMask = '''' then True
      else let wd = itoa (t_weekday (t_in shanghai_off now))
           in list_ex (\<lambda>d. trim_space d = wd) (split_char (CHR '','') weekMask))"

text \<open>The text of a minute of the day.\<close>

definition hhmm :: "int \<Rightarrow> string" where
  "hhmm k = append_int 2 (k div 60) @ '':'' @ append_int 2 (k mod 60)"

definition minute_of_day :: "gotime \<Rightarrow> int" where
  "minute_of_day now = t_sod (t_in shanghai_off now) div 60"

lemma minute_of_day_bounds: "0 \<le> minute_of_day now" "minute_of_day now < 1440"
  using sod_bounds [of "t_in shanghai_off now"] by (auto simp: minute_of_day_def)

lemma fmt_hm_minute: "fmt_hm (t_in shanghai_off now) = hhmm (minute_of_day now)"
proof -
  let ?s = "t_sod (t_in shanghai_off now)"
  have "?s div 60 div 60 = ?s div 3600"
    using zdiv_zmult2_eq [of 60 ?s 60] by simp
  moreover have "?s div 60 mod 60 = ?s mod 3600 div 60"
    using mod_div_decomp zmod_zmult2_eq [of 60 ?s 60] by simp
  ultimately show ?thesis
    by (simp add: fmt_hm_def hhmm_def minute_of_day_def t_hour_def t_minute_def)
qed

lemma hhmm_digits:
  "0 \<le> k \<Longrightarrow> k < 1440 \<Longrightarrow> hhmm k = digits 2 (nat (k div 60)) @ CHR '':'' # digits 2 (nat (k mod 60))"
  by (simp add: hhmm_def append_int_digits)

lemma hhmm_less:
  assumes "0 \<le> j" "j < 1440" "0 \<le> k" "k < 1440"
  shows "hhmm j < hhmm k \<longleftrightarrow> j < k"
proof -
  have b: "0 \<le> x div 60" "x div 60 < 10 ^ 2" "0 \<le> x mod 60" "x mod 60 < 10 ^ 2"
    if "0 \<le> x" "x < 1440" for x :: int
    using that by (auto intro: less_trans [OF pos_mod_bound [of 60 x]])
  note bj = b [OF assms(1,2)] and bk = b [OF assms(3,4)]
  have "hhmm j < hhmm k \<longleftrightarrow> j div 60 < k div 60 \<or> (j div 60 = k div 60 \<and> j mod 60 < k mod 60)"
    using digits_nat_less [OF bj(1,2) bk(1,2)] digits_nat_less [OF bj(3,4) bk(3,4)]
    by (simp add: hhmm_digits assms lex_step)
  also have "\<dots> \<longleftrightarrow> j < k"
    using mult_div_mod_eq [of 60 j] mult_div_mod_eq [of 60 k]
      pos_mod_bound [of 60 j] pos_mod_bound [of 60 k] pos_mod_sign [of 60 j] pos_mod_sign [of 60 k]
    by linarith
  finally show ?thesis .
qed

lemma IsInRange_minutes:
  assumes "0 \<le> s" "s < 1440" "0 \<le> e" "e < 1440"
  shows "IsInRange (hhmm s) (hhmm e) now \<longleftrightarrow>
    (if s \<le> e then s \<le> minute_of_day now \<and> minute_of_day now < e
     else s \<le> minute_of_day now \<or> minute_of_day now < e)"
  using hhmm_less [OF assms(3,4,1,2)] hhmm_less [OF minute_of_day_bounds [of now] assms(1,2)]
    hhmm_less [OF minute_of_day_bounds [of now] assms(3,4)]
  by (auto simp: IsInRange_def fmt_hm_minute not_less [symmetric])

text \<open>A window and the window with swapped ends split every day, whatever the texts.\<close>

lemma IsInRange_complement:
  "start \<noteq> end \<Longrightarrow> IsInRange end start now \<longleftrightarrow> \<not> IsInRange start end now"
proof -
  assume ne: "start \<noteq> end"
  define cur where "cur = fmt_hm (t_in shanghai_off now)"
  show ?thesis
  proof (cases "start \<le> end")
    case True
    with ne have "\<not> end \<le> start" by (metis order.antisym)
    with True show ?thesis
      by (simp add: IsInRange_def cur_def [symmetric] not_le) (metis not_le)
  next
    case False
    then have "end \<le> start" by (metis linear)
    with False show ?thesis
      by (simp add: IsInRange_def cur_def [symmetric]) (metis not_le)
  qed
qed

lemma IsInRange_empty: "\<not> IsInRange t t now"
  by (simp add: IsInRange_def Let_def not_less)

lemma itoa_digit: "0 \<le> i \<Longrightarrow> i < 10 \<Longrightarrow> itoa i = [digit_char (nat i)]"
  by (simp add: itoa_def itoa_nat.simps)

lemma weekday_bounds: "0 \<le> t_weekday t" "t_weekday t < 7"
  by (simp_all add: t_weekday_def)

lemma MatchDay_iff:
  assumes "weekMask \<noteq> ''*''" "weekMask \<noteq> ''''"
  shows "MatchDay weekMask now \<longleftrightarrow>
    [digit_char (nat (t_weekday (t_in shanghai_off now)))]
      \<in> trim_space ` set (split_char (CHR '','') weekMask)"
  using assms weekday_bounds [of "t_in shanghai_off now"]
  by (simp add: MatchDay_def list_ex_iff itoa_digit image_iff Let_def) metis

section \<open>expiry.go\<close>

definition NormalizeExpiry :: "string \<Rightarrow> goerr + string" where
  "NormalizeExpiry s0 =
     (let s = trim_space s0 in
      if s = '''' then Ok ''''
      else case parse_rfc3339 s of
        Some t \<Rightarrow> Ok (fmt_rfc3339 (t_in shanghai_off t))
      | None \<Rightarrow> (case parse_date_in 0 s of
          Some t \<Rightarrow> Ok (fmt_rfc3339
                     (go_date (t_year t) (t_month t) (t_day t) 23 59 59 0 shanghai_off))
        | None \<Rightarrow> Err (GoErr ''invalid expiry format'')))"

text \<open>\<open>None\<close> is the result \<open>ok = false\<close>.\<close>

definition ParseExpiry :: "string \<Rightarrow> gotime option" where
  "ParseExpiry s =
     (if s = '''' then None
      else case parse_rfc3339 s of
        Some t \<Rightarrow> Some (t_in shanghai_off t)
      | None \<Rightarrow> (case parse_date_in 0 s of
          Some t \<Rightarrow> Some (go_date (t_year t) (t_month t) (t_day t) 23 59 59 0 shanghai_off)
        | None \<Rightarrow> None))"

section \<open>NormalizeToShanghaiRFC3339 of call\_stats.go\<close>

definition NormalizeToShanghaiRFC3339 :: "string \<Rightarrow> string" where
  "NormalizeToShanghaiRFC3339 s =
     (if s = '''' then ''''
      else case parse_rfc3339 s of
        Some t \<Rightarrow> fmt_rfc3339 (t_in shanghai_off t)
      | None \<Rightarrow> (case parse_date_in 0 s of
          Some d \<Rightarrow> fmt_rfc3339 (go_date (t_year d) (t_month d) (t_day d) 0 0 0 0 shanghai_off)
        | None \<Rightarrow> ''''))"

section \<open>What normalisation promises\<close>

lemma t_in_simps [simp]:
  "zone (t_in off t) = off" "instant (t_in off t) = instant t" "t_in off (t_in off' t) = t_in off t"
  "zone (trunc_sec t) = zone t"
  by (simp_all add: t_in_def trunc_sec_def)

lemma fields_trunc_sec [simp]:
  "t_year (trunc_sec t) = t_year t" "t_month (trunc_sec t) = t_month t"
  "t_day (trunc_sec t) = t_day t" "t_hour (trunc_sec t) = t_hour t"
  "t_minute (trunc_sec t) = t_minute t" "t_second (trunc_sec t) = t_second t"
  "fmt_range (trunc_sec t) = fmt_range t"
  by (simp_all add: t_year_def t_month_def t_day_def t_hour_def t_minute_def t_second_def
      t_days_def t_sod_def t_secs_def trunc_sec_def sec_ns_def fmt_range_def)

lemma fmt_rfc3339_trunc [simp]: "fmt_rfc3339 (trunc_sec t) = fmt_rfc3339 t"
  by (simp add: fmt_rfc3339_def fmt_date_def fmt_hm_def)

lemma zone_ok_shanghai [simp]: "zone_ok shanghai_off"
  by (simp add: zone_ok_def shanghai_off_def)

lemma fields_go_date:
  assumes "valid_date y m d" "0 \<le> s" "s < 86400" "s = hh * 3600 + mm * 60 + ss"
  shows "t_year (go_date y m d hh mm ss 0 off) = y" "t_month (go_date y m d hh mm ss 0 off) = m"
    "t_day (go_date y m d hh mm ss 0 off) = d" "t_sod (go_date y m d hh mm ss 0 off) = s"
proof -
  have secs: "t_secs (go_date y m d hh mm ss 0 off) = days_from_civil y m d * 86400 + s"
    by (simp add: t_secs_def go_date_def sec_ns_def assms(4))
  then have "t_days (go_date y m d hh mm ss 0 off) = days_from_civil y m d"
    using assms(2,3) by (simp add: t_days_def)
  then show "t_year (go_date y m d hh mm ss 0 off) = y" "t_month (go_date y m d hh mm ss 0 off) = m"
    "t_day (go_date y m d hh mm ss 0 off) = d"
    using civil_from_days [OF assms(1)] by (simp_all add: t_year_def t_month_def t_day_def)
  show "t_sod (go_date y m d hh mm ss 0 off) = s"
    using assms(2,3) by (simp add: t_sod_def secs)
qed

lemma digit_val_less: "is_digit c \<Longrightarrow> digit_val c < 10"
proof -
  assume "is_digit c"
  then have "(of_char c :: nat) \<le> 57" by (simp add: is_digit_def Let_def)
  then have "(of_char c :: nat) - 48 < 10" by linarith
  then show ?thesis by (simp add: digit_val_def)
qed

lemma parse_ymdE:
  assumes "parse_ymd s = Some ((y, m, d), r)"
  shows "0 \<le> y" "y \<le> 9999" "valid_date y m d"
proof -
  have "n < 10 ^ w" if "take_digits w u = Some (n, v)" for w u n v
  proof -
    have "dec_val ds < 10 ^ length ds" if "list_all is_digit ds" for ds
      using that
    proof (induction ds rule: rev_induct)
      case (snoc c ds)
      then have "digit_val c < 10" by (simp add: digit_val_less)
      with snoc show ?case by (simp add: dec_val_def)
    qed (simp add: dec_val_def)
    from this [of "take w u"] that show ?thesis
      by (auto simp: take_digits_def min_def split: if_splits)
  qed
  from this [of 4] show "0 \<le> y" "y \<le> 9999" "valid_date y m d"
    using assms by (fastforce simp: parse_ymd_def split: if_splits bind_splits prod.splits)+
qed

lemma parse_date_inE:
  assumes "parse_date_in off s = Some t"
  shows "fmt_range t" "valid_date (t_year t) (t_month t) (t_day t)"
proof -
  from assms obtain y m d where p: "parse_ymd s = Some ((y, m, d), [])"
    and t: "t = go_date y m d 0 0 0 0 off"
    by (auto simp: parse_date_in_def split: bind_splits if_splits)
  note b = parse_ymdE [OF p]
  show "fmt_range t" "valid_date (t_year t) (t_month t) (t_day t)"
    using b fields_go_date [OF b(3), of 0] by (auto simp: t fmt_range_def)
qed

lemma trim_space_id:
  assumes "s \<noteq> []" "\<not> is_space (hd s)" "\<not> is_space (last s)"
  shows "trim_space s = s"
proof -
  have "dropWhile is_space s = s" using assms by (cases s) auto
  moreover have "dropWhile is_space (rev s) = rev s"
    using assms by (cases "rev s") (auto simp: hd_rev [symmetric])
  ultimately show ?thesis by (simp add: trim_space_def)
qed

lemma fmt_zone_shanghai: "fmt_zone shanghai_off = ''+08:00''"
  by code_simp

lemma not_space_digit: "is_digit c \<Longrightarrow> \<not> is_space c"
  by (auto simp: is_space_def is_digit_def Let_def)

lemma hd_digits: "0 < w \<Longrightarrow> digits w n \<noteq> [] \<and> is_digit (hd (digits w n))"
  using all_digits [of w n] length_digits [of w n]
  by (cases "digits w n") auto

lemma fmt_rfc3339_ends:
  assumes "fmt_range t" "zone t = shanghai_off"
  shows "fmt_rfc3339 t \<noteq> []" "\<not> is_space (hd (fmt_rfc3339 t))" "\<not> is_space (last (fmt_rfc3339 t))"
proof -
  have "fmt_date t \<noteq> [] \<and> \<not> is_space (hd (fmt_date t))"
    using assms hd_digits [of 4] by (simp add: fmt_date_digits not_space_digit)
  then show "fmt_rfc3339 t \<noteq> []" "\<not> is_space (hd (fmt_rfc3339 t))"
    by (auto simp: fmt_rfc3339_def)
  have "\<not> is_space (last (''+08:00''))" by code_simp
  then show "\<not> is_space (last (fmt_rfc3339 t))"
    by (simp add: fmt_rfc3339_def assms(2) fmt_zone_shanghai)
qed

lemma ParseExpiry_fmt:
  assumes "fmt_range t" "zone t = shanghai_off"
  shows "ParseExpiry (fmt_rfc3339 t) = Some (trunc_sec t)"
  using fmt_rfc3339_ends(1) [OF assms] parse_fmt_rfc3339 [OF assms(1)] assms(2)
  by (simp add: ParseExpiry_def trunc_sec_def t_in_def)

text \<open>The instant an accepted expiry means, in Shanghai.\<close>

definition expiry_time :: "string \<Rightarrow> gotime option" where
  "expiry_time s = ParseExpiry (trim_space s)"

lemma NormalizeExpiry_fmt:
  "NormalizeExpiry s = Ok v \<Longrightarrow> v \<noteq> '''' \<Longrightarrow>
   \<exists>t. expiry_time s = Some t \<and> v = fmt_rfc3339 t \<and> zone t = shanghai_off"
  by (auto simp: NormalizeExpiry_def expiry_time_def ParseExpiry_def go_date_def Let_def
      split: if_splits option.splits)

lemma NormalizeExpiry_parses:
  assumes "NormalizeExpiry s = Ok v" and "v \<noteq> ''''"
    and "\<forall>t. expiry_time s = Some t \<longrightarrow> fmt_range t"
  shows "ParseExpiry v = map_option trunc_sec (expiry_time s)" and "NormalizeExpiry v = Ok v"
proof -
  obtain t where t: "expiry_time s = Some t" "v = fmt_rfc3339 t" "zone t = shanghai_off"
    using NormalizeExpiry_fmt [OF assms(1,2)] by blast
  with assms(3) have r: "fmt_range t" by blast
  show "ParseExpiry v = map_option trunc_sec (expiry_time s)"
    using ParseExpiry_fmt [OF r t(3)] t by simp
  have "fmt_rfc3339 (trunc_sec t) = fmt_rfc3339 t" by simp
  moreover have "t_in shanghai_off (trunc_sec t) = trunc_sec t"
    using t(3) by (simp add: t_in_def trunc_sec_def)
  ultimately have "fmt_rfc3339 (t_in shanghai_off (trunc_sec t)) = fmt_rfc3339 t" by metis
  then show "NormalizeExpiry v = Ok v"
    using trim_space_id [OF fmt_rfc3339_ends [OF r t(3)]] fmt_rfc3339_ends(1) [OF r t(3)]
      parse_fmt_rfc3339 [OF r] t
    by (simp add: NormalizeExpiry_def)
qed

end
