(* ===== verification/GoFloat.thy ===== *)
theory GoFloat
  imports Prelude "HOL-Library.Log_Nat"
begin

text \<open>
  Go's \<open>float64\<close> (IEEE 754 binary64) for the values the gateway computes with: finite numbers in
  the normal range, represented exactly as rationals.  Every arithmetic operation is the exact
  operation followed by \<open>round64\<close>, rounding to 53 significant bits, ties to even.  Overflow,
  subnormal numbers and NaN do not occur for token counts and multipliers and are not modelled.
\<close>

type_synonym float64 = rat

function bit_len :: "int \<Rightarrow> int" where
  "bit_len n = (if n \<le> 0 then 0 else bit_len (n div 2) + 1)"
  by pat_completeness auto
termination
  by (relation "measure nat") auto

declare bit_len.simps [simp del]

definition pow2 :: "int \<Rightarrow> rat" where
  "pow2 k = (if 0 \<le> k then of_int (2 ^ nat k) else 1 / of_int (2 ^ nat (- k)))"

definition ilog2 :: "rat \<Rightarrow> int" where
  "ilog2 x =
     (let (a, b) = quotient_of x; k = bit_len a - bit_len b
      in if pow2 k \<le> x then k else k - 1)"

definition round_half_even :: "rat \<Rightarrow> int" where
  "round_half_even q =
     (let f = \<lfloor>q\<rfloor>; d = q - of_int f
      in if d < 1 / 2 then f else if 1 / 2 < d then f + 1 else if even f then f else f + 1)"

definition round64_pos :: "rat \<Rightarrow> rat" where
  "round64_pos x = (let u = pow2 (ilog2 x - 52) in of_int (round_half_even (x / u)) * u)"

definition round64 :: "rat \<Rightarrow> float64" where
  "round64 x = (if x = 0 then 0 else if x < 0 then - round64_pos (- x) else round64_pos x)"

definition f_of_int :: "int \<Rightarrow> float64" where "f_of_int n = round64 (of_int n)"
definition f_add :: "float64 \<Rightarrow> float64 \<Rightarrow> float64" where "f_add x y = round64 (x + y)"
definition f_sub :: "float64 \<Rightarrow> float64 \<Rightarrow> float64" where "f_sub x y = round64 (x - y)"
definition f_mul :: "float64 \<Rightarrow> float64 \<Rightarrow> float64" where "f_mul x y = round64 (x * y)"
definition f_div :: "float64 \<Rightarrow> float64 \<Rightarrow> float64" where "f_div x y = round64 (x / y)"

text \<open>\<open>int(math.Ceil(x))\<close>, and \<open>int(x)\<close>, which truncates toward zero.\<close>

definition f_ceil_int :: "float64 \<Rightarrow> int" where "f_ceil_int x = \<lceil>x\<rceil>"
definition f_to_int :: "float64 \<Rightarrow> int" where "f_to_int x = (if x < 0 then \<lceil>x\<rceil> else \<lfloor>x\<rfloor>)"

text \<open>\<open>math.Round\<close>: half away from zero.\<close>

definition f_round_int :: "float64 \<Rightarrow> int" where
  "f_round_int x = (if x < 0 then - \<lfloor>- x + 1 / 2\<rfloor> else \<lfloor>x + 1 / 2\<rfloor>)"

definition is_f64 :: "rat \<Rightarrow> bool" where "is_f64 x \<longleftrightarrow> round64 x = x"

section \<open>The exponent\<close>

lemma pow2_powi: "pow2 k = 2 powi k"
  by (simp add: pow2_def power_int_def power_one_over inverse_eq_divide)

lemma bit_len_floorlog: "0 \<le> n \<Longrightarrow> bit_len n = int (floorlog 2 (nat n))"
proof (induction n rule: bit_len.induct)
  case (1 n)
  show ?case
  proof (cases "n \<le> 0")
    case True
    then show ?thesis using 1(2) by (simp add: bit_len.simps floorlog_def)
  next
    case False
    then have "bit_len n = int (floorlog 2 (nat (n div 2))) + 1"
      using 1 by (simp add: bit_len.simps [of n])
    also have "\<dots> = int (floorlog 2 (nat n))"
      using False by (simp add: compute_floorlog [of 2 "nat n"] nat_div_distrib)
    finally show ?thesis .
  qed
qed

lemma floorlog_powi:
  assumes "0 < c" "0 < floorlog 2 (nat c)"
  shows "2 powi (int (floorlog 2 (nat c)) - 1) \<le> (of_int c :: rat)"
    "(of_int c :: rat) < 2 powi int (floorlog 2 (nat c))"
proof -
  have "2 ^ (floorlog 2 (nat c) - 1) \<le> nat c" "nat c < 2 ^ floorlog 2 (nat c)"
    using floorlog_bounds [of "nat c" 2] assms by auto
  then have "2 ^ (floorlog 2 (nat c) - 1) \<le> c" "c < 2 ^ floorlog 2 (nat c)"
    using assms by (simp_all add: le_nat_iff nat_less_iff)
  then have "(2::rat) ^ (floorlog 2 (nat c) - 1) \<le> of_int c" "of_int c < (2::rat) ^ floorlog 2 (nat c)"
    by (metis of_int_le_iff of_int_less_iff of_int_numeral of_int_power)+
  moreover have "(2::rat) powi (int (floorlog 2 (nat c)) - 1) = 2 ^ (floorlog 2 (nat c) - 1)"
  proof -
    have "int (floorlog 2 (nat c)) - 1 = int (floorlog 2 (nat c) - 1)" using assms by linarith
    then show ?thesis by (simp only: power_int_of_nat)
  qed
  ultimately show "2 powi (int (floorlog 2 (nat c)) - 1) \<le> (of_int c :: rat)"
    "(of_int c :: rat) < 2 powi int (floorlog 2 (nat c))"
    by (simp_all only: power_int_of_nat)
qed

lemma ilog2_bounds:
  assumes "0 < x"
  shows "2 powi ilog2 x \<le> x" and "x < 2 powi (ilog2 x + 1)"
proof -
  obtain a b where q: "quotient_of x = (a, b)" by (cases "quotient_of x")
  then have b: "0 < b" and x: "x = of_int a / of_int b"
    by (auto simp: quotient_of_denom_pos quotient_of_div)
  then have a: "0 < a" using assms by (simp add: zero_less_divide_iff)
  let ?la = "floorlog 2 (nat a)" and ?lb = "floorlog 2 (nat b)"
  define k where "k = int ?la - int ?lb"
  have nz: "0 < ?la" "0 < ?lb"
    using a b by (auto simp: floorlog_def)
  note A = floorlog_powi [OF a nz(1)] and B = floorlog_powi [OF b nz(2)]
  have B0: "(0::rat) < of_int b" using b by simp
  have up: "x < 2 powi (k + 1)"
  proof -
    have "x < 2 powi int ?la / of_int b" using A B0 by (simp add: x divide_strict_right_mono)
    also have "\<dots> \<le> 2 powi int ?la / 2 powi (int ?lb - 1)"
      using B b by (intro divide_left_mono) auto
    also have "\<dots> = 2 powi (int ?la - (int ?lb - 1))"
      by (rule power_int_diff [symmetric]) simp
    also have "int ?la - (int ?lb - 1) = k + 1" by (simp add: k_def)
    finally show ?thesis .
  qed
  have lo: "2 powi (k - 1) < x"
  proof -
    have k: "k - 1 = (int ?la - 1) - int ?lb" by (simp add: k_def)
    have "2 powi (k - 1) = 2 powi (int ?la - 1) / (2 powi int ?lb :: rat)"
      unfolding k by (rule power_int_diff) simp
    also have "\<dots> < 2 powi (int ?la - 1) / of_int b"
      using B b by (intro divide_strict_left_mono) auto
    also have "\<dots> \<le> x" using A B0 by (simp add: x divide_right_mono)
    finally show ?thesis .
  qed
  have i: "ilog2 x = (if 2 powi k \<le> x then k else k - 1)"
    using a b by (simp add: ilog2_def q k_def Let_def pow2_powi bit_len_floorlog)
  show "2 powi ilog2 x \<le> x" "x < 2 powi (ilog2 x + 1)"
    using up lo by (auto simp: i)
qed

lemma powi2_le_iff: "(2 powi i :: rat) \<le> 2 powi j \<longleftrightarrow> i \<le> j"
  using power_int_increasing [of i j "2::rat"] power_int_strict_increasing [of j i "2::rat"]
  by (cases "i \<le> j") (auto simp: not_le)

lemma powi2_less_iff: "(2 powi i :: rat) < 2 powi j \<longleftrightarrow> i < j"
  using powi2_le_iff [of j i] by (simp flip: not_le)

lemma ilog2_mono: "0 < x \<Longrightarrow> x \<le> y \<Longrightarrow> ilog2 x \<le> ilog2 y"
proof -
  assume "0 < x" "x \<le> y"
  then have "2 powi ilog2 x < (2 powi (ilog2 y + 1) :: rat)"
    using ilog2_bounds [of x] ilog2_bounds [of y] by linarith
  then show ?thesis by (simp add: powi2_less_iff)
qed

section \<open>Rounding\<close>

lemma round_half_even_int [simp]: "round_half_even (of_int n) = n"
  by (simp add: round_half_even_def)

lemma round_half_even_bounds: "\<lfloor>q\<rfloor> \<le> round_half_even q" "round_half_even q \<le> \<lceil>q\<rceil>"
proof -
  show "\<lfloor>q\<rfloor> \<le> round_half_even q" by (simp add: round_half_even_def Let_def)
  show "round_half_even q \<le> \<lceil>q\<rceil>"
  proof (cases "q = of_int \<lfloor>q\<rfloor>")
    case True
    then show ?thesis by (metis ceiling_of_int order_refl round_half_even_int)
  next
    case False
    then have "\<lceil>q\<rceil> = \<lfloor>q\<rfloor> + 1" by (metis ceiling_altdef)
    then show ?thesis by (simp add: round_half_even_def Let_def)
  qed
qed

lemma round_half_even_mono:
  assumes "q \<le> r"
  shows "round_half_even q \<le> round_half_even r"
proof (cases "\<lfloor>q\<rfloor> = \<lfloor>r\<rfloor>")
  case True
  then show ?thesis using assms by (auto simp: round_half_even_def Let_def)
next
  case False
  then have "\<lfloor>q\<rfloor> + 1 \<le> \<lfloor>r\<rfloor>" using floor_mono [OF assms] by linarith
  moreover have "round_half_even q \<le> \<lfloor>q\<rfloor> + 1" by (simp add: round_half_even_def Let_def)
  ultimately show ?thesis using round_half_even_bounds(1) [of r] by linarith
qed

lemma round64_pos_bounds:
  assumes "0 < x"
  shows "2 powi ilog2 x \<le> round64_pos x" and "round64_pos x \<le> 2 powi (ilog2 x + 1)"
proof -
  let ?u = "2 powi (ilog2 x - 52) :: rat"
  have u: "0 < ?u" by simp
  have "2 powi ilog2 x = of_int (2 ^ 52) * ?u" "2 powi (ilog2 x + 1) = of_int (2 ^ 53) * ?u"
    by (simp_all add: power_int_diff power_int_add)
  moreover from this ilog2_bounds [OF assms] u
  have "of_int (2 ^ 52) \<le> x / ?u" "x / ?u \<le> of_int (2 ^ 53)"
    by (simp_all add: pos_le_divide_eq pos_divide_le_eq)
  then have "2 ^ 52 \<le> round_half_even (x / ?u)" "round_half_even (x / ?u) \<le> 2 ^ 53"
    using round_half_even_mono round_half_even_int by metis+
  then have "(of_int (2 ^ 52) :: rat) \<le> of_int (round_half_even (x / ?u))"
     "(of_int (round_half_even (x / ?u)) :: rat) \<le> of_int (2 ^ 53)"
    by (simp_all only: of_int_le_iff)
  ultimately show "2 powi ilog2 x \<le> round64_pos x" "round64_pos x \<le> 2 powi (ilog2 x + 1)"
    using u unfolding round64_pos_def Let_def pow2_powi by (metis mult_right_mono order_less_imp_le)+
qed

lemma round64_pos_mono:
  assumes "0 < x" and "x \<le> y"
  shows "round64_pos x \<le> round64_pos y"
proof (cases "ilog2 x = ilog2 y")
  case True
  have "x / 2 powi (ilog2 x - 52) \<le> y / 2 powi (ilog2 x - 52)"
    using assms(2) by (intro divide_right_mono) auto
  from round_half_even_mono [OF this] show ?thesis
    by (simp add: round64_pos_def Let_def True pow2_powi mult_right_mono)
next
  case False
  then have "ilog2 x + 1 \<le> ilog2 y" using ilog2_mono [OF assms] by linarith
  then have "(2 powi (ilog2 x + 1) :: rat) \<le> 2 powi ilog2 y" by (simp add: powi2_le_iff)
  then show ?thesis
    using round64_pos_bounds(2) [OF assms(1)] round64_pos_bounds(1) [of y] assms by linarith
qed

lemma round64_pos_positive: "0 < x \<Longrightarrow> 0 < round64_pos x"
  using round64_pos_bounds(1) [of x] zero_less_power_int [of 2 "ilog2 x"] by (metis less_le_trans zero_less_numeral)

lemma round64_0 [simp]: "round64 0 = 0"
  by (simp add: round64_def)

lemma round64_nonneg: "0 \<le> x \<Longrightarrow> 0 \<le> round64 x"
  using round64_pos_positive [of x] by (auto simp: round64_def)

lemma round64_mono: "x \<le> y \<Longrightarrow> round64 x \<le> round64 y"
  using round64_pos_mono [of x y] round64_pos_mono [of "- y" "- x"]
    round64_pos_positive [of y] round64_pos_positive [of "- x"]
  by (auto simp: round64_def not_less)

lemma round64_pos_int:
  assumes "0 < n" and "n \<le> 2 ^ 53"
  shows "round64_pos (of_int n) = of_int n"
proof -
  let ?e = "ilog2 (of_int n)"
  have b: "2 powi ?e \<le> (of_int n :: rat)" "(of_int n :: rat) < 2 powi (?e + 1)"
    using ilog2_bounds [of "of_int n"] assms(1) by auto
  show ?thesis
  proof (cases "?e \<le> 52")
    case True
    then have "2 powi (?e - 52) = (1 / 2 ^ nat (52 - ?e) :: rat)"
      by (simp add: power_int_def power_one_over inverse_eq_divide)
    then have "(of_int n :: rat) / 2 powi (?e - 52) = of_int (n * 2 ^ nat (52 - ?e))"
      by simp
    then have "round_half_even (of_int n / 2 powi (?e - 52)) = n * 2 ^ nat (52 - ?e)"
      by (metis round_half_even_int)
    then show ?thesis
      using \<open>2 powi (?e - 52) = _\<close> by (simp add: round64_pos_def Let_def pow2_powi)
  next
    case False
    then have "(2 powi 53 :: rat) \<le> 2 powi ?e" by (subst powi2_le_iff) linarith
    then have "(of_int (2 ^ 53) :: rat) \<le> of_int n" using b by simp
    then have n: "n = 2 ^ 53" using assms(2) by (simp only: of_int_le_iff)
    have "2 powi ?e < (2 powi 54 :: rat)" using b(1) by (simp add: n)
    then have "?e < 54" by (subst (asm) powi2_less_iff)
    then have e: "?e = 53" using False by linarith
    have "round_half_even (of_int n / 2 powi 1) = round_half_even (of_int (2 ^ 52))"
      by (simp add: n)
    then have "round_half_even (of_int n / 2 powi 1) = 2 ^ 52" by (simp only: round_half_even_int)
    then show ?thesis unfolding round64_pos_def e by (simp add: n Let_def pow2_powi)
  qed
qed

text \<open>Integers up to \<open>2 ^ 53\<close> are exact.\<close>

lemma round64_int: "\<bar>n\<bar> \<le> 2 ^ 53 \<Longrightarrow> round64 (of_int n) = of_int n"
  using round64_pos_int [of n] round64_pos_int [of "- n"] by (auto simp: round64_def)

lemma f_of_int_exact: "\<bar>n\<bar> \<le> 2 ^ 53 \<Longrightarrow> f_of_int n = of_int n"
  by (simp add: f_of_int_def round64_int)

lemma round64_1 [simp]: "round64 1 = 1"
  using round64_int [of 1] by simp

lemma f_of_int_mono: "n \<le> m \<Longrightarrow> f_of_int n \<le> f_of_int m"
  by (simp add: f_of_int_def round64_mono)

lemma f_mul_mono: "0 \<le> m \<Longrightarrow> x \<le> y \<Longrightarrow> f_mul x m \<le> f_mul y m"
  by (simp add: f_mul_def round64_mono mult_right_mono)

lemma f_mul_ge_int:
  assumes "0 \<le> n" "n \<le> 2 ^ 53" "1 \<le> m"
  shows "of_int n \<le> f_mul (f_of_int n) m"
proof -
  have "(of_int n :: rat) \<le> of_int n * m"
    using assms by (simp add: mult_le_cancel_left1)
  from round64_mono [OF this] show ?thesis
    using assms by (simp add: f_mul_def f_of_int_exact round64_int)
qed

lemma f_ceil_int_mono: "x \<le> y \<Longrightarrow> f_ceil_int x \<le> f_ceil_int y"
  by (simp add: f_ceil_int_def ceiling_mono)

section \<open>Scaling and errors\<close>

lemma ilog2_unique:
  assumes "0 < x" "2 powi i \<le> x" "x < 2 powi (i + 1)"
  shows "ilog2 x = i"
proof -
  have "(2 powi ilog2 x :: rat) < 2 powi (i + 1)" "(2 powi i :: rat) < 2 powi (ilog2 x + 1)"
    using ilog2_bounds [OF assms(1)] assms(2,3) by linarith+
  then show ?thesis by (simp add: powi2_less_iff)
qed

lemma round64_pos_scale:
  assumes "0 < x"
  shows "round64_pos (x * 2 powi k) = round64_pos x * 2 powi k"
proof -
  have "ilog2 (x * 2 powi k) = ilog2 x + k"
  proof (rule ilog2_unique)
    show "0 < x * 2 powi k" using assms by simp
    show "2 powi (ilog2 x + k) \<le> x * 2 powi k"
      using ilog2_bounds(1) [OF assms] by (simp add: power_int_add mult_right_mono)
    have "2 powi (ilog2 x + k + 1) = 2 powi (ilog2 x + 1) * (2 powi k :: rat)"
      by (simp add: power_int_add)
    then show "x * 2 powi k < 2 powi (ilog2 x + k + 1)"
      using ilog2_bounds(2) [OF assms] by (simp add: mult_strict_right_mono)
  qed
  moreover have "2 powi (ilog2 x + k - 52) = 2 powi (ilog2 x - 52) * (2 powi k :: rat)"
    by (simp add: power_int_add [symmetric] algebra_simps)
  ultimately show ?thesis
    by (simp add: round64_pos_def pow2_powi Let_def)
qed

lemma round64_scale: "round64 (x * 2 powi k) = round64 x * 2 powi k"
proof -
  have "\<not> 2 powi k < (0 :: rat)" by (simp add: not_less)
  then show ?thesis
    using round64_pos_scale [of x k] round64_pos_scale [of "- x" k]
    by (auto simp: round64_def mult_less_0_iff)
qed

text \<open>Integers of 53 bits over a power of two are exact.\<close>

lemma round64_dyadic: "\<bar>n\<bar> \<le> 2 ^ 53 \<Longrightarrow> round64 (of_int n / 2 ^ k) = of_int n / 2 ^ k"
  using round64_scale [of "of_int n" "- int k"] round64_int [of n]
  by (simp add: power_int_minus divide_inverse)

lemma round_half_even_error: "\<bar>of_int (round_half_even q) - q\<bar> \<le> 1 / 2"
  using of_int_floor_le [of q] floor_less_iff [of q "\<lfloor>q\<rfloor> + 1"] real_of_int_floor_add_one_gt
  by (auto simp: round_half_even_def Let_def abs_if) linarith+

lemma round64_error:
  assumes "0 \<le> x"
  shows "\<bar>round64 x - x\<bar> \<le> x / 2 ^ 53"
proof (cases "x = 0")
  case False
  then have x: "0 < x" using assms by simp
  let ?u = "2 powi (ilog2 x - 52) :: rat"
  have u: "0 < ?u" by simp
  have "\<bar>of_int (round_half_even (x / ?u)) * ?u - x\<bar> = \<bar>of_int (round_half_even (x / ?u)) - x / ?u\<bar> * ?u"
  proof -
    have "of_int (round_half_even (x / ?u)) * ?u - x = (of_int (round_half_even (x / ?u)) - x / ?u) * ?u"
      by (simp add: field_simps)
    then show ?thesis using u by (simp only: abs_mult abs_of_pos)
  qed
  also have "\<dots> \<le> 1 / 2 * ?u"
    using round_half_even_error u by (intro mult_right_mono) auto
  also have "\<dots> = 2 powi ilog2 x / 2 ^ 53"
    by (simp add: power_int_diff)
  also have "\<dots> \<le> x / 2 ^ 53"
    using ilog2_bounds(1) [OF x] by (simp add: divide_right_mono)
  finally show ?thesis using x by (simp add: round64_def round64_pos_def pow2_powi Let_def)
qed simp

lemma f_round_int_error: "\<bar>of_int (f_round_int x) - x\<bar> \<le> 1 / 2"
  by (auto simp: f_round_int_def abs_if) linarith+

end
