(* ===== verification/Schema.thy ===== *)
theory Schema
  imports Timeutil GoFloat
begin

text \<open>
  The state behind every component: the SQLite tables of \<open>internal/db/migrations.go\<close> as lists of
  rows (with the structs of \<open>internal/models\<close> as the rows), the counters that hand out row ids, and
  the outcomes of the statements to come.  A statement either fails, and then changes nothing, or
  runs to its end; \<open>db_faults\<close> says which (an exhausted list means that statements succeed), so
  that every error branch of the Go code is a branch of the model.  \<open>db.go\<close> opens one connection
  (\<open>SetMaxOpenConns(1)\<close>), so statements and transactions never overlap.
\<close>

section \<open>Rows\<close>

record Quota =
  q_id :: int
  q_user_id :: int
  q_5h_limit :: int
  q_5h_used :: int
  q_total_limit :: int
  q_total_used :: int
  q_token_total_limit :: int
  q_token_total_used :: int
  q_token_5h_limit :: int
  q_token_5h_used :: int
  q_token_week_limit :: int
  q_token_week_used :: int
  q_week_start :: string
  q_month_start :: string
  q_window_start :: string
  q_updated_at :: string
  q_fixed_multiplier :: "float64 option"

text \<open>The table has one column more than the struct the queries fill.\<close>

record quota_row = Quota +
  q_week_cycle_start :: string

record User =
  u_id :: int
  u_username :: string
  u_password_hash :: string
  u_sub_key_hash :: string
  u_sub_key_preview :: string
  u_role :: string
  u_status :: string
  u_created_at :: string
  u_updated_at :: string
  u_expires_at :: string
  u_route_mode :: string
  u_fixed_provider :: string
  u_max_body_size :: int
  u_max_concurrency :: int

record CallLog =
  cl_id :: int
  cl_user_id :: int
  cl_username :: string
  cl_model :: string
  cl_provider_id :: string
  cl_prompt_tokens :: int
  cl_completion_tokens :: int
  cl_total_tokens :: int
  cl_raw_total_tokens :: int
  cl_effective_calls :: int
  cl_multiplier_used :: float64
  cl_status_code :: int
  cl_latency_ms :: int
  cl_error_msg :: string
  cl_created_at :: string

record AdminSession =
  s_id :: int
  s_token :: string
  s_created_at :: string
  s_expires_at :: string

record TimeMultiplier =
  tm_id :: int
  tm_start_time :: string
  tm_end_time :: string
  tm_multiplier :: float64
  tm_days_of_week :: string
  tm_enabled :: bool
  tm_created_at :: string

record RoutingRule =
  rr_id :: int
  rr_provider_id :: string
  rr_start_time :: string
  rr_end_time :: string
  rr_days_of_week :: string
  rr_timezone :: string
  rr_enabled :: bool
  rr_priority :: int
  rr_default_provider_id :: string

type_synonym bytes = "nat list"

record ProviderRecord =
  p_id :: int
  p_name :: string
  p_slug :: string
  p_endpoint :: string
  p_encrypted_key :: bytes
  p_is_default :: bool
  p_enabled :: bool
  p_allow_passthrough :: bool
  p_auth_header :: string
  p_auth_scheme :: string
  p_extra_headers :: string
  p_monthly_token_limit :: int
  p_monthly_call_limit :: int
  p_monthly_token_low_ratio :: float64
  p_monthly_call_low_ratio :: float64
  p_cycle_start_date :: string
  p_created_at :: string
  p_updated_at :: string

record ModelMappingRecord =
  mm_id :: int
  mm_external :: string
  mm_provider_id :: string
  mm_real_model :: string
  mm_created_at :: string

record AuditLogRecord =
  al_id :: int
  al_action :: string
  al_target_type :: string
  al_target_id :: string
  al_detail :: string
  al_created_at :: string

section \<open>The database\<close>

record db =
  users :: "User list"
  users_seq :: int
  quotas :: "quota_row list"
  quotas_seq :: int
  call_logs :: "CallLog list"
  call_logs_seq :: int
  admin_sessions :: "AdminSession list"
  admin_sessions_seq :: int
  time_multipliers :: "TimeMultiplier list"
  time_multipliers_seq :: int
  routing_rules :: "RoutingRule list"
  routing_rules_seq :: int
  providers :: "ProviderRecord list"
  providers_seq :: int
  model_mappings :: "ModelMappingRecord list"
  model_mappings_seq :: int
  audit_logs :: "AuditLogRecord list"
  audit_logs_seq :: int
  db_faults :: "bool list"

definition empty_db :: db where
  "empty_db = \<lparr> users = [], users_seq = 0, quotas = [], quotas_seq = 0, call_logs = [],
     call_logs_seq = 0, admin_sessions = [], admin_sessions_seq = 0, time_multipliers = [],
     time_multipliers_seq = 0, routing_rules = [], routing_rules_seq = 0, providers = [],
     providers_seq = 0, model_mappings = [], model_mappings_seq = 0, audit_logs = [],
     audit_logs_seq = 0, db_faults = [] \<rparr>"

section \<open>Statements\<close>

type_synonym 'a op = "db \<Rightarrow> (goerr + 'a) \<times> db"

definition next_fault :: "db \<Rightarrow> bool \<times> db" where
  "next_fault db = (case db_faults db of [] \<Rightarrow> (False, db)
     | b # bs \<Rightarrow> (b, db\<lparr>db_faults := bs\<rparr>))"

text \<open>
  A statement: its context string for the error, the constraint it may violate, its result and its
  effect.
\<close>

definition run_stmt :: "string \<Rightarrow> (db \<Rightarrow> goerr option) \<Rightarrow> (db \<Rightarrow> 'a) \<Rightarrow> (db \<Rightarrow> db) \<Rightarrow> 'a op" where
  "run_stmt ctx chk res f db =
     (let (bad, db1) = next_fault db in
      if bad then (Err (DbErr ctx), db1)
      else case chk db1 of
        Some e \<Rightarrow> (Err e, db1)
      | None \<Rightarrow> (Ok (res db1), f db1))"

definition sql_exec :: "string \<Rightarrow> (db \<Rightarrow> db) \<Rightarrow> unit op" where
  "sql_exec ctx f = run_stmt ctx (\<lambda>_. None) (\<lambda>_. ()) f"

definition sql_query :: "string \<Rightarrow> (db \<Rightarrow> 'a) \<Rightarrow> 'a op" where
  "sql_query ctx q = run_stmt ctx (\<lambda>_. None) q (\<lambda>db. db)"

text \<open>\<open>if err != nil { return err }\<close> after a call.\<close>

definition and_then :: "'a op \<Rightarrow> ('a \<Rightarrow> 'b op) \<Rightarrow> 'b op" where
  "and_then m k db = (case m db of (Inl e, db1) \<Rightarrow> (Err e, db1) | (Inr x, db1) \<Rightarrow> k x db1)"

text \<open>A call whose error is only logged.\<close>

definition log_err :: "unit op \<Rightarrow> db \<Rightarrow> db" where
  "log_err m db = snd (m db)"

text \<open>
  \<open>Begin ... Commit\<close> with a deferred \<open>Rollback\<close>: any error restores the tables.
\<close>

definition rollback :: "db \<Rightarrow> db \<Rightarrow> db" where
  "rollback old new = old\<lparr>db_faults := db_faults new\<rparr>"

definition transaction :: "'a op \<Rightarrow> 'a op" where
  "transaction body db =
     (case sql_exec ''begin tx'' (\<lambda>db. db) db of
        (Inl e, db1) \<Rightarrow> (Err e, db1)
      | (Inr _, db1) \<Rightarrow>
          (case body db1 of
             (Inl e, db2) \<Rightarrow> (Err e, rollback db1 db2)
           | (Inr x, db2) \<Rightarrow>
               (case sql_exec ''commit tx'' (\<lambda>db. db) db2 of
                  (Inl e, db3) \<Rightarrow> (Err e, rollback db1 db3)
                | (Inr _, db3) \<Rightarrow> (Ok x, db3))))"

section \<open>Laws of statements\<close>

abbreviation healthy :: "db \<Rightarrow> bool" where
  "healthy db \<equiv> db_faults db = []"

text \<open>Two databases with the same tables.\<close>

definition same_tables :: "db \<Rightarrow> db \<Rightarrow> bool" where
  "same_tables a b \<longleftrightarrow> a\<lparr>db_faults := []\<rparr> = b\<lparr>db_faults := []\<rparr>"

lemma same_tables_refl [simp]: "same_tables a a"
  by (simp add: same_tables_def)

lemma same_tables_faults [simp]:
  "same_tables a (b\<lparr>db_faults := f\<rparr>) \<longleftrightarrow> same_tables a b"
  "same_tables (a\<lparr>db_faults := f\<rparr>) b \<longleftrightarrow> same_tables a b"
  by (simp_all add: same_tables_def)

lemma same_tables_trans: "same_tables a b \<Longrightarrow> same_tables b c \<Longrightarrow> same_tables a c"
  by (simp add: same_tables_def)

lemma same_tables_select:
  assumes "same_tables a b"
  shows "users b = users a" "quotas b = quotas a" "call_logs b = call_logs a"
    "admin_sessions b = admin_sessions a" "time_multipliers b = time_multipliers a"
    "routing_rules b = routing_rules a" "providers b = providers a"
    "model_mappings b = model_mappings a" "audit_logs b = audit_logs a"
proof -
  have e: "b\<lparr>db_faults := []\<rparr> = a\<lparr>db_faults := []\<rparr>"
    using assms by (simp add: same_tables_def)
  show "users b = users a" "quotas b = quotas a" "call_logs b = call_logs a"
    "admin_sessions b = admin_sessions a" "time_multipliers b = time_multipliers a"
    "routing_rules b = routing_rules a" "providers b = providers a"
    "model_mappings b = model_mappings a" "audit_logs b = audit_logs a"
    using arg_cong [OF e, of users] arg_cong [OF e, of quotas] arg_cong [OF e, of call_logs]
      arg_cong [OF e, of admin_sessions] arg_cong [OF e, of time_multipliers]
      arg_cong [OF e, of routing_rules] arg_cong [OF e, of providers]
      arg_cong [OF e, of model_mappings] arg_cong [OF e, of audit_logs]
    by simp_all
qed

lemma next_fault_healthy [sql_simps]: "healthy db \<Longrightarrow> next_fault db = (False, db)"
  by (simp add: next_fault_def)

lemma next_fault_tables: "next_fault db = (b, db1) \<Longrightarrow> same_tables db db1"
  by (auto simp: next_fault_def split: list.splits)

lemma run_stmt_healthy [sql_simps]:
  "healthy db \<Longrightarrow> run_stmt ctx chk res f db =
    (case chk db of Some e \<Rightarrow> (Err e, db) | None \<Rightarrow> (Ok (res db), f db))"
  by (simp add: run_stmt_def next_fault_healthy)

lemma sql_exec_healthy [sql_simps]: "healthy db \<Longrightarrow> sql_exec ctx f db = (Ok (), f db)"
  by (simp add: sql_exec_def run_stmt_healthy)

lemma sql_query_healthy [sql_simps]: "healthy db \<Longrightarrow> sql_query ctx q db = (Ok (q db), db)"
  by (simp add: sql_query_def run_stmt_healthy)

lemma run_stmt_cases [consumes 1, case_names fail constraint ok]:
  assumes "run_stmt ctx chk res f db = (r, db')"
  obtains "r = Err (DbErr ctx)" "same_tables db db'"
    | e where "r = Err e" "same_tables db db'"
    | db1 where "r = Ok (res db1)" "same_tables db db1" "chk db1 = None" "db' = f db1"
  using assms next_fault_tables [of db]
  by (auto simp: run_stmt_def Let_def split: prod.splits if_splits option.splits)

lemma sql_exec_cases [consumes 1, case_names fail ok]:
  assumes "sql_exec ctx f db = (r, db')"
  obtains "r = Err (DbErr ctx)" "same_tables db db'"
    | db1 where "r = Ok ()" "same_tables db db1" "db' = f db1"
  using assms next_fault_tables [of db]
  by (auto simp: sql_exec_def run_stmt_def Let_def split: prod.splits if_splits option.splits)

lemma sql_query_cases [consumes 1, case_names fail ok]:
  assumes "sql_query ctx q db = (r, db')"
  obtains "r = Err (DbErr ctx)" "same_tables db db'"
    | "r = Ok (q db')" "same_tables db db'"
  using assms next_fault_tables [of db]
  by (auto simp: sql_query_def run_stmt_def Let_def split: prod.splits if_splits option.splits)

lemma and_then_Inl [simp]: "m db = (Inl e, db1) \<Longrightarrow> and_then m k db = (Err e, db1)"
  by (simp add: and_then_def)

lemma and_then_Inr [simp]: "m db = (Inr x, db1) \<Longrightarrow> and_then m k db = k x db1"
  by (simp add: and_then_def)

lemma and_then_cases [consumes 1, case_names err ok]:
  assumes "and_then m k db = (r, db')"
  obtains e where "m db = (Inl e, db')" "r = Err e"
    | x db1 where "m db = (Inr x, db1)" "k x db1 = (r, db')"
  using assms by (auto simp: and_then_def split: prod.splits sum.splits)

lemma rollback_tables [simp]: "same_tables a (rollback a b)"
  by (simp add: rollback_def)

text \<open>A transaction that reports an error has changed no table.\<close>

lemma transaction_atomic:
  assumes "transaction body db = (Inl e, db')"
  shows "same_tables db db'"
proof -
  obtain r db1 where b: "sql_exec ''begin tx'' (\<lambda>db. db) db = (r, db1)" by fastforce
  then have s: "same_tables db db1"
    by (cases rule: sql_exec_cases) auto
  show ?thesis
    using assms s b
    by (auto simp: transaction_def intro: same_tables_trans [OF s] split: sum.splits prod.splits)
qed

text \<open>A transaction has changed no table, or its body has run between a begin and a commit.\<close>

lemma transaction_cases [consumes 1, case_names err ok]:
  assumes "transaction body db = (r, db')"
  obtains e where "r = Err e" "same_tables db db'"
    | x db1 db2 where "r = Ok x" "same_tables db db1" "body db1 = (Ok x, db2)" "same_tables db2 db'"
proof (cases r)
  case (Inl e)
  then show thesis using that(1) transaction_atomic assms by blast
next
  case (Inr x)
  obtain b db1 where b: "sql_exec ''begin tx'' (\<lambda>db. db) db = (b, db1)" by fastforce
  obtain y db2 where y: "body db1 = (y, db2)" by fastforce
  obtain c db3 where c: "sql_exec ''commit tx'' (\<lambda>db. db) db2 = (c, db3)" by fastforce
  have "same_tables db db1" "same_tables db2 db3"
    using b c by (auto elim!: sql_exec_cases)
  moreover have "y = Ok x" "db' = db3"
    using assms b y c Inr by (auto simp: transaction_def split: sum.splits)
  ultimately show thesis using that(2) Inr y by blast
qed

lemma transaction_healthy [sql_simps]:
  assumes "healthy db" "body db = (Ok x, db')" "healthy db'"
  shows "transaction body db = (Ok x, db')"
  using assms by (simp add: transaction_def sql_exec_healthy)

lemma transaction_healthy_err [sql_simps]:
  assumes "healthy db" "body db = (Err e, db')" "healthy db'"
  shows "transaction body db = (Err e, db)"
  using assms by (simp add: transaction_def sql_exec_healthy rollback_def)

section \<open>Invariants of operations\<close>

text \<open>An operation that keeps a property of the tables whatever it answers, and the rules that carry
  this through the shapes operations are built from.\<close>

definition table_property :: "(db \<Rightarrow> bool) \<Rightarrow> bool" where
  "table_property I \<longleftrightarrow> (\<forall>a b. same_tables a b \<longrightarrow> I a \<longrightarrow> I b)"

definition preserves :: "(db \<Rightarrow> bool) \<Rightarrow> 'a op \<Rightarrow> bool" where
  "preserves I m \<longleftrightarrow> (\<forall>db. I db \<longrightarrow> I (snd (m db)))"

lemma preservesD: "preserves I m \<Longrightarrow> m db = (r, db') \<Longrightarrow> I db \<Longrightarrow> I db'"
  by (metis preserves_def snd_conv)

lemma preservesI: "(\<And>db r db'. m db = (r, db') \<Longrightarrow> I db \<Longrightarrow> I db') \<Longrightarrow> preserves I m"
  by (metis preserves_def prod.collapse)

lemma preserves_stmt:
  assumes "table_property I" "\<And>db. I db \<Longrightarrow> chk db = None \<Longrightarrow> I (f db)"
  shows "preserves I (run_stmt c chk res f)"
proof (rule preservesI)
  fix db r db'
  assume "run_stmt c chk res f db = (r, db')" "I db"
  then show "I db'"
    using assms by (cases rule: run_stmt_cases) (auto simp: table_property_def)
qed

lemma preserves_query: "table_property I \<Longrightarrow> preserves I (sql_query c q)"
  unfolding sql_query_def by (rule preserves_stmt)

lemma preserves_exec:
  "table_property I \<Longrightarrow> (\<And>db. I db \<Longrightarrow> I (f db)) \<Longrightarrow> preserves I (sql_exec c f)"
  unfolding sql_exec_def by (rule preserves_stmt)

lemma preserves_then:
  "preserves I m \<Longrightarrow> (\<And>x. preserves I (k x)) \<Longrightarrow> preserves I (and_then m k)"
  by (rule preservesI) (auto elim!: and_then_cases intro: preservesD)

lemma preserves_result: "preserves I (\<lambda>db. (r db, db))"
  by (simp add: preserves_def)

lemma preserves_map: "(\<And>db. I db \<Longrightarrow> I (g db)) \<Longrightarrow> preserves I (\<lambda>db. (r db, g db))"
  by (simp add: preserves_def)

lemma preserves_log: "preserves I m \<Longrightarrow> I db \<Longrightarrow> I (log_err m db)"
  by (simp add: preserves_def log_err_def)

lemma preserves_transaction:
  assumes "table_property I" "preserves I body"
  shows "preserves I (transaction body)"
proof (rule preservesI)
  fix db r db'
  assume "transaction body db = (r, db')" "I db"
  then show "I db'"
    using assms
    by (cases rule: transaction_cases) (auto simp: table_property_def dest: preservesD)
qed

lemma preserves_if:
  "preserves I a \<Longrightarrow> preserves I b \<Longrightarrow> preserves I (if c then a else b)"
  by simp

lemmas preserves_rules = preserves_if preserves_then preserves_query preserves_result
  preserves_transaction

end
