(* ===== verification/QuotaModel.thy ===== *)
theory QuotaModel
  imports Schema
begin

text \<open>
  \<open>internal/models/quota.go\<close>: the quota row of a user, the atomic gate in front of every request,
  token accounting and the resets.  Each statement is the row update the SQL text spells out, run
  by \<open>update_where\<close> on the table.  One call of \<open>time.Now\<close> stands for all of an operation.
\<close>

section \<open>The weekly cycle\<close>

definition week_ns :: int where
  "week_ns = 7 * 24 * hour_ns"

definition AlignedCycleStartUTC :: "gotime \<Rightarrow> gotime \<Rightarrow> gotime" where
  "AlignedCycleStartUTC weekStart now =
     (if t_before now weekStart then weekStart
      else let k = go_div (t_sub now weekStart) week_ns
           in t_add weekStart (k * week_ns))"

text \<open>\<open>time.Time.IsZero\<close>: the first instant of the year 1.\<close>

definition t_is_zero :: "gotime \<Rightarrow> bool" where
  "t_is_zero t \<longleftrightarrow> instant t = - 62135596800 * sec_ns"

section \<open>Queries\<close>

abbreviation is_user :: "int \<Rightarrow> quota_row \<Rightarrow> bool" where
  "is_user uid \<equiv> (\<lambda>r. q_user_id r = uid)"

text \<open>The struct of a row: the columns \<open>GetQuota\<close> selects.\<close>

definition quota_of_row :: "quota_row \<Rightarrow> Quota" where
  "quota_of_row r = Quota.truncate r"

definition GetQuota :: "int \<Rightarrow> Quota option op" where
  "GetQuota uid = sql_query ''get quota''
     (\<lambda>db. map_option quota_of_row (select_one (is_user uid) (quotas db)))"

definition GetFixedMultiplier :: "int \<Rightarrow> float64 option op" where
  "GetFixedMultiplier uid = sql_query ''get fixed multiplier''
     (\<lambda>db. case select_one (is_user uid) (quotas db) of
        None \<Rightarrow> None | Some r \<Rightarrow> q_fixed_multiplier r)"

text \<open>An \<open>UPDATE quotas SET ... WHERE ...\<close>.\<close>

definition set_quotas :: "(quota_row \<Rightarrow> bool) \<Rightarrow> (quota_row \<Rightarrow> quota_row) \<Rightarrow> db \<Rightarrow> db" where
  "set_quotas P f db = db\<lparr>quotas := update_where P f (quotas db)\<rparr>"

definition exec_quotas :: "string \<Rightarrow> (quota_row \<Rightarrow> bool) \<Rightarrow> (quota_row \<Rightarrow> quota_row) \<Rightarrow> unit op" where
  "exec_quotas ctx P f = sql_exec ctx (set_quotas P f)"

section \<open>The gate\<close>

text \<open>The two \<open>CASE\<close> expressions of the statement.\<close>

definition week_used_in :: "string \<Rightarrow> quota_row \<Rightarrow> int" where
  "week_used_in newCycle r =
     (if q_week_cycle_start r \<noteq> newCycle then 0 else q_token_week_used r)"

definition month_used_at :: "string \<Rightarrow> quota_row \<Rightarrow> int" where
  "month_used_at monthCutoff r =
     (if q_month_start r < monthCutoff then 0 else q_token_total_used r)"

text \<open>The \<open>WHERE\<close> clause after the user id.\<close>

definition deduct_guard :: "int \<Rightarrow> string \<Rightarrow> string \<Rightarrow> quota_row \<Rightarrow> bool" where
  "deduct_guard calls newCycle monthCutoff r \<longleftrightarrow>
     (q_5h_limit r = 0 \<or> q_5h_used r + calls \<le> q_5h_limit r) \<and>
     (q_total_limit r = 0 \<or> q_total_used r + calls \<le> q_total_limit r) \<and>
     (q_token_total_limit r = 0 \<or> month_used_at monthCutoff r < q_token_total_limit r) \<and>
     (q_token_5h_limit r = 0 \<or> q_token_5h_used r < q_token_5h_limit r) \<and>
     (q_token_week_limit r = 0 \<or> week_used_in newCycle r < q_token_week_limit r)"

text \<open>The \<open>SET\<close> clause.\<close>

definition deduct_set :: "int \<Rightarrow> string \<Rightarrow> string \<Rightarrow> string \<Rightarrow> quota_row \<Rightarrow> quota_row" where
  "deduct_set calls newCycle monthCutoff nowTime r = r\<lparr>
     q_5h_used := q_5h_used r + calls,
     q_total_used := q_total_used r + calls,
     q_token_week_used := week_used_in newCycle r,
     q_week_cycle_start := (if q_week_cycle_start r \<noteq> newCycle then newCycle else q_week_cycle_start r),
     q_token_total_used := month_used_at monthCutoff r,
     q_month_start := (if q_month_start r < monthCutoff then nowTime else q_month_start r),
     q_updated_at := nowTime\<rparr>"

text \<open>The cycle the gate compares with: from the stored anchor, or from now when the anchor does
  not parse.\<close>

definition gate_cycle :: "string \<Rightarrow> gotime \<Rightarrow> string" where
  "gate_cycle weekStartStr now =
     (let nowUTC = t_utc now;
          weekStart = (case parse_rfc3339 weekStartStr of
             Some p \<Rightarrow> if t_is_zero p then nowUTC else p
           | None \<Rightarrow> nowUTC)
      in fmt_rfc3339 (AlignedCycleStartUTC weekStart nowUTC))"

definition month_cutoff :: "gotime \<Rightarrow> string" where
  "month_cutoff now = fmt_rfc3339 (t_add now (- 30 * 24 * hour_ns))"

definition AtomicDeductQuota :: "gotime \<Rightarrow> int \<Rightarrow> int \<Rightarrow> bool op" where
  "AtomicDeductQuota now uid calls =
     and_then
       (sql_query ''read week_start''
          (\<lambda>db. map_option q_week_start (select_one (is_user uid) (quotas db))))
       (\<lambda>anchor. case anchor of
          None \<Rightarrow> (\<lambda>db. (Ok False, db))
        | Some weekStartStr \<Rightarrow>
            let newCycle = gate_cycle weekStartStr now;
                cutoff = month_cutoff now;
                P = (\<lambda>r. q_user_id r = uid \<and> deduct_guard calls newCycle cutoff r)
            in run_stmt ''atomic deduct quota'' (\<lambda>_. None)
                 (\<lambda>db. rows_affected P (quotas db) = 1)
                 (set_quotas P (deduct_set calls newCycle cutoff (fmt_rfc3339 now))))"

section \<open>Refund and token accounting\<close>

definition refund_set :: "int \<Rightarrow> string \<Rightarrow> quota_row \<Rightarrow> quota_row" where
  "refund_set calls now r = r\<lparr>
     q_5h_used := max 0 (q_5h_used r - calls),
     q_total_used := max 0 (q_total_used r - calls),
     q_updated_at := now\<rparr>"

definition RefundQuotaUsage :: "gotime \<Rightarrow> int \<Rightarrow> int \<Rightarrow> unit op" where
  "RefundQuotaUsage now uid calls =
     (if calls \<le> 0 then (\<lambda>db. (Ok (), db))
      else exec_quotas ''refund quota usage'' (is_user uid) (refund_set calls (fmt_rfc3339 now)))"

definition token_set :: "int \<Rightarrow> quota_row \<Rightarrow> quota_row" where
  "token_set delta r = r\<lparr>
     q_token_total_used := q_token_total_used r + delta,
     q_token_5h_used := q_token_5h_used r + delta,
     q_token_week_used := q_token_week_used r + delta\<rparr>"

definition AddTokenUsage :: "int \<Rightarrow> int \<Rightarrow> unit op" where
  "AddTokenUsage uid delta =
     (if delta \<le> 0 then (\<lambda>db. (Ok (), db))
      else exec_quotas ''add token usage'' (is_user uid) (token_set delta))"

section \<open>Limits\<close>

definition UpdateQuotaLimits :: "gotime \<Rightarrow> int \<Rightarrow> int option \<Rightarrow> int option \<Rightarrow> unit op" where
  "UpdateQuotaLimits now uid quota5hLimit quotaTotalLimit =
     (let nows = fmt_rfc3339 now in
      case (quota5hLimit, quotaTotalLimit) of
        (Some a, Some b) \<Rightarrow> exec_quotas '''' (is_user uid)
           (\<lambda>r. r\<lparr>q_5h_limit := a, q_total_limit := b, q_updated_at := nows\<rparr>)
      | (Some a, None) \<Rightarrow> exec_quotas '''' (is_user uid)
           (\<lambda>r. r\<lparr>q_5h_limit := a, q_updated_at := nows\<rparr>)
      | (None, Some b) \<Rightarrow> exec_quotas '''' (is_user uid)
           (\<lambda>r. r\<lparr>q_total_limit := b, q_updated_at := nows\<rparr>)
      | (None, None) \<Rightarrow> (\<lambda>db. (Ok (), db)))"

definition UpdateQuotaTokenTotalLimit :: "gotime \<Rightarrow> int \<Rightarrow> int \<Rightarrow> unit op" where
  "UpdateQuotaTokenTotalLimit now uid limit =
     exec_quotas ''update quota token total limit'' (is_user uid)
       (\<lambda>r. r\<lparr>q_token_total_limit := limit, q_updated_at := fmt_rfc3339 now\<rparr>)"

definition UpdateQuotaTokenWindowLimits :: "gotime \<Rightarrow> int \<Rightarrow> int \<Rightarrow> int \<Rightarrow> unit op" where
  "UpdateQuotaTokenWindowLimits now uid token5hLimit tokenWeekLimit =
     exec_quotas ''update quota token window limits'' (is_user uid)
       (\<lambda>r. r\<lparr>q_token_5h_limit := token5hLimit, q_token_week_limit := tokenWeekLimit,
             q_updated_at := fmt_rfc3339 now\<rparr>)"

definition UpdateFixedMultiplier :: "gotime \<Rightarrow> int \<Rightarrow> float64 option \<Rightarrow> unit op" where
  "UpdateFixedMultiplier now uid multiplier =
     exec_quotas ''update fixed multiplier'' (is_user uid)
       (\<lambda>r. r\<lparr>q_fixed_multiplier := multiplier, q_updated_at := fmt_rfc3339 now\<rparr>)"

section \<open>The weekly anchor\<close>

definition set_anchor :: "string \<Rightarrow> string \<Rightarrow> quota_row \<Rightarrow> quota_row" where
  "set_anchor anchor now r = r\<lparr>q_week_start := anchor, q_updated_at := now\<rparr>"

definition set_anchor_cycle :: "string \<Rightarrow> string \<Rightarrow> string \<Rightarrow> quota_row \<Rightarrow> quota_row" where
  "set_anchor_cycle anchor cycle now r = r\<lparr>q_week_start := anchor, q_week_cycle_start := cycle,
     q_token_week_used := 0, q_updated_at := now\<rparr>"

definition SetQuotaWeekStart :: "gotime \<Rightarrow> int \<Rightarrow> string \<Rightarrow> unit op" where
  "SetQuotaWeekStart nowT uid startRFC3339 db =
     (let parsed = (if startRFC3339 = '''' then Some (t_utc nowT) else parse_rfc3339 startRFC3339) in
      case parsed of
        None \<Rightarrow> (Err (GoErr ''invalid week_start''), db)
      | Some p \<Rightarrow>
         let t = t_utc p;
             cycleStart = AlignedCycleStartUTC t (t_utc nowT);
             now = fmt_rfc3339 (t_utc nowT);
             newCycle = fmt_rfc3339 cycleStart;
             anchor = fmt_rfc3339 t;
             fresh = exec_quotas ''set quota week start'' (is_user uid)
                       (set_anchor_cycle anchor newCycle now)
         in case sql_query ''week start'' (\<lambda>db. select_one (is_user uid) (quotas db)) db of
              (Inr (Some cur), db1) \<Rightarrow>
                if newCycle = q_week_cycle_start cur
                then if anchor = q_week_start cur then (Ok (), db1)
                     else exec_quotas ''set quota week start'' (is_user uid)
                            (set_anchor anchor now) db1
                else fresh db1
            | (_, db1) \<Rightarrow> fresh db1)"

section \<open>Resets\<close>

text \<open>Division by a zero interval panics in Go, at start-up already, where the compensation divides by it; the
  properties assume a positive interval.\<close>

definition window_start :: "int \<Rightarrow> gotime \<Rightarrow> gotime" where
  "window_start resetIntervalHours now =
     go_date (t_year now) (t_month now) (t_day now)
       (go_div (t_hour now) resetIntervalHours * resetIntervalHours) 0 0 0 (zone now)"

definition reset5h_set :: "string \<Rightarrow> string \<Rightarrow> quota_row \<Rightarrow> quota_row" where
  "reset5h_set start now r = r\<lparr>q_5h_used := 0, q_token_5h_used := 0, q_window_start := start,
     q_updated_at := now\<rparr>"

definition Reset5hQuota :: "gotime \<Rightarrow> int \<Rightarrow> unit op" where
  "Reset5hQuota now resetIntervalHours =
     exec_quotas '''' (\<lambda>_. True)
       (reset5h_set (fmt_rfc3339 (window_start resetIntervalHours now)) (fmt_rfc3339 now))"

definition CompensateQuotaReset :: "gotime \<Rightarrow> int \<Rightarrow> unit op" where
  "CompensateQuotaReset now resetIntervalHours =
     exec_quotas ''''
       (\<lambda>r. q_window_start r < fmt_rfc3339 (window_start resetIntervalHours now))
       (reset5h_set (fmt_rfc3339 now) (fmt_rfc3339 now))"

definition reset_calls_set :: "string \<Rightarrow> quota_row \<Rightarrow> quota_row" where
  "reset_calls_set now r = r\<lparr>q_5h_used := 0, q_total_used := 0, q_window_start := now,
     q_updated_at := now\<rparr>"

definition ResetCallCount :: "gotime \<Rightarrow> int \<Rightarrow> string \<Rightarrow> unit op" where
  "ResetCallCount nowT uid now0 =
     (let now = (if now0 = '''' then fmt_rfc3339 nowT else now0)
      in exec_quotas ''reset call-count usage'' (is_user uid) (reset_calls_set now))"

definition reset_tokens_set :: "string \<Rightarrow> quota_row \<Rightarrow> quota_row" where
  "reset_tokens_set now r = r\<lparr>q_token_5h_used := 0, q_token_week_used := 0,
     q_token_total_used := 0, q_week_start := now, q_week_cycle_start := now,
     q_month_start := now, q_updated_at := now\<rparr>"

definition ResetTokenStats :: "gotime \<Rightarrow> int \<Rightarrow> string \<Rightarrow> unit op" where
  "ResetTokenStats nowT uid now0 =
     (let now = (if now0 = '''' then fmt_rfc3339 nowT else now0)
      in exec_quotas ''reset token stats'' (is_user uid) (reset_tokens_set now))"

definition ResetQuotaUsage :: "gotime \<Rightarrow> int \<Rightarrow> string \<Rightarrow> unit op" where
  "ResetQuotaUsage nowT uid now0 =
     (let now = (if now0 = '''' then fmt_rfc3339 nowT else now0)
      in and_then (ResetCallCount nowT uid now) (\<lambda>_. ResetTokenStats nowT uid now))"

end
