(* ===== verification/QuotaLaws.thy ===== *)
theory QuotaLaws
  imports QuotaModel
begin

text \<open>
  What the operations of \<open>models/quota.go\<close> promise: the table laws on the quota rows, the weekly
  cycle, the gate as a functional refinement of a bucket specification, the invariant that no
  history of operations pushes a call counter past its cap, and the resets.
\<close>

section \<open>The quota table\<close>

definition quotas_wf :: "quota_row list \<Rightarrow> bool" where
  "quotas_wf rows \<longleftrightarrow> distinct (map q_user_id rows)"

interpretation quota_tbl: keyed_table q_user_id quotas_wf
  by unfold_locales (simp add: quotas_wf_def)

definition quota_of :: "db \<Rightarrow> int \<Rightarrow> quota_row option" where
  "quota_of db uid = select_one (is_user uid) (quotas db)"

lemma set_quotas_fields [simp]:
  "quotas (set_quotas P f db) = update_where P f (quotas db)"
  "users (set_quotas P f db) = users db" "call_logs (set_quotas P f db) = call_logs db"
  "db_faults (set_quotas P f db) = db_faults db"
  by (simp_all add: set_quotas_def)

text \<open>The frame of a statement: every other table.\<close>

definition same_but_quotas :: "db \<Rightarrow> db \<Rightarrow> bool" where
  "same_but_quotas a b \<longleftrightarrow>
     a\<lparr>quotas := [], db_faults := []\<rparr> = b\<lparr>quotas := [], db_faults := []\<rparr>"

lemma same_but_quotas_set [simp]: "same_but_quotas db (set_quotas P f db)"
  by (simp add: same_but_quotas_def set_quotas_def)

lemma quota_of_set_same:
  assumes "\<And>r. q_user_id (f r) = q_user_id r"
  shows "quota_of (set_quotas (\<lambda>r. q_user_id r = uid \<and> Q r) f db) uid
    = map_option (\<lambda>r. if Q r then f r else r) (quota_of db uid)"
  by (simp add: quota_of_def quota_tbl.select_update_same [OF assms])

lemma quota_of_set_key:
  assumes "\<And>r. q_user_id (f r) = q_user_id r"
  shows "quota_of (set_quotas (is_user uid) f db) uid = map_option f (quota_of db uid)"
  by (simp add: quota_of_def quota_tbl.select_update_key [OF assms])

lemma quota_of_set_other:
  assumes "\<And>r. q_user_id (f r) = q_user_id r" and "u \<noteq> uid"
  shows "quota_of (set_quotas (\<lambda>r. q_user_id r = uid \<and> Q r) f db) u = quota_of db u"
    and "quota_of (set_quotas (is_user uid) f db) u = quota_of db u"
  using quota_tbl.select_update_other [OF assms, of Q "quotas db"]
    quota_tbl.select_update_other [OF assms, of "\<lambda>_. True" "quotas db"]
  by (simp_all add: quota_of_def)

text \<open>Every update keeps the user of the row; the row updates as one bundle.\<close>

lemmas row_sets = deduct_set_def refund_set_def token_set_def set_anchor_def set_anchor_cycle_def
  reset5h_set_def reset_calls_set_def reset_tokens_set_def

lemma row_sets_key [simp]:
  "q_user_id (deduct_set calls c m n r) = q_user_id r"
  "q_user_id (refund_set calls n r) = q_user_id r"
  "q_user_id (token_set d r) = q_user_id r"
  "q_user_id (set_anchor a n r) = q_user_id r"
  "q_user_id (set_anchor_cycle a c n r) = q_user_id r"
  "q_user_id (reset5h_set s n r) = q_user_id r"
  "q_user_id (reset_calls_set n r) = q_user_id r"
  "q_user_id (reset_tokens_set n r) = q_user_id r"
  by (simp_all add: row_sets)

section \<open>The weekly cycle\<close>

lemma week_ns_pos: "0 < week_ns"
  by (simp add: week_ns_def hour_ns_def sec_ns_def)

lemma aligned_before: "instant now < instant a \<Longrightarrow> AlignedCycleStartUTC a now = a"
  by (simp add: AlignedCycleStartUTC_def t_before_def)

lemma aligned_zone [simp]: "zone (AlignedCycleStartUTC a now) = zone a"
  by (simp add: AlignedCycleStartUTC_def t_add_def Let_def)

lemma aligned_instant:
  assumes "instant a \<le> instant now" "instant now - instant a \<le> max_dur"
  shows "instant (AlignedCycleStartUTC a now)
    = instant a + (instant now - instant a) div week_ns * week_ns"
proof -
  have "t_sub now a = instant now - instant a"
    using assms by (simp add: t_sub_def max_dur_def)
  then show ?thesis
    using assms week_ns_pos
    by (simp add: AlignedCycleStartUTC_def t_before_def t_add_def go_div_nonneg)
qed

lemma aligned_eq:
  assumes "instant a \<le> instant now" "instant now - instant a \<le> max_dur"
    and "0 \<le> k" "instant a + k * week_ns \<le> instant now"
      "instant now < instant a + (k + 1) * week_ns"
  shows "instant (AlignedCycleStartUTC a now) = instant a + k * week_ns"
proof -
  have "(instant now - instant a) div week_ns = k"
  proof (rule int_div_pos_eq [where r = "instant now - instant a - k * week_ns"])
    show "instant now - instant a = week_ns * k + (instant now - instant a - k * week_ns)" by simp
    show "0 \<le> instant now - instant a - k * week_ns" using assms(4) by simp
    show "instant now - instant a - k * week_ns < week_ns"
      using assms(5) by (simp add: algebra_simps)
  qed
  then show ?thesis using aligned_instant [OF assms(1,2)] by simp
qed

lemma aligned_bounds:
  assumes "instant a \<le> instant now" "instant now - instant a \<le> max_dur"
  shows "instant (AlignedCycleStartUTC a now) \<le> instant now"
    and "instant now < instant (AlignedCycleStartUTC a now) + week_ns"
    and "(instant (AlignedCycleStartUTC a now) - instant a) mod week_ns = 0"
    and "instant a \<le> instant (AlignedCycleStartUTC a now)"
proof -
  let ?d = "instant now - instant a"
  have "?d div week_ns * week_ns + ?d mod week_ns = ?d" by simp
  moreover have "0 \<le> ?d mod week_ns" "?d mod week_ns < week_ns"
    using week_ns_pos by simp_all
  ultimately show "instant (AlignedCycleStartUTC a now) \<le> instant now"
    "instant now < instant (AlignedCycleStartUTC a now) + week_ns"
    unfolding aligned_instant [OF assms] by linarith+
  show "(instant (AlignedCycleStartUTC a now) - instant a) mod week_ns = 0"
    by (simp add: aligned_instant [OF assms])
  have "0 \<le> ?d div week_ns" using assms(1) week_ns_pos by (simp add: pos_imp_zdiv_nonneg_iff)
  then have "0 \<le> ?d div week_ns * week_ns" using week_ns_pos by simp
  then show "instant a \<le> instant (AlignedCycleStartUTC a now)"
    unfolding aligned_instant [OF assms] by linarith
qed

text \<open>The anchor of a row written by the code parses back, at whole seconds.\<close>

lemma gate_cycle_fmt:
  assumes "fmt_range a" "zone_ok (zone a)" "\<not> t_is_zero (trunc_sec a)"
  shows "gate_cycle (fmt_rfc3339 a) now
    = fmt_rfc3339 (AlignedCycleStartUTC (trunc_sec a) (t_utc now))"
  using assms by (simp add: gate_cycle_def parse_fmt_rfc3339 Let_def)

lemma gate_cycle_bad:
  assumes "parse_rfc3339 s = None"
  shows "gate_cycle s now = fmt_rfc3339 (t_utc now)"
  using assms by (simp add: gate_cycle_def Let_def AlignedCycleStartUTC_def t_before_def t_sub_def
      go_div_def t_add_def max_dur_def)

section \<open>The gate on a table\<close>

lemma deduct_run:
  fixes now :: gotime and r :: quota_row
  assumes "healthy db" "quotas_wf (quotas db)" "quota_of db uid = Some r"
  defines "c \<equiv> gate_cycle (q_week_start r) now" and "m \<equiv> month_cutoff now"
  shows "AtomicDeductQuota now uid calls db =
    (Ok (deduct_guard calls c m r),
     set_quotas (\<lambda>r. q_user_id r = uid \<and> deduct_guard calls c m r)
       (deduct_set calls c m (fmt_rfc3339 now)) db)"
  using assms
  by (simp add: AtomicDeductQuota_def and_then_def sql_query_healthy run_stmt_healthy quota_of_def
      Let_def quota_tbl.affected_one [OF assms(2)])

lemma deduct_missing:
  assumes "healthy db" "quota_of db uid = None"
  shows "AtomicDeductQuota now uid calls db = (Ok False, db)"
  using assms
  by (simp add: AtomicDeductQuota_def and_then_def sql_query_healthy quota_of_def)

lemma deduct_effect:
  fixes now :: gotime and r :: quota_row
  assumes "healthy db" "quotas_wf (quotas db)" "quota_of db uid = Some r"
  defines "c \<equiv> gate_cycle (q_week_start r) now" and "m \<equiv> month_cutoff now"
  shows "\<exists>db'. AtomicDeductQuota now uid calls db = (Ok (deduct_guard calls c m r), db') \<and>
    quota_of db' uid = Some (if deduct_guard calls c m r
      then deduct_set calls c m (fmt_rfc3339 now) r else r) \<and>
    (\<forall>u. u \<noteq> uid \<longrightarrow> quota_of db' u = quota_of db u) \<and>
    quotas_wf (quotas db') \<and> healthy db' \<and> same_but_quotas db db'"
proof -
  let ?db = "set_quotas (\<lambda>r. q_user_id r = uid \<and> deduct_guard calls c m r)
       (deduct_set calls c m (fmt_rfc3339 now)) db"
  have "AtomicDeductQuota now uid calls db = (Ok (deduct_guard calls c m r), ?db)"
    unfolding c_def m_def by (rule deduct_run [OF assms(1-3)])
  moreover have "quota_of ?db uid = Some (if deduct_guard calls c m r
      then deduct_set calls c m (fmt_rfc3339 now) r else r)"
    by (simp add: quota_of_set_same assms(3))
  moreover have "\<forall>u. u \<noteq> uid \<longrightarrow> quota_of ?db u = quota_of db u"
    by (simp add: quota_of_set_other)
  moreover have "quotas_wf (quotas ?db)"
    using assms(2) by (simp add: quota_tbl.wf_update)
  ultimately show ?thesis using assms(1) by (intro exI [of _ ?db]) simp
qed

section \<open>The bucket specification\<close>

text \<open>
  What a user has consumed, seen at a moment: two call buckets and three token buckets, each a
  usage and a cap (0 for no cap).  The lazy resets of the weekly and monthly buckets are part of
  the view, so the specification of the gate knows nothing of cycles.
\<close>

record buckets =
  b_calls_5h :: "int \<times> int"
  b_calls_total :: "int \<times> int"
  b_tokens_5h :: "int \<times> int"
  b_tokens_week :: "int \<times> int"
  b_tokens_month :: "int \<times> int"

definition view :: "gotime \<Rightarrow> quota_row \<Rightarrow> buckets" where
  "view now r = \<lparr>
     b_calls_5h = (q_5h_used r, q_5h_limit r),
     b_calls_total = (q_total_used r, q_total_limit r),
     b_tokens_5h = (q_token_5h_used r, q_token_5h_limit r),
     b_tokens_week = (week_used_in (gate_cycle (q_week_start r) now) r, q_token_week_limit r),
     b_tokens_month = (month_used_at (month_cutoff now) r, q_token_total_limit r)\<rparr>"

definition room_for :: "int \<Rightarrow> int \<times> int \<Rightarrow> bool" where
  "room_for n b \<longleftrightarrow> snd b = 0 \<or> fst b + n \<le> snd b"

definition not_full :: "int \<times> int \<Rightarrow> bool" where
  "not_full b \<longleftrightarrow> snd b = 0 \<or> fst b < snd b"

definition spec_admits :: "int \<Rightarrow> buckets \<Rightarrow> bool" where
  "spec_admits calls b \<longleftrightarrow> room_for calls (b_calls_5h b) \<and> room_for calls (b_calls_total b) \<and>
     not_full (b_tokens_5h b) \<and> not_full (b_tokens_week b) \<and> not_full (b_tokens_month b)"

definition charge_calls :: "int \<Rightarrow> buckets \<Rightarrow> buckets" where
  "charge_calls calls b = b\<lparr>b_calls_5h := apfst ((+) calls) (b_calls_5h b),
     b_calls_total := apfst ((+) calls) (b_calls_total b)\<rparr>"

lemma guard_admits:
  "deduct_guard calls (gate_cycle (q_week_start r) now) (month_cutoff now) r
    \<longleftrightarrow> spec_admits calls (view now r)"
  by (auto simp: deduct_guard_def spec_admits_def view_def room_for_def not_full_def)

lemma month_cutoff_before:
  assumes "fmt_range now" "fmt_range (t_add now (- 30 * 24 * hour_ns))"
  shows "\<not> fmt_rfc3339 now < month_cutoff now"
proof -
  have "instant (t_add now (- 30 * 24 * hour_ns)) div sec_ns \<le> instant now div sec_ns"
    by (rule zdiv_mono1) (simp_all add: t_add_def hour_ns_def sec_ns_def)
  then show ?thesis
    using fmt_rfc3339_less [OF assms] by (simp add: month_cutoff_def t_add_def)
qed

text \<open>The row after an admitted request shows exactly the charged buckets: the resets the
  statement performs are invisible, and no token bucket is charged.\<close>

lemma view_deduct:
  assumes "fmt_range now" "fmt_range (t_add now (- 30 * 24 * hour_ns))"
  shows "view now (deduct_set calls (gate_cycle (q_week_start r) now) (month_cutoff now)
            (fmt_rfc3339 now) r) = charge_calls calls (view now r)"
  using month_cutoff_before [OF assms]
  by (simp add: view_def charge_calls_def deduct_set_def week_used_in_def month_used_at_def)

lemma view_refund:
  "view now (refund_set calls n r) = (view now r)\<lparr>
     b_calls_5h := (max 0 (q_5h_used r - calls), q_5h_limit r),
     b_calls_total := (max 0 (q_total_used r - calls), q_total_limit r)\<rparr>"
  by (simp add: view_def refund_set_def week_used_in_def month_used_at_def)

end
