(* ===== verification/QuotaHistory.thy ===== *)
theory QuotaHistory
  imports QuotaLaws
begin

text \<open>
  Histories of quota operations.  The contract between the gate and its client (a request handler
  that reserves before the upstream call and refunds when the call fails) is the locale
  \<open>call_ledger\<close>, interpreted on both call counters of a quota row.  The step relation
  \<open>quota_step\<close> is any operation of \<open>models/quota.go\<close> that writes quota rows, run against the
  database, failing or not.  No step lets a call counter grow beyond its cap; the call counters stay
  non-negative as long as no negative number of calls is deducted, and between 0 and their caps as
  long as the caps are not changed besides.
\<close>

section \<open>Reserve, call, refund\<close>

locale call_ledger =
  fixes reserve :: "'e \<Rightarrow> 's \<Rightarrow> bool \<times> 's"
    and refund :: "'e \<Rightarrow> 's \<Rightarrow> 's"
    and amount :: "'e \<Rightarrow> int"
    and used cap :: "'s \<Rightarrow> int"
  assumes reserve_yes: "reserve e s = (True, s') \<Longrightarrow>
      used s' = used s + amount e \<and> cap s' = cap s \<and> (cap s = 0 \<or> used s + amount e \<le> cap s)"
    and reserve_no: "reserve e s = (False, s') \<Longrightarrow> s' = s"
    and refund_used: "used (refund e s) = max 0 (used s - amount e)"
    and refund_cap: "cap (refund e s) = cap s"
begin

text \<open>One request: reserve, and refund when the upstream call failed.\<close>

definition serve :: "'e \<times> bool \<Rightarrow> 's \<Rightarrow> 's" where
  "serve q s = (case reserve (fst q) s of
     (True, s') \<Rightarrow> if snd q then s' else refund (fst q) s'
   | (False, s') \<Rightarrow> s')"

definition billed :: "'e \<times> bool \<Rightarrow> 's \<Rightarrow> int" where
  "billed q s = (if snd q \<and> fst (reserve (fst q) s) then amount (fst q) else 0)"

definition within_cap :: "'s \<Rightarrow> bool" where
  "within_cap s \<longleftrightarrow> 0 \<le> used s \<and> (cap s = 0 \<or> used s \<le> cap s)"

lemma serve_step:
  assumes "within_cap s" "0 \<le> amount (fst q)"
  shows "used (serve q s) = used s + billed q s" "cap (serve q s) = cap s" "within_cap (serve q s)"
proof -
  obtain b s' where r: "reserve (fst q) s = (b, s')" by fastforce
  have "used (serve q s) = used s + billed q s \<and> cap (serve q s) = cap s \<and> within_cap (serve q s)"
  proof (cases b)
    case True
    with r have y: "reserve (fst q) s = (True, s')" by simp
    show ?thesis
      using reserve_yes [OF y] assms y
      by (auto simp: serve_def billed_def within_cap_def refund_used refund_cap max_def)
  next
    case False
    with r have n: "reserve (fst q) s = (False, s')" by simp
    then show ?thesis
      using reserve_no [OF n] assms by (simp add: serve_def billed_def)
  qed
  then show "used (serve q s) = used s + billed q s" "cap (serve q s) = cap s"
    "within_cap (serve q s)" by simp_all
qed

fun total_billed :: "('e \<times> bool) list \<Rightarrow> 's \<Rightarrow> int" where
  "total_billed [] s = 0"
| "total_billed (q # qs) s = billed q s + total_billed qs (serve q s)"

lemma serve_all:
  assumes "within_cap s" "\<forall>q \<in> set qs. 0 \<le> amount (fst q)"
  shows "used (fold serve qs s) = used s + total_billed qs s \<and> cap (fold serve qs s) = cap s
    \<and> within_cap (fold serve qs s)"
  using assms
proof (induction qs arbitrary: s)
  case Nil
  then show ?case by simp
next
  case (Cons q qs)
  from Cons.prems have "within_cap s" "0 \<le> amount (fst q)" by simp_all
  note s = serve_step [OF this]
  show ?case using Cons.IH [OF s(3)] Cons.prems(2) s(1,2) by simp
qed

end

text \<open>The gate and the refund on one row, with the time and the number of calls of the request.\<close>

type_synonym call_req = "gotime \<times> int"

definition reserve_row :: "call_req \<Rightarrow> quota_row \<Rightarrow> bool \<times> quota_row" where
  "reserve_row e r = (case e of (now, calls) \<Rightarrow>
     let c = gate_cycle (q_week_start r) now; m = month_cutoff now in
     if deduct_guard calls c m r then (True, deduct_set calls c m (fmt_rfc3339 now) r)
     else (False, r))"

definition refund_row :: "call_req \<Rightarrow> quota_row \<Rightarrow> quota_row" where
  "refund_row e r = refund_set (snd e) (fmt_rfc3339 (fst e)) r"

interpretation ledger_5h: call_ledger reserve_row refund_row snd q_5h_used q_5h_limit
  by unfold_locales
    (auto simp: reserve_row_def refund_row_def deduct_guard_def deduct_set_def refund_set_def Let_def
      split: prod.splits if_splits)

interpretation ledger_total: call_ledger reserve_row refund_row snd q_total_used q_total_limit
  by unfold_locales
    (auto simp: reserve_row_def refund_row_def deduct_guard_def deduct_set_def refund_set_def Let_def
      split: prod.splits if_splits)

text \<open>A history of requests of one user, at the model's own operations.\<close>

fun serve_row :: "(call_req \<times> bool) list \<Rightarrow> quota_row \<Rightarrow> quota_row" where
  "serve_row [] r = r"
| "serve_row ((e, ok) # qs) r =
     serve_row qs (case reserve_row e r of
        (True, r') \<Rightarrow> if ok then r' else refund_row e r'
      | (False, r') \<Rightarrow> r')"

fun calls_billed :: "(call_req \<times> bool) list \<Rightarrow> quota_row \<Rightarrow> int" where
  "calls_billed [] r = 0"
| "calls_billed ((e, ok) # qs) r =
     (case reserve_row e r of
        (True, r') \<Rightarrow> if ok then snd e + calls_billed qs r' else calls_billed qs (refund_row e r')
      | (False, r') \<Rightarrow> calls_billed qs r')"

lemma serve_eq:
  "ledger_5h.serve (e, ok) r = (case reserve_row e r of
     (True, r') \<Rightarrow> if ok then r' else refund_row e r' | (False, r') \<Rightarrow> r')"
  "ledger_total.serve (e, ok) r = ledger_5h.serve (e, ok) r"
  by (simp_all add: ledger_5h.serve_def ledger_total.serve_def split: prod.splits bool.splits)

lemma serve_row_fold:
  "serve_row qs r = fold ledger_5h.serve qs r" "serve_row qs r = fold ledger_total.serve qs r"
  by (induction qs r rule: serve_row.induct) (simp_all add: serve_eq)

lemma calls_billed_total:
  "calls_billed qs r = ledger_5h.total_billed qs r"
  "calls_billed qs r = ledger_total.total_billed qs r"
  by (induction qs r rule: calls_billed.induct)
    (auto simp: ledger_5h.billed_def ledger_total.billed_def serve_eq split: prod.splits bool.splits)

section \<open>The invariant of the rows\<close>

definition counter_ok :: "int \<Rightarrow> int \<Rightarrow> bool" where
  "counter_ok used cap \<longleftrightarrow> 0 \<le> used \<and> (cap = 0 \<or> used \<le> cap)"

definition counters_nonneg :: "quota_row \<Rightarrow> bool" where
  "counters_nonneg r \<longleftrightarrow> 0 \<le> q_5h_used r \<and> 0 \<le> q_total_used r \<and>
     0 \<le> q_token_total_used r \<and> 0 \<le> q_token_5h_used r \<and> 0 \<le> q_token_week_used r"

definition row_ok :: "quota_row \<Rightarrow> bool" where
  "row_ok r \<longleftrightarrow> counters_nonneg r \<and> counter_ok (q_5h_used r) (q_5h_limit r) \<and>
     counter_ok (q_total_used r) (q_total_limit r)"

text \<open>What a step may do to a counter that has a cap: it grows only up to the cap.  A refund
  never leaves it negative.\<close>

definition grows_within :: "(quota_row \<Rightarrow> int) \<Rightarrow> (quota_row \<Rightarrow> int) \<Rightarrow> quota_row \<Rightarrow> quota_row \<Rightarrow> bool" where
  "grows_within used cap r r' \<longleftrightarrow> used r' \<le> max 0 (used r) \<or> cap r' = 0 \<or> used r' \<le> cap r'"

text \<open>A step of one row: \<open>nn\<close> says that only non-negative numbers of calls are deducted, \<open>fixed\<close>
  that the call caps are left alone.\<close>

definition row_step :: "bool \<Rightarrow> bool \<Rightarrow> quota_row \<Rightarrow> quota_row \<Rightarrow> bool" where
  "row_step nn fixed r r' \<longleftrightarrow> q_user_id r' = q_user_id r \<and>
     grows_within q_5h_used q_5h_limit r r' \<and> grows_within q_total_used q_total_limit r r' \<and>
     (nn \<and> counters_nonneg r \<longrightarrow> counters_nonneg r') \<and> (nn \<and> fixed \<and> row_ok r \<longrightarrow> row_ok r')"

lemmas row_step_defs = row_step_def grows_within_def counters_nonneg_def row_ok_def counter_ok_def

lemma row_step_refl [simp]: "row_step nn fixed r r"
  by (simp add: row_step_defs)

lemma row_step_sets:
  "(nn \<longrightarrow> 0 \<le> calls) \<Longrightarrow> deduct_guard calls c m r \<Longrightarrow> row_step nn fixed r (deduct_set calls c m n r)"
  "0 \<le> calls \<Longrightarrow> row_step nn fixed r (refund_set calls n r)"
  "0 \<le> d \<Longrightarrow> row_step nn fixed r (token_set d r)"
  "row_step nn fixed r (set_anchor a n r)"
  "row_step nn fixed r (set_anchor_cycle a c n r)"
  "row_step nn fixed r (reset5h_set s n r)"
  "row_step nn fixed r (reset_calls_set n r)"
  "row_step nn fixed r (reset_tokens_set n r)"
  "row_step nn fixed r (reset_tokens_set n (reset_calls_set n' r))"
  by (auto simp: row_step_defs row_sets deduct_guard_def week_used_in_def month_used_at_def)

section \<open>The step relation\<close>

text \<open>One operation of \<open>models/quota.go\<close>, with the outcome of its statements left to the database.
  \<open>P\<close> says which numbers of calls may be deducted, \<open>Q\<close> which call caps may be set.\<close>

inductive quota_step :: "(int \<Rightarrow> bool) \<Rightarrow> (int option \<Rightarrow> int option \<Rightarrow> bool) \<Rightarrow> db \<Rightarrow> db \<Rightarrow> bool"
  for P Q where
  deduct: "P calls \<Longrightarrow> AtomicDeductQuota now uid calls db = (res, db') \<Longrightarrow> quota_step P Q db db'"
| refund: "RefundQuotaUsage now uid calls db = (ures, db') \<Longrightarrow> quota_step P Q db db'"
| tokens: "AddTokenUsage uid delta db = (ures, db') \<Longrightarrow> quota_step P Q db db'"
| limits: "Q a b \<Longrightarrow> UpdateQuotaLimits now uid a b db = (ures, db') \<Longrightarrow> quota_step P Q db db'"
| anchor: "SetQuotaWeekStart now uid start db = (ures, db') \<Longrightarrow> quota_step P Q db db'"
| token_cap: "UpdateQuotaTokenTotalLimit now uid cap db = (ures, db') \<Longrightarrow> quota_step P Q db db'"
| window_caps: "UpdateQuotaTokenWindowLimits now uid cap5h capWeek db = (ures, db') \<Longrightarrow>
    quota_step P Q db db'"
| multiplier: "UpdateFixedMultiplier now uid mult db = (ures, db') \<Longrightarrow> quota_step P Q db db'"
| reset_5h: "Reset5hQuota now hours db = (ures, db') \<Longrightarrow> quota_step P Q db db'"
| compensate: "CompensateQuotaReset now hours db = (ures, db') \<Longrightarrow> quota_step P Q db db'"
| reset_calls: "ResetCallCount now uid stamp db = (ures, db') \<Longrightarrow> quota_step P Q db db'"
| reset_tokens: "ResetTokenStats now uid stamp db = (ures, db') \<Longrightarrow> quota_step P Q db db'"
| reset_all: "ResetQuotaUsage now uid stamp db = (ures, db') \<Longrightarrow> quota_step P Q db db'"

text \<open>The rows after an operation, each in a relation to the row before.\<close>

definition moved :: "(quota_row \<Rightarrow> quota_row \<Rightarrow> bool) \<Rightarrow> db \<Rightarrow> db \<Rightarrow> bool" where
  "moved R db db' \<longleftrightarrow> list_all2 R (quotas db) (quotas db')"

lemma moved_same: "same_tables db db' \<Longrightarrow> (\<And>r. R r r) \<Longrightarrow> moved R db db'"
  by (simp add: moved_def same_tables_select list_all2_refl)

lemma moved_set:
  assumes "\<And>r. R r r" "\<And>r. W r \<Longrightarrow> R r (f r)" "same_tables db db1"
  shows "moved R db (set_quotas W f db1)"
  using assms by (auto simp: moved_def same_tables_select update_where_def list_all2_conv_all_nth)

lemma moved_exec:
  assumes "exec_quotas ctx W f db = (res, db')" "\<And>r. R r r" "\<And>r. W r \<Longrightarrow> R r (f r)"
  shows "moved R db db'"
  using assms(1) unfolding exec_quotas_def
  by (cases rule: sql_exec_cases) (auto intro: moved_same moved_set assms(2,3))

lemma moved_then_exec:
  assumes "exec_quotas ctx W f db1 = (res, db')" "same_tables db db1" "\<And>r. R r r" "\<And>r. W r \<Longrightarrow> R r (f r)"
  shows "moved R db db'"
  using moved_exec [where R = R, OF assms(1,3)] assms(2,4) by (simp add: moved_def same_tables_select)

lemma deduct_moves:
  assumes "AtomicDeductQuota now uid calls db = (res, db')" "nn \<longrightarrow> 0 \<le> calls"
  shows "moved (row_step nn fixed) db db'"
  using assms(1) unfolding AtomicDeductQuota_def
proof (cases rule: and_then_cases)
  case (err e)
  from err(1) have "same_tables db db'" by (cases rule: sql_query_cases) auto
  then show ?thesis by (rule moved_same) simp
next
  case (ok x db1)
  from ok(1) have s: "same_tables db db1" by (cases rule: sql_query_cases) auto
  show ?thesis
  proof (cases x)
    case None
    then show ?thesis using ok(2) s by (auto intro: moved_same)
  next
    case (Some w)
    let ?c = "gate_cycle w now" and ?m = "month_cutoff now"
    from ok(2) Some have "run_stmt ''atomic deduct quota'' (\<lambda>_. None)
        (\<lambda>db. rows_affected (\<lambda>r. q_user_id r = uid \<and> deduct_guard calls ?c ?m r) (quotas db) = 1)
        (set_quotas (\<lambda>r. q_user_id r = uid \<and> deduct_guard calls ?c ?m r)
          (deduct_set calls ?c ?m (fmt_rfc3339 now))) db1 = (res, db')"
      by (simp add: Let_def)
    then show ?thesis
    proof (cases rule: run_stmt_cases)
      case (ok db2)
      show ?thesis unfolding ok(4)
        by (rule moved_set [OF _ _ same_tables_trans [OF s ok(2)]]) (simp_all add: row_step_sets assms(2))
    qed (auto intro: moved_same same_tables_trans [OF s])
  qed
qed

lemma anchor_moves:
  assumes "SetQuotaWeekStart now uid start db = (res, db')"
  shows "moved (row_step nn fixed) db db'"
proof -
  obtain q db1 where q: "sql_query ''week start'' (\<lambda>db. select_one (is_user uid) (quotas db)) db = (q, db1)"
    by fastforce
  then have s: "same_tables db db1" by (cases rule: sql_query_cases) auto
  have e: "moved (row_step nn fixed) db db2"
    if "exec_quotas ctx (is_user uid) (set_anchor_cycle a c n) db1 = (x, db2)" "same_tables db db1" for ctx a c n db1 x db2
    using that by (rule moved_then_exec) (simp_all add: row_step_sets)
  have f: "moved (row_step nn fixed) db db2"
    if "exec_quotas ctx (is_user uid) (set_anchor a n) db1 = (x, db2)" "same_tables db db1" for ctx a n db1 x db2
    using that by (rule moved_then_exec) (simp_all add: row_step_sets)
  have g: "moved (row_step nn fixed) db db1" if "same_tables db db1" for db1
    using that by (rule moved_same) simp
  show ?thesis
    using assms s
    by (auto simp: SetQuotaWeekStart_def q Let_def intro: e f g moved_same split: option.splits sum.splits if_splits)
qed

lemma reset_all_moves:
  assumes "ResetQuotaUsage now uid stamp db = (ures, db')"
  shows "moved (row_step nn fixed) db db'"
proof -
  let ?R = "\<lambda>r r'. r' = r \<or> (\<exists>n. r' = reset_calls_set n r)"
  have c: "moved ?R db db1" if "ResetCallCount now uid a db = (x, db1)" for a x db1
    using that unfolding ResetCallCount_def Let_def by (rule moved_exec) auto
  have t: "moved (\<lambda>r r'. r' = r \<or> (\<exists>n. r' = reset_tokens_set n r)) db1 db2"
    if "ResetTokenStats now uid a db1 = (x, db2)" for a x db1 db2
    using that unfolding ResetTokenStats_def Let_def by (rule moved_exec) auto
  have both: "moved (row_step nn fixed) db db2"
    if "moved ?R db db1" "moved (\<lambda>r r'. r' = r \<or> (\<exists>n. r' = reset_tokens_set n r)) db1 db2" for db1 db2
    using that unfolding moved_def
    by (rule list_all2_trans [rotated]) (auto simp: row_step_sets)
  have one: "moved (row_step nn fixed) db db1" if "moved ?R db db1" for db1
    using that unfolding moved_def by (rule list_all2_mono) (auto simp: row_step_sets)
  from assms show ?thesis unfolding ResetQuotaUsage_def Let_def
    by (cases rule: and_then_cases) (auto intro: c t both one)
qed

text \<open>Every operation steps every row.\<close>

lemma quota_step_moves:
  assumes "quota_step P Q db db'"
  shows "moved (row_step (\<forall>n. P n \<longrightarrow> 0 \<le> n) (\<forall>a b. \<not> Q a b)) db db'"
  using assms
proof (cases rule: quota_step.cases)
  case (deduct calls now uid res)
  then show ?thesis by (intro deduct_moves [OF deduct(2)]) simp
next
  case (limits a b now uid ures)
  from limits(1) have "moved (row_step nn False) db db'" for nn
    using limits(2) unfolding UpdateQuotaLimits_def Let_def
    by (auto split: option.splits intro!: moved_same elim!: moved_exec simp: row_step_defs)
  then show ?thesis using limits(1) by (metis (full_types))
next
  case (anchor now uid start ures)
  then show ?thesis using anchor_moves by blast
next
  case (reset_all now uid stamp ures)
  then show ?thesis using reset_all_moves by blast
qed (auto simp: RefundQuotaUsage_def AddTokenUsage_def UpdateQuotaTokenTotalLimit_def
    UpdateQuotaTokenWindowLimits_def UpdateFixedMultiplier_def Reset5hQuota_def CompensateQuotaReset_def
    ResetCallCount_def ResetTokenStats_def Let_def row_step_sets split: if_splits
    intro: moved_same elim!: moved_exec, (auto simp: row_step_defs)?)

text \<open>What that says of the table.\<close>

definition quotas_ok :: "db \<Rightarrow> bool" where
  "quotas_ok db \<longleftrightarrow> quotas_wf (quotas db) \<and> (\<forall>r \<in> set (quotas db). row_ok r)"

lemma moved_facts:
  assumes "moved (row_step nn fixed) db db'"
  shows "quotas_wf (quotas db) \<Longrightarrow> quotas_wf (quotas db')"
    and "nn \<Longrightarrow> \<forall>r \<in> set (quotas db). counters_nonneg r \<Longrightarrow> \<forall>r \<in> set (quotas db'). counters_nonneg r"
    and "nn \<Longrightarrow> fixed \<Longrightarrow> quotas_ok db \<Longrightarrow> quotas_ok db'"
    and "r' \<in> set (quotas db') \<Longrightarrow> \<exists>r \<in> set (quotas db). row_step nn fixed r r'"
proof -
  have l: "list_all2 (row_step nn fixed) (quotas db) (quotas db')" using assms by (simp add: moved_def)
  have "map q_user_id (quotas db') = map q_user_id (quotas db)"
    using l by (induction rule: list_all2_induct) (auto simp: row_step_def)
  then show wf: "quotas_wf (quotas db) \<Longrightarrow> quotas_wf (quotas db')" by (simp add: quotas_wf_def)
  have s: "\<exists>r \<in> set (quotas db). row_step nn fixed r r'" if "r' \<in> set (quotas db')" for r'
    using l that by (metis list_all2_conv_all_nth in_set_conv_nth)
  then show "r' \<in> set (quotas db') \<Longrightarrow> \<exists>r \<in> set (quotas db). row_step nn fixed r r'" .
  show "nn \<Longrightarrow> \<forall>r \<in> set (quotas db). counters_nonneg r \<Longrightarrow> \<forall>r \<in> set (quotas db'). counters_nonneg r"
    using s by (fastforce simp: row_step_def)
  show "nn \<Longrightarrow> fixed \<Longrightarrow> quotas_ok db \<Longrightarrow> quotas_ok db'"
    using s wf by (fastforce simp: row_step_def quotas_ok_def)
qed

lemma quota_steps_keep:
  assumes "(quota_step P Q)\<^sup>*\<^sup>* db db'"
  shows "quotas_wf (quotas db) \<Longrightarrow> quotas_wf (quotas db')"
    and "\<forall>n. P n \<longrightarrow> 0 \<le> n \<Longrightarrow> \<forall>r \<in> set (quotas db). counters_nonneg r \<Longrightarrow>
      \<forall>r \<in> set (quotas db'). counters_nonneg r"
    and "\<forall>n. P n \<longrightarrow> 0 \<le> n \<Longrightarrow> \<forall>a b. \<not> Q a b \<Longrightarrow> quotas_ok db \<Longrightarrow> quotas_ok db'"
proof -
  note f = moved_facts [OF quota_step_moves]
  show "quotas_wf (quotas db')" if "quotas_wf (quotas db)"
    using assms that by (induction rule: rtranclp_induct) (simp_all add: f(1))
  show "\<forall>r \<in> set (quotas db'). counters_nonneg r" if "\<forall>n. P n \<longrightarrow> 0 \<le> n" "\<forall>r \<in> set (quotas db). counters_nonneg r"
    using assms that(2) by (induction rule: rtranclp_induct) (use f(2) that(1) in blast)+
  show "quotas_ok db'" if "\<forall>n. P n \<longrightarrow> 0 \<le> n" "\<forall>a b. \<not> Q a b" "quotas_ok db"
    using assms that(3) by (induction rule: rtranclp_induct) (use f(3) that(1,2) in blast)+
qed

end
