(* ===== verification/QuotaProperties.thy ===== *)
theory QuotaProperties
  imports QuotaHistory
begin

text \<open>
  The properties of the quota gate and its ledger, each applied at a concrete row where it has
  hypotheses.
\<close>

section \<open>A concrete row\<close>

text \<open>User 7: a cap of 3 calls per window and 1000 tokens per week, anchored at
  2026-07-01T00:00:00Z; \<open>day\<close> is a day of July 2026 in UTC.\<close>

definition day :: "int \<Rightarrow> gotime" where
  "day d = \<lparr>instant = (1782864000 + (d - 1) * 86400) * sec_ns, zone = 0\<rparr>"

definition sample_row :: quota_row where
  "sample_row = \<lparr>q_id = 1, q_user_id = 7, q_5h_limit = 3, q_5h_used = 2, q_total_limit = 0,
     q_total_used = 40, q_token_total_limit = 0, q_token_total_used = 900, q_token_5h_limit = 0,
     q_token_5h_used = 900, q_token_week_limit = 1000, q_token_week_used = 900,
     q_week_start = ''2026-07-01T00:00:00Z'', q_month_start = ''2026-07-01T00:00:00Z'',
     q_window_start = ''2026-07-02T00:00:00Z'', q_updated_at = '''', q_fixed_multiplier = None,
     q_week_cycle_start = ''2026-07-01T00:00:00Z''\<rparr>"

definition sample_db :: db where
  "sample_db = empty_db\<lparr>quotas := [sample_row]\<rparr>"

lemma sample_db_simps [simp]:
  "healthy sample_db" "quotas sample_db = [sample_row]" "quota_of sample_db 7 = Some sample_row"
  "quotas_wf [sample_row]" "quotas_ok sample_db"
  by (simp_all add: sample_db_def empty_db_def quota_of_def sample_row_def quotas_wf_def
      quotas_ok_def row_ok_def counters_nonneg_def counter_ok_def)

lemma day_range: "fmt_range (day 2)" "fmt_range (t_add (day 2) (- 30 * 24 * hour_ns))"
  "fmt_range (day 3)" "fmt_range (day 1)" "fmt_range (day 9)" "\<not> t_is_zero (day 1)"
  by code_simp+

lemma day_zone [simp]: "zone (day d) = 0" "trunc_sec (day d) = day d" "t_utc (day d) = day d"
  by (simp_all add: day_def trunc_sec_def t_utc_def t_in_def)

lemma gate_texts:
  "gate_cycle ''2026-07-01T00:00:00Z'' (day 2) = ''2026-07-01T00:00:00Z''"
  "gate_cycle ''2026-07-01T00:00:00Z'' (day 3) = ''2026-07-01T00:00:00Z''"
  "month_cutoff (day 2) = ''2026-06-02T00:00:00Z''" "month_cutoff (day 3) = ''2026-06-03T00:00:00Z''"
  "fmt_rfc3339 (day 2) = ''2026-07-02T00:00:00Z''"
  by code_simp+

section \<open>The gate\<close>

text \<open>
  Property C1.  The atomic gate implements the bucket specification: it answers whether the five
  buckets, seen now with the lazy weekly and monthly resets applied, admit the calls; an admitted
  request charges exactly the two call buckets, a rejected one changes nothing, and no other row or
  table is touched.
\<close>

theorem gate_refines_buckets:
  assumes "healthy db" "quotas_wf (quotas db)" "quota_of db uid = Some r"
    and "fmt_range now" "fmt_range (t_add now (- 30 * 24 * hour_ns))"
  shows "\<exists>db' r'. AtomicDeductQuota now uid calls db = (Ok (spec_admits calls (view now r)), db') \<and>
    quota_of db' uid = Some r' \<and>
    view now r' = (if spec_admits calls (view now r) then charge_calls calls (view now r)
      else view now r) \<and>
    (\<not> spec_admits calls (view now r) \<longrightarrow> r' = r) \<and>
    (\<forall>u. u \<noteq> uid \<longrightarrow> quota_of db' u = quota_of db u) \<and> same_but_quotas db db'"
  using deduct_effect [OF assms(1-3), of now calls] view_deduct [OF assms(4,5), of calls r]
  by (auto simp: guard_admits)

lemma gate_refines_buckets_witness:
  "\<exists>db' r'. AtomicDeductQuota (day 2) 7 1 sample_db = (Ok True, db') \<and> quota_of db' 7 = Some r' \<and>
     b_calls_5h (view (day 2) r') = (3, 3)"
proof -
  have a: "spec_admits 1 (view (day 2) sample_row)" by code_simp
  have c: "b_calls_5h (charge_calls 1 (view (day 2) sample_row)) = (3, 3)" by code_simp
  show ?thesis
    using gate_refines_buckets [of sample_db 7 sample_row "day 2" 1] a c day_range
    by auto
qed

text \<open>
  Property C4.  Whatever sequence of quota operations has run, with whatever statement failures, every
  user has at most one row, and the next operation lets neither call counter of a row grow beyond its
  cap: a counter above its cap (an administrator may set the cap below what is used) does not rise.
  While no negative number of calls is deducted no counter is ever negative, and while besides the
  call caps are not changed the call counters stay between zero and their caps.
\<close>

theorem counters_stay_within_caps:
  assumes "(quota_step P Q)\<^sup>*\<^sup>* db0 db" and "quota_step P Q db db'" and "quotas_wf (quotas db0)"
  shows "quotas_wf (quotas db') \<and>
    (\<forall>r' \<in> set (quotas db'). \<exists>r \<in> set (quotas db). q_user_id r = q_user_id r' \<and>
      (q_5h_used r' \<le> max 0 (q_5h_used r) \<or> q_5h_limit r' = 0 \<or> q_5h_used r' \<le> q_5h_limit r') \<and>
      (q_total_used r' \<le> max 0 (q_total_used r) \<or> q_total_limit r' = 0 \<or> q_total_used r' \<le> q_total_limit r')) \<and>
    ((\<forall>n. P n \<longrightarrow> 0 \<le> n) \<longrightarrow>
      ((\<forall>r \<in> set (quotas db0). counters_nonneg r) \<longrightarrow> (\<forall>r \<in> set (quotas db'). counters_nonneg r)) \<and>
      ((\<forall>a b. \<not> Q a b) \<longrightarrow> quotas_ok db0 \<longrightarrow> quotas_ok db'))"
proof -
  note run = rtranclp.rtrancl_into_rtrancl [OF assms(1,2)]
  have "\<exists>r \<in> set (quotas db). row_step (\<forall>n. P n \<longrightarrow> 0 \<le> n) (\<forall>a b. \<not> Q a b) r r'"
    if "r' \<in> set (quotas db')" for r'
    using moved_facts(4) [OF quota_step_moves [OF assms(2)] that] .
  then have "\<forall>r' \<in> set (quotas db'). \<exists>r \<in> set (quotas db). q_user_id r = q_user_id r' \<and>
      (q_5h_used r' \<le> max 0 (q_5h_used r) \<or> q_5h_limit r' = 0 \<or> q_5h_used r' \<le> q_5h_limit r') \<and>
      (q_total_used r' \<le> max 0 (q_total_used r) \<or> q_total_limit r' = 0 \<or> q_total_used r' \<le> q_total_limit r')"
    unfolding row_step_def grows_within_def by metis
  then show ?thesis using quota_steps_keep [OF run] assms(3) by blast
qed

text \<open>The administrator puts the cap below the usage; the deduction that follows is refused.\<close>

lemma counters_stay_within_caps_witness:
  "\<exists>db db'. UpdateQuotaLimits (day 2) 7 (Some 1) None sample_db = (Ok (), db) \<and>
     snd (AtomicDeductQuota (day 2) 7 1 db) = db' \<and> (\<forall>r' \<in> set (quotas db'). q_5h_used r' = 2 \<and> q_5h_limit r' = 1)"
proof -
  let ?S = "quota_step (\<lambda>n. 0 \<le> n) (\<lambda>_ _. True)"
  let ?f = "\<lambda>r. r\<lparr>q_5h_limit := 1, q_updated_at := fmt_rfc3339 (day 2)\<rparr>"
  let ?db = "set_quotas (is_user 7) ?f sample_db"
  let ?db' = "snd (AtomicDeductQuota (day 2) 7 1 ?db)"
  have l: "UpdateQuotaLimits (day 2) 7 (Some 1) None sample_db = (Ok (), ?db)"
    by (simp add: UpdateQuotaLimits_def exec_quotas_def sql_exec_healthy Let_def)
  have s1: "?S sample_db ?db" by (rule quota_step.limits [OF _ l]) simp
  have s2: "?S ?db ?db'"
    by (rule quota_step.deduct [of _ 1 "day 2" 7 _ "fst (AtomicDeductQuota (day 2) 7 1 ?db)"]) simp_all
  have q: "quotas ?db = [?f sample_row]" "q_5h_used (?f sample_row) = 2" "0 \<le> q_total_used sample_row"
    by (simp_all add: update_where_def sample_row_def)
  have u: "\<not> deduct_guard 1 c m (?f sample_row)" for c m by (simp add: deduct_guard_def sample_row_def)
  have "quotas ?db' = [?f sample_row]"
    using deduct_run [of ?db 7 "?f sample_row" "day 2" 1] u q(1)
    by (simp add: quota_of_def quotas_wf_def update_where_def sample_row_def)
  moreover have "\<forall>r' \<in> set (quotas ?db'). q_5h_used r' \<le> 2"
    using counters_stay_within_caps [OF r_into_rtranclp [of ?S, OF s1] s2] q calculation by fastforce
  ultimately show ?thesis using l by (auto simp: sample_row_def)
qed

text \<open>
  Property C13.  Over any list of requests that reserve before the upstream call and refund when it
  fails, both call counters grow by exactly the calls of the requests that were admitted and
  succeeded, and never exceed their caps: failed and rejected requests are free.
\<close>

theorem only_successful_calls_are_billed:
  assumes "counter_ok (q_5h_used r) (q_5h_limit r)" "counter_ok (q_total_used r) (q_total_limit r)"
    and "\<forall>q \<in> set qs. 0 \<le> snd (fst q)"
  shows "q_5h_used (serve_row qs r) = q_5h_used r + calls_billed qs r \<and>
    q_total_used (serve_row qs r) = q_total_used r + calls_billed qs r \<and>
    counter_ok (q_5h_used (serve_row qs r)) (q_5h_limit r) \<and>
    counter_ok (q_total_used (serve_row qs r)) (q_total_limit r)"
proof -
  have "ledger_5h.within_cap r" "ledger_total.within_cap r"
    using assms by (simp_all add: ledger_5h.within_cap_def ledger_total.within_cap_def counter_ok_def)
  from ledger_5h.serve_all [OF this(1) assms(3)] ledger_total.serve_all [OF this(2) assms(3)]
  show ?thesis
    by (auto simp: ledger_5h.within_cap_def ledger_total.within_cap_def counter_ok_def
      serve_row_fold(1) [symmetric] serve_row_fold(2) [symmetric]
      calls_billed_total(1) [symmetric] calls_billed_total(2) [symmetric])
qed

lemma only_successful_calls_are_billed_witness:
  "q_5h_used (serve_row [((day 2, 1), False), ((day 2, 1), True), ((day 3, 1), True)] sample_row) = 3"
proof -
  let ?qs = "[((day 2, 1), False), ((day 2, 1), True), ((day 3, 1), True)]"
  have "calls_billed ?qs sample_row = 1"
    by (simp add: reserve_row_def refund_row_def gate_texts deduct_guard_def row_sets sample_row_def
        week_used_in_def month_used_at_def Let_def)
  moreover have "q_5h_used sample_row = 2" by (simp add: sample_row_def)
  ultimately show ?thesis
    using only_successful_calls_are_billed [of sample_row ?qs]
    by (simp add: counter_ok_def sample_row_def)
qed

section \<open>The weekly bucket\<close>

text \<open>
  \<open>AlignedCycleStartUTC\<close> is the one cycle start that lies a whole number of weeks
  after the anchor and at most a week before now, for every anchor within the range of a
  \<open>Duration\<close>.
\<close>

theorem aligned_cycle_is_unique:
  assumes "instant a \<le> instant now" "instant now - instant a \<le> max_dur"
  shows "s = AlignedCycleStartUTC a now \<longleftrightarrow>
    zone s = zone a \<and> instant s \<le> instant now \<and> instant now < instant s + week_ns \<and>
    (instant s - instant a) mod week_ns = 0"
proof
  assume "s = AlignedCycleStartUTC a now"
  then show "zone s = zone a \<and> instant s \<le> instant now \<and> instant now < instant s + week_ns \<and>
    (instant s - instant a) mod week_ns = 0"
    using aligned_bounds [OF assms] by simp
next
  assume s: "zone s = zone a \<and> instant s \<le> instant now \<and> instant now < instant s + week_ns \<and>
    (instant s - instant a) mod week_ns = 0"
  define k where "k = (instant s - instant a) div week_ns"
  have k: "instant s = instant a + k * week_ns"
    using s mult_div_mod_eq [of week_ns "instant s - instant a"] by (simp add: k_def mult.commute)
  have "0 < (k + 1) * week_ns" using s assms(1) k by (simp add: algebra_simps)
  then have "0 \<le> k" using week_ns_pos by (simp add: zero_less_mult_iff)
  then have "instant (AlignedCycleStartUTC a now) = instant s"
    using aligned_eq [OF assms, of k] s k by (simp add: algebra_simps)
  then show "s = AlignedCycleStartUTC a now"
    using s aligned_zone [of a now] by (auto intro!: gotime.equality)
qed

lemma aligned_cycle_is_unique_witness: "day 8 = AlignedCycleStartUTC (day 1) (day 9)"
  using aligned_cycle_is_unique [of "day 1" "day 9" "day 8"]
  by (simp add: day_def max_dur_def week_ns_def hour_ns_def sec_ns_def)

text \<open>
  Property C14.  The weekly bucket is reset exactly once per cycle: for an anchor the code wrote,
  tokens recorded after an admitted request stay counted for every later moment of the same cycle,
  and count as zero for every moment of a later one.
\<close>

theorem weekly_bucket_counts_one_cycle:
  fixes r a now now' calls d
  defines "r' \<equiv> token_set d (deduct_set calls (gate_cycle (q_week_start r) now)
      (month_cutoff now) (fmt_rfc3339 now) r)"
    and "c \<equiv> AlignedCycleStartUTC (trunc_sec a) (t_utc now)"
    and "c' \<equiv> AlignedCycleStartUTC (trunc_sec a) (t_utc now')"
  assumes "q_week_start r = fmt_rfc3339 a" "fmt_range a" "zone_ok (zone a)" "\<not> t_is_zero (trunc_sec a)"
    and "fmt_range c" "fmt_range c'"
  shows "week_used_in (gate_cycle (q_week_start r') now') r'
    = (if instant c' div sec_ns = instant c div sec_ns then q_token_week_used r' else 0)"
proof -
  have g: "gate_cycle (fmt_rfc3339 a) n = fmt_rfc3339 (AlignedCycleStartUTC (trunc_sec a) (t_utc n))"
    for n using gate_cycle_fmt [OF assms(5-7)] .
  have "fmt_rfc3339 c = fmt_rfc3339 c' \<longleftrightarrow> instant c div sec_ns = instant c' div sec_ns"
    using fmt_rfc3339_less [OF assms(8,9)] fmt_rfc3339_less [OF assms(9,8)]
    by (metis aligned_zone c_def c'_def less_irrefl not_less_iff_gr_or_eq)
  then show ?thesis
    by (auto simp: r'_def token_set_def deduct_set_def week_used_in_def assms(4) g c_def c'_def)
qed

lemma weekly_bucket_counts_one_cycle_witness:
  "let r' = token_set 50 (deduct_set 1 (gate_cycle (q_week_start sample_row) (day 2))
      (month_cutoff (day 2)) (fmt_rfc3339 (day 2)) sample_row)
   in week_used_in (gate_cycle (q_week_start r') (day 3)) r' = 950 \<and>
      week_used_in (gate_cycle (q_week_start r') (day 9)) r' = 0"
proof -
  have f: "q_week_start sample_row = fmt_rfc3339 (day 1)" by code_simp
  have z: "zone_ok (zone (day 1))" by (simp add: zone_ok_def)
  have c: "AlignedCycleStartUTC (day 1) (day 2) = day 1" "AlignedCycleStartUTC (day 1) (day 3) = day 1"
    "AlignedCycleStartUTC (day 1) (day 9) = day 8"
    by code_simp+
  have u: "q_token_week_used (token_set 50 (deduct_set 1 (gate_cycle (q_week_start sample_row) (day 2))
      (month_cutoff (day 2)) (fmt_rfc3339 (day 2)) sample_row)) = 950" by code_simp
  have d8: "fmt_range (day 8)" by code_simp
  have i: "instant (day 8) div sec_ns \<noteq> instant (day 1) div sec_ns" by code_simp
  show ?thesis
    using weekly_bucket_counts_one_cycle [of sample_row "day 1" "day 2" "day 3" 50 1]
      weekly_bucket_counts_one_cycle [of sample_row "day 1" "day 2" "day 9" 50 1]
      f z c u d8 i day_range by (simp add: Let_def)
qed

text \<open>
  A row whose anchor is not RFC3339 text (the migration writes SQLite's
  \<open>datetime('now')\<close> form) has no weekly cap: at any moment other than the recorded one the gate
  sees an empty weekly bucket, whatever has been used.
\<close>

theorem unparsable_anchor_disables_weekly_cap:
  assumes "parse_rfc3339 (q_week_start r) = None"
    and "q_week_cycle_start r \<noteq> fmt_rfc3339 (t_utc now)" and "0 < q_token_week_limit r"
  shows "not_full (b_tokens_week (view now r)) \<and> fst (b_tokens_week (view now r)) = 0"
  using assms by (simp_all add: view_def not_full_def gate_cycle_bad week_used_in_def)

lemma unparsable_anchor_disables_weekly_cap_witness:
  "not_full (b_tokens_week (view (day 3) (sample_row\<lparr>q_week_start := ''2026-07-01 00:00:00'',
     q_token_week_used := 5000\<rparr>)))"
proof (rule unparsable_anchor_disables_weekly_cap [THEN conjunct1])
  show "parse_rfc3339 (q_week_start (sample_row\<lparr>q_week_start := ''2026-07-01 00:00:00'',
     q_token_week_used := 5000\<rparr>)) = None" by code_simp
  show "q_week_cycle_start (sample_row\<lparr>q_week_start := ''2026-07-01 00:00:00'',
     q_token_week_used := 5000\<rparr>) \<noteq> fmt_rfc3339 (t_utc (day 3))" by code_simp
qed (simp add: sample_row_def)

text \<open>
  Setting the weekly anchor again is free: once an anchor is set, setting the same
  anchor at any later moment of the same cycle changes nothing, whatever tokens were recorded in
  between, while setting an anchor that opens another cycle empties the weekly bucket.
\<close>

theorem same_anchor_keeps_weekly_usage:
  assumes "healthy db" "quota_of db uid = Some r" "parse_rfc3339 s = Some p" "s \<noteq> ''''"
    and "q_week_start r = fmt_rfc3339 (t_utc p)"
  shows "SetQuotaWeekStart now uid s db =
    (if q_week_cycle_start r = fmt_rfc3339 (AlignedCycleStartUTC (t_utc p) (t_utc now))
     then (Ok (), db)
     else (Ok (), set_quotas (is_user uid)
       (set_anchor_cycle (fmt_rfc3339 (t_utc p))
         (fmt_rfc3339 (AlignedCycleStartUTC (t_utc p) (t_utc now))) (fmt_rfc3339 (t_utc now))) db))"
  using assms
  by (auto simp: SetQuotaWeekStart_def Let_def sql_query_healthy quota_of_def exec_quotas_def
      sql_exec_healthy)

lemma same_anchor_keeps_weekly_usage_witness:
  "SetQuotaWeekStart (day 3) 7 ''2026-07-01T00:00:00Z'' sample_db = (Ok (), sample_db)"
proof -
  have p: "parse_rfc3339 ''2026-07-01T00:00:00Z'' = Some (day 1)" by code_simp
  have c: "q_week_start sample_row = fmt_rfc3339 (t_utc (day 1))"
    "q_week_cycle_start sample_row =
      fmt_rfc3339 (AlignedCycleStartUTC (t_utc (day 1)) (t_utc (day 3)))"
    by code_simp+
  show ?thesis
    using same_anchor_keeps_weekly_usage [OF _ _ p _ c(1), of sample_db 7 "day 3"] c(2) by simp
qed

section \<open>Resets\<close>

text \<open>
  The start-up compensation touches exactly the rows whose window lies before the
  current one: it is a no-op right after the periodic reset of the same window, and a second run
  in the same window is a no-op too, so usage recorded in the current window survives restarts.
\<close>

theorem compensation_spares_current_window:
  assumes "healthy db" and "window_start h now' = window_start h now"
    and "fmt_rfc3339 (window_start h now) \<le> fmt_rfc3339 now"
  shows "\<exists>db1 db2. Reset5hQuota now h db = (Ok (), db1) \<and>
      CompensateQuotaReset now' h db1 = (Ok (), db1) \<and>
      CompensateQuotaReset now h db = (Ok (), db2) \<and>
      CompensateQuotaReset now' h db2 = (Ok (), db2) \<and>
      (\<forall>r \<in> set (quotas db). \<not> q_window_start r < fmt_rfc3339 (window_start h now) \<longrightarrow>
         r \<in> set (quotas db2))"
proof -
  let ?w = "fmt_rfc3339 (window_start h now)" and ?n = "fmt_rfc3339 now"
  let ?db1 = "set_quotas (\<lambda>_. True) (reset5h_set ?w ?n) db"
  let ?db2 = "set_quotas (\<lambda>r. q_window_start r < ?w) (reset5h_set ?n ?n) db"
  have run: "CompensateQuotaReset t h d =
      (Ok (), set_quotas (\<lambda>r. q_window_start r < fmt_rfc3339 (window_start h t))
        (reset5h_set (fmt_rfc3339 t) (fmt_rfc3339 t)) d)" if "healthy d" for t d
    using that by (simp add: CompensateQuotaReset_def exec_quotas_def sql_exec_healthy)
  have noop: "set_quotas (\<lambda>r. q_window_start r < ?w) f d = d"
    if "\<forall>r \<in> set (quotas d). \<not> q_window_start r < ?w" for f d
  proof -
    have "update_where (\<lambda>r. q_window_start r < ?w) f (quotas d) = quotas d"
      using that by (intro update_where_noop) blast
    then show ?thesis by (simp add: set_quotas_def)
  qed
  have "Reset5hQuota now h db = (Ok (), ?db1)"
    using assms(1) by (simp add: Reset5hQuota_def exec_quotas_def sql_exec_healthy)
  moreover have "CompensateQuotaReset now' h ?db1 = (Ok (), ?db1)"
    using assms(1) by (simp add: run assms(2)) (rule noop; auto simp: set_update_where reset5h_set_def)
  moreover have "CompensateQuotaReset now' h ?db2 = (Ok (), ?db2)"
    using assms(1,3)
    by (simp add: run assms(2)) (rule noop; auto simp: set_update_where reset5h_set_def not_less)
  moreover have "\<forall>r \<in> set (quotas db). \<not> q_window_start r < ?w \<longrightarrow> r \<in> set (quotas ?db2)"
    by (auto simp: set_update_where)
  ultimately show ?thesis using run [OF assms(1), of now] by blast
qed

lemma compensation_spares_current_window_witness:
  "\<exists>db1. Reset5hQuota (day 2) 5 sample_db = (Ok (), db1) \<and>
     CompensateQuotaReset (day 2) 5 db1 = (Ok (), db1)"
proof -
  have "fmt_rfc3339 (window_start 5 (day 2)) \<le> fmt_rfc3339 (day 2)" by code_simp
  from compensation_spares_current_window [OF _ refl this, of sample_db] show ?thesis
    by simp blast
qed

end
