(* ===== verification/Security.thy ===== *)
theory Security
  imports Schema
begin

text \<open>
  \<open>internal/security/encrypt.go\<close> and \<open>internal/auth/keygen.go\<close>.  The primitives of Go's crypto
  packages are the fields of \<open>crypto\<close>: SHA-256, the AES-256-GCM \<open>Seal\<close> and \<open>Open\<close> for a key and a
  nonce, and the bcrypt comparison.  What the code relies on is stated as \<open>aead_ok\<close> (the documented
  behaviour of GCM) and \<open>sha_len\<close>.  Random bytes are arguments; \<open>None\<close> is a failed read.
\<close>

record crypto =
  sha256 :: "bytes \<Rightarrow> bytes"
  gcm_seal :: "bytes \<Rightarrow> bytes \<Rightarrow> bytes \<Rightarrow> bytes"
  gcm_open :: "bytes \<Rightarrow> bytes \<Rightarrow> bytes \<Rightarrow> bytes option"
  bcrypt_ok :: "bytes \<Rightarrow> bytes \<Rightarrow> bool"

definition bytes_of :: "string \<Rightarrow> bytes" where
  "bytes_of s = map of_char s"

definition string_of :: "bytes \<Rightarrow> string" where
  "string_of bs = map char_of bs"

lemma string_of_bytes_of [simp]: "string_of (bytes_of s) = s"
  by (simp add: string_of_def bytes_of_def o_def)

lemma bytes_of_bytes: "b \<in> set (bytes_of s) \<Longrightarrow> b < 256"
  by (auto simp: bytes_of_def)

text \<open>\<open>Open\<close> inverts \<open>Seal\<close> on bytes, and accepts nothing but what \<open>Seal\<close> produces for that key and
  nonce.\<close>

definition aead_ok :: "crypto \<Rightarrow> bool" where
  "aead_ok cr \<longleftrightarrow> (\<forall>k n p c. gcm_open cr k n c = Some p \<longleftrightarrow>
     list_all (\<lambda>b. b < 256) p \<and> c = gcm_seal cr k n p)"

definition sha_len :: "crypto \<Rightarrow> bool" where
  "sha_len cr \<longleftrightarrow> (\<forall>bs. length (sha256 cr bs) = 32)"

section \<open>encrypt.go\<close>

definition DeriveKEK :: "crypto \<Rightarrow> string \<Rightarrow> goerr + bytes" where
  "DeriveKEK cr raw =
     (if raw = '''' then Err (GoErr ''GATEWAY_KEK_ENV environment variable is not set'')
      else Ok (sha256 cr (bytes_of raw)))"

text \<open>With a key of 32 bytes neither \<open>aes.NewCipher\<close> nor \<open>cipher.NewGCM\<close> fails; the nonce size of GCM
  is 12.\<close>

definition Encrypt :: "crypto \<Rightarrow> bytes option \<Rightarrow> string \<Rightarrow> bytes \<Rightarrow> goerr + bytes" where
  "Encrypt cr nonce plaintext key =
     (if length key \<noteq> 32 then Err (GoErr ''key must be 32 bytes for AES-256'')
      else case nonce of
        None \<Rightarrow> Err (GoErr ''failed to generate nonce'')
      | Some n \<Rightarrow> Ok (n @ gcm_seal cr key n (bytes_of plaintext)))"

definition Decrypt :: "crypto \<Rightarrow> bytes \<Rightarrow> bytes \<Rightarrow> goerr + string" where
  "Decrypt cr ciphertext key =
     (if length key \<noteq> 32 then Err (GoErr ''key must be 32 bytes for AES-256'')
      else if length ciphertext < 12 then Err (GoErr ''ciphertext too short'')
      else case gcm_open cr key (take 12 ciphertext) (drop 12 ciphertext) of
        None \<Rightarrow> Err (GoErr ''decryption failed'')
      | Some plaintext \<Rightarrow> Ok (string_of plaintext))"

definition stringsRepeat :: "string \<Rightarrow> int \<Rightarrow> string" where
  "stringsRepeat s count = (if count \<le> 0 then '''' else concat (replicate (nat count) s))"

definition MaskKey :: "string \<Rightarrow> string" where
  "MaskKey key =
     (let n = length key in
      if n < 4 then ''****''
      else if n \<le> 8 then
        let stars = int n - 4; stars = (if stars < 2 then 2 else stars)
        in take 2 key @ stringsRepeat ''*'' stars @ drop (n - 2) key
      else take 4 key @ stringsRepeat ''*'' (int n - 8) @ drop (n - 4) key)"

section \<open>keygen.go\<close>

definition hex_digit :: "nat \<Rightarrow> char" where
  "hex_digit d = (if d < 10 then char_of (48 + d) else char_of (87 + d))"

definition hex_encode :: "bytes \<Rightarrow> string" where
  "hex_encode bs = concat (map (\<lambda>b. [hex_digit (b div 16), hex_digit (b mod 16)]) bs)"

definition SubKeyPrefix :: string where "SubKeyPrefix = ''sk-''"
definition SubKeyLength :: nat where "SubKeyLength = 32"

text \<open>A failed read of random bytes panics, so the bytes are given.\<close>

definition GenerateSubKey :: "crypto \<Rightarrow> bytes \<Rightarrow> string \<Rightarrow> int \<Rightarrow> string" where
  "GenerateSubKey cr randomBytes salt userID =
     (let input = salt @ '':'' @ itoa userID @ '':'' @ hex_encode randomBytes
      in SubKeyPrefix @ take SubKeyLength (hex_encode (sha256 cr (bytes_of input))))"

definition HashSubKey :: "crypto \<Rightarrow> string \<Rightarrow> string" where
  "HashSubKey cr subKey = hex_encode (sha256 cr (bytes_of subKey))"

definition GenerateSessionToken :: "bytes \<Rightarrow> string" where
  "GenerateSessionToken randomBytes = hex_encode randomBytes"

definition SubKeyPreview :: "string \<Rightarrow> string" where
  "SubKeyPreview subKey = (if length subKey \<le> 9 then subKey else take 8 subKey @ ''...'')"

section \<open>Laws\<close>

lemma decrypt_encrypt:
  assumes "aead_ok cr" "length key = 32" "length n = 12"
  shows "\<exists>c. Encrypt cr (Some n) s key = Ok c \<and> Decrypt cr c key = Ok s"
proof -
  have "gcm_open cr key n (gcm_seal cr key n (bytes_of s)) = Some (bytes_of s)"
    using assms(1) bytes_of_bytes by (simp add: aead_ok_def list_all_iff)
  then show ?thesis using assms(2,3) by (simp add: Encrypt_def Decrypt_def)
qed

lemma bytes_of_string_of: "\<forall>b \<in> set p. b < 256 \<Longrightarrow> bytes_of (string_of p) = p"
  by (induction p) (simp_all add: bytes_of_def string_of_def of_char_of)

text \<open>Nothing decrypts but what \<open>Encrypt\<close> wrote: bytes that decrypt are the encryption of the result
  under their own nonce.\<close>

lemma decrypt_authentic:
  assumes "aead_ok cr" "Decrypt cr c key = Ok s"
  shows "Encrypt cr (Some (take 12 c)) s key = Ok c"
proof -
  from assms(2) obtain p where k: "length key = 32" "\<not> length c < 12"
    and o: "gcm_open cr key (take 12 c) (drop 12 c) = Some p" and s: "s = string_of p"
    by (auto simp: Decrypt_def split: if_splits option.splits)
  have "\<forall>b \<in> set p. b < 256" using assms(1) o by (simp add: aead_ok_def list_all_iff)
  then have "bytes_of s = p" by (simp add: s bytes_of_string_of)
  moreover have "drop 12 c = gcm_seal cr key (take 12 c) p"
    using assms(1) o by (simp add: aead_ok_def)
  ultimately show ?thesis using k append_take_drop_id [of 12 c] by (simp add: Encrypt_def)
qed

lemma length_hex [simp]: "length (hex_encode bs) = 2 * length bs"
  by (induction bs) (simp_all add: hex_encode_def)

lemma of_char_hex: "d < 16 \<Longrightarrow> (of_char (hex_digit d) :: nat) = (if d < 10 then 48 + d else 87 + d)"
proof (cases "d < 10")
  case True
  then show ?thesis by (simp add: hex_digit_def of_char_of)
next
  case False
  moreover assume "d < 16"
  then have "(87 + d) mod 256 = 87 + d" by (intro mod_less) linarith
  ultimately show ?thesis by (simp only: hex_digit_def of_char_of if_False)
qed

lemma hex_digit_inj: "a < 16 \<Longrightarrow> b < 16 \<Longrightarrow> hex_digit a = hex_digit b \<Longrightarrow> a = b"
proof -
  assume ab: "a < 16" "b < 16" and e: "hex_digit a = hex_digit b"
  have "(if a < 10 then 48 + a else 87 + a) = (if b < 10 then 48 + b else 87 + b)"
    unfolding of_char_hex [OF ab(1), symmetric] of_char_hex [OF ab(2), symmetric] e ..
  then show "a = b" using ab by (simp split: if_split_asm)
qed

lemma hex_encode_inj:
  assumes "\<forall>x \<in> set a. x < 256" "\<forall>x \<in> set b. x < 256" "hex_encode a = hex_encode b"
  shows "a = b"
  using assms
proof (induction a arbitrary: b)
  case Nil
  then show ?case by (cases b) (simp_all add: hex_encode_def)
next
  case (Cons x a)
  then obtain y b' where b: "b = y # b'" by (cases b) (simp_all add: hex_encode_def)
  have d: "hex_digit (x div 16) = hex_digit (y div 16)" "hex_digit (x mod 16) = hex_digit (y mod 16)"
    "hex_encode a = hex_encode b'"
    using Cons.prems(3) b by (simp_all add: hex_encode_def)
  have "x div 16 = y div 16" "x mod 16 = y mod 16"
    using Cons.prems b by (auto intro!: hex_digit_inj [OF _ _ d(1)] hex_digit_inj [OF _ _ d(2)])
  then have "x = y"
    by (metis div_mult_mod_eq)
  moreover have "a = b'" using Cons.IH [of b'] Cons.prems b d(3) by simp
  ultimately show ?case using b by simp
qed

lemma length_mask: "4 < length key \<Longrightarrow> length (MaskKey key) = max 6 (length key)"
  by (auto simp: MaskKey_def stringsRepeat_def Let_def length_concat sum_list_replicate max_def nat_diff_distrib)

lemma mask_long:
  assumes "8 < length key"
  shows "MaskKey key = take 4 key @ replicate (length key - 8) (CHR ''*'') @ drop (length key - 4) key"
proof -
  have "concat (replicate k [c]) = replicate k c" for k and c :: char
    by (induction k) simp_all
  then show ?thesis using assms by (simp add: MaskKey_def stringsRepeat_def Let_def nat_diff_distrib)
qed

lemma subkey_format:
  assumes "sha_len cr"
  shows "has_prefix (GenerateSubKey cr rb salt uid) SubKeyPrefix"
    and "length (GenerateSubKey cr rb salt uid) = 35"
  using assms by (simp_all add: GenerateSubKey_def has_prefix_def SubKeyPrefix_def SubKeyLength_def
      sha_len_def Let_def)

text \<open>A toy instance of the primitives, for witnesses only.\<close>

definition toy_crypto :: crypto where
  "toy_crypto = \<lparr>sha256 = (\<lambda>bs. take 32 (bs @ replicate 32 0)),
     gcm_seal = (\<lambda>k n p. p @ [sum_list k + sum_list n]),
     gcm_open = (\<lambda>k n c. if c \<noteq> [] \<and> last c = sum_list k + sum_list n \<and>
        list_all (\<lambda>b. b < 256) (butlast c) then Some (butlast c) else None),
     bcrypt_ok = (\<lambda>h p. h = p)\<rparr>"

lemma toy_crypto_ok: "aead_ok toy_crypto" "sha_len toy_crypto"
proof -
  show "aead_ok toy_crypto"
    unfolding aead_ok_def toy_crypto_def
    by (auto split: if_splits) (metis append_butlast_last_id)
  show "sha_len toy_crypto" by (auto simp: sha_len_def toy_crypto_def min_def)
qed

end
