(* ===== verification/UserModel.thy ===== *)
theory UserModel
  imports QuotaModel
begin

text \<open>
  \<open>internal/models/user.go\<close>: accounts, with the quota row every account is created with.  The
  unique columns of the table (\<open>username\<close>, \<open>sub_key_hash\<close>) make the statements that would repeat a
  value fail.
\<close>

definition DefaultMaxBodySize :: int where "DefaultMaxBodySize = 2 ^ 20"
definition MaxBodySizeCeiling :: int where "MaxBodySizeCeiling = 32 * 2 ^ 20"
definition DefaultMaxConcurrency :: int where "DefaultMaxConcurrency = 10"
definition MaxConcurrencyHardLimit :: int where "MaxConcurrencyHardLimit = 200"

record UserWithQuota = User +
  uwq_5h_limit :: int
  uwq_5h_used :: int
  uwq_total_limit :: int
  uwq_total_used :: int
  uwq_token_total_limit :: int
  uwq_token_total_used :: int
  uwq_token_5h_limit :: int
  uwq_token_5h_used :: int
  uwq_token_week_limit :: int
  uwq_token_week_used :: int
  uwq_week_start :: string
  uwq_total_tokens :: int
  uwq_sub_key :: string
  uwq_fixed_multiplier :: "float64 option"

section \<open>Creation\<close>

definition calculateWindowStart :: "gotime \<Rightarrow> int \<Rightarrow> string" where
  "calculateWindowStart now intervalHours = fmt_rfc3339 (window_start intervalHours now)"

text \<open>The values of the insert, after the defaults of the function.\<close>

record new_user =
  nu_username :: string
  nu_password_hash :: string
  nu_sub_key_hash :: string
  nu_sub_key_preview :: string
  nu_role :: string
  nu_status :: string
  nu_expires_at :: string
  nu_route_mode :: string
  nu_fixed_provider :: string
  nu_5h_limit :: int
  nu_total_limit :: int
  nu_fixed_multiplier :: "float64 option"
  nu_max_body_size :: int
  nu_max_concurrency :: int

definition user_defaults :: "new_user \<Rightarrow> new_user" where
  "user_defaults n =
     (let n1 = (if nu_role n = ''admin''
                then n\<lparr>nu_expires_at := '''', nu_route_mode := ''auto'', nu_fixed_provider := ''''\<rparr>
                else n);
          n2 = (if nu_route_mode n1 = '''' then n1\<lparr>nu_route_mode := ''auto''\<rparr> else n1)
      in if nu_max_body_size n2 \<le> 0 then n2\<lparr>nu_max_body_size := DefaultMaxBodySize\<rparr> else n2)"

definition user_row :: "new_user \<Rightarrow> string \<Rightarrow> int \<Rightarrow> User" where
  "user_row n now uid = \<lparr>u_id = uid, u_username = nu_username n,
     u_password_hash = nu_password_hash n, u_sub_key_hash = nu_sub_key_hash n,
     u_sub_key_preview = nu_sub_key_preview n, u_role = nu_role n, u_status = nu_status n,
     u_created_at = now, u_updated_at = now, u_expires_at = nu_expires_at n,
     u_route_mode = nu_route_mode n, u_fixed_provider = nu_fixed_provider n,
     u_max_body_size = nu_max_body_size n, u_max_concurrency = nu_max_concurrency n\<rparr>"

definition user_conflict :: "User \<Rightarrow> db \<Rightarrow> goerr option" where
  "user_conflict u db =
     (if select_one (\<lambda>x. u_username x = u_username u) (users db) \<noteq> None \<or>
         select_one (\<lambda>x. u_sub_key_hash x = u_sub_key_hash u) (users db) \<noteq> None
      then Some (UniqueErr ''insert user'') else None)"

definition insert_user :: "new_user \<Rightarrow> string \<Rightarrow> int op" where
  "insert_user n now = run_stmt ''insert user''
     (\<lambda>db. user_conflict (user_row n now (users_seq db + 1)) db)
     (\<lambda>db. users_seq db + 1)
     (\<lambda>db. db\<lparr>users := insert_row (user_row n now (users_seq db + 1)) (users db),
              users_seq := users_seq db + 1\<rparr>)"

definition quota_row_new :: "new_user \<Rightarrow> gotime \<Rightarrow> int \<Rightarrow> int \<Rightarrow> quota_row" where
  "quota_row_new n now uid qid =
     (let nowUTC = fmt_rfc3339 (t_utc now) in
      \<lparr>q_id = qid, q_user_id = uid, q_5h_limit = nu_5h_limit n, q_5h_used = 0,
       q_total_limit = nu_total_limit n, q_total_used = 0, q_token_total_limit = 0,
       q_token_total_used = 0, q_token_5h_limit = 0, q_token_5h_used = 0,
       q_token_week_limit = 0, q_token_week_used = 0, q_week_start = nowUTC,
       q_month_start = nowUTC, q_window_start = calculateWindowStart now 5,
       q_updated_at = fmt_rfc3339 now, q_fixed_multiplier = nu_fixed_multiplier n,
       q_week_cycle_start = nowUTC\<rparr>)"

definition insert_quota :: "new_user \<Rightarrow> gotime \<Rightarrow> int \<Rightarrow> unit op" where
  "insert_quota n now uid = run_stmt ''insert quota''
     (\<lambda>db. if select_one (is_user uid) (quotas db) \<noteq> None
           then Some (UniqueErr ''insert quota'') else None)
     (\<lambda>_. ())
     (\<lambda>db. db\<lparr>quotas := insert_row (quota_row_new n now uid (quotas_seq db + 1)) (quotas db),
              quotas_seq := quotas_seq db + 1\<rparr>)"

definition CreateUser :: "gotime \<Rightarrow> new_user \<Rightarrow> UserWithQuota op" where
  "CreateUser now n0 =
     (let n = user_defaults n0 in
      transaction
        (and_then (insert_user n (fmt_rfc3339 now))
          (\<lambda>uid. and_then (insert_quota n now uid)
            (\<lambda>_ db. (Ok (User.extend (user_row n (fmt_rfc3339 now) uid)
               \<lparr>uwq_5h_limit = nu_5h_limit n, uwq_5h_used = 0, uwq_total_limit = nu_total_limit n,
                uwq_total_used = 0, uwq_token_total_limit = 0, uwq_token_total_used = 0,
                uwq_token_5h_limit = 0, uwq_token_5h_used = 0, uwq_token_week_limit = 0,
                uwq_token_week_used = 0, uwq_week_start = '''', uwq_total_tokens = 0,
                uwq_sub_key = '''', uwq_fixed_multiplier = None\<rparr>), db)))))"

section \<open>Lookups\<close>

definition GetUserBySubKeyHash :: "string \<Rightarrow> User option op" where
  "GetUserBySubKeyHash subKeyHash = sql_query ''get user by sub key hash''
     (\<lambda>db. select_one (\<lambda>u. u_sub_key_hash u = subKeyHash \<and> u_status u \<noteq> ''deleted'') (users db))"

definition GetUserByID :: "int \<Rightarrow> User option op" where
  "GetUserByID uid = sql_query ''get user by id''
     (\<lambda>db. select_one (\<lambda>u. u_id u = uid) (users db))"

definition GetUserByUsername :: "string \<Rightarrow> User option op" where
  "GetUserByUsername name = sql_query ''get user by username''
     (\<lambda>db. select_one (\<lambda>u. u_username u = name) (users db))"

definition tokens_of :: "db \<Rightarrow> int \<Rightarrow> int" where
  "tokens_of db uid = sum_list (map cl_total_tokens (filter (\<lambda>l. cl_user_id l = uid) (call_logs db)))"

text \<open>One row of the listing.  The \<open>LEFT JOIN\<close> gives \<open>NULL\<close> for a missing quota row, which cannot
  be scanned into the integer fields.\<close>

definition list_row :: "db \<Rightarrow> User \<Rightarrow> UserWithQuota option" where
  "list_row db u = (case select_one (is_user (u_id u)) (quotas db) of
     None \<Rightarrow> None
   | Some q \<Rightarrow> Some (User.extend (u\<lparr>u_password_hash := '''', u_sub_key_hash := ''''\<rparr>)
       \<lparr>uwq_5h_limit = q_5h_limit q, uwq_5h_used = q_5h_used q, uwq_total_limit = q_total_limit q,
        uwq_total_used = q_total_used q, uwq_token_total_limit = q_token_total_limit q,
        uwq_token_total_used = q_token_total_used q, uwq_token_5h_limit = q_token_5h_limit q,
        uwq_token_5h_used = q_token_5h_used q, uwq_token_week_limit = q_token_week_limit q,
        uwq_token_week_used = q_token_week_used q, uwq_week_start = q_week_start q,
        uwq_total_tokens = tokens_of db (u_id u), uwq_sub_key = '''',
        uwq_fixed_multiplier = q_fixed_multiplier q\<rparr>))"

definition ListUsers :: "UserWithQuota list op" where
  "ListUsers db =
     (case sql_query ''list users''
        (\<lambda>db. those (map (list_row db)
           (rev (sort_key u_id (filter (\<lambda>u. u_status u \<noteq> ''deleted'') (users db)))))) db of
        (Inl e, db1) \<Rightarrow> (Err e, db1)
      | (Inr None, db1) \<Rightarrow> (Err (GoErr ''scan user''), db1)
      | (Inr (Some us), db1) \<Rightarrow> (Ok us, db1))"

definition GetUsersByFixedProvider :: "string \<Rightarrow> string list op" where
  "GetUsersByFixedProvider providerSlug = sql_query ''get users by fixed provider''
     (\<lambda>db. map u_username
        (filter (\<lambda>u. u_fixed_provider u = providerSlug \<and> u_status u \<noteq> ''deleted'') (users db)))"

section \<open>Updates\<close>

abbreviation with_id :: "int \<Rightarrow> User \<Rightarrow> bool" where
  "with_id uid \<equiv> (\<lambda>u. u_id u = uid)"

definition set_users :: "(User \<Rightarrow> bool) \<Rightarrow> (User \<Rightarrow> User) \<Rightarrow> db \<Rightarrow> db" where
  "set_users P f db = db\<lparr>users := update_where P f (users db)\<rparr>"

definition UpdateUserStatus :: "gotime \<Rightarrow> int \<Rightarrow> string \<Rightarrow> unit op" where
  "UpdateUserStatus now uid status = sql_exec ''update user status''
     (set_users (with_id uid) (\<lambda>u. u\<lparr>u_status := status, u_updated_at := fmt_rfc3339 now\<rparr>))"

definition RegenerateUserKey :: "gotime \<Rightarrow> int \<Rightarrow> string \<Rightarrow> string \<Rightarrow> unit op" where
  "RegenerateUserKey now uid newSubKeyHash newSubKeyPreview = run_stmt ''regenerate user key''
     (\<lambda>db. if select_one (\<lambda>u. u_sub_key_hash u = newSubKeyHash \<and> u_id u \<noteq> uid) (users db) \<noteq> None
           \<and> select_one (with_id uid) (users db) \<noteq> None
           then Some (UniqueErr ''regenerate user key'') else None)
     (\<lambda>_. ())
     (set_users (with_id uid) (\<lambda>u. u\<lparr>u_sub_key_hash := newSubKeyHash,
        u_sub_key_preview := newSubKeyPreview, u_updated_at := fmt_rfc3339 now\<rparr>))"

definition ExtendUserExpiry :: "gotime \<Rightarrow> int \<Rightarrow> string \<Rightarrow> unit op" where
  "ExtendUserExpiry now uid newExpiresAt = sql_exec ''extend user expiry''
     (set_users (with_id uid) (\<lambda>u. u\<lparr>u_expires_at := newExpiresAt, u_status := ''active'',
        u_updated_at := fmt_rfc3339 now\<rparr>))"

definition UpdateUserRoute :: "gotime \<Rightarrow> int \<Rightarrow> string \<Rightarrow> string \<Rightarrow> unit op" where
  "UpdateUserRoute now uid routeMode fixedProvider = sql_exec ''update user route''
     (set_users (with_id uid) (\<lambda>u. u\<lparr>u_route_mode := routeMode, u_fixed_provider := fixedProvider,
        u_updated_at := fmt_rfc3339 now\<rparr>))"

definition UpdateUserMaxBodySize :: "gotime \<Rightarrow> int \<Rightarrow> int \<Rightarrow> unit op" where
  "UpdateUserMaxBodySize now uid maxBodySize = sql_exec ''update user max body size''
     (set_users (with_id uid) (\<lambda>u. u\<lparr>u_max_body_size := maxBodySize,
        u_updated_at := fmt_rfc3339 now\<rparr>))"

definition UpdateUserMaxConcurrency :: "gotime \<Rightarrow> int \<Rightarrow> int \<Rightarrow> unit op" where
  "UpdateUserMaxConcurrency now uid maxConcurrency =
     (if maxConcurrency < 0 then (\<lambda>db. (Err (GoErr ''max_concurrency must be >= 0''), db))
      else sql_exec ''update user max concurrency''
        (set_users (with_id uid) (\<lambda>u. u\<lparr>u_max_concurrency := maxConcurrency,
           u_updated_at := fmt_rfc3339 now\<rparr>)))"

section \<open>The tables of accounts\<close>

text \<open>Ids, names and key hashes are unique, ids were handed out by the counter, and every account
  has its one quota row.\<close>

definition users_wf :: "User list \<Rightarrow> bool" where
  "users_wf us \<longleftrightarrow> distinct (map u_id us)"

interpretation user_tbl: keyed_table u_id users_wf
  by unfold_locales (simp add: users_wf_def)

definition names_wf :: "User list \<Rightarrow> bool" where
  "names_wf us \<longleftrightarrow> distinct (map u_username us)"

interpretation name_tbl: keyed_table u_username names_wf
  by unfold_locales (simp add: names_wf_def)

definition hashes_wf :: "User list \<Rightarrow> bool" where
  "hashes_wf us \<longleftrightarrow> distinct (map u_sub_key_hash us)"

interpretation hash_tbl: keyed_table u_sub_key_hash hashes_wf
  by unfold_locales (simp add: hashes_wf_def)

definition accounts_ok :: "db \<Rightarrow> bool" where
  "accounts_ok db \<longleftrightarrow> users_wf (users db) \<and> names_wf (users db) \<and> hashes_wf (users db) \<and>
     (\<forall>u \<in> set (users db). u_id u \<le> users_seq db) \<and>
     distinct (map q_user_id (quotas db)) \<and>
     q_user_id ` set (quotas db) = u_id ` set (users db)"

lemma insert_user_healthy:
  "healthy db \<Longrightarrow> insert_user n now db =
    (let u = user_row n now (users_seq db + 1) in
     case user_conflict u db of Some e \<Rightarrow> (Err e, db)
     | None \<Rightarrow> (Ok (users_seq db + 1),
         db\<lparr>users := insert_row u (users db), users_seq := users_seq db + 1\<rparr>))"
  by (simp add: insert_user_def run_stmt_healthy Let_def)

lemma user_row_id [simp]: "u_id (user_row n now i) = i"
  "u_username (user_row n now i) = nu_username n"
  "u_sub_key_hash (user_row n now i) = nu_sub_key_hash n"
  "u_role (user_row n now i) = nu_role n" "u_max_body_size (user_row n now i) = nu_max_body_size n"
  by (simp_all add: user_row_def)

lemma quota_row_new_user [simp]: "q_user_id (quota_row_new n now uid qid) = uid"
  by (simp add: quota_row_new_def Let_def)

end
