(* ===== verification/SessionModel.thy ===== *)
theory SessionModel
  imports UserModel
begin

text \<open>
  \<open>internal/models/session.go\<close> (admin sessions) and \<open>internal/models/call_log.go\<close> (the log of
  calls, its pages and the dashboard counters).
\<close>

section \<open>Sessions\<close>

definition CreateSession :: "gotime \<Rightarrow> string \<Rightarrow> int \<Rightarrow> AdminSession op" where
  "CreateSession now sessionToken expireHours =
     (let mk = (\<lambda>i. \<lparr>s_id = i, s_token = sessionToken, s_created_at = fmt_rfc3339 now,
                      s_expires_at = fmt_rfc3339 (t_add now (expireHours * hour_ns))\<rparr>)
      in run_stmt ''create session''
           (\<lambda>db. if select_one (\<lambda>s. s_token s = sessionToken) (admin_sessions db) \<noteq> None
                 then Some (UniqueErr ''create session'') else None)
           (\<lambda>db. mk (admin_sessions_seq db + 1))
           (\<lambda>db. db\<lparr>admin_sessions := insert_row (mk (admin_sessions_seq db + 1)) (admin_sessions db),
                    admin_sessions_seq := admin_sessions_seq db + 1\<rparr>))"

definition GetValidSession :: "gotime \<Rightarrow> string \<Rightarrow> AdminSession option op" where
  "GetValidSession now sessionToken = sql_query ''get valid session''
     (\<lambda>db. select_one (\<lambda>s. s_token s = sessionToken \<and> fmt_rfc3339 now < s_expires_at s)
        (admin_sessions db))"

definition DeleteSession :: "string \<Rightarrow> unit op" where
  "DeleteSession sessionToken = sql_exec ''delete session''
     (\<lambda>db. db\<lparr>admin_sessions := delete_where (\<lambda>s. s_token s = sessionToken) (admin_sessions db)\<rparr>)"

definition CleanExpiredSessions :: "gotime \<Rightarrow> nat op" where
  "CleanExpiredSessions now = run_stmt ''clean expired sessions'' (\<lambda>_. None)
     (\<lambda>db. rows_affected (\<lambda>s. s_expires_at s \<le> fmt_rfc3339 now) (admin_sessions db))
     (\<lambda>db. db\<lparr>admin_sessions :=
        delete_where (\<lambda>s. s_expires_at s \<le> fmt_rfc3339 now) (admin_sessions db)\<rparr>)"

section \<open>The call log\<close>

text \<open>The driver enforces the foreign key to the user; the display name is not a column.\<close>

definition InsertCallLog :: "gotime \<Rightarrow> CallLog \<Rightarrow> int op" where
  "InsertCallLog nowT l =
     (let now = fmt_rfc3339 (t_in shanghai_off nowT);
          providerID = (if cl_provider_id l = '''' then ''zhipu'' else cl_provider_id l);
          row = (\<lambda>i. l\<lparr>cl_id := i, cl_username := '''', cl_provider_id := providerID,
                       cl_raw_total_tokens := cl_prompt_tokens l + cl_completion_tokens l,
                       cl_created_at := now\<rparr>)
      in run_stmt ''insert call log''
           (\<lambda>db. if select_one (with_id (cl_user_id l)) (users db) = None
                 then Some (DbErr ''insert call log'') else None)
           (\<lambda>db. call_logs_seq db + 1)
           (\<lambda>db. db\<lparr>call_logs := insert_row (row (call_logs_seq db + 1)) (call_logs db),
                    call_logs_seq := call_logs_seq db + 1\<rparr>))"

record CallLogFilter =
  f_user_id :: int
  f_provider_id :: string
  f_model :: string
  f_from :: string
  f_to :: string
  f_page :: int
  f_limit :: int

record CallLogPage =
  pg_data :: "CallLog list"
  pg_page :: int
  pg_limit :: int
  pg_total :: nat

text \<open>\<open>ORDER BY id DESC LIMIT ? OFFSET ?\<close>.\<close>

definition newest_first :: "CallLog list \<Rightarrow> CallLog list" where
  "newest_first ls = rev (sort_key cl_id ls)"

definition page_of :: "int \<Rightarrow> int \<Rightarrow> 'a list \<Rightarrow> 'a list" where
  "page_of page limit xs = take (nat limit) (drop (nat ((page - 1) * limit)) xs)"

definition user_log_matches :: "CallLogFilter \<Rightarrow> CallLog \<Rightarrow> bool" where
  "user_log_matches f l \<longleftrightarrow> cl_user_id l = f_user_id f \<and>
     (f_from f = '''' \<or> f_from f \<le> cl_created_at l) \<and>
     (f_to f = '''' \<or> cl_created_at l \<le> f_to f)"

text \<open>The columns the page selects leave \<open>RawTotalTokens\<close> and \<open>Username\<close> at their zero values.\<close>

definition QueryCallLogs :: "CallLogFilter \<Rightarrow> CallLogPage op" where
  "QueryCallLogs f =
     (let limit = (if f_limit f \<le> 0 then 20 else f_limit f);
          page = (if f_page f \<le> 0 then 1 else f_page f)
      in and_then (sql_query ''count call logs''
             (\<lambda>db. length (filter (user_log_matches f) (call_logs db))))
           (\<lambda>total. and_then (sql_query ''query call logs''
               (\<lambda>db. page_of page limit (newest_first (filter (user_log_matches f) (call_logs db)))))
             (\<lambda>rows db. (Ok \<lparr>pg_data = map (\<lambda>l. l\<lparr>cl_raw_total_tokens := 0, cl_username := ''''\<rparr>) rows,
                             pg_page = page, pg_limit = limit, pg_total = total\<rparr>, db))))"

section \<open>The dashboard\<close>

record DashboardOverview =
  o_total_users :: int
  o_active_users :: int
  o_total_calls :: int
  o_total_calls_today :: int
  o_avg_latency_ms :: int
  o_total_tokens_today :: int
  o_expiring_soon :: int

text \<open>A query whose error is ignored leaves the field at 0.\<close>

definition query_or_zero :: "(db \<Rightarrow> int) \<Rightarrow> db \<Rightarrow> int \<times> db" where
  "query_or_zero q db = (case sql_query '''' q db of
     (Inr x, db1) \<Rightarrow> (x, db1) | (Inl _, db1) \<Rightarrow> (0, db1))"

definition avg_latency :: "db \<Rightarrow> int" where
  "avg_latency db =
     (let ls = map cl_latency_ms (filter (\<lambda>l. cl_status_code l = 200) (call_logs db))
      in if ls = [] then 0 else f_to_int (f_div (f_of_int (sum_list ls)) (f_of_int (int (length ls)))))"

definition expiring_between :: "string \<Rightarrow> string \<Rightarrow> User \<Rightarrow> bool" where
  "expiring_between nowStr sevenDaysStr u \<longleftrightarrow> u_expires_at u \<noteq> '''' \<and> nowStr \<le> u_expires_at u \<and>
     u_expires_at u < sevenDaysStr \<and> u_status u = ''active''"

definition GetDashboardOverview :: "gotime \<Rightarrow> db \<Rightarrow> DashboardOverview \<times> db" where
  "GetDashboardOverview now db0 =
     (let today = fmt_date now;
          nowSh = t_in shanghai_off now;
          nowStr = fmt_rfc3339 nowSh;
          sevenDaysStr = fmt_rfc3339 (t_add_days nowSh 7);
          (totalUsers, db1) = query_or_zero (\<lambda>db. int (length (users db))) db0;
          (activeUsers, db2) = query_or_zero
             (\<lambda>db. int (length (filter (\<lambda>u. u_status u = ''active'') (users db)))) db1;
          (totalCalls, db3) = query_or_zero (\<lambda>db. int (length (call_logs db))) db2;
          (callsToday, db4) = query_or_zero
             (\<lambda>db. int (length (filter (\<lambda>l. today \<le> cl_created_at l) (call_logs db)))) db3;
          (avgLatency, db5) = query_or_zero avg_latency db4;
          (tokensToday, db6) = query_or_zero
             (\<lambda>db. sum_list (map cl_total_tokens
                (filter (\<lambda>l. today \<le> cl_created_at l) (call_logs db)))) db5;
          (expiringSoon, db7) = query_or_zero
             (\<lambda>db. int (length (filter (expiring_between nowStr sevenDaysStr) (users db)))) db6
      in (\<lparr>o_total_users = totalUsers, o_active_users = activeUsers, o_total_calls = totalCalls,
           o_total_calls_today = callsToday, o_avg_latency_ms = avgLatency,
           o_total_tokens_today = tokensToday, o_expiring_soon = expiringSoon\<rparr>, db7))"

section \<open>What sessions and pages promise\<close>

definition sessions_wf :: "AdminSession list \<Rightarrow> bool" where
  "sessions_wf ss \<longleftrightarrow> distinct (map s_token ss)"

interpretation session_tbl: keyed_table s_token sessions_wf
  by unfold_locales (simp add: sessions_wf_def)

text \<open>With unique tokens a session is valid exactly while its row is there and its expiry text is
  after now.\<close>

lemma select_one_conj:
  assumes "distinct (map key rs)"
  shows "select_one (\<lambda>s. key s = k \<and> P s) rs
    = (case select_one (\<lambda>s. key s = k) rs of None \<Rightarrow> None | Some s \<Rightarrow> if P s then Some s else None)"
  using assms
proof (induction rs)
  case (Cons a rs)
  have "key a = k \<Longrightarrow> select_one (\<lambda>s. key s = k \<and> P s) rs = None"
    using Cons.prems by (simp add: select_one_None_iff image_iff) metis
  then show ?case using Cons by auto
qed simp

lemma valid_session_healthy:
  assumes "healthy db" "sessions_wf (admin_sessions db)"
  shows "GetValidSession now tok db =
    (Ok (case select_one (\<lambda>s. s_token s = tok) (admin_sessions db) of None \<Rightarrow> None
         | Some s \<Rightarrow> if fmt_rfc3339 now < s_expires_at s then Some s else None), db)"
  using assms select_one_conj [of s_token "admin_sessions db" tok "\<lambda>s. fmt_rfc3339 now < s_expires_at s"]
  by (simp add: GetValidSession_def sql_query_healthy sessions_wf_def)

lemma concat_pages:
  "0 < n \<Longrightarrow> concat (map (\<lambda>k. page_of (int k + 1) (int n) xs) [0..<m]) = take (m * n) xs"
proof (induction m)
  case (Suc m)
  have "page_of (int m + 1) (int n) xs = take n (drop (m * n) xs)"
    by (simp add: page_of_def nat_mult_distrib)
  then show ?case using Suc by (simp add: take_add [symmetric] add.commute)
qed simp

end
