(* ===== verification/Http.thy ===== *)
theory Http
  imports Schema
begin

text \<open>
  HTTP as the handlers use it: responses with their JSON bodies before encoding, cookies, and
  headers.  Request bodies reach the models decoded (\<open>json.Decoder\<close> into the request struct, with
  \<open>None\<close> for a body that does not decode).
\<close>

datatype json = JNull | JBool bool | JInt int | JFloat float64 | JStr string
  | JArr "json list" | JObj "(string \<times> json) list"

datatype body = NoBody | JsonBody json | RawBody string

record cookie =
  ck_name :: string
  ck_value :: string
  ck_max_age :: int
  ck_secure :: bool

record response =
  rs_status :: int
  rs_headers :: "(string \<times> string) list"
  rs_cookies :: "cookie list"
  rs_body :: body

definition writeJSON :: "int \<Rightarrow> json \<Rightarrow> response" where
  "writeJSON statusCode data = \<lparr>rs_status = statusCode,
     rs_headers = [(''Content-Type'', ''application/json'')], rs_cookies = [], rs_body = JsonBody data\<rparr>"

text \<open>\<open>map[string]string{"error": msg}\<close>, the error body of the admin API.\<close>

definition json_error :: "int \<Rightarrow> string \<Rightarrow> response" where
  "json_error statusCode msg = writeJSON statusCode (JObj [(''error'', JStr msg)])"

definition no_content :: response where
  "no_content = \<lparr>rs_status = 204, rs_headers = [], rs_cookies = [], rs_body = NoBody\<rparr>"

definition redirect :: "string \<Rightarrow> int \<Rightarrow> response" where
  "redirect url code = \<lparr>rs_status = code, rs_headers = [(''Location'', url)], rs_cookies = [],
     rs_body = NoBody\<rparr>"

definition with_cookie :: "cookie \<Rightarrow> response \<Rightarrow> response" where
  "with_cookie c r = r\<lparr>rs_cookies := rs_cookies r @ [c]\<rparr>"

lemma response_fields [simp]:
  "rs_status (writeJSON s d) = s" "rs_body (writeJSON s d) = JsonBody d"
  "rs_status (json_error s m) = s" "rs_status no_content = 204" "rs_status (redirect u s) = s"
  "rs_status (with_cookie c r) = rs_status r" "rs_cookies (writeJSON s d) = []"
  "rs_cookies (with_cookie c r) = rs_cookies r @ [c]" "rs_cookies (redirect u s) = []"
  "rs_cookies (json_error s m) = []"
  by (simp_all add: writeJSON_def json_error_def no_content_def redirect_def with_cookie_def)

text \<open>\<open>strconv.ParseInt(s, 10, 64)\<close>: an optional sign and decimal digits, within 64 bits.\<close>

definition parse_int64 :: "string \<Rightarrow> int option" where
  "parse_int64 s =
     (let neg = has_prefix s ''-'';
          ds = (if neg \<or> has_prefix s ''+'' then drop 1 s else s)
      in if ds = '''' \<or> \<not> list_all is_digit ds then None
         else let n = (if neg then - int (dec_val ds) else int (dec_val ds))
              in if n < - (2 ^ 63) \<or> 2 ^ 63 - 1 < n then None else Some n)"

end
