(* ===== verification/Auth.thy ===== *)
theory Auth
  imports Security SessionModel Http
begin

text \<open>
  \<open>internal/auth/middleware.go\<close> (sub-key and admin-session authentication) and
  \<open>internal/admin/login.go\<close>.  A middleware either answers itself or calls the next handler with
  the request context it built.
\<close>

section \<open>The request context\<close>

record ctx =
  cx_user_id :: "int option"
  cx_user_role :: "string option"
  cx_route_mode :: "string option"
  cx_fixed_provider :: "string option"
  cx_max_body_size :: "int option"
  cx_max_concurrency :: "int option"

definition empty_ctx :: ctx where
  "empty_ctx = \<lparr>cx_user_id = None, cx_user_role = None, cx_route_mode = None,
     cx_fixed_provider = None, cx_max_body_size = None, cx_max_concurrency = None\<rparr>"

definition value_or :: "'a \<Rightarrow> 'a option \<Rightarrow> 'a" where
  "value_or d v = (case v of None \<Rightarrow> d | Some x \<Rightarrow> x)"

definition GetUserID :: "ctx \<Rightarrow> int" where "GetUserID c = value_or 0 (cx_user_id c)"
definition GetRouteMode :: "ctx \<Rightarrow> string" where "GetRouteMode c = value_or ''auto'' (cx_route_mode c)"
definition GetFixedProvider :: "ctx \<Rightarrow> string" where
  "GetFixedProvider c = value_or '''' (cx_fixed_provider c)"
definition GetMaxBodySize :: "ctx \<Rightarrow> int" where "GetMaxBodySize c = value_or 0 (cx_max_body_size c)"
definition GetMaxConcurrency :: "ctx \<Rightarrow> int" where
  "GetMaxConcurrency c = value_or 0 (cx_max_concurrency c)"

section \<open>Sub-keys\<close>

definition writeAuthError :: "int \<Rightarrow> string \<Rightarrow> string \<Rightarrow> response" where
  "writeAuthError statusCode message errType = writeJSON statusCode
     (JObj [(''error'', JObj [(''message'', JStr message), (''type'', JStr errType),
        (''code'', JStr errType)])])"

definition user_ctx :: "User \<Rightarrow> ctx" where
  "user_ctx u = \<lparr>cx_user_id = Some (u_id u), cx_user_role = Some (u_role u),
     cx_route_mode = Some (u_route_mode u), cx_fixed_provider = Some (u_fixed_provider u),
     cx_max_body_size = Some (u_max_body_size u), cx_max_concurrency = Some (u_max_concurrency u)\<rparr>"

text \<open>A non-empty expiry that does not parse counts as expired; admins never expire.\<close>

definition key_expired :: "gotime \<Rightarrow> User \<Rightarrow> bool" where
  "key_expired now u \<longleftrightarrow> u_role u \<noteq> ''admin'' \<and> u_expires_at u \<noteq> '''' \<and>
     (case ParseExpiry (u_expires_at u) of
        None \<Rightarrow> True
      | Some expiresAt \<Rightarrow> t_after (t_in shanghai_off now) expiresAt)"

text \<open>The checks of \<open>SubKeyAuth\<close> in the order of the code.\<close>

definition check_sub_key :: "crypto \<Rightarrow> gotime \<Rightarrow> string \<Rightarrow> db \<Rightarrow> (response + ctx) \<times> db" where
  "check_sub_key cr now authHeader db =
     (if authHeader = '''' \<or> \<not> has_prefix authHeader ''Bearer ''
      then (Inl (writeAuthError 401 ''Missing or invalid Authorization header'' ''invalid_api_key''), db)
      else let subKey = trim_prefix authHeader ''Bearer '' in
      if subKey = '''' \<or> \<not> has_prefix subKey SubKeyPrefix
      then (Inl (writeAuthError 401 ''Invalid API key format'' ''invalid_api_key''), db)
      else case GetUserBySubKeyHash (HashSubKey cr subKey) db of
        (Inl _, db1) \<Rightarrow> (Inl (writeAuthError 500 ''Internal server error'' ''internal_error''), db1)
      | (Inr None, db1) \<Rightarrow> (Inl (writeAuthError 401 ''Invalid API key'' ''invalid_api_key''), db1)
      | (Inr (Some user), db1) \<Rightarrow>
          if u_status user = ''disabled'' \<or> u_status user = ''deleted''
          then (Inl (writeAuthError 403
                  (if u_status user = ''deleted'' then ''API key has been revoked''
                   else ''API key has been disabled'') ''key_revoked''), db1)
          else if key_expired now user
          then (Inl (writeAuthError 403 ''API key has expired'' ''key_expired''), db1)
          else (Inr (user_ctx user), db1))"

type_synonym handler = "ctx \<Rightarrow> db \<Rightarrow> response \<times> db"

definition SubKeyAuth :: "crypto \<Rightarrow> gotime \<Rightarrow> string \<Rightarrow> handler \<Rightarrow> db \<Rightarrow> response \<times> db" where
  "SubKeyAuth cr now authHeader next_handler db =
     (case check_sub_key cr now authHeader db of
        (Inl resp, db1) \<Rightarrow> (resp, db1)
      | (Inr c, db1) \<Rightarrow> next_handler c db1)"

section \<open>Admin sessions\<close>

definition admin_ctx :: ctx where
  "admin_ctx = empty_ctx\<lparr>cx_user_role := Some ''admin''\<rparr>"

definition clear_cookie :: "bool \<Rightarrow> cookie" where
  "clear_cookie secure = \<lparr>ck_name = ''admin_session'', ck_value = '''', ck_max_age = - 1,
     ck_secure = secure\<rparr>"

text \<open>The cookie value is \<open>None\<close> when the request has none; \<open>secure\<close> says whether the request came
  over TLS or through a proxy that did.\<close>

text \<open>The decisions of the two middlewares: an answer, or the context of a valid session.\<close>

definition check_page_session :: "gotime \<Rightarrow> string option \<Rightarrow> bool \<Rightarrow> db \<Rightarrow> (response + ctx) \<times> db" where
  "check_page_session now cookie secure db =
     (case cookie of
        None \<Rightarrow> (Inl (redirect ''/admin/login'' 303), db)
      | Some v \<Rightarrow>
          (case GetValidSession now v db of
             (Inl _, db1) \<Rightarrow> (Inl (redirect ''/admin/login'' 303), db1)
           | (Inr None, db1) \<Rightarrow>
               (Inl (with_cookie (clear_cookie secure) (redirect ''/admin/login'' 303)), db1)
           | (Inr (Some session), db1) \<Rightarrow> (Inr admin_ctx, db1)))"

definition check_api_session :: "gotime \<Rightarrow> string option \<Rightarrow> db \<Rightarrow> (response + ctx) \<times> db" where
  "check_api_session now cookie db =
     (case cookie of
        None \<Rightarrow> (Inl (writeAuthError 401 ''Not authenticated'' ''not_authenticated''), db)
      | Some v \<Rightarrow>
          (case GetValidSession now v db of
             (Inl _, db1) \<Rightarrow> (Inl (writeAuthError 500 ''Internal server error'' ''internal_error''), db1)
           | (Inr None, db1) \<Rightarrow>
               (Inl (writeAuthError 401 ''Session expired or invalid'' ''session_expired''), db1)
           | (Inr (Some session), db1) \<Rightarrow> (Inr admin_ctx, db1)))"

definition AdminSessionAuth ::
  "gotime \<Rightarrow> string option \<Rightarrow> bool \<Rightarrow> handler \<Rightarrow> db \<Rightarrow> response \<times> db" where
  "AdminSessionAuth now cookie secure next_handler db =
     (case check_page_session now cookie secure db of
        (Inl resp, db1) \<Rightarrow> (resp, db1) | (Inr c, db1) \<Rightarrow> next_handler c db1)"

definition AdminSessionAuthAPI :: "gotime \<Rightarrow> string option \<Rightarrow> handler \<Rightarrow> db \<Rightarrow> response \<times> db" where
  "AdminSessionAuthAPI now cookie next_handler db =
     (case check_api_session now cookie db of
        (Inl resp, db1) \<Rightarrow> (resp, db1) | (Inr c, db1) \<Rightarrow> next_handler c db1)"

section \<open>Login\<close>

record loginRequest =
  lr_username :: string
  lr_password :: string

definition login_cookie :: "string \<Rightarrow> int \<Rightarrow> bool \<Rightarrow> cookie" where
  "login_cookie token sessionExpHours secure = \<lparr>ck_name = ''admin_session'', ck_value = token,
     ck_max_age = sessionExpHours * 3600, ck_secure = secure\<rparr>"

definition HandleLogin ::
  "crypto \<Rightarrow> gotime \<Rightarrow> bytes \<Rightarrow> int \<Rightarrow> bool \<Rightarrow> loginRequest option \<Rightarrow> db \<Rightarrow> response \<times> db" where
  "HandleLogin cr now randomBytes sessionExpHours secure body db =
     (case body of
        None \<Rightarrow> (json_error 400 ''Invalid request body'', db)
      | Some req \<Rightarrow>
        if lr_username req = '''' \<or> lr_password req = ''''
        then (json_error 400 ''Username and password are required'', db)
        else case GetUserByUsername (lr_username req) db of
          (Inl _, db1) \<Rightarrow> (json_error 500 ''Internal server error'', db1)
        | (Inr None, db1) \<Rightarrow> (json_error 401 ''Invalid username or password'', db1)
        | (Inr (Some user), db1) \<Rightarrow>
            if u_role user \<noteq> ''admin'' then (json_error 403 ''Not an admin account'', db1)
            else if u_status user = ''disabled'' then (json_error 403 ''Account is disabled'', db1)
            else if \<not> bcrypt_ok cr (bytes_of (u_password_hash user)) (bytes_of (lr_password req))
            then (json_error 401 ''Invalid username or password'', db1)
            else (case CreateSession now (GenerateSessionToken randomBytes) sessionExpHours db1 of
                (Inl _, db2) \<Rightarrow> (json_error 500 ''Failed to create session'', db2)
              | (Inr session, db2) \<Rightarrow>
                  (with_cookie (login_cookie (s_token session) sessionExpHours secure)
                     (writeJSON 200 (JObj [(''message'', JStr ''Login successful''),
                        (''username'', JStr (u_username user))])), db2)))"

definition HandleLogout :: "string option \<Rightarrow> bool \<Rightarrow> db \<Rightarrow> response \<times> db" where
  "HandleLogout cookie secure db =
     (let db1 = (case cookie of None \<Rightarrow> db | Some v \<Rightarrow> log_err (DeleteSession v) db)
      in (with_cookie (clear_cookie secure)
            (writeJSON 200 (JObj [(''message'', JStr ''Logged out'')])), db1))"

end
