(* ===== verification/AccountProperties.thy ===== *)
theory AccountProperties
  imports Auth
begin

text \<open>
  Properties of accounts, their keys and admin sessions: what creation leaves in the tables, who
  gets past the middleware, and how keys and sessions end.
\<close>

section \<open>Creation\<close>

lemma user_row_fields:
  "accounts_ok db \<Longrightarrow> select_one (with_id (users_seq db + 1)) (users db) = None"
  by (auto simp: accounts_ok_def select_one_None_iff)

lemma new_quota_free:
  assumes "accounts_ok db"
  shows "select_one (is_user (users_seq db + 1)) (quotas db) = None"
proof -
  have "\<forall>u \<in> set (users db). u_id u \<le> users_seq db" using assms by (simp add: accounts_ok_def)
  then have "users_seq db + 1 \<notin> u_id ` set (users db)" by auto
  then have "users_seq db + 1 \<notin> q_user_id ` set (quotas db)"
    using assms by (simp add: accounts_ok_def)
  then show ?thesis by (force simp: select_one_None_iff)
qed

text \<open>The state after the two inserts.\<close>

definition after_create :: "gotime \<Rightarrow> new_user \<Rightarrow> db \<Rightarrow> db" where
  "after_create now n db = (let i = users_seq db + 1 in
     db\<lparr>users := insert_row (user_row n (fmt_rfc3339 now) i) (users db), users_seq := i,
        quotas := insert_row (quota_row_new n now i (quotas_seq db + 1)) (quotas db),
        quotas_seq := quotas_seq db + 1\<rparr>)"

lemma create_run:
  assumes "healthy db" "accounts_ok db"
    and "user_conflict (user_row (user_defaults n) (fmt_rfc3339 now) (users_seq db + 1)) db = None"
  shows "\<exists>x. CreateUser now n db = (Ok x, after_create now (user_defaults n) db) \<and>
    u_id x = users_seq db + 1"
proof -
  let ?n = "user_defaults n" and ?i = "users_seq db + 1"
  let ?db1 = "db\<lparr>users := insert_row (user_row ?n (fmt_rfc3339 now) ?i) (users db), users_seq := ?i\<rparr>"
  have u: "insert_user ?n (fmt_rfc3339 now) db = (Ok ?i, ?db1)"
    using assms(1,3) by (simp add: insert_user_healthy Let_def)
  have q: "insert_quota ?n now ?i ?db1 = (Ok (), after_create now ?n db)"
    using assms(1) new_quota_free [OF assms(2)]
    by (simp add: insert_quota_def run_stmt_healthy after_create_def Let_def)
  have h: "healthy (after_create now ?n db)" using assms(1) by (simp add: after_create_def Let_def)
  define body where "body = and_then (insert_user ?n (fmt_rfc3339 now))
    (\<lambda>uid. and_then (insert_quota ?n now uid)
      (\<lambda>_ db. (Ok (User.extend (user_row ?n (fmt_rfc3339 now) uid)
         \<lparr>uwq_5h_limit = nu_5h_limit ?n, uwq_5h_used = 0, uwq_total_limit = nu_total_limit ?n,
          uwq_total_used = 0, uwq_token_total_limit = 0, uwq_token_total_used = 0,
          uwq_token_5h_limit = 0, uwq_token_5h_used = 0, uwq_token_week_limit = 0,
          uwq_token_week_used = 0, uwq_week_start = [], uwq_total_tokens = 0,
          uwq_sub_key = [], uwq_fixed_multiplier = None\<rparr>), db)))"
  have "\<exists>x. body db = (Ok x, after_create now ?n db) \<and> u_id x = ?i"
    by (simp add: body_def u q and_then_def User.extend_def)
  then obtain x where "body db = (Ok x, after_create now ?n db)" "u_id x = ?i" by blast
  moreover from this have "transaction body db = (Ok x, after_create now ?n db)"
    by (intro transaction_healthy assms(1) h)
  ultimately show ?thesis unfolding CreateUser_def Let_def body_def by blast
qed

lemma after_create_ok:
  assumes "accounts_ok db"
    and "user_conflict (user_row n (fmt_rfc3339 now) (users_seq db + 1)) db = None"
  shows "accounts_ok (after_create now n db)"
proof -
  let ?u = "user_row n (fmt_rfc3339 now) (users_seq db + 1)"
  have c: "select_one (\<lambda>x. u_username x = u_username ?u) (users db) = None"
    "select_one (\<lambda>x. u_sub_key_hash x = u_sub_key_hash ?u) (users db) = None"
    using assms(2) by (auto simp: user_conflict_def split: if_splits)
  have "users_wf (insert_row ?u (users db))"
    using user_tbl.wf_insert [of "users db" ?u] user_row_fields [OF assms(1)] assms(1)
    by (simp add: accounts_ok_def)
  moreover have "names_wf (insert_row ?u (users db))" "hashes_wf (insert_row ?u (users db))"
    using name_tbl.wf_insert [OF _ c(1)] hash_tbl.wf_insert [OF _ c(2)] assms(1)
    by (simp_all add: accounts_ok_def)
  moreover have "users_seq db + 1 \<notin> q_user_id ` set (quotas db)"
    using new_quota_free [OF assms(1)] by (force simp: select_one_None_iff)
  ultimately show ?thesis
    using assms(1) by (auto simp: accounts_ok_def after_create_def Let_def insert_row_def)
qed

lemma select_one_append:
  "select_one P (xs @ ys) = (case select_one P xs of None \<Rightarrow> select_one P ys | Some x \<Rightarrow> Some x)"
  by (induction xs) auto


text \<open>
  A user creation that reports an error has changed no table, whichever statement of
  its transaction failed.
\<close>

theorem failed_create_user_changes_nothing:
  assumes "CreateUser now n db = (Err e, db')"
  shows "users db' = users db \<and> quotas db' = quotas db"
  using transaction_atomic [OF assms [unfolded CreateUser_def Let_def]]
  by (simp add: same_tables_select)

section \<open>Sub-keys\<close>

text \<open>What it takes to hold a usable key at a time.\<close>

definition key_of_header :: "string \<Rightarrow> string option" where
  "key_of_header h =
     (if has_prefix h ''Bearer '' \<and> has_prefix (trim_prefix h ''Bearer '') ''sk-''
      then Some (trim_prefix h ''Bearer '') else None)"

definition usable :: "gotime \<Rightarrow> User \<Rightarrow> bool" where
  "usable now u \<longleftrightarrow> u_status u \<noteq> ''disabled'' \<and> u_status u \<noteq> ''deleted'' \<and> \<not> key_expired now u"

lemma has_prefix_nonempty: "has_prefix s p \<Longrightarrow> p \<noteq> '''' \<Longrightarrow> s \<noteq> ''''"
  by (auto simp: has_prefix_def)

lemma select_by_hash:
  assumes "hashes_wf us"
  shows "select_one (\<lambda>u. u_sub_key_hash u = x \<and> u_status u \<noteq> ''deleted'') us = Some u \<longleftrightarrow>
    u \<in> set us \<and> u_sub_key_hash u = x \<and> u_status u \<noteq> ''deleted''"
proof
  assume "u \<in> set us \<and> u_sub_key_hash u = x \<and> u_status u \<noteq> ''deleted''"
  moreover have "distinct (map u_sub_key_hash us) \<Longrightarrow> u \<in> set us \<Longrightarrow>
      select_one (\<lambda>u. u_sub_key_hash u = u_sub_key_hash u' \<and> u_status u \<noteq> ''deleted'') us = Some u"
    if "u_sub_key_hash u = u_sub_key_hash u'" "u_status u \<noteq> ''deleted''" for us u'
    using that by (induction us) (auto simp: image_iff)
  ultimately show "select_one (\<lambda>u. u_sub_key_hash u = x \<and> u_status u \<noteq> ''deleted'') us = Some u"
    using assms by (auto simp: hashes_wf_def)
qed (auto dest: select_one_SomeD)

lemma key_of_header_iff: "key_of_header h = Some k \<longleftrightarrow> h \<noteq> '''' \<and> has_prefix h ''Bearer '' \<and>
    trim_prefix h ''Bearer '' \<noteq> '''' \<and> has_prefix (trim_prefix h ''Bearer '') SubKeyPrefix \<and>
    k = trim_prefix h ''Bearer ''"
  by (auto simp: key_of_header_def SubKeyPrefix_def dest: has_prefix_nonempty)

lemma no_key_refused: "key_of_header h = None \<Longrightarrow> \<exists>resp. check_sub_key cr now h db = (Inl resp, db)"
  using key_of_header_iff [of h "trim_prefix h ''Bearer ''"] by (auto simp: check_sub_key_def Let_def)

text \<open>The check of a key that is there.\<close>

lemma check_given_key:
  assumes "healthy db" "key_of_header h = Some k"
  shows "check_sub_key cr now h db = (Inr c, db') \<longleftrightarrow> db' = db \<and>
    (\<exists>u. select_one (\<lambda>u. u_sub_key_hash u = HashSubKey cr k \<and> u_status u \<noteq> ''deleted'') (users db) = Some u \<and>
      u_status u \<noteq> ''disabled'' \<and> \<not> key_expired now u \<and> c = user_ctx u)"
  using assms key_of_header_iff [of h k]
  by (auto simp: check_sub_key_def GetUserBySubKeyHash_def sql_query_healthy Let_def
      split: option.splits dest: select_one_SomeD)

lemma check_sub_key_iff:
  assumes "healthy db" "hashes_wf (users db)"
  shows "check_sub_key cr now h db = (Inr c, db') \<longleftrightarrow>
    db' = db \<and> (\<exists>k u. key_of_header h = Some k \<and> u \<in> set (users db) \<and>
      u_sub_key_hash u = HashSubKey cr k \<and> usable now u \<and> c = user_ctx u)"
proof (cases "key_of_header h")
  case None
  then show ?thesis using no_key_refused [of h cr now db] by auto
next
  case (Some k)
  then show ?thesis
    unfolding check_given_key [OF assms(1) Some] select_by_hash [OF assms(2)]
    by (auto simp: usable_def)
qed

text \<open>
  Property C10.  With a healthy database the sub-key middleware lets a request through exactly when
  its header is a bearer token with the key prefix whose hash belongs to an account that is neither
  disabled nor deleted nor expired, and then with that account's context; it never changes the
  database.
\<close>

theorem sub_key_auth_exact:
  assumes "healthy db" "hashes_wf (users db)"
  shows "check_sub_key cr now h db = (Inr c, db') \<longleftrightarrow>
    db' = db \<and> (\<exists>k u. key_of_header h = Some k \<and> u \<in> set (users db) \<and>
      u_sub_key_hash u = HashSubKey cr k \<and> usable now u \<and> c = user_ctx u)"
  using assms by (rule check_sub_key_iff)

text \<open>A concrete account and the moments around its expiry.\<close>

definition noon :: "int \<Rightarrow> gotime" where
  "noon d = \<lparr>instant = (1782864000 + (d - 1) * 86400 + 43200) * sec_ns, zone = shanghai_off\<rparr>"

definition sample_new :: new_user where
  "sample_new = \<lparr>nu_username = ''amy'', nu_password_hash = '''', nu_sub_key_hash = HashSubKey toy_crypto ''sk-1'',
     nu_sub_key_preview = '''', nu_role = ''user'', nu_status = ''active'',
     nu_expires_at = ''2026-07-10T00:00:00+08:00'', nu_route_mode = ''auto'', nu_fixed_provider = '''',
     nu_5h_limit = 3, nu_total_limit = 0, nu_fixed_multiplier = None, nu_max_body_size = 0,
     nu_max_concurrency = 2\<rparr>"

definition sample_user :: User where
  "sample_user = user_row sample_new ''2026-07-01T12:00:00+08:00'' 1"

definition sample_accounts :: db where
  "sample_accounts = empty_db\<lparr>users := [sample_user], users_seq := 1\<rparr>"

lemma sample_accounts_simps [simp]:
  "healthy sample_accounts" "users sample_accounts = [sample_user]" "hashes_wf [sample_user]"
  "users_wf [sample_user]" "u_id sample_user = 1"
  "u_sub_key_hash sample_user = HashSubKey toy_crypto ''sk-1''"
  by (simp_all add: sample_accounts_def empty_db_def hashes_wf_def users_wf_def sample_user_def
      sample_new_def user_row_def)

lemma sample_user_usable: "usable (noon 2) sample_user" "key_of_header ''Bearer sk-1'' = Some ''sk-1''"
  by code_simp+


lemma failed_create_user_changes_nothing_witness:
  "users (snd (CreateUser (noon 1) sample_new (empty_db\<lparr>db_faults := [False, False, True]\<rparr>))) = []"
proof -
  let ?db = "empty_db\<lparr>db_faults := [False, False, True]\<rparr>"
  have "fst (CreateUser (noon 1) sample_new ?db) = Err (DbErr ''insert quota'')"
    by (simp add: CreateUser_def Let_def transaction_def sql_exec_def run_stmt_def next_fault_def
        and_then_def insert_user_def insert_quota_def user_conflict_def empty_db_def)
  then have "CreateUser (noon 1) sample_new ?db =
      (Err (DbErr ''insert quota''), snd (CreateUser (noon 1) sample_new ?db))"
    by (metis prod.collapse)
  from failed_create_user_changes_nothing [OF this] show ?thesis by (simp add: empty_db_def)
qed

lemma sub_key_auth_exact_witness:
  "check_sub_key toy_crypto (noon 2) ''Bearer sk-1'' sample_accounts
    = (Inr (user_ctx sample_user), sample_accounts)"
proof -
  have "\<exists>k u. key_of_header ''Bearer sk-1'' = Some k \<and> u \<in> set (users sample_accounts) \<and>
      u_sub_key_hash u = HashSubKey toy_crypto k \<and> usable (noon 2) u \<and>
      user_ctx sample_user = user_ctx u"
    using sample_user_usable by (intro exI [of _ "''sk-1''"] exI [of _ sample_user]) simp
  then show ?thesis
    using sub_key_auth_exact [of sample_accounts toy_crypto "noon 2" "''Bearer sk-1''"] by simp
qed

section \<open>Revocation\<close>

lemma set_users_fields [simp]:
  "users (set_users P f db) = update_where P f (users db)" "db_faults (set_users P f db) = db_faults db"
  by (simp_all add: set_users_def)

lemma reject_iff:
  assumes "healthy db" "hashes_wf (users db)" "key_of_header h = Some k"
    and "\<forall>u \<in> set (users db). u_sub_key_hash u = HashSubKey cr k \<longrightarrow> \<not> usable now u"
  shows "\<exists>resp. check_sub_key cr now h db = (Inl resp, db)"
proof -
  obtain r db' where c: "check_sub_key cr now h db = (r, db')" by fastforce
  have "db' = db"
    using c assms(1)
    by (auto simp: check_sub_key_def GetUserBySubKeyHash_def sql_query_healthy Let_def
        split: if_splits option.splits)
  moreover have "r \<noteq> Inr x" for x
    using check_sub_key_iff [OF assms(1,2), of cr now h x db'] assms(3,4) c by auto
  ultimately show ?thesis using c by (cases r) auto
qed

lemma rekey_distinct:
  assumes "\<And>u. u_sub_key_hash (f u) = nh"
  shows "distinct (map u_sub_key_hash us) \<Longrightarrow> distinct (map u_id us) \<Longrightarrow>
    \<forall>v \<in> set us. u_sub_key_hash v = nh \<longrightarrow> u_id v = i \<Longrightarrow>
    distinct (map u_sub_key_hash (update_where (with_id i) f us))"
proof (induction us)
  case (Cons a us)
  have ids: "u_id v \<noteq> u_id a" and hs: "u_sub_key_hash v \<noteq> u_sub_key_hash a" if "v \<in> set us" for v
    using Cons.prems(1,2) that by (auto simp: image_iff)
  show ?case
  proof (cases "u_id a = i")
    case True
    have "update_where (with_id i) f us = us"
      by (rule update_where_noop) (use ids True in auto)
    moreover have "nh \<notin> u_sub_key_hash ` set us"
      using Cons.prems(3) ids True by auto
    ultimately show ?thesis using Cons.prems(1) True by (simp add: assms)
  next
    case False
    have "u_sub_key_hash a \<noteq> u_sub_key_hash (if u_id v = i then f v else v)" if "v \<in> set us" for v
      using hs [OF that] Cons.prems(3) False by (auto simp: assms)
    then have "u_sub_key_hash a \<notin> u_sub_key_hash ` set (update_where (with_id i) f us)"
      unfolding set_update_where by blast
    then show ?thesis using Cons False by simp
  qed
qed simp

text \<open>
  A key dies with its account's status or with its replacement: once the account is
  disabled or deleted, or its key regenerated to one with another hash, every request with the old
  key is rejected, at any time.
\<close>

theorem old_keys_are_rejected:
  assumes "healthy db" "hashes_wf (users db)" "users_wf (users db)"
    and "u \<in> set (users db)" "u_sub_key_hash u = HashSubKey cr k" "key_of_header h = Some k"
  shows "(\<forall>st \<in> {''disabled'', ''deleted''}. \<exists>db1 resp.
      UpdateUserStatus t (u_id u) st db = (Ok (), db1) \<and>
      check_sub_key cr now h db1 = (Inl resp, db1)) \<and>
    (\<forall>db1 nh. nh \<noteq> HashSubKey cr k \<longrightarrow> RegenerateUserKey t (u_id u) nh pv db = (Ok (), db1) \<longrightarrow>
      (\<exists>resp. check_sub_key cr now h db1 = (Inl resp, db1)))"
proof (intro conjI ballI allI impI)
  have same: "v = u" if "v \<in> set (users db)" "u_id v = u_id u \<or> u_sub_key_hash v = u_sub_key_hash u" for v
    using that assms(2-4) by (auto simp: hashes_wf_def users_wf_def distinct_map inj_on_def)
  fix st :: string assume st: "st \<in> {''disabled'', ''deleted''}"
  let ?db = "set_users (with_id (u_id u)) (\<lambda>u. u\<lparr>u_status := st, u_updated_at := fmt_rfc3339 t\<rparr>) db"
  have r: "\<forall>v \<in> set (users ?db). u_sub_key_hash v = HashSubKey cr k \<longrightarrow> \<not> usable now v"
    using same assms(5) st by (auto simp: set_update_where usable_def)
  have "hashes_wf (users ?db)" using assms(2) hash_tbl.wf_update by simp
  from reject_iff [OF _ this assms(6) r] assms(1)
  show "\<exists>db1 resp. UpdateUserStatus t (u_id u) st db = (Ok (), db1) \<and>
      check_sub_key cr now h db1 = (Inl resp, db1)"
    by (simp add: UpdateUserStatus_def sql_exec_healthy)
next
  have same: "v = u" if "v \<in> set (users db)" "u_id v = u_id u \<or> u_sub_key_hash v = u_sub_key_hash u" for v
    using that assms(2-4) by (auto simp: hashes_wf_def users_wf_def distinct_map inj_on_def)
  fix db1 nh assume nh: "nh \<noteq> HashSubKey cr k" and run: "RegenerateUserKey t (u_id u) nh pv db = (Ok (), db1)"
  let ?f = "\<lambda>u. u\<lparr>u_sub_key_hash := nh, u_sub_key_preview := pv, u_updated_at := fmt_rfc3339 t\<rparr>"
  have no: "select_one (\<lambda>v. u_sub_key_hash v = nh \<and> u_id v \<noteq> u_id u) (users db) = None"
    and db1: "db1 = set_users (with_id (u_id u)) ?f db"
    using run assms(1,4)
    by (auto simp: RegenerateUserKey_def run_stmt_healthy select_one_None_iff split: if_splits)
  have r: "\<forall>v \<in> set (users db1). u_sub_key_hash v = HashSubKey cr k \<longrightarrow> \<not> usable now v"
    using same assms(5) nh by (auto simp: db1 set_update_where)
  have "hashes_wf (users db1)"
    using assms(2,3) no unfolding db1 hashes_wf_def users_wf_def select_one_None_iff set_users_fields
    by (intro rekey_distinct) auto
  from reject_iff [OF _ this assms(6) r] assms(1)
  show "\<exists>resp. check_sub_key cr now h db1 = (Inl resp, db1)" by (simp add: db1)
qed

lemma old_keys_are_rejected_witness:
  "\<exists>db1 resp. UpdateUserStatus (noon 2) 1 ''disabled'' sample_accounts = (Ok (), db1) \<and>
     check_sub_key toy_crypto (noon 3) ''Bearer sk-1'' db1 = (Inl resp, db1)"
  using old_keys_are_rejected [of sample_accounts sample_user toy_crypto "''sk-1''" "''Bearer sk-1''"
      "noon 2" "noon 3" "''''"] sample_user_usable(2)
  by simp

section \<open>Sessions\<close>

text \<open>The moment a session created at \<open>now\<close> ends, to the second.\<close>

definition session_end :: "gotime \<Rightarrow> int \<Rightarrow> gotime" where
  "session_end now expireHours = t_add now (expireHours * hour_ns)"

text \<open>
  A session is valid exactly until its end, to the second: with a token no other
  session has, the session just created is found at every moment (of the same zone) before the end
  and at none from the end on; cleaning expired sessions does not remove it before that; and after a
  logout with its token it is never found again.
\<close>

theorem session_lifetime:
  assumes "healthy db" "sessions_wf (admin_sessions db)"
    and "select_one (\<lambda>s. s_token s = tok) (admin_sessions db) = None"
    and "fmt_range (session_end now h)" "fmt_range t" "zone t = zone now"
  shows "\<exists>s db1. CreateSession now tok h db = (Ok s, db1) \<and>
    GetValidSession t tok db1 =
      (Ok (if instant t div sec_ns < instant (session_end now h) div sec_ns then Some s else None), db1) \<and>
    (instant t div sec_ns < instant (session_end now h) div sec_ns \<longrightarrow>
      (\<exists>n db2. CleanExpiredSessions t db1 = (Ok n, db2) \<and> GetValidSession t tok db2 = (Ok (Some s), db2))) \<and>
    (\<exists>db2. DeleteSession tok db1 = (Ok (), db2) \<and> GetValidSession t tok db2 = (Ok None, db2))"
proof -
  let ?i = "admin_sessions_seq db + 1"
  let ?s = "\<lparr>s_id = ?i, s_token = tok, s_created_at = fmt_rfc3339 now,
     s_expires_at = fmt_rfc3339 (session_end now h)\<rparr>"
  let ?db1 = "db\<lparr>admin_sessions := insert_row ?s (admin_sessions db), admin_sessions_seq := ?i\<rparr>"
  have c: "CreateSession now tok h db = (Ok ?s, ?db1)"
    using assms(1,3) by (simp add: CreateSession_def run_stmt_healthy Let_def session_end_def)
  have less: "fmt_rfc3339 t < s_expires_at ?s \<longleftrightarrow>
      instant t div sec_ns < instant (session_end now h) div sec_ns"
    using fmt_rfc3339_less [OF assms(5,4)] assms(6) by (simp add: session_end_def t_add_def)
  have wf: "sessions_wf (admin_sessions ?db1)"
    using session_tbl.wf_insert [OF assms(2), of ?s] assms(3) by simp
  have sel: "select_one (\<lambda>s. s_token s = tok) (admin_sessions ?db1) = Some ?s"
    using assms(3) by (simp add: insert_row_def select_one_append)
  have v: "GetValidSession t tok ?db1 =
      (Ok (if instant t div sec_ns < instant (session_end now h) div sec_ns then Some ?s else None), ?db1)"
    using valid_session_healthy [OF _ wf, of t tok] assms(1) sel less by simp
  let ?db2 = "?db1\<lparr>admin_sessions := delete_where (\<lambda>s. s_expires_at s \<le> fmt_rfc3339 t) (admin_sessions ?db1)\<rparr>"
  have clean: "CleanExpiredSessions t ?db1 =
      (Ok (rows_affected (\<lambda>s. s_expires_at s \<le> fmt_rfc3339 t) (admin_sessions ?db1)), ?db2)"
    using assms(1) by (simp add: CleanExpiredSessions_def run_stmt_healthy)
  have keep: "GetValidSession t tok ?db2 = (Ok (Some ?s), ?db2)"
    if l: "instant t div sec_ns < instant (session_end now h) div sec_ns"
  proof -
    have "\<not> s_expires_at ?s \<le> fmt_rfc3339 t" using l less by (simp add: not_le)
    moreover have "select_one (\<lambda>s. s_token s = tok)
        (delete_where (\<lambda>s. s_expires_at s \<le> fmt_rfc3339 t) (admin_sessions db)) = None"
      using assms(3) by (auto simp: select_one_None_iff delete_where_def)
    ultimately have "select_one (\<lambda>s. s_token s = tok) (admin_sessions ?db2) = Some ?s"
      by (simp add: insert_row_def delete_where_def select_one_append)
    moreover have "sessions_wf (admin_sessions ?db2)"
      using session_tbl.wf_delete [OF wf] by simp
    ultimately show ?thesis
      using valid_session_healthy [of ?db2 t tok] assms(1) l less by simp
  qed
  let ?db3 = "?db1\<lparr>admin_sessions := delete_where (\<lambda>s. s_token s = tok) (admin_sessions ?db1)\<rparr>"
  have "DeleteSession tok ?db1 = (Ok (), ?db3)"
    using assms(1) by (simp add: DeleteSession_def sql_exec_healthy)
  moreover have "GetValidSession t tok ?db3 = (Ok None, ?db3)"
    using valid_session_healthy [of ?db3 t tok] session_tbl.wf_delete [OF wf] assms(1)
      session_tbl.select_delete by simp
  ultimately show ?thesis using c v clean keep by blast
qed

lemma session_lifetime_witness:
  "\<exists>s db1. CreateSession (noon 1) ''tok'' 24 empty_db = (Ok s, db1) \<and>
     GetValidSession (noon 2) ''tok'' db1 = (Ok None, db1)"
proof -
  have r: "fmt_range (session_end (noon 1) 24)" "fmt_range (noon 2)" "zone (noon 2) = zone (noon 1)"
    "\<not> instant (noon 2) div sec_ns < instant (session_end (noon 1) 24) div sec_ns"
    by code_simp+
  have "healthy empty_db" "sessions_wf (admin_sessions empty_db)"
    "select_one (\<lambda>s. s_token s = ''tok'') (admin_sessions empty_db) = None"
    by (simp_all add: empty_db_def sessions_wf_def)
  from session_lifetime [OF this r(1-3)] r(4) show ?thesis by auto
qed

section \<open>Pages of the log\<close>

text \<open>
  The pages of a user's call log are consistent: on a healthy database, page \<open>k\<close> of any
  positive size reports the number of matching calls, and the pages in order are the matching calls,
  newest first, each exactly once.
\<close>

theorem log_pages_partition:
  assumes "healthy db" "0 < n" "f_limit f = int n"
    and "length (filter (user_log_matches f) (call_logs db)) \<le> m * n"
  shows "\<exists>pg. (\<forall>k < m. QueryCallLogs (f\<lparr>f_page := int k + 1\<rparr>) db = (Ok (pg k), db) \<and>
      pg_total (pg k) = length (filter (user_log_matches f) (call_logs db))) \<and>
    map cl_id (concat (map (\<lambda>k. pg_data (pg k)) [0..<m]))
      = map cl_id (newest_first (filter (user_log_matches f) (call_logs db)))"
proof -
  let ?ls = "filter (user_log_matches f) (call_logs db)"
  have mt: "user_log_matches (f\<lparr>f_page := p\<rparr>) = user_log_matches f" for p
    by (simp add: fun_eq_iff user_log_matches_def)
  define pg where "pg k = \<lparr>pg_data = map (\<lambda>l. l\<lparr>cl_raw_total_tokens := 0, cl_username := []\<rparr>)
      (page_of (int k + 1) (int n) (newest_first ?ls)), pg_page = int k + 1, pg_limit = int n,
      pg_total = length ?ls\<rparr>" for k
  have "QueryCallLogs (f\<lparr>f_page := int k + 1\<rparr>) db = (Ok (pg k), db)" for k
    using assms(1-3)
    by (simp add: QueryCallLogs_def Let_def and_then_def sql_query_healthy mt pg_def)
  moreover have "map cl_id (concat (map (\<lambda>k. pg_data (pg k)) [0..<m]))
      = map cl_id (concat (map (\<lambda>k. page_of (int k + 1) (int n) (newest_first ?ls)) [0..<m]))"
    by (simp add: map_concat o_def pg_def)
  moreover have "\<dots> = map cl_id (newest_first ?ls)"
    using assms(4) by (simp add: concat_pages [OF assms(2)] newest_first_def)
  moreover have "pg_total (pg k) = length ?ls" for k by (simp add: pg_def)
  ultimately show ?thesis by (intro exI [of _ pg]) simp
qed

definition sample_log :: "int \<Rightarrow> CallLog" where
  "sample_log i = \<lparr>cl_id = i, cl_user_id = 1, cl_username = '''', cl_model = ''glm-4'',
     cl_provider_id = ''zhipu'', cl_prompt_tokens = 1, cl_completion_tokens = 2, cl_total_tokens = 3,
     cl_raw_total_tokens = 3, cl_effective_calls = 1, cl_multiplier_used = 1, cl_status_code = 200,
     cl_latency_ms = 5, cl_error_msg = '''', cl_created_at = ''2026-07-01T00:00:00+08:00''\<rparr>"

definition sample_filter :: CallLogFilter where
  "sample_filter = \<lparr>f_user_id = 1, f_provider_id = '''', f_model = '''', f_from = '''', f_to = '''',
     f_page = 1, f_limit = 2\<rparr>"

lemma log_pages_partition_witness:
  "\<exists>pg. QueryCallLogs (sample_filter\<lparr>f_page := 2\<rparr>)
      (empty_db\<lparr>call_logs := [sample_log 1, sample_log 2, sample_log 3]\<rparr>)
    = (Ok pg, empty_db\<lparr>call_logs := [sample_log 1, sample_log 2, sample_log 3]\<rparr>) \<and> pg_total pg = 3"
proof -
  let ?db = "empty_db\<lparr>call_logs := [sample_log 1, sample_log 2, sample_log 3]\<rparr>"
  have f: "filter (user_log_matches sample_filter) (call_logs ?db) = call_logs ?db"
    by (simp add: user_log_matches_def sample_filter_def sample_log_def)
  have "healthy ?db" "f_limit sample_filter = int 2"
    by (simp_all add: empty_db_def sample_filter_def)
  moreover have "length (filter (user_log_matches sample_filter) (call_logs ?db)) \<le> 2 * 2"
    unfolding f by simp
  ultimately obtain pg where "\<forall>k < (2::nat). QueryCallLogs (sample_filter\<lparr>f_page := int k + 1\<rparr>) ?db
      = (Ok (pg k), ?db) \<and> pg_total (pg k) = length (filter (user_log_matches sample_filter) (call_logs ?db))"
    using log_pages_partition [of ?db 2 sample_filter 2] by auto
  from this [rule_format, of 1] show ?thesis unfolding f by auto
qed

end
