(* ===== verification/QuotaEngine.thy ===== *)
theory QuotaEngine
  imports QuotaHistory SessionModel
begin

text \<open>
  \<open>internal/quota\<close>: the time-based multiplier rules, the checker in front of the gate, the manager
  of streaming requests and the scheduler of the 5h window.
\<close>

section \<open>multiplier.go\<close>

abbreviation with_tm_id :: "int \<Rightarrow> TimeMultiplier \<Rightarrow> bool" where
  "with_tm_id i \<equiv> (\<lambda>r. tm_id r = i)"

definition FindAllEnabled :: "TimeMultiplier list op" where
  "FindAllEnabled = sql_query ''find enabled multipliers''
     (\<lambda>db. sort_key tm_id (filter tm_enabled (time_multipliers db)))"

definition FindAll :: "TimeMultiplier list op" where
  "FindAll = sql_query ''find multipliers'' (\<lambda>db. sort_key tm_id (time_multipliers db))"

text \<open>The loop over the rules: the largest multiplier of the rules whose day and window match.\<close>

definition rule_hits :: "gotime \<Rightarrow> TimeMultiplier \<Rightarrow> bool" where
  "rule_hits now r \<longleftrightarrow> MatchDay (tm_days_of_week r) now \<and>
     IsInRange (tm_start_time r) (tm_end_time r) now"

fun max_multiplier :: "gotime \<Rightarrow> TimeMultiplier list \<Rightarrow> float64 \<Rightarrow> float64" where
  "max_multiplier now [] m = m"
| "max_multiplier now (r # rs) m =
     (if \<not> MatchDay (tm_days_of_week r) now then max_multiplier now rs m
      else let inRange = IsInRange (tm_start_time r) (tm_end_time r) now
           in if inRange \<and> m < tm_multiplier r then max_multiplier now rs (tm_multiplier r)
              else max_multiplier now rs m)"

definition GetEffectiveMultiplier :: "gotime \<Rightarrow> db \<Rightarrow> float64 \<times> db" where
  "GetEffectiveMultiplier now0 db =
     (let now = t_in shanghai_off now0 in
      case FindAllEnabled db of
        (Inl _, db1) \<Rightarrow> (1, db1)
      | (Inr rules, db1) \<Rightarrow> (max_multiplier now rules 1, db1))"

definition CreateMultiplierRule ::
  "gotime \<Rightarrow> string \<Rightarrow> string \<Rightarrow> float64 \<Rightarrow> string \<Rightarrow> TimeMultiplier op" where
  "CreateMultiplierRule now startTime endTime multiplier daysOfWeek =
     (let mk = (\<lambda>i. \<lparr>tm_id = i, tm_start_time = startTime, tm_end_time = endTime,
            tm_multiplier = multiplier, tm_days_of_week = daysOfWeek, tm_enabled = True,
            tm_created_at = fmt_rfc3339 now\<rparr>)
      in run_stmt '''' (\<lambda>_. None)
           (\<lambda>db. mk (time_multipliers_seq db + 1))
           (\<lambda>db. db\<lparr>time_multipliers := insert_row (mk (time_multipliers_seq db + 1)) (time_multipliers db),
                    time_multipliers_seq := time_multipliers_seq db + 1\<rparr>))"

text \<open>The map of updates, with the keys and value types its caller fills; an absent key is \<open>None\<close>.\<close>

record tm_updates =
  tmu_start_time :: "string option"
  tmu_end_time :: "string option"
  tmu_multiplier :: "float64 option"
  tmu_days_of_week :: "string option"
  tmu_enabled :: "int option"

definition tm_set :: "tm_updates \<Rightarrow> TimeMultiplier \<Rightarrow> TimeMultiplier" where
  "tm_set u r =
     set_opt (tmu_enabled u) (\<lambda>v r. r\<lparr>tm_enabled := (v = 1)\<rparr>)
      (set_opt (tmu_days_of_week u) (\<lambda>v r. r\<lparr>tm_days_of_week := v\<rparr>)
        (set_opt (tmu_multiplier u) (\<lambda>v r. r\<lparr>tm_multiplier := v\<rparr>)
          (set_opt (tmu_end_time u) (\<lambda>v r. r\<lparr>tm_end_time := v\<rparr>)
            (set_opt (tmu_start_time u) (\<lambda>v r. r\<lparr>tm_start_time := v\<rparr>) r))))"

definition tm_no_updates :: "tm_updates \<Rightarrow> bool" where
  "tm_no_updates u \<longleftrightarrow> tmu_start_time u = None \<and> tmu_end_time u = None \<and> tmu_multiplier u = None \<and>
     tmu_days_of_week u = None \<and> tmu_enabled u = None"

definition UpdateMultiplierRule :: "int \<Rightarrow> tm_updates \<Rightarrow> unit op" where
  "UpdateMultiplierRule i u =
     (if tm_no_updates u then (\<lambda>db. (Ok (), db))
      else sql_exec '''' (\<lambda>db. db\<lparr>time_multipliers :=
             update_where (with_tm_id i) (tm_set u) (time_multipliers db)\<rparr>))"

definition DeleteMultiplierRule :: "int \<Rightarrow> unit op" where
  "DeleteMultiplierRule i = sql_exec ''''
     (\<lambda>db. db\<lparr>time_multipliers := delete_where (with_tm_id i) (time_multipliers db)\<rparr>)"

definition GetMultiplierByID :: "int \<Rightarrow> TimeMultiplier option op" where
  "GetMultiplierByID i = sql_query '''' (\<lambda>db. select_one (with_tm_id i) (time_multipliers db))"

section \<open>checker.go\<close>

definition CheckAndDeduct :: "gotime \<Rightarrow> int \<Rightarrow> int \<Rightarrow> bool op" where
  "CheckAndDeduct now userID effectiveCalls = AtomicDeductQuota now userID effectiveCalls"

definition GetEffectiveCalls :: "gotime \<Rightarrow> db \<Rightarrow> int \<times> db" where
  "GetEffectiveCalls now db =
     (let (multiplier, db1) = GetEffectiveMultiplier now db
      in (f_ceil_int (f_mul 1 multiplier), db1))"

definition GetCurrentMultiplier :: "gotime \<Rightarrow> db \<Rightarrow> float64 \<times> db" where
  "GetCurrentMultiplier now = GetEffectiveMultiplier now"

definition availability :: "Quota \<Rightarrow> int \<Rightarrow> bool" where
  "availability q effectiveCalls =
     (let remaining5h = q_5h_limit q - q_5h_used q;
          remainingTotal = q_total_limit q - q_total_used q;
          countOk = (q_5h_limit q = 0 \<or> effectiveCalls \<le> remaining5h) \<and>
                    (q_total_limit q = 0 \<or> effectiveCalls \<le> remainingTotal);
          tokenOk = (q_token_total_limit q = 0 \<or> q_token_total_used q < q_token_total_limit q) \<and>
                    (q_token_5h_limit q = 0 \<or> q_token_5h_used q < q_token_5h_limit q) \<and>
                    (q_token_week_limit q = 0 \<or> q_token_week_used q < q_token_week_limit q)
      in countOk \<and> tokenOk)"

definition CheckAvailability :: "int \<Rightarrow> int \<Rightarrow> (bool \<times> int \<times> int) op" where
  "CheckAvailability userID effectiveCalls =
     and_then (GetQuota userID)
       (\<lambda>quota db. case quota of
          None \<Rightarrow> (Ok (False, 0, 0), db)
        | Some q \<Rightarrow> (Ok (availability q effectiveCalls, q_5h_limit q - q_5h_used q,
                       q_total_limit q - q_total_used q), db))"

section \<open>manager.go\<close>

definition PreReserve :: "gotime \<Rightarrow> int \<Rightarrow> int \<Rightarrow> bool op" where
  "PreReserve now userID effectiveCalls = CheckAndDeduct now userID effectiveCalls"

definition ConfirmStream :: "int \<Rightarrow> int \<Rightarrow> unit op" where
  "ConfirmStream userID totalTokens = (\<lambda>db. (Ok (), db))"

section \<open>scheduler.go\<close>

text \<open>One tick; \<open>hour mod resetHours\<close> with a zero interval panics in Go.\<close>

definition tryReset :: "int \<Rightarrow> gotime \<Rightarrow> db \<Rightarrow> db" where
  "tryReset resetHours now db =
     (if go_mod (t_hour now) resetHours \<noteq> 0 \<or> t_minute now \<noteq> 0 then db
      else log_err (Reset5hQuota now resetHours) db)"

definition compensate :: "int \<Rightarrow> gotime \<Rightarrow> db \<Rightarrow> db" where
  "compensate resetHours now db = log_err (CompensateQuotaReset now resetHours) db"

text \<open>\<open>Start\<close>: one compensation, then a reset attempt at every tick of the 30 s ticker (the times of
  the ticks that arrive before \<open>Stop\<close>).\<close>

definition Start :: "int \<Rightarrow> gotime \<Rightarrow> gotime list \<Rightarrow> db \<Rightarrow> db" where
  "Start resetHours now ticks db = fold (tryReset resetHours) ticks (compensate resetHours now db)"

section \<open>Laws\<close>

definition tm_wf :: "TimeMultiplier list \<Rightarrow> bool" where
  "tm_wf rs \<longleftrightarrow> distinct (map tm_id rs)"

interpretation tm_tbl: keyed_table tm_id tm_wf
  by unfold_locales (simp add: tm_wf_def)

lemma tm_set_id [simp]: "tm_id (tm_set u r) = tm_id r"
  by (simp add: tm_set_def set_opt_def split: option.splits)

text \<open>The loop computes the maximum of its start value and the multipliers that hit.\<close>

lemma max_multiplier_step:
  "max_multiplier now (r # rs) m =
    max_multiplier now rs (if rule_hits now r then max m (tm_multiplier r) else m)"
  by (auto simp: rule_hits_def Let_def max_def)

lemma max_multiplier_max:
  "m \<le> max_multiplier now rs m \<and>
   (\<forall>r \<in> set rs. rule_hits now r \<longrightarrow> tm_multiplier r \<le> max_multiplier now rs m) \<and>
   (max_multiplier now rs m = m \<or>
    (\<exists>r \<in> set rs. rule_hits now r \<and> max_multiplier now rs m = tm_multiplier r))"
proof (induction rs arbitrary: m)
  case (Cons r rs)
  let ?m = "if rule_hits now r then max m (tm_multiplier r) else m"
  show ?case
    using Cons.IH [of ?m] unfolding max_multiplier_step
    by (cases "rule_hits now r") (auto simp: max_def split: if_splits)
qed simp

lemma multiplier_healthy:
  "healthy db \<Longrightarrow> GetEffectiveMultiplier now db =
    (max_multiplier (t_in shanghai_off now) (sort_key tm_id (filter tm_enabled (time_multipliers db))) 1, db)"
  by (simp add: GetEffectiveMultiplier_def FindAllEnabled_def sql_query_healthy)

lemma log_err_quota_steps:
  assumes "\<And>r db'. m db = (r, db') \<Longrightarrow> quota_step P Q db db'"
  shows "quota_step P Q db (log_err m db)"
  using assms [of "fst (m db)" "snd (m db)"] by (simp add: log_err_def)

lemma tryReset_steps: "(quota_step P Q)\<^sup>*\<^sup>* db (tryReset h now db)"
proof (cases "go_mod (t_hour now) h \<noteq> 0 \<or> t_minute now \<noteq> 0")
  case True
  then show ?thesis by (auto simp: tryReset_def)
next
  case False
  have "quota_step P Q db (log_err (Reset5hQuota now h) db)"
    by (rule log_err_quota_steps) (rule quota_step.reset_5h)
  then show ?thesis using False by (auto simp: tryReset_def)
qed

lemma Start_steps: "(quota_step P Q)\<^sup>*\<^sup>* db (Start h now ticks db)"
proof -
  have f: "(quota_step P Q)\<^sup>*\<^sup>* d (fold (tryReset h) ticks d)" for d
    by (induction ticks arbitrary: d)
      (auto intro: rtranclp_trans [OF tryReset_steps])
  have "quota_step P Q db (compensate h now db)"
    unfolding compensate_def by (rule log_err_quota_steps) (rule quota_step.compensate)
  then show ?thesis
    unfolding Start_def by (meson converse_rtranclp_into_rtranclp f)
qed

end
