(* ===== verification/EngineProperties.thy ===== *)
theory EngineProperties
  imports QuotaEngine
begin

text \<open>
  Properties of the time windows, the multiplier engine, the availability preview and the scheduler:
  \<open>internal/timeutil\<close>, \<open>internal/models/expiry.go\<close> and \<open>internal/quota\<close>.
\<close>

section \<open>Windows and texts of times\<close>

text \<open>
  Property C24.  The textual comparison of \<open>IsInRange\<close> is interval membership of the minute of the
  Shanghai day: for windows given as \<open>HH:MM\<close> it accepts \<open>[start, end)\<close>, wraps over midnight when the
  start lies after the end, and a window and the same window with its ends exchanged split the day.
\<close>

theorem windows_are_minute_intervals:
  assumes "0 \<le> s" "s < 1440" "0 \<le> e" "e < 1440"
  shows "(IsInRange (hhmm s) (hhmm e) now \<longleftrightarrow>
      (if s \<le> e then minute_of_day now \<in> {s..<e} else minute_of_day now \<notin> {e..<s})) \<and>
    (s \<noteq> e \<longrightarrow> IsInRange (hhmm e) (hhmm s) now = (\<not> IsInRange (hhmm s) (hhmm e) now))"
proof -
  have "hhmm s \<noteq> hhmm e" if "s \<noteq> e"
    using hhmm_less [OF assms] hhmm_less [OF assms(3,4,1,2)] that by (metis linorder_neq_iff)
  then show ?thesis
    using IsInRange_complement [of "hhmm s" "hhmm e" now] by (auto simp: IsInRange_minutes assms)
qed

text \<open>23:30 in Shanghai on 2026-07-01.\<close>

definition late :: gotime where
  "late = \<lparr>instant = (1782864000 + 15 * 3600 + 1800) * sec_ns, zone = 0\<rparr>"

lemma windows_are_minute_intervals_witness:
  "IsInRange ''22:00'' ''06:00'' late \<and> \<not> IsInRange ''06:00'' ''22:00'' late"
proof -
  have h: "hhmm 1320 = ''22:00''" "hhmm 360 = ''06:00''" and m: "minute_of_day late = 1410"
    by code_simp+
  show ?thesis using windows_are_minute_intervals [of 1320 360 late] by (simp add: h m)
qed

text \<open>
  Property C25.  An accepted expiry means the same after it is stored: the normalised text parses
  back to the instant the input denotes, to the second and in Shanghai, and normalising again
  changes nothing.
\<close>

theorem normalised_expiry_keeps_its_instant:
  assumes "NormalizeExpiry s = Ok v" "v \<noteq> ''''" "\<forall>t. expiry_time s = Some t \<longrightarrow> fmt_range t"
  shows "(\<exists>t. expiry_time s = Some t \<and> ParseExpiry v = Some (trunc_sec t)) \<and> NormalizeExpiry v = Ok v"
  using NormalizeExpiry_fmt [OF assms(1,2)] NormalizeExpiry_parses [OF assms] by auto

lemma normalised_expiry_keeps_its_instant_witness:
  "ParseExpiry ''2026-07-02T23:59:59+08:00'' \<noteq> None \<and>
   NormalizeExpiry ''2026-07-02T23:59:59+08:00'' = Ok ''2026-07-02T23:59:59+08:00''"
proof -
  have a: "NormalizeExpiry '' 2026-07-02 '' = Ok ''2026-07-02T23:59:59+08:00''" by code_simp
  have "case expiry_time '' 2026-07-02 '' of Some t \<Rightarrow> fmt_range t | None \<Rightarrow> False" by code_simp
  then have "\<forall>t. expiry_time '' 2026-07-02 '' = Some t \<longrightarrow> fmt_range t" by auto
  from normalised_expiry_keeps_its_instant [OF a _ this] show ?thesis by auto
qed

text \<open>
  Filtering call logs by text compares instants: for a boundary given as RFC3339 in any
  zone, the normalised boundary is at most the stored stamp of a call exactly when its instant, to
  the second, is not after the call.
\<close>

theorem log_boundaries_compare_instants:
  assumes "parse_rfc3339 s = Some t" "fmt_range (t_in shanghai_off t)" "fmt_range (t_in shanghai_off n)"
    and "s \<noteq> ''''"
  shows "(NormalizeToShanghaiRFC3339 s \<le> fmt_rfc3339 (t_in shanghai_off n) \<longleftrightarrow>
      instant t div sec_ns \<le> instant n div sec_ns) \<and>
    (fmt_rfc3339 (t_in shanghai_off n) \<le> NormalizeToShanghaiRFC3339 s \<longleftrightarrow>
      instant n div sec_ns \<le> instant t div sec_ns)"
  using fmt_rfc3339_less [OF assms(2,3)] fmt_rfc3339_less [OF assms(3,2)] assms(1,4)
  by (simp add: NormalizeToShanghaiRFC3339_def not_less [symmetric])

lemma log_boundaries_compare_instants_witness:
  "NormalizeToShanghaiRFC3339 ''2026-07-01T15:00:00Z'' \<le> fmt_rfc3339 (t_in shanghai_off late)"
proof -
  define t where "t = \<lparr>instant = (1782864000 + 15 * 3600) * sec_ns, zone = 0\<rparr>"
  have p: "parse_rfc3339 ''2026-07-01T15:00:00Z'' = Some t" unfolding t_def by code_simp
  have r: "fmt_range (t_in shanghai_off t)" "fmt_range (t_in shanghai_off late)"
    unfolding t_def by code_simp+
  have i: "instant t div sec_ns \<le> instant late div sec_ns" unfolding t_def by code_simp
  show ?thesis using log_boundaries_compare_instants [OF p r] i by simp
qed

section \<open>The multiplier\<close>

lemma rule_hits_shanghai [simp]: "rule_hits (t_in shanghai_off now) r = rule_hits now r"
  by (simp add: rule_hits_def MatchDay_def IsInRange_def)

text \<open>
  The multiplier in force is the largest one among the enabled rules whose day and
  window cover the moment, and never less than one, in whatever order the rules were created.
\<close>

theorem multiplier_is_largest_hit:
  assumes "healthy db"
  shows "GetEffectiveMultiplier now db =
    (Max (insert 1 (tm_multiplier ` {r \<in> set (time_multipliers db). tm_enabled r \<and> rule_hits now r})), db)"
proof -
  let ?rs = "sort_key tm_id (filter tm_enabled (time_multipliers db))"
  let ?S = "insert 1 (tm_multiplier ` {r \<in> set (time_multipliers db). tm_enabled r \<and> rule_hits now r})"
  let ?m = "max_multiplier (t_in shanghai_off now) ?rs 1"
  have "\<forall>x \<in> ?S. x \<le> ?m" "?m \<in> ?S"
    using max_multiplier_max [of 1 "t_in shanghai_off now" ?rs] by auto
  then have "Max ?S = ?m" by (intro Max_eqI) auto
  then show ?thesis by (simp add: multiplier_healthy [OF assms])
qed

definition sample_rules :: db where
  "sample_rules = empty_db\<lparr>time_multipliers :=
     [\<lparr>tm_id = 1, tm_start_time = ''22:00'', tm_end_time = ''06:00'', tm_multiplier = 2,
       tm_days_of_week = ''*'', tm_enabled = True, tm_created_at = ''''\<rparr>,
      \<lparr>tm_id = 2, tm_start_time = ''00:00'', tm_end_time = ''23:59'', tm_multiplier = 3 / 2,
       tm_days_of_week = ''*'', tm_enabled = True, tm_created_at = ''''\<rparr>]\<rparr>"

lemma multiplier_is_largest_hit_witness: "fst (GetEffectiveMultiplier late sample_rules) = 2"
proof -
  have h: "healthy sample_rules" by (simp add: sample_rules_def empty_db_def)
  have r: "\<forall>r \<in> set (time_multipliers sample_rules). tm_enabled r \<and> rule_hits late r" by code_simp
  then have "{r \<in> set (time_multipliers sample_rules). tm_enabled r \<and> rule_hits late r} =
      set (time_multipliers sample_rules)"
    by auto
  then show ?thesis
    using multiplier_is_largest_hit [OF h, of late] by (simp add: sample_rules_def)
qed

section \<open>The preview of the gate\<close>

text \<open>Nothing is due for a lazy reset.\<close>

definition no_reset_due :: "gotime \<Rightarrow> quota_row \<Rightarrow> bool" where
  "no_reset_due now r \<longleftrightarrow> q_week_cycle_start r = gate_cycle (q_week_start r) now \<and>
     \<not> q_month_start r < month_cutoff now"

text \<open>
  Property C23.  The availability check never promises more than the gate grants.  For a user with
  non-negative counters it answers with what is left of both call caps and changes nothing; when it
  says yes, deducting the calls at the same moment succeeds; and it says the same as the deduction
  whenever no lazy reset of the weekly or the monthly bucket is due, so a no before a reset is the
  only way in which the two differ.
\<close>

theorem availability_is_a_safe_preview:
  assumes "healthy db" "quotas_wf (quotas db)" "quota_of db uid = Some r" "counters_nonneg r"
  shows "\<exists>yes granted. CheckAvailability uid calls db =
      (Ok (yes, q_5h_limit r - q_5h_used r, q_total_limit r - q_total_used r), db) \<and>
    fst (AtomicDeductQuota now uid calls db) = Ok granted \<and>
    (yes \<longrightarrow> granted) \<and> (no_reset_due now r \<longrightarrow> yes = granted)"
proof -
  let ?c = "gate_cycle (q_week_start r) now" and ?m = "month_cutoff now"
  have "CheckAvailability uid calls db = (Ok (availability (quota_of_row r) calls,
      q_5h_limit r - q_5h_used r, q_total_limit r - q_total_used r), db)"
    using assms(1,3)
    by (simp add: CheckAvailability_def and_then_def GetQuota_def sql_query_healthy quota_of_def
        quota_of_row_def Quota.defs)
  moreover have "fst (AtomicDeductQuota now uid calls db) = Ok (deduct_guard calls ?c ?m r)"
    by (simp add: deduct_run [OF assms(1-3)])
  moreover have "availability (quota_of_row r) calls \<longrightarrow> deduct_guard calls ?c ?m r"
    "no_reset_due now r \<longrightarrow> availability (quota_of_row r) calls = deduct_guard calls ?c ?m r"
    using assms(4)
    by (auto simp: availability_def quota_of_row_def Quota.defs deduct_guard_def week_used_in_def
        month_used_at_def no_reset_due_def counters_nonneg_def Let_def)
  ultimately show ?thesis by blast
qed

definition busy_row :: quota_row where
  "busy_row = \<lparr>q_id = 1, q_user_id = 7, q_5h_limit = 3, q_5h_used = 2, q_total_limit = 0,
     q_total_used = 40, q_token_total_limit = 0, q_token_total_used = 900, q_token_5h_limit = 0,
     q_token_5h_used = 900, q_token_week_limit = 1000, q_token_week_used = 900,
     q_week_start = ''2026-07-01T00:00:00Z'', q_month_start = ''2026-07-01T00:00:00Z'',
     q_window_start = '''', q_updated_at = '''', q_fixed_multiplier = None,
     q_week_cycle_start = ''2026-07-01T00:00:00Z''\<rparr>"

lemma availability_is_a_safe_preview_witness:
  "\<exists>l t. CheckAvailability 7 1 (empty_db\<lparr>quotas := [busy_row]\<rparr>) = (Ok (True, l, t), empty_db\<lparr>quotas := [busy_row]\<rparr>) \<and>
     fst (AtomicDeductQuota late 7 1 (empty_db\<lparr>quotas := [busy_row]\<rparr>)) = Ok True"
proof -
  let ?db = "empty_db\<lparr>quotas := [busy_row]\<rparr>"
  have ok: "healthy ?db" "quotas_wf (quotas ?db)" "quota_of ?db 7 = Some busy_row" "counters_nonneg busy_row"
    by (simp_all add: empty_db_def quotas_wf_def quota_of_def counters_nonneg_def busy_row_def)
  have "fst (CheckAvailability 7 1 ?db) = Ok (True, 1, -40)"
    using ok(1) by (simp add: CheckAvailability_def and_then_def GetQuota_def sql_query_healthy
        availability_def quota_of_row_def Quota.defs busy_row_def)
  then show ?thesis using availability_is_a_safe_preview [OF ok, of 1 late] by auto
qed

section \<open>The scheduler\<close>

text \<open>What the periodic resets leave alone: everything but the window columns.\<close>

definition beyond_window :: "quota_row \<Rightarrow> quota_row" where
  "beyond_window r = r\<lparr>q_5h_used := 0, q_token_5h_used := 0, q_window_start := '''', q_updated_at := ''''\<rparr>"

lemma beyond_reset [simp]: "beyond_window (reset5h_set s n r) = beyond_window r"
  by (simp add: beyond_window_def reset5h_set_def)

lemma beyond_exec:
  assumes "exec_quotas c P (reset5h_set s n) db = (x, db')"
  shows "map beyond_window (quotas db') = map beyond_window (quotas db)"
  using assms unfolding exec_quotas_def
  by (cases rule: sql_exec_cases)
    (auto simp: set_quotas_def update_where_def same_tables_select)

lemma beyond_log [simp]:
  "map beyond_window (quotas (log_err (exec_quotas c P (reset5h_set s n)) db)) = map beyond_window (quotas db)"
  unfolding log_err_def by (rule beyond_exec) (rule prod.collapse [symmetric])

lemma beyond_tick [simp]: "map beyond_window (quotas (tryReset h now db)) = map beyond_window (quotas db)"
  by (simp add: tryReset_def Reset5hQuota_def)

lemma tick_boundary:
  assumes "healthy db"
  shows "tryReset h now db = (if go_mod (t_hour now) h = 0 \<and> t_minute now = 0
    then set_quotas (\<lambda>_. True) (reset5h_set (fmt_rfc3339 (window_start h now)) (fmt_rfc3339 now)) db else db)"
  using assms by (simp add: tryReset_def log_err_def Reset5hQuota_def exec_quotas_def sql_exec_healthy)

definition windows_empty :: "db \<Rightarrow> bool" where
  "windows_empty db \<longleftrightarrow> (\<forall>r \<in> set (quotas db). q_5h_used r = 0 \<and> q_token_5h_used r = 0)"

lemma tick_facts:
  assumes "healthy db"
  shows "healthy (tryReset h t db)"
    and "windows_empty db \<Longrightarrow> windows_empty (tryReset h t db)"
    and "go_mod (t_hour t) h = 0 \<Longrightarrow> t_minute t = 0 \<Longrightarrow> windows_empty (tryReset h t db)"
  using assms
  by (auto simp: tick_boundary windows_empty_def set_quotas_def set_update_where reset5h_set_def)

lemma healthy_ticks: "healthy db \<Longrightarrow> healthy (fold (tryReset h) ticks db)"
  by (induction ticks arbitrary: db) (simp_all add: tick_facts(1))

lemma window_zero_ticks:
  "healthy db \<Longrightarrow> windows_empty db \<Longrightarrow> windows_empty (fold (tryReset h) ticks db)"
  by (induction ticks arbitrary: db) (simp_all add: tick_facts)

text \<open>
  Property C22.  The scheduler empties the five-hour window and nothing else: whatever the ticks and
  the failures, only the window columns of a row change; and when the database answers, any tick at
  a window boundary leaves every five-hour counter at zero.
\<close>

theorem scheduler_only_empties_windows:
  shows "map beyond_window (quotas (Start h now ticks db)) = map beyond_window (quotas db) \<and>
    (healthy db \<and> (\<exists>t \<in> set ticks. go_mod (t_hour t) h = 0 \<and> t_minute t = 0) \<longrightarrow>
      windows_empty (Start h now ticks db))"
proof (intro conjI impI)
  have "map beyond_window (quotas (fold (tryReset h) ticks d)) = map beyond_window (quotas d)" for d
    by (induction ticks arbitrary: d) simp_all
  then show "map beyond_window (quotas (Start h now ticks db)) = map beyond_window (quotas db)"
    by (simp add: Start_def compensate_def CompensateQuotaReset_def)
next
  assume a: "healthy db \<and> (\<exists>t \<in> set ticks. go_mod (t_hour t) h = 0 \<and> t_minute t = 0)"
  then obtain xs t ys where ts: "ticks = xs @ t # ys" "go_mod (t_hour t) h = 0" "t_minute t = 0"
    by (metis split_list)
  let ?c = "compensate h now db"
  have "healthy ?c"
    using a by (simp add: compensate_def log_err_def CompensateQuotaReset_def exec_quotas_def
        sql_exec_healthy set_quotas_def)
  then have h: "healthy (fold (tryReset h) xs ?c)" by (rule healthy_ticks)
  from tick_facts(1,3) [OF h] ts window_zero_ticks
  show "windows_empty (Start h now ticks db)" by (simp add: Start_def)
qed

definition midnight :: gotime where
  "midnight = \<lparr>instant = 1782864000 * sec_ns, zone = 0\<rparr>"

lemma scheduler_only_empties_windows_witness:
  "windows_empty (Start 5 late [late, midnight] (empty_db\<lparr>quotas := [busy_row]\<rparr>))"
proof -
  have h: "healthy (empty_db\<lparr>quotas := [busy_row]\<rparr>)" by (simp add: empty_db_def)
  have t: "go_mod (t_hour midnight) 5 = 0 \<and> t_minute midnight = 0" by code_simp
  show ?thesis
    by (rule scheduler_only_empties_windows [THEN conjunct2, rule_format]) (use h t in simp)
qed

end
