(* ===== verification/JsonText.thy ===== *)
theory JsonText
  imports Security
begin

text \<open>
  The JSON text of a \<open>map[string]string\<close> column: what \<open>json.Marshal\<close> writes (keys sorted, HTML
  characters escaped) and what \<open>json.Unmarshal\<close> reads back into such a map.  Strings are bytes of
  valid UTF-8; bytes from 128 on pass through both ways (the line separators U+2028 and U+2029,
  which \<open>Marshal\<close> escapes, do not occur in header values).  The fuel of the parser is the length of
  the text, since every call consumes a character.
\<close>

section \<open>Marshal\<close>

definition unicode_esc :: "char \<Rightarrow> string" where
  "unicode_esc c = (let n = of_char c :: nat in
     CHR 0x5C # ''u00'' @ [hex_digit (n div 16), hex_digit (n mod 16)])"

definition json_char :: "char \<Rightarrow> string" where
  "json_char c = (let n = of_char c :: nat in
     if n = 34 then [CHR 0x5C, CHR 0x22]
     else if n = 92 then [CHR 0x5C, CHR 0x5C]
     else if n = 8 then [CHR 0x5C, CHR ''b'']
     else if n = 12 then [CHR 0x5C, CHR ''f'']
     else if n = 10 then [CHR 0x5C, CHR ''n'']
     else if n = 13 then [CHR 0x5C, CHR ''r'']
     else if n = 9 then [CHR 0x5C, CHR ''t'']
     else if n < 32 \<or> n = 60 \<or> n = 62 \<or> n = 38 then unicode_esc c
     else [c])"

definition json_quote :: "string \<Rightarrow> string" where
  "json_quote s = CHR 0x22 # concat (map json_char s) @ [CHR 0x22]"

definition json_members :: "(string \<times> string) list \<Rightarrow> string" where
  "json_members kvs = str_join (map (\<lambda>(k, v). json_quote k @ '':'' @ json_quote v) kvs) '',''"

text \<open>\<open>None\<close> is the nil map.\<close>

definition marshal_headers :: "(string, string) gomap option \<Rightarrow> string" where
  "marshal_headers m = (case m of
     None \<Rightarrow> ''null''
   | Some kvs \<Rightarrow> ''{'' @ json_members (sort_key fst kvs) @ ''}'')"

section \<open>Unmarshal\<close>

datatype jv = JvNull | JvBool bool | JvNum string | JvStr string
  | JvArr "jv list" | JvObj "(string \<times> jv) list"

definition is_ws :: "char \<Rightarrow> bool" where
  "is_ws c \<longleftrightarrow> (let n = of_char c :: nat in n = 32 \<or> n = 9 \<or> n = 10 \<or> n = 13)"

definition skip_ws :: "string \<Rightarrow> string" where
  "skip_ws s = dropWhile is_ws s"

definition hex_val :: "char \<Rightarrow> nat option" where
  "hex_val c = (let n = of_char c :: nat in
     if 48 \<le> n \<and> n \<le> 57 then Some (n - 48)
     else if 97 \<le> n \<and> n \<le> 102 then Some (n - 87)
     else if 65 \<le> n \<and> n \<le> 70 then Some (n - 55) else None)"

definition utf8 :: "nat \<Rightarrow> string" where
  "utf8 n =
     (if n < 128 then [char_of n]
      else if n < 2048 then [char_of (192 + n div 64), char_of (128 + n mod 64)]
      else if n < 65536 then [char_of (224 + n div 4096), char_of (128 + n div 64 mod 64),
        char_of (128 + n mod 64)]
      else [char_of (240 + n div 262144), char_of (128 + n div 4096 mod 64),
        char_of (128 + n div 64 mod 64), char_of (128 + n mod 64)])"

fun hex4 :: "string \<Rightarrow> (nat \<times> string) option" where
  "hex4 (a # b # c # d # r) = (case (hex_val a, hex_val b, hex_val c, hex_val d) of
     (Some w, Some x, Some y, Some z) \<Rightarrow> Some (w * 4096 + x * 256 + y * 16 + z, r)
   | _ \<Rightarrow> None)"
| "hex4 _ = None"

text \<open>After the backslash and the \<open>u\<close>: a lone surrogate becomes U+FFFD.\<close>

definition unicode_unesc :: "string \<Rightarrow> (string \<times> string) option" where
  "unicode_unesc s = (case hex4 s of
     None \<Rightarrow> None
   | Some (n, r) \<Rightarrow>
       if n < 55296 \<or> 57343 < n then Some (utf8 n, r)
       else case r of
         b # u # r' \<Rightarrow>
           (if n < 56320 \<and> b = CHR 0x5C \<and> u = CHR ''u'' then
              (case hex4 r' of
                 Some (m, r'') \<Rightarrow>
                   if 56320 \<le> m \<and> m \<le> 57343
                   then Some (utf8 (65536 + (n - 55296) * 1024 + (m - 56320)), r'')
                   else Some (utf8 65533, r)
               | None \<Rightarrow> Some (utf8 65533, r))
            else Some (utf8 65533, r))
       | _ \<Rightarrow> Some (utf8 65533, r))"

definition simple_unesc :: "char \<Rightarrow> char option" where
  "simple_unesc e = (let n = of_char e :: nat in
     if n = 34 \<or> n = 92 \<or> n = 47 then Some e
     else if n = 98 then Some (char_of (8 :: nat)) else if n = 102 then Some (char_of (12 :: nat))
     else if n = 110 then Some (char_of (10 :: nat)) else if n = 114 then Some (char_of (13 :: nat))
     else if n = 116 then Some (char_of (9 :: nat)) else None)"

text \<open>The rest of a string literal after its opening quote.\<close>

fun parse_str :: "nat \<Rightarrow> string \<Rightarrow> (string \<times> string) option" where
  "parse_str 0 s = None"
| "parse_str (Suc f) [] = None"
| "parse_str (Suc f) (c # s) =
     (if c = CHR 0x22 then Some ([], s)
      else if c = CHR 0x5C then
        (case s of
           [] \<Rightarrow> None
         | e # s' \<Rightarrow>
             if e = CHR ''u'' then
               (case unicode_unesc s' of
                  None \<Rightarrow> None
                | Some (u, s'') \<Rightarrow> map_option (\<lambda>(t, r). (u @ t, r)) (parse_str f s''))
             else (case simple_unesc e of
                  None \<Rightarrow> None
                | Some u \<Rightarrow> map_option (\<lambda>(t, r). (u # t, r)) (parse_str f s')))
      else if (of_char c :: nat) < 32 then None
      else map_option (\<lambda>(t, r). (c # t, r)) (parse_str f s))"

text \<open>Number literals: an optional minus, an integer part without a leading zero, an optional
  fraction and an optional exponent.\<close>

definition take_digit_run :: "string \<Rightarrow> string \<times> string" where
  "take_digit_run s = (takeWhile is_digit s, dropWhile is_digit s)"

definition parse_num :: "string \<Rightarrow> (string \<times> string) option" where
  "parse_num s =
     (let s1 = (if has_prefix s ''-'' then drop 1 s else s);
          (ip, s2) = take_digit_run s1
      in if ip = [] \<or> (length ip > 1 \<and> hd ip = CHR ''0'') then None
         else
           let frac = (if has_prefix s2 ''.'' then take_digit_run (drop 1 s2) else ([CHR ''0''], s2));
               s3 = snd frac;
               has_exp = (has_prefix s3 ''e'' \<or> has_prefix s3 ''E'');
               s4 = drop 1 s3;
               s5 = (if has_prefix s4 ''+'' \<or> has_prefix s4 ''-'' then drop 1 s4 else s4);
               ex = (if has_exp then take_digit_run s5 else ([CHR ''0''], s3))
           in if fst frac = [] \<or> fst ex = [] then None
              else Some (take (length s - length (snd ex)) s, snd ex))"

fun parse_val :: "nat \<Rightarrow> string \<Rightarrow> (jv \<times> string) option"
  and parse_elems :: "nat \<Rightarrow> string \<Rightarrow> (jv list \<times> string) option"
  and parse_members :: "nat \<Rightarrow> string \<Rightarrow> ((string \<times> jv) list \<times> string) option"
where
  "parse_val 0 s = None"
| "parse_val (Suc f) s0 =
     (let s = skip_ws s0 in
      case s of [] \<Rightarrow> None
      | c # r \<Rightarrow>
          if c = CHR 0x22 then map_option (\<lambda>(t, r'). (JvStr t, r')) (parse_str (Suc (length r)) r)
          else if c = CHR ''{'' then
            (if has_prefix (skip_ws r) ''}'' then Some (JvObj [], drop 1 (skip_ws r))
             else map_option (\<lambda>(ms, r'). (JvObj ms, r')) (parse_members f r))
          else if c = CHR ''['' then
            (if has_prefix (skip_ws r) '']'' then Some (JvArr [], drop 1 (skip_ws r))
             else map_option (\<lambda>(vs, r'). (JvArr vs, r')) (parse_elems f r))
          else if has_prefix s ''null'' then Some (JvNull, drop 4 s)
          else if has_prefix s ''true'' then Some (JvBool True, drop 4 s)
          else if has_prefix s ''false'' then Some (JvBool False, drop 5 s)
          else map_option (\<lambda>(n, r'). (JvNum n, r')) (parse_num s))"
| "parse_elems 0 s = None"
| "parse_elems (Suc f) s =
     (case parse_val f s of
        None \<Rightarrow> None
      | Some (v, r0) \<Rightarrow>
          let r = skip_ws r0 in
          if has_prefix r '']'' then Some ([v], drop 1 r)
          else if has_prefix r '','' then
            map_option (\<lambda>(vs, r'). (v # vs, r')) (parse_elems f (drop 1 r))
          else None)"
| "parse_members 0 s = None"
| "parse_members (Suc f) s0 =
     (let s = skip_ws s0 in
      if \<not> has_prefix s [CHR 0x22] then None
      else case parse_str (length s) (drop 1 s) of
        None \<Rightarrow> None
      | Some (k, r0) \<Rightarrow>
          let r = skip_ws r0 in
          if \<not> has_prefix r '':'' then None
          else case parse_val f (drop 1 r) of
            None \<Rightarrow> None
          | Some (v, r1) \<Rightarrow>
              let r2 = skip_ws r1 in
              if has_prefix r2 ''}'' then Some ([(k, v)], drop 1 r2)
              else if has_prefix r2 '','' then
                map_option (\<lambda>(ms, r'). ((k, v) # ms, r')) (parse_members f (drop 1 r2))
              else None)"

definition parse_json :: "string \<Rightarrow> jv option" where
  "parse_json s = (case parse_val (Suc (length s)) s of
     Some (v, r) \<Rightarrow> if skip_ws r = [] then Some v else None
   | None \<Rightarrow> None)"

text \<open>Decoding an object into a \<open>map[string]string\<close>: a \<open>null\<close> member is the empty string, any other
  non-string member is an error.\<close>

fun put_members :: "(string \<times> jv) list \<Rightarrow> (string, string) gomap \<Rightarrow> (string, string) gomap option" where
  "put_members [] m = Some m"
| "put_members ((k, JvStr v) # ms) m = put_members ms (gm_put k v m)"
| "put_members ((k, JvNull) # ms) m = put_members ms (gm_put k [] m)"
| "put_members (_ # ms) m = None"

definition unmarshal_headers :: "string \<Rightarrow> (string, string) gomap option" where
  "unmarshal_headers s = (case parse_json s of
     Some JvNull \<Rightarrow> Some []
   | Some (JvObj ms) \<Rightarrow> put_members ms []
   | _ \<Rightarrow> None)"

section \<open>Round trip\<close>

text \<open>An escaped character reads back as itself.\<close>

lemma char_eqI: "(of_char c :: nat) = n \<Longrightarrow> c = char_of n"
  by auto

lemma hex_val_hex: "d < 16 \<Longrightarrow> hex_val (hex_digit d) = Some d"
  using of_char_hex [of d] by (cases "d < 10") (simp_all add: hex_val_def Let_def)

lemma hex_val_0: "hex_val (CHR ''0'') = Some 0"
  by code_simp

lemma unescape_unicode:
  assumes "(of_char c :: nat) < 128"
  shows "unicode_unesc (drop 2 (unicode_esc c) @ s) = Some ([c], s)"
proof -
  define n where "n = (of_char c :: nat)"
  have h: "hex_val (hex_digit (n div 16)) = Some (n div 16)"
    "hex_val (hex_digit (n mod 16)) = Some (n mod 16)"
    using assms by (simp_all add: n_def hex_val_hex)
  have e: "n div 16 * 16 + n mod 16 = n" by (rule div_mult_mod_eq)
  have "hex4 (CHR ''0'' # CHR ''0'' # hex_digit (n div 16) # hex_digit (n mod 16) # s) = Some (n, s)"
    by (simp add: h hex_val_0 e)
  then show ?thesis
    using assms
    by (simp add: unicode_esc_def n_def [symmetric] unicode_unesc_def utf8_def Let_def numeral_2_eq_2)
      (simp add: n_def)
qed

lemma char_22_5c: "char_of (34 :: nat) = CHR 0x22" "char_of (92 :: nat) = CHR 0x5C"
  by code_simp+

lemma parse_str_char:
  "parse_str (Suc f) (json_char c @ s) = map_option (\<lambda>(t, r). (c # t, r)) (parse_str f s)"
proof -
  define n where "n = (of_char c :: nat)"
  have c: "c = char_of n" by (simp add: n_def)
  consider "n = 34" | "n = 92" | "n = 8" | "n = 12" | "n = 10" | "n = 13" | "n = 9"
    | (esc) "n \<notin> {34, 92, 8, 12, 10, 13, 9}" "n < 32 \<or> n = 60 \<or> n = 62 \<or> n = 38"
    | (plain) "n \<notin> {34, 92, 8, 12, 10, 13, 9}" "\<not> (n < 32 \<or> n = 60 \<or> n = 62 \<or> n = 38)"
    by blast
  then show ?thesis
  proof cases
    case esc
    have j: "json_char c = unicode_esc c" using esc by (auto simp: json_char_def n_def Let_def)
    have u: "unicode_esc c = CHR 0x5C # CHR ''u'' # drop 2 (unicode_esc c)"
      by (simp add: unicode_esc_def Let_def)
    have "n < 128" using esc(2) by auto
    then show ?thesis
      unfolding j by (subst u) (simp add: unescape_unicode n_def del: unicode_unesc_def)
  next
    case plain
    have j: "json_char c = [c]" using plain by (auto simp: json_char_def n_def Let_def)
    have "c \<noteq> CHR 0x22" "c \<noteq> CHR 0x5C" using plain(1) by (auto simp: n_def)
    then show ?thesis using plain(2) by (simp add: j n_def)
  qed (simp_all add: c json_char_def simple_unesc_def Let_def char_22_5c)
qed

lemma parse_quoted:
  "length (concat (map json_char s)) < f \<Longrightarrow>
   parse_str f (concat (map json_char s) @ CHR 0x22 # r) = Some (s, r)"
proof (induction s arbitrary: f)
  case Nil
  then show ?case by (cases f) simp_all
next
  case (Cons c s)
  have "json_char c \<noteq> []" by (simp add: json_char_def unicode_esc_def Let_def)
  then have l: "0 < length (json_char c)" by simp
  from Cons.prems obtain f' where f: "f = Suc f'" by (cases f) simp_all
  with Cons.prems l have "length (concat (map json_char s)) < f'"
    by (simp del: length_greater_0_conv)
  from Cons.IH [OF this] show ?case by (simp add: f parse_str_char)
qed

lemma skip_ws_quote [simp]:
  "skip_ws (json_quote s @ r) = json_quote s @ r" "skip_ws (CHR '':'' # r) = CHR '':'' # r"
  "skip_ws (CHR '','' # r) = CHR '','' # r" "skip_ws (CHR ''}'' # r) = CHR ''}'' # r"
  "skip_ws (CHR ''{'' # r) = CHR ''{'' # r" "skip_ws [] = []"
  by (simp_all add: skip_ws_def json_quote_def is_ws_def)

lemma parse_val_quoted: "parse_val (Suc f) (json_quote s @ r) = Some (JvStr s, r)"
proof -
  have "parse_str (Suc (length (concat (map json_char s) @ CHR 0x22 # r)))
      (concat (map json_char s) @ CHR 0x22 # r) = Some (s, r)"
    by (rule parse_quoted) simp
  then show ?thesis
    by (simp add: skip_ws_quote(1) [unfolded json_quote_def, simplified] json_quote_def)
qed

lemma parse_key:
  "parse_str (length (json_quote k @ r)) (drop 1 (json_quote k @ r)) = Some (k, r)"
  using parse_quoted [of k "length (json_quote k @ r)" r] by (simp add: json_quote_def)

lemma has_prefix_quote: "has_prefix (json_quote k @ r) [CHR 0x22]"
  by (simp add: json_quote_def has_prefix_def)

lemma members_Cons:
  "json_members ((k, v) # kvs) = json_quote k @ '':'' @ json_quote v @
     (if kvs = [] then [] else '','' @ json_members kvs)"
  by (cases kvs) (simp_all add: json_members_def)

lemma has_prefix1: "has_prefix (c # s) [d] \<longleftrightarrow> c = d"
  by (simp add: has_prefix_def)

lemma parse_member_step:
  "parse_members (Suc f) (json_quote k @ CHR '':'' # s) =
    (case parse_val f s of None \<Rightarrow> None
     | Some (v, r1) \<Rightarrow>
         let r2 = skip_ws r1 in
         if has_prefix r2 ''}'' then Some ([(k, v)], drop 1 r2)
         else if has_prefix r2 '','' then
           map_option (\<lambda>(ms, r'). ((k, v) # ms, r')) (parse_members f (drop 1 r2))
         else None)"
  using parse_key [of k "CHR '':'' # s"]
  by (subst parse_members.simps(2)) (simp add: Let_def has_prefix_quote has_prefix1 del: parse_val.simps)

lemma parse_members_text:
  "kvs \<noteq> [] \<Longrightarrow> length kvs < f \<Longrightarrow>
   parse_members f (json_members kvs @ ''}'' @ r) = Some (map (\<lambda>(k, v). (k, JvStr v)) kvs, r)"
proof (induction kvs arbitrary: f)
  case (Cons kv kvs)
  obtain k v where kv: "kv = (k, v)" by fastforce
  have "f \<noteq> 0" "f - 1 \<noteq> 0" using Cons.prems(2) by auto
  then obtain f' where f: "f = Suc (Suc f')" by (metis diff_Suc_1 not0_implies_Suc)
  let ?tail = "(if kvs = [] then [] else '','' @ json_members kvs) @ ''}'' @ r"
  have t: "json_members (kv # kvs) @ ''}'' @ r = json_quote k @ CHR '':'' # json_quote v @ ?tail"
    by (simp add: kv members_Cons)
  have v: "parse_val (Suc f') (json_quote v @ ?tail) = Some (JvStr v, ?tail)"
    by (rule parse_val_quoted)
  show ?case
  proof (cases "kvs = []")
    case True
    then show ?thesis
      unfolding t f parse_member_step v by (simp add: has_prefix1 kv)
  next
    case False
    have "parse_members (Suc f') (json_members kvs @ ''}'' @ r)
        = Some (map (\<lambda>(k, v). (k, JvStr v)) kvs, r)"
      using Cons.IH [OF False, of "Suc f'"] Cons.prems(2) f by simp
    with False show ?thesis
      unfolding t f parse_member_step v
      by (simp add: has_prefix1 kv del: parse_members.simps)
  qed
qed simp

lemma put_members_strs:
  "put_members (map (\<lambda>(k, v). (k, JvStr v)) kvs) m = Some (fold (\<lambda>(k, v). gm_put k v) kvs m)"
  by (induction kvs arbitrary: m) auto

lemma map_of_fold_put:
  "map_of (fold (\<lambda>(k, v). gm_put k v) kvs m) = (map_of m ++ map_of (rev kvs))"
  by (induction kvs arbitrary: m) (auto simp: map_add_assoc [symmetric] fun_eq_iff map_add_def
      split: option.splits)

lemma length_members: "length kvs \<le> length (json_members kvs)"
proof (induction kvs)
  case (Cons kv kvs)
  then show ?case by (cases kv) (auto simp: members_Cons json_quote_def)
qed simp

text \<open>What was marshalled reads back as the same map.\<close>

lemma unmarshal_marshal:
  assumes "gm_ok m"
  shows "\<exists>m'. unmarshal_headers (marshal_headers (Some m)) = Some m' \<and> map_of m' = map_of m"
proof (cases "m = []")
  case True
  have "unmarshal_headers (marshal_headers (Some [])) = Some []"
    by (simp add: marshal_headers_def json_members_def unmarshal_headers_def parse_json_def
        has_prefix1 numeral_2_eq_2)
  then show ?thesis using True by simp
next
  case False
  let ?kvs = "sort_key fst m"
  have ne: "?kvs \<noteq> []" using False by (metis length_0_conv length_sort)
  have s: "marshal_headers (Some m) = CHR ''{'' # json_members ?kvs @ ''}''"
    by (simp add: marshal_headers_def)
  have nb: "\<not> has_prefix (skip_ws (json_members ?kvs @ ''}'')) ''}''"
    using ne by (cases ?kvs) (auto simp: members_Cons has_prefix_def json_quote_def skip_ws_def is_ws_def)
  have "parse_val (Suc (length (marshal_headers (Some m)))) (marshal_headers (Some m))
      = Some (JvObj (map (\<lambda>(k, v). (k, JvStr v)) ?kvs), [])"
    unfolding s using parse_members_text [OF ne, of "Suc (length (json_members ?kvs @ ''}''))" "[]"]
      length_members [of ?kvs] nb
    by (simp add: Let_def del: parse_members.simps)
  then have "unmarshal_headers (marshal_headers (Some m))
      = Some (fold (\<lambda>(k, v). gm_put k v) ?kvs [])"
    by (simp add: unmarshal_headers_def parse_json_def put_members_strs del: parse_val.simps)
  moreover have "map_of (fold (\<lambda>(k, v). gm_put k v) ?kvs []) = map_of m"
  proof -
    have d: "distinct (map fst (rev ?kvs))"
      using assms by (simp add: gm_ok_def rev_map [symmetric] distinct_map)
    have "map_of (rev ?kvs) = map_of m"
      using assms by (intro map_of_inject_set [THEN iffD2] d) (simp_all add: gm_ok_def)
    then show ?thesis by (simp add: map_of_fold_put)
  qed
  ultimately show ?thesis by blast
qed

end
