(* ===== verification/ProviderStore.thy ===== *)
theory ProviderStore
  imports JsonText SessionModel
begin

text \<open>
  \<open>internal/provider/store.go\<close>: upstream providers with their keys encrypted at rest, model
  mappings, routing rules, the audit trail, the seeding from the configuration and the snapshot the
  router works on.  The key encryption key, the random nonce of an encryption and the order in which
  Go ranges over a map are arguments.
\<close>

section \<open>Entries and snapshots\<close>

record ProviderEntry =
  e_slug :: string
  e_endpoint :: string
  e_api_key :: string
  e_allow_passthrough :: bool
  e_auth_header :: string
  e_auth_scheme :: string
  e_extra_headers :: "(string, string) gomap"

record ProviderTable =
  pt_providers :: "(string, ProviderEntry) gomap"
  pt_mappings :: "(string, (string, string) gomap) gomap"
  pt_rules :: "RoutingRule list"
  pt_default :: string

definition NewProviderStore :: "bytes \<Rightarrow> bytes option" where
  "NewProviderStore kek = (if length kek \<noteq> 32 then None else Some kek)"

section \<open>Audit\<close>

text \<open>A failed insert is only logged.\<close>

definition WriteAudit :: "gotime \<Rightarrow> string \<Rightarrow> string \<Rightarrow> string \<Rightarrow> string \<Rightarrow> db \<Rightarrow> db" where
  "WriteAudit now action targetType targetID detail =
     log_err (sql_exec ''write audit''
       (\<lambda>db. db\<lparr>audit_logs := insert_row
            \<lparr>al_id = audit_logs_seq db + 1, al_action = action, al_target_type = targetType,
             al_target_id = targetID, al_detail = detail, al_created_at = fmt_rfc3339 now\<rparr>
            (audit_logs db),
          audit_logs_seq := audit_logs_seq db + 1\<rparr>))"

definition ListAuditLogs :: "int \<Rightarrow> int \<Rightarrow> (AuditLogRecord list \<times> nat) op" where
  "ListAuditLogs page0 limit0 =
     (let page = (if page0 \<le> 0 then 1 else page0);
          limit = (if limit0 \<le> 0 \<or> 100 < limit0 then 50 else limit0)
      in and_then (sql_query ''count audit logs'' (\<lambda>db. length (audit_logs db)))
           (\<lambda>total. and_then (sql_query ''list audit logs''
               (\<lambda>db. page_of page limit (rev (sort_key al_id (audit_logs db)))))
             (\<lambda>logs db. (Ok (logs, total), db))))"

section \<open>Providers\<close>

abbreviation with_slug :: "string \<Rightarrow> ProviderRecord \<Rightarrow> bool" where
  "with_slug slug \<equiv> (\<lambda>p. p_slug p = slug)"

definition ListProviders :: "ProviderRecord list op" where
  "ListProviders = sql_query ''list providers'' (\<lambda>db. sort_key p_id (providers db))"

definition GetProvider :: "string \<Rightarrow> ProviderRecord option op" where
  "GetProvider slug = sql_query ''get provider''
     (\<lambda>db. select_one (with_slug slug) (providers db))"

definition clear_defaults :: "unit op" where
  "clear_defaults = sql_exec ''clear old defaults''
     (\<lambda>db. db\<lparr>providers := update_where p_is_default (\<lambda>p. p\<lparr>p_is_default := False\<rparr>) (providers db)\<rparr>)"

record new_provider =
  np_name :: string
  np_slug :: string
  np_endpoint :: string
  np_api_key :: string
  np_is_default :: bool
  np_allow_passthrough :: bool
  np_auth_header :: string
  np_auth_scheme :: string
  np_extra_headers :: "(string, string) gomap option"
  np_monthly_token_limit :: int
  np_monthly_call_limit :: int
  np_monthly_token_low_ratio :: float64
  np_monthly_call_low_ratio :: float64
  np_cycle_start_date :: string

definition provider_row :: "gotime \<Rightarrow> new_provider \<Rightarrow> bytes \<Rightarrow> int \<Rightarrow> ProviderRecord" where
  "provider_row now n encryptedKey i =
     \<lparr>p_id = i, p_name = np_name n, p_slug = np_slug n, p_endpoint = np_endpoint n,
      p_encrypted_key = encryptedKey, p_is_default = np_is_default n, p_enabled = True,
      p_allow_passthrough = np_allow_passthrough n,
      p_auth_header = (if np_auth_header n = '''' then ''Authorization'' else np_auth_header n),
      p_auth_scheme = (if np_auth_scheme n = '''' then ''bearer'' else np_auth_scheme n),
      p_extra_headers = marshal_headers (np_extra_headers n),
      p_monthly_token_limit = np_monthly_token_limit n,
      p_monthly_call_limit = np_monthly_call_limit n,
      p_monthly_token_low_ratio = np_monthly_token_low_ratio n,
      p_monthly_call_low_ratio = np_monthly_call_low_ratio n,
      p_cycle_start_date = (if np_cycle_start_date n = '''' then fmt_date (t_in shanghai_off now)
        else np_cycle_start_date n),
      p_created_at = fmt_rfc3339 now, p_updated_at = fmt_rfc3339 now\<rparr>"

definition insert_provider :: "(int \<Rightarrow> ProviderRecord) \<Rightarrow> int op" where
  "insert_provider mk = run_stmt ''insert provider''
     (\<lambda>db. if select_one (with_slug (p_slug (mk 0))) (providers db) \<noteq> None
           then Some (UniqueErr ''insert provider'') else None)
     (\<lambda>db. providers_seq db + 1)
     (\<lambda>db. db\<lparr>providers := insert_row (mk (providers_seq db + 1)) (providers db),
              providers_seq := providers_seq db + 1\<rparr>)"

definition fmt_bool :: "bool \<Rightarrow> string" where
  "fmt_bool b = (if b then ''true'' else ''false'')"

definition quoted :: "string \<Rightarrow> string" where
  "quoted s = [CHR 0x22] @ s @ [CHR 0x22]"

definition create_detail :: "ProviderRecord \<Rightarrow> string" where
  "create_detail p = ''{'' @ quoted ''name'' @ '':'' @ quoted (p_name p) @ '','' @
     quoted ''slug'' @ '':'' @ quoted (p_slug p) @ '','' @
     quoted ''endpoint'' @ '':'' @ quoted (p_endpoint p) @ '','' @
     quoted ''is_default'' @ '':'' @ fmt_bool (p_is_default p) @ '','' @
     quoted ''allow_passthrough'' @ '':'' @ fmt_bool (p_allow_passthrough p) @ '','' @
     quoted ''auth_scheme'' @ '':'' @ quoted (p_auth_scheme p) @ ''}''"

text \<open>The returned record does not carry the encrypted key.\<close>

definition CreateProvider ::
  "crypto \<Rightarrow> bytes \<Rightarrow> bytes option \<Rightarrow> gotime \<Rightarrow> new_provider \<Rightarrow> ProviderRecord op" where
  "CreateProvider cr kek nonce now n db =
     (case Encrypt cr nonce (np_api_key n) kek of
        Inl _ \<Rightarrow> (Err (GoErr ''encrypt API key''), db)
      | Inr encryptedKey \<Rightarrow>
          let mk = provider_row now n encryptedKey in
          (case transaction
             (and_then (if np_is_default n then clear_defaults else (\<lambda>db. (Ok (), db)))
               (\<lambda>_. insert_provider mk)) db of
             (Inl e, db1) \<Rightarrow> (Err e, db1)
           | (Inr i, db1) \<Rightarrow>
               (Ok ((mk i)\<lparr>p_encrypted_key := []\<rparr>),
                WriteAudit now ''provider.create'' ''provider'' (np_slug n) (create_detail (mk i)) db1)))"

text \<open>The map of updates: the keys the code looks at, with the value types its caller fills.\<close>

record provider_updates =
  pu_name :: "string option"
  pu_endpoint :: "string option"
  pu_api_key :: "string option"
  pu_is_default :: "bool option"
  pu_enabled :: "bool option"
  pu_allow_passthrough :: "bool option"
  pu_auth_header :: "string option"
  pu_auth_scheme :: "string option"
  pu_extra_headers :: "(string, string) gomap option"
  pu_monthly_token_limit :: "int option"
  pu_monthly_call_limit :: "int option"
  pu_monthly_token_low_ratio :: "float64 option"
  pu_monthly_call_low_ratio :: "float64 option"
  pu_cycle_start_date :: "string option"

definition provider_set ::
  "string \<Rightarrow> bytes option \<Rightarrow> provider_updates \<Rightarrow> ProviderRecord \<Rightarrow> ProviderRecord" where
  "provider_set now encrypted u p =
     set_opt (pu_cycle_start_date u) (\<lambda>v p. p\<lparr>p_cycle_start_date := v\<rparr>)
     (set_opt (pu_monthly_call_low_ratio u) (\<lambda>v p. p\<lparr>p_monthly_call_low_ratio := v\<rparr>)
     (set_opt (pu_monthly_token_low_ratio u) (\<lambda>v p. p\<lparr>p_monthly_token_low_ratio := v\<rparr>)
     (set_opt (pu_monthly_call_limit u) (\<lambda>v p. p\<lparr>p_monthly_call_limit := v\<rparr>)
     (set_opt (pu_monthly_token_limit u) (\<lambda>v p. p\<lparr>p_monthly_token_limit := v\<rparr>)
     (set_opt (pu_extra_headers u) (\<lambda>v p. p\<lparr>p_extra_headers := marshal_headers (Some v)\<rparr>)
     (set_opt (pu_auth_scheme u) (\<lambda>v p. p\<lparr>p_auth_scheme := v\<rparr>)
     (set_opt (pu_auth_header u) (\<lambda>v p. p\<lparr>p_auth_header := v\<rparr>)
     (set_opt (pu_allow_passthrough u) (\<lambda>v p. p\<lparr>p_allow_passthrough := v\<rparr>)
     (set_opt (pu_enabled u) (\<lambda>v p. p\<lparr>p_enabled := v\<rparr>)
     (set_opt (pu_is_default u) (\<lambda>v p. p\<lparr>p_is_default := v\<rparr>)
     (set_opt encrypted (\<lambda>v p. p\<lparr>p_encrypted_key := v\<rparr>)
     (set_opt (pu_endpoint u) (\<lambda>v p. p\<lparr>p_endpoint := v\<rparr>)
     (set_opt (pu_name u) (\<lambda>v p. p\<lparr>p_name := v\<rparr>)
        (p\<lparr>p_updated_at := now\<rparr>))))))))))))))"

text \<open>A key in the map that is the empty string is dropped; any other is encrypted inside the
  transaction, after the old default has been cleared.  \<open>detail\<close> is the printed map.\<close>

definition encrypt_update :: "crypto \<Rightarrow> bytes \<Rightarrow> bytes option \<Rightarrow> provider_updates \<Rightarrow> bytes option op" where
  "encrypt_update cr kek nonce u db =
     (case pu_api_key u of
        None \<Rightarrow> (Ok None, db)
      | Some k \<Rightarrow>
          if k = '''' then (Ok None, db)
          else case Encrypt cr nonce k kek of
            Inl _ \<Rightarrow> (Err (GoErr ''encrypt new API key''), db)
          | Inr c \<Rightarrow> (Ok (Some c), db))"

definition UpdateProvider ::
  "crypto \<Rightarrow> bytes \<Rightarrow> bytes option \<Rightarrow> gotime \<Rightarrow> string \<Rightarrow> provider_updates \<Rightarrow> string
   \<Rightarrow> ProviderRecord option op" where
  "UpdateProvider cr kek nonce now slug u detail db =
     (case transaction
        (and_then (if pu_is_default u = Some True then clear_defaults else (\<lambda>db. (Ok (), db)))
          (\<lambda>_. and_then (encrypt_update cr kek nonce u)
            (\<lambda>encrypted. sql_exec ''update provider''
               (\<lambda>db. db\<lparr>providers := update_where (with_slug slug)
                   (provider_set (fmt_rfc3339 now) encrypted u) (providers db)\<rparr>)))) db of
        (Inl e, db1) \<Rightarrow> (Err e, db1)
      | (Inr _, db1) \<Rightarrow>
          GetProvider slug (WriteAudit now ''provider.update'' ''provider'' slug detail db1))"

text \<open>The mappings of a deleted provider go with it (\<open>ON DELETE CASCADE\<close>).\<close>

definition DeleteProvider :: "gotime \<Rightarrow> string \<Rightarrow> unit op" where
  "DeleteProvider now slug =
     and_then (sql_query ''check routing rules''
         (\<lambda>db. length (filter (\<lambda>r. rr_provider_id r = slug) (routing_rules db))))
     (\<lambda>ruleCount. if 0 < ruleCount then (\<lambda>db. (Err (GoErr ''referenced by routing rules''), db)) else
     and_then (sql_query ''check model mappings''
         (\<lambda>db. length (filter (\<lambda>m. mm_provider_id m = slug) (model_mappings db))))
     (\<lambda>mappingCount. if 0 < mappingCount
       then (\<lambda>db. (Err (GoErr ''referenced by model mappings''), db)) else
     and_then (GetUsersByFixedProvider slug)
     (\<lambda>usernames. if 0 < length usernames
       then (\<lambda>db. (Err (GoErr ''referenced by users as fixed provider''), db)) else
     and_then (sql_query ''count providers'' (\<lambda>db. length (providers db)))
     (\<lambda>totalCount. if totalCount \<le> 1
       then (\<lambda>db. (Err (GoErr ''cannot delete the last provider''), db)) else
     and_then (sql_exec ''delete provider''
         (\<lambda>db. db\<lparr>providers := delete_where (with_slug slug) (providers db),
                  model_mappings := delete_where (\<lambda>m. mm_provider_id m = slug) (model_mappings db)\<rparr>))
     (\<lambda>_ db. (Ok (), WriteAudit now ''provider.delete'' ''provider'' slug '''' db))))))"

section \<open>Model mappings\<close>

definition ListMappings :: "ModelMappingRecord list op" where
  "ListMappings = sql_query ''list mappings'' (\<lambda>db. sort_key mm_id (model_mappings db))"

definition CreateMapping :: "gotime \<Rightarrow> string \<Rightarrow> string \<Rightarrow> string \<Rightarrow> ModelMappingRecord op" where
  "CreateMapping now external providerID realModel =
     (let mk = (\<lambda>i. \<lparr>mm_id = i, mm_external = external, mm_provider_id = providerID,
                     mm_real_model = realModel, mm_created_at = fmt_rfc3339 now\<rparr>)
      in and_then
        (run_stmt ''insert mapping''
          (\<lambda>db. if select_one (\<lambda>m. mm_external m = external \<and> mm_provider_id m = providerID)
                     (model_mappings db) \<noteq> None then Some (UniqueErr ''insert mapping'')
                else if select_one (with_slug providerID) (providers db) = None
                then Some (DbErr ''insert mapping'') else None)
          (\<lambda>db. model_mappings_seq db + 1)
          (\<lambda>db. db\<lparr>model_mappings := insert_row (mk (model_mappings_seq db + 1)) (model_mappings db),
                   model_mappings_seq := model_mappings_seq db + 1\<rparr>))
        (\<lambda>i db. (Ok (mk i), WriteAudit now ''mapping.create'' ''model_mapping'' (itoa i)
            (''{'' @ quoted ''external'' @ '':'' @ quoted external @ '','' @
             quoted ''provider_id'' @ '':'' @ quoted providerID @ '','' @
             quoted ''real_model'' @ '':'' @ quoted realModel @ ''}'') db)))"

definition DeleteMapping :: "gotime \<Rightarrow> int \<Rightarrow> unit op" where
  "DeleteMapping now i =
     and_then (sql_exec ''delete mapping''
         (\<lambda>db. db\<lparr>model_mappings := delete_where (\<lambda>m. mm_id m = i) (model_mappings db)\<rparr>))
       (\<lambda>_ db. (Ok (), WriteAudit now ''mapping.delete'' ''model_mapping'' (itoa i) '''' db))"

section \<open>Routing rules\<close>

definition ListRoutingRules :: "RoutingRule list op" where
  "ListRoutingRules = sql_query ''list routing rules'' (\<lambda>db. sort_key rr_id (routing_rules db))"

text \<open>The rule with the id it was given; the column \<open>default_provider_id\<close> stays empty.\<close>

definition CreateRoutingRule :: "gotime \<Rightarrow> RoutingRule \<Rightarrow> RoutingRule op" where
  "CreateRoutingRule now rule =
     and_then
       (run_stmt ''insert routing rule'' (\<lambda>_. None)
         (\<lambda>db. routing_rules_seq db + 1)
         (\<lambda>db. db\<lparr>routing_rules := insert_row
              (rule\<lparr>rr_id := routing_rules_seq db + 1, rr_default_provider_id := ''''\<rparr>) (routing_rules db),
            routing_rules_seq := routing_rules_seq db + 1\<rparr>))
       (\<lambda>i db. (Ok (rule\<lparr>rr_id := i\<rparr>),
          WriteAudit now ''routing_rule.create'' ''routing_rule'' (itoa i)
            (''{'' @ quoted ''provider_id'' @ '':'' @ quoted (rr_provider_id rule) @ '','' @
             quoted ''start_time'' @ '':'' @ quoted (rr_start_time rule) @ '','' @
             quoted ''end_time'' @ '':'' @ quoted (rr_end_time rule) @ '','' @
             quoted ''priority'' @ '':'' @ itoa (rr_priority rule) @ ''}'') db))"

record rule_updates =
  ru_provider_id :: "string option"
  ru_start_time :: "string option"
  ru_end_time :: "string option"
  ru_days_of_week :: "string option"
  ru_priority :: "int option"
  ru_enabled :: "bool option"

definition rule_set :: "rule_updates \<Rightarrow> RoutingRule \<Rightarrow> RoutingRule" where
  "rule_set u r =
     set_opt (ru_enabled u) (\<lambda>v r. r\<lparr>rr_enabled := v\<rparr>)
     (set_opt (ru_priority u) (\<lambda>v r. r\<lparr>rr_priority := v\<rparr>)
     (set_opt (ru_days_of_week u) (\<lambda>v r. r\<lparr>rr_days_of_week := v\<rparr>)
     (set_opt (ru_end_time u) (\<lambda>v r. r\<lparr>rr_end_time := v\<rparr>)
     (set_opt (ru_start_time u) (\<lambda>v r. r\<lparr>rr_start_time := v\<rparr>)
     (set_opt (ru_provider_id u) (\<lambda>v r. r\<lparr>rr_provider_id := v\<rparr>) r)))))"

definition no_rule_updates :: "rule_updates \<Rightarrow> bool" where
  "no_rule_updates u \<longleftrightarrow> ru_provider_id u = None \<and> ru_start_time u = None \<and> ru_end_time u = None \<and>
     ru_days_of_week u = None \<and> ru_priority u = None \<and> ru_enabled u = None"

definition UpdateRoutingRule :: "gotime \<Rightarrow> int \<Rightarrow> rule_updates \<Rightarrow> string \<Rightarrow> unit op" where
  "UpdateRoutingRule now i u detail =
     (if no_rule_updates u then (\<lambda>db. (Err (GoErr ''no fields to update''), db))
      else and_then (sql_exec ''update routing rule''
             (\<lambda>db. db\<lparr>routing_rules := update_where (\<lambda>r. rr_id r = i) (rule_set u) (routing_rules db)\<rparr>))
           (\<lambda>_ db. (Ok (), WriteAudit now ''routing_rule.update'' ''routing_rule'' (itoa i) detail db)))"

definition DeleteRoutingRule :: "gotime \<Rightarrow> int \<Rightarrow> unit op" where
  "DeleteRoutingRule now i =
     and_then (sql_exec ''delete routing rule''
         (\<lambda>db. db\<lparr>routing_rules := delete_where (\<lambda>r. rr_id r = i) (routing_rules db)\<rparr>))
       (\<lambda>_ db. (Ok (), WriteAudit now ''routing_rule.delete'' ''routing_rule'' (itoa i) '''' db))"

section \<open>Seeding\<close>

record cfg_provider =
  cp_id :: string
  cp_endpoint :: string
  cp_api_key_env :: string
  cp_is_default :: bool
  cp_allow_passthrough :: bool
  cp_auth_header :: string
  cp_auth_scheme :: string
  cp_extra_headers :: "(string, string) gomap option"

text \<open>The environment, and one nonce per provider in the order of the list.\<close>

definition seed_row :: "gotime \<Rightarrow> cfg_provider \<Rightarrow> bytes \<Rightarrow> int \<Rightarrow> ProviderRecord" where
  "seed_row now p encryptedKey i = provider_row now
     \<lparr>np_name = cp_id p, np_slug = cp_id p, np_endpoint = cp_endpoint p, np_api_key = '''',
      np_is_default = cp_is_default p, np_allow_passthrough = cp_allow_passthrough p,
      np_auth_header = cp_auth_header p, np_auth_scheme = cp_auth_scheme p,
      np_extra_headers = cp_extra_headers p, np_monthly_token_limit = 0,
      np_monthly_call_limit = 0, np_monthly_token_low_ratio = 0, np_monthly_call_low_ratio = 0,
      np_cycle_start_date = ''''\<rparr> encryptedKey i"

fun seed_providers ::
  "crypto \<Rightarrow> bytes \<Rightarrow> (string \<Rightarrow> string) \<Rightarrow> gotime \<Rightarrow> (cfg_provider \<times> bytes option) list \<Rightarrow> unit op" where
  "seed_providers cr kek getenv now [] db = (Ok (), db)"
| "seed_providers cr kek getenv now ((p, nonce) # ps) db =
     (let apiKey = (if cp_api_key_env p \<noteq> '''' then getenv (cp_api_key_env p) else '''') in
      case Encrypt cr nonce apiKey kek of
        Inl _ \<Rightarrow> (Err (GoErr ''seed encrypt key''), db)
      | Inr encryptedKey \<Rightarrow>
          (case insert_provider (seed_row now p encryptedKey) db of
             (Inl e, db1) \<Rightarrow> (Err e, db1)
           | (Inr _, db1) \<Rightarrow> seed_providers cr kek getenv now ps db1))"

text \<open>The mappings of the configuration as triples, in the order the ranges yield them; a failed
  insert is only logged.\<close>

definition seed_mapping :: "gotime \<Rightarrow> string \<times> string \<times> string \<Rightarrow> db \<Rightarrow> db" where
  "seed_mapping now m db = (case m of (external, providerID, realModel) \<Rightarrow>
     snd (run_stmt ''seed mapping''
          (\<lambda>db. if select_one (\<lambda>m. mm_external m = external \<and> mm_provider_id m = providerID)
                     (model_mappings db) \<noteq> None then Some (UniqueErr ''seed mapping'')
                else if select_one (with_slug providerID) (providers db) = None
                then Some (DbErr ''seed mapping'') else None)
          (\<lambda>_. ())
          (\<lambda>db. db\<lparr>model_mappings := insert_row
               \<lparr>mm_id = model_mappings_seq db + 1, mm_external = external,
                mm_provider_id = providerID, mm_real_model = realModel,
                mm_created_at = fmt_rfc3339 now\<rparr> (model_mappings db),
             model_mappings_seq := model_mappings_seq db + 1\<rparr>) db))"

definition SeedFromConfig ::
  "crypto \<Rightarrow> bytes \<Rightarrow> (string \<Rightarrow> string) \<Rightarrow> gotime \<Rightarrow> (cfg_provider \<times> bytes option) list
   \<Rightarrow> (string \<times> string \<times> string) list \<Rightarrow> unit op" where
  "SeedFromConfig cr kek getenv now ps maps =
     and_then (sql_query ''seed check'' (\<lambda>db. length (providers db)))
       (\<lambda>count. if 0 < count then (\<lambda>db. (Ok (), db))
         else and_then (seed_providers cr kek getenv now ps)
           (\<lambda>_ db. (Ok (), fold (seed_mapping now) maps db)))"

section \<open>The snapshot\<close>

definition parseExtraHeaders :: "string \<Rightarrow> (string, string) gomap" where
  "parseExtraHeaders s = (if s = '''' then []
     else case unmarshal_headers s of Some m \<Rightarrow> m | None \<Rightarrow> [])"

definition entry_of :: "ProviderRecord \<Rightarrow> string \<Rightarrow> ProviderEntry" where
  "entry_of p apiKey = \<lparr>e_slug = p_slug p, e_endpoint = p_endpoint p, e_api_key = apiKey,
     e_allow_passthrough = p_allow_passthrough p, e_auth_header = p_auth_header p,
     e_auth_scheme = p_auth_scheme p, e_extra_headers = parseExtraHeaders (p_extra_headers p)\<rparr>"

fun load_providers ::
  "crypto \<Rightarrow> bytes \<Rightarrow> ProviderRecord list \<Rightarrow> (string, ProviderEntry) gomap \<Rightarrow> string
   \<Rightarrow> goerr + (string, ProviderEntry) gomap \<times> string" where
  "load_providers cr kek [] m d = Ok (m, d)"
| "load_providers cr kek (p # ps) m d =
     (case Decrypt cr (p_encrypted_key p) kek of
        Inl _ \<Rightarrow> Err (GoErr ''build table: decrypt key'')
      | Inr apiKey \<Rightarrow>
          load_providers cr kek ps (gm_put (p_slug p) (entry_of p apiKey) m)
            (if p_is_default p then p_slug p else d))"

fun load_mappings ::
  "ModelMappingRecord list \<Rightarrow> (string, (string, string) gomap) gomap
   \<Rightarrow> (string, (string, string) gomap) gomap" where
  "load_mappings [] m = m"
| "load_mappings (r # rs) m =
     (let inner = (case map_of m (mm_external r) of None \<Rightarrow> [] | Some i \<Rightarrow> i)
      in load_mappings rs (gm_put (mm_external r) (gm_put (mm_provider_id r) (mm_real_model r) inner) m))"

text \<open>\<open>order\<close> is the order in which the range over the providers yields their slugs.\<close>

definition BuildProviderTable ::
  "crypto \<Rightarrow> bytes \<Rightarrow> (string list \<Rightarrow> string list) \<Rightarrow> ProviderTable op" where
  "BuildProviderTable cr kek order =
     and_then (sql_query ''build table: query providers'' (\<lambda>db. filter p_enabled (providers db)))
       (\<lambda>rows db1. case load_providers cr kek rows [] '''' of
          Inl e \<Rightarrow> (Err e, db1)
        | Inr (ps, d) \<Rightarrow>
            let dflt = (if d = '''' \<and> ps \<noteq> [] then hd (order (map fst ps)) else d) in
            and_then (sql_query ''build table: query mappings''
                (\<lambda>db. sort_key mm_id (model_mappings db)))
              (\<lambda>maps. and_then ListRoutingRules
                (\<lambda>rules db. (Ok \<lparr>pt_providers = ps, pt_mappings = load_mappings maps [],
                               pt_rules = rules, pt_default = dflt\<rparr>, db))) db1)"

section \<open>Keys for display\<close>

definition DecryptKey :: "crypto \<Rightarrow> bytes \<Rightarrow> string \<Rightarrow> string op" where
  "DecryptKey cr kek slug db =
     (case sql_query ''get encrypted key''
        (\<lambda>db. select_one (with_slug slug) (providers db)) db of
        (Inl e, db1) \<Rightarrow> (Err e, db1)
      | (Inr None, db1) \<Rightarrow> (Err (DbErr ''get encrypted key''), db1)
      | (Inr (Some p), db1) \<Rightarrow> (Decrypt cr (p_encrypted_key p) kek, db1))"

definition MaskProviderKey :: "crypto \<Rightarrow> bytes \<Rightarrow> string \<Rightarrow> string op" where
  "MaskProviderKey cr kek slug =
     and_then (DecryptKey cr kek slug) (\<lambda>plaintext db. (Ok (MaskKey plaintext), db))"

text \<open>\<open>ProviderWithMaskedKey\<close> is the record with the masked key in place of the encrypted one.\<close>

definition masked_key :: "crypto \<Rightarrow> bytes \<Rightarrow> ProviderRecord \<Rightarrow> string" where
  "masked_key cr kek p =
     (if 0 < length (p_encrypted_key p) then
        (case Decrypt cr (p_encrypted_key p) kek of
           Inr plaintext \<Rightarrow> MaskKey plaintext | Inl _ \<Rightarrow> ''****'')
      else ''****'')"

definition BuildMaskedProviders :: "crypto \<Rightarrow> bytes \<Rightarrow> (ProviderRecord \<times> string) list op" where
  "BuildMaskedProviders cr kek =
     and_then ListProviders
       (\<lambda>ps db. (Ok (map (\<lambda>p. (p\<lparr>p_encrypted_key := []\<rparr>, masked_key cr kek p)) ps), db))"

end
