(* ===== verification/Router.thy ===== *)
theory Router
  imports ProviderStore "HOL-Library.Word"
begin

text \<open>
  \<open>internal/router/selector.go\<close>: the choice of the upstream provider of a request from the
  snapshot, by the routing rules in precedence order, and the rewriting of model names.  The
  snapshot is \<open>None\<close> in no state of a router, since \<open>NewRouter\<close> stores one.
\<close>

section \<open>Resolved providers\<close>

record Provider =
  pr_id :: string
  pr_endpoint :: string
  pr_api_key :: string
  pr_allow_passthrough :: bool
  pr_auth_header :: string
  pr_auth_scheme :: string
  pr_extra_headers :: "(string, string) gomap"

definition provider_of_entry :: "ProviderEntry \<Rightarrow> Provider" where
  "provider_of_entry e = \<lparr>pr_id = e_slug e, pr_endpoint = e_endpoint e, pr_api_key = e_api_key e,
     pr_allow_passthrough = e_allow_passthrough e, pr_auth_header = e_auth_header e,
     pr_auth_scheme = e_auth_scheme e, pr_extra_headers = e_extra_headers e\<rparr>"

section \<open>The router and its snapshot\<close>

definition empty_table :: ProviderTable where
  "empty_table = \<lparr>pt_providers = [], pt_mappings = [], pt_rules = [], pt_default = ''''\<rparr>"

text \<open>The router's state is its snapshot.  A failed reload keeps the current one; \<open>has_db\<close> says
  whether the router was made with a database.\<close>

definition Reload ::
  "crypto \<Rightarrow> bytes \<Rightarrow> (string list \<Rightarrow> string list) \<Rightarrow> bool \<Rightarrow> ProviderTable \<Rightarrow> db
   \<Rightarrow> (goerr option \<times> ProviderTable) \<times> db" where
  "Reload cr kek order has_db table db =
     (if \<not> has_db then ((Some (GoErr ''cannot reload: no database connection''), table), db)
      else case BuildProviderTable cr kek order db of
        (Inl e, db1) \<Rightarrow> ((Some e, table), db1)
      | (Inr t, db1) \<Rightarrow> ((None, t), db1))"

definition NewRouter ::
  "crypto \<Rightarrow> bytes \<Rightarrow> (string list \<Rightarrow> string list) \<Rightarrow> bool \<Rightarrow> db \<Rightarrow> ProviderTable \<times> db" where
  "NewRouter cr kek order has_db db =
     (if has_db then
        (case Reload cr kek order has_db empty_table db of ((_, t), db1) \<Rightarrow> (t, db1))
      else (empty_table, db))"

section \<open>Precedence\<close>

text \<open>\<open>int(v[i]-'0')\<close>: the subtraction of bytes wraps.\<close>

definition byte_digit :: "char \<Rightarrow> int" where
  "byte_digit c = uint ((of_nat (of_char c) - 48) :: 8 word)"

definition parseHHMM :: "string \<Rightarrow> int" where
  "parseHHMM v =
     (if length v \<noteq> 5 \<or> v ! 2 \<noteq> CHR '':'' then - 1
      else let h = byte_digit (v ! 0) * 10 + byte_digit (v ! 1);
               m = byte_digit (v ! 3) * 10 + byte_digit (v ! 4)
           in if h < 0 \<or> 23 < h \<or> m < 0 \<or> 59 < m then - 1 else h * 60 + m)"

definition windowMinutes :: "string \<Rightarrow> string \<Rightarrow> int" where
  "windowMinutes start end =
     (let day = 24 * 60; s = parseHHMM start; e = parseHHMM end
      in if s < 0 \<or> e < 0 then day
         else if s \<le> e then e - s
         else (day - s) + e)"

definition rule_less :: "RoutingRule \<Rightarrow> RoutingRule \<Rightarrow> bool" where
  "rule_less a b =
     (if rr_priority a \<noteq> rr_priority b then rr_priority b < rr_priority a
      else let da = windowMinutes (rr_start_time a) (rr_end_time a);
               db = windowMinutes (rr_start_time b) (rr_end_time b)
           in if da \<noteq> db then da < db else rr_id a < rr_id b)"

definition sortRoutingRules :: "RoutingRule list \<Rightarrow> RoutingRule list" where
  "sortRoutingRules rules = slice_stable rule_less rules"

section \<open>Resolution\<close>

text \<open>\<open>order\<close> is the order of the range over the providers.\<close>

definition defaultProvider ::
  "(string list \<Rightarrow> string list) \<Rightarrow> ProviderTable \<Rightarrow> goerr + Provider" where
  "defaultProvider order table =
     (if pt_providers table = [] then Err (GoErr ''no upstream providers configured'')
      else case map_of (pt_providers table) (pt_default table) of
        Some p \<Rightarrow> Ok (provider_of_entry p)
      | None \<Rightarrow>
          (case map_of (pt_providers table) (hd (order (map fst (pt_providers table)))) of
             Some p \<Rightarrow> Ok (provider_of_entry p)
           | None \<Rightarrow> Err (GoErr ''no upstream providers configured'')))"

definition rule_active :: "gotime \<Rightarrow> RoutingRule \<Rightarrow> bool" where
  "rule_active now r \<longleftrightarrow> rr_enabled r \<and> IsInRange (rr_start_time r) (rr_end_time r) now \<and>
     MatchDay (rr_days_of_week r) now"

fun first_hit :: "gotime \<Rightarrow> RoutingRule list \<Rightarrow> RoutingRule option" where
  "first_hit now [] = None"
| "first_hit now (r # rs) =
     (if \<not> rr_enabled r then first_hit now rs
      else if \<not> IsInRange (rr_start_time r) (rr_end_time r) now then first_hit now rs
      else if \<not> MatchDay (rr_days_of_week r) now then first_hit now rs
      else Some r)"

definition ResolveProvider ::
  "(string list \<Rightarrow> string list) \<Rightarrow> ProviderTable \<Rightarrow> gotime \<Rightarrow> goerr + Provider" where
  "ResolveProvider order table now0 =
     (let now = t_in shanghai_off now0 in
      case first_hit now (sortRoutingRules (pt_rules table)) of
        Some rule \<Rightarrow>
          (case map_of (pt_providers table) (rr_provider_id rule) of
             None \<Rightarrow> Err (GoErr ''routing rule targets provider which is not configured'')
           | Some prov \<Rightarrow> Ok (provider_of_entry prov))
      | None \<Rightarrow> defaultProvider order table)"

definition GetProviderBySlug :: "ProviderTable \<Rightarrow> string \<Rightarrow> Provider option" where
  "GetProviderBySlug table slug = map_option provider_of_entry (map_of (pt_providers table) slug)"

text \<open>The loop over the mapping keys breaks at the first key equal up to case.\<close>

fun scan_mappings ::
  "(string, (string, string) gomap) gomap \<Rightarrow> string list \<Rightarrow> string \<Rightarrow> string \<Rightarrow> string option" where
  "scan_mappings maps [] external providerID = None"
| "scan_mappings maps (key # keys) external providerID =
     (if equal_fold key external then
        (case map_of maps key of
           None \<Rightarrow> None
         | Some m \<Rightarrow>
             (case map_of m providerID of
                Some realm \<Rightarrow> if realm \<noteq> '''' then Some realm else None
              | None \<Rightarrow> None))
      else scan_mappings maps keys external providerID)"

definition exact_mapping ::
  "(string, (string, string) gomap) gomap \<Rightarrow> string \<Rightarrow> string \<Rightarrow> string option" where
  "exact_mapping maps external providerID =
     (case map_of maps external of
        None \<Rightarrow> None
      | Some m \<Rightarrow>
          (case map_of m providerID of
             Some realm \<Rightarrow> if realm \<noteq> '''' then Some realm else None
           | None \<Rightarrow> None))"

definition RewriteModel ::
  "(string list \<Rightarrow> string list) \<Rightarrow> ProviderTable \<Rightarrow> string \<Rightarrow> string \<Rightarrow> string" where
  "RewriteModel order table external providerID =
     (case exact_mapping (pt_mappings table) external providerID of
        Some realm \<Rightarrow> realm
      | None \<Rightarrow>
          (case scan_mappings (pt_mappings table) (order (map fst (pt_mappings table)))
                  external providerID of
             Some realm \<Rightarrow> realm | None \<Rightarrow> external))"

section \<open>Credential holders\<close>

text \<open>The deprecated in-memory store: one holder per provider, created on first use.\<close>

definition Holder :: "string \<Rightarrow> (string, string) gomap \<Rightarrow> string \<times> (string, string) gomap" where
  "Holder providerID s = (case map_of s providerID of
     Some k \<Rightarrow> (k, s) | None \<Rightarrow> ('''', gm_put providerID '''' s))"

definition CredentialStore_Get :: "string \<Rightarrow> (string, string) gomap \<Rightarrow> string \<times> (string, string) gomap" where
  "CredentialStore_Get providerID s = Holder providerID s"

definition CredentialStore_Set :: "string \<Rightarrow> string \<Rightarrow> (string, string) gomap \<Rightarrow> (string, string) gomap" where
  "CredentialStore_Set providerID key s = gm_put providerID key (snd (Holder providerID s))"

section \<open>The order of the rules\<close>

text \<open>The precedence of a rule as a rank; ranks are linearly ordered.\<close>

datatype rank = Rank (rk_priority: int) (rk_minutes: int) (rk_id: int)

instantiation rank :: linorder
begin

definition less_rank :: "rank \<Rightarrow> rank \<Rightarrow> bool" where
  "less_rank a b \<longleftrightarrow> rk_priority b < rk_priority a \<or>
     (rk_priority a = rk_priority b \<and> (rk_minutes a < rk_minutes b \<or>
        (rk_minutes a = rk_minutes b \<and> rk_id a < rk_id b)))"

definition less_eq_rank :: "rank \<Rightarrow> rank \<Rightarrow> bool" where
  "less_eq_rank a b \<longleftrightarrow> a = b \<or> a < b"

instance
proof
  fix a b c :: rank
  have irr: "\<not> x < x" and tr: "x < y \<Longrightarrow> y < z \<Longrightarrow> x < z" for x y z :: rank
    unfolding less_rank_def by linarith+
  have tot: "x < y \<or> x = y \<or> y < x" for x y :: rank
    unfolding less_rank_def by (cases x; cases y) (simp; linarith)
  show "a < b \<longleftrightarrow> a \<le> b \<and> \<not> b \<le> a" unfolding less_eq_rank_def by (metis irr tr)
  show "a \<le> a" by (simp add: less_eq_rank_def)
  show "a \<le> b \<Longrightarrow> b \<le> c \<Longrightarrow> a \<le> c" unfolding less_eq_rank_def by (metis tr)
  show "a \<le> b \<Longrightarrow> b \<le> a \<Longrightarrow> a = b" unfolding less_eq_rank_def by (metis irr tr)
  show "a \<le> b \<or> b \<le> a" unfolding less_eq_rank_def by (metis tot)
qed

end

definition rank_of :: "RoutingRule \<Rightarrow> rank" where
  "rank_of r = Rank (rr_priority r) (windowMinutes (rr_start_time r) (rr_end_time r)) (rr_id r)"

lemma rule_less_rank: "rule_less a b \<longleftrightarrow> rank_of a < rank_of b"
  by (auto simp: rule_less_def less_rank_def rank_of_def Let_def)

interpretation rules: comparator rule_less
  by unfold_locales (auto simp: rule_less_rank)

section \<open>Laws\<close>

lemma first_hit_find: "first_hit now rs = find (rule_active now) rs"
  by (induction rs) (auto simp: rule_active_def)

lemma first_hit_least:
  assumes "first_hit now (sortRoutingRules rs) = Some r"
  shows "r \<in> set rs" "rule_active now r" "\<forall>r' \<in> set rs. rule_active now r' \<longrightarrow> rank_of r \<le> rank_of r'"
proof -
  have f: "find (rule_active now) (slice_stable rule_less rs) = Some r"
    using assms by (simp add: first_hit_find sortRoutingRules_def)
  have "r \<in> set (slice_stable rule_less rs)" "rule_active now r"
    using f unfolding find_Some_iff by auto
  then show "r \<in> set rs" "rule_active now r" by (simp_all add: rules.set_sort)
  show "\<forall>r' \<in> set rs. rule_active now r' \<longrightarrow> rank_of r \<le> rank_of r'"
    using rules.find_sorted_least [OF f] by (auto simp: rule_less_rank not_less)
qed

lemma first_hit_None:
  "first_hit now (sortRoutingRules rs) = None \<longleftrightarrow> (\<forall>r \<in> set rs. \<not> rule_active now r)"
  by (auto simp: first_hit_find sortRoutingRules_def find_None_iff rules.set_sort)

text \<open>A byte of an ASCII digit is its value, and the width of a window written \<open>HH:MM\<close> is its length
  in minutes.\<close>

lemma byte_digit_digit: "d < 10 \<Longrightarrow> byte_digit (digit_char d) = int d"
proof -
  assume d: "d < 10"
  have "(of_nat (48 + d) - 48 :: 8 word) = of_nat d" by simp
  then show ?thesis
    using d by (simp add: byte_digit_def take_bit_nat_eq_self uint_nat unat_of_nat)
qed

end
