(* ===== verification/StoreProperties.thy ===== *)
theory StoreProperties
  imports Router
begin

text \<open>
  Properties of the provider store and of the secrets in it: encryption at rest, masking, the way of
  a provider from the admin call to the router, and the invariant of the store's tables.
\<close>

section \<open>Secrets\<close>

text \<open>
  Encryption at rest is exact and authentic: under a 32-byte key, bytes decrypt to a
  text precisely when they are that text's encryption under the nonce they carry; so every stored
  key reads back, and nothing else is accepted.
\<close>

theorem decrypts_iff_encrypted:
  assumes "aead_ok cr" "length key = 32"
  shows "Decrypt cr c key = Ok s \<longleftrightarrow> 12 \<le> length c \<and> Encrypt cr (Some (take 12 c)) s key = Ok c"
proof
  assume d: "Decrypt cr c key = Ok s"
  then have "12 \<le> length c" by (auto simp: Decrypt_def split: if_splits)
  with decrypt_authentic [OF assms(1) d]
  show "12 \<le> length c \<and> Encrypt cr (Some (take 12 c)) s key = Ok c" by blast
next
  assume e: "12 \<le> length c \<and> Encrypt cr (Some (take 12 c)) s key = Ok c"
  then obtain c' where "Encrypt cr (Some (take 12 c)) s key = Ok c'" "Decrypt cr c' key = Ok s"
    using decrypt_encrypt [OF assms, of "take 12 c" s] by auto
  with e show "Decrypt cr c key = Ok s" by simp
qed

lemma decrypts_iff_encrypted_witness:
  "Decrypt toy_crypto (replicate 12 7 @ [115, 107, 84 :: nat]) (replicate 32 0) = Ok ''sk''"
  using decrypts_iff_encrypted [OF toy_crypto_ok(1), of "replicate 32 0"
      "replicate 12 7 @ [115, 107, 84]" "''sk''"]
  by (simp add: Encrypt_def bytes_of_def) (simp add: toy_crypto_def numeral_eq_Suc)

text \<open>
  A mask shows four characters at either end and the length, nothing more: two long
  keys have the same mask exactly when they agree there, and a key of fewer than four characters
  shows nothing at all.
\<close>

theorem mask_hides_the_middle:
  shows "(8 < length k \<and> 8 < length k' \<longrightarrow>
      (MaskKey k = MaskKey k' \<longleftrightarrow> length k = length k' \<and> take 4 k = take 4 k' \<and>
        drop (length k - 4) k = drop (length k' - 4) k')) \<and>
    (length k < 4 \<longrightarrow> MaskKey k = ''****'')"
proof (intro conjI impI)
  assume l: "8 < length k \<and> 8 < length k'"
  have len: "length (MaskKey x) = length x" if "8 < length x" for x
    using length_mask [of x] that by simp
  show "MaskKey k = MaskKey k' \<longleftrightarrow> length k = length k' \<and> take 4 k = take 4 k' \<and>
        drop (length k - 4) k = drop (length k' - 4) k'"
  proof
    assume e: "MaskKey k = MaskKey k'"
    then have n: "length k = length k'" using len l by metis
    then show "length k = length k' \<and> take 4 k = take 4 k' \<and>
        drop (length k - 4) k = drop (length k' - 4) k'"
      using e l by (simp add: mask_long append_eq_append_conv)
  next
    assume "length k = length k' \<and> take 4 k = take 4 k' \<and>
        drop (length k - 4) k = drop (length k' - 4) k'"
    then show "MaskKey k = MaskKey k'" using mask_long [of k] mask_long [of k'] l by metis
  qed
qed (simp add: MaskKey_def)

lemma mask_hides_the_middle_witness: "MaskKey ''sk-abcdefghij'' = MaskKey ''sk-aXXXXXghij''"
  using mask_hides_the_middle [of "''sk-abcdefghij''" "''sk-aXXXXXghij''"] by simp

section \<open>The snapshot of a store\<close>

definition plain_key :: "crypto \<Rightarrow> bytes \<Rightarrow> ProviderRecord \<Rightarrow> string" where
  "plain_key cr kek p = (case Decrypt cr (p_encrypted_key p) kek of Inr k \<Rightarrow> k | Inl _ \<Rightarrow> '''')"

definition key_readable :: "crypto \<Rightarrow> bytes \<Rightarrow> ProviderRecord \<Rightarrow> bool" where
  "key_readable cr kek p \<longleftrightarrow> (\<exists>k. Decrypt cr (p_encrypted_key p) kek = Ok k)"

text \<open>The load as a fold over the rows, and when it succeeds.\<close>

definition entries :: "crypto \<Rightarrow> bytes \<Rightarrow> ProviderRecord list \<Rightarrow> (string, ProviderEntry) gomap" where
  "entries cr kek ps = fold (\<lambda>p. gm_put (p_slug p) (entry_of p (plain_key cr kek p))) ps []"

definition default_slug :: "ProviderRecord list \<Rightarrow> string \<Rightarrow> string" where
  "default_slug ps d = fold (\<lambda>p d. if p_is_default p then p_slug p else d) ps d"

lemma load_providers_fold:
  "load_providers cr kek ps m d = Ok x \<longleftrightarrow> (\<forall>p \<in> set ps. key_readable cr kek p) \<and>
     x = (fold (\<lambda>p. gm_put (p_slug p) (entry_of p (plain_key cr kek p))) ps m, default_slug ps d)"
  by (induction ps arbitrary: m d)
    (auto simp: key_readable_def plain_key_def default_slug_def split: sum.splits)

definition choose_default ::
  "(string list \<Rightarrow> string list) \<Rightarrow> (string, ProviderEntry) gomap \<Rightarrow> string \<Rightarrow> string" where
  "choose_default order ps d = (if d = '''' \<and> ps \<noteq> [] then hd (order (map fst ps)) else d)"

lemma build_healthy:
  assumes "healthy db"
  shows "BuildProviderTable cr kek order db = (Ok t, db') \<longleftrightarrow> db' = db \<and>
    (let rows = filter p_enabled (providers db); ps = entries cr kek rows in
     (\<forall>p \<in> set rows. key_readable cr kek p) \<and>
     t = \<lparr>pt_providers = ps, pt_mappings = load_mappings (sort_key mm_id (model_mappings db)) [],
          pt_rules = sort_key rr_id (routing_rules db),
          pt_default = choose_default order ps (default_slug rows '''')\<rparr>)"
proof (cases "load_providers cr kek (filter p_enabled (providers db)) [] ''''")
  case (Inl e)
  have "\<not> (\<forall>p \<in> set (filter p_enabled (providers db)). key_readable cr kek p)"
  proof
    assume "\<forall>p \<in> set (filter p_enabled (providers db)). key_readable cr kek p"
    then have "\<exists>x. load_providers cr kek (filter p_enabled (providers db)) [] '''' = Ok x"
      using load_providers_fold by blast
    with Inl show False by simp
  qed
  then show ?thesis
    using Inl assms by (auto simp: BuildProviderTable_def sql_query_healthy Let_def)
next
  case (Inr x)
  then have "(\<forall>p \<in> set (filter p_enabled (providers db)). key_readable cr kek p)"
    "x = (entries cr kek (filter p_enabled (providers db)),
          default_slug (filter p_enabled (providers db)) '''')"
    by (simp_all add: load_providers_fold entries_def)
  then show ?thesis
    using Inr assms
    by (auto simp: BuildProviderTable_def sql_query_healthy Let_def ListRoutingRules_def
        choose_default_def)
qed

text \<open>Clearing the default flags leaves the entries and removes the default.\<close>

abbreviation cleared :: "ProviderRecord \<Rightarrow> ProviderRecord" where
  "cleared p \<equiv> (if p_is_default p then p\<lparr>p_is_default := False\<rparr> else p)"

lemma entry_cleared [simp]:
  "entry_of (p\<lparr>p_is_default := b\<rparr>) k = entry_of p k"
  "plain_key cr kek (p\<lparr>p_is_default := b\<rparr>) = plain_key cr kek p"
  "key_readable cr kek (p\<lparr>p_is_default := b\<rparr>) = key_readable cr kek p"
  by (simp_all add: entry_of_def plain_key_def key_readable_def)

lemma filter_cleared: "filter p_enabled (map cleared ps) = map cleared (filter p_enabled ps)"
  by (induction ps) auto

lemma entries_cleared: "entries cr kek (map cleared ps) = entries cr kek ps"
proof -
  have "fold (\<lambda>p. gm_put (p_slug p) (entry_of p (plain_key cr kek p))) (map cleared ps) m
    = fold (\<lambda>p. gm_put (p_slug p) (entry_of p (plain_key cr kek p))) ps m" for m
    by (induction ps arbitrary: m) simp_all
  then show ?thesis by (simp add: entries_def)
qed

lemma entries_snoc:
  "entries cr kek (ps @ [p]) = gm_put (p_slug p) (entry_of p (plain_key cr kek p)) (entries cr kek ps)"
  by (simp add: entries_def)

lemma default_slug_snoc:
  "default_slug (ps @ [p]) d = (if p_is_default p then p_slug p else default_slug ps d)"
  by (simp add: default_slug_def)

text \<open>What a creation leaves: the default marks cleared if the new provider is the default, its row, and an
  entry in the audit log.\<close>

definition uncleared :: "new_provider \<Rightarrow> db \<Rightarrow> ProviderRecord list" where
  "uncleared n db = (if np_is_default n then map cleared (providers db) else providers db)"

lemma create_provider_run:
  assumes "healthy db" "select_one (with_slug (np_slug n)) (providers db) = None"
    and "Encrypt cr nonce (np_api_key n) kek = Ok c"
  obtains db' where "CreateProvider cr kek nonce now n db
      = (Ok ((provider_row now n c (providers_seq db + 1))\<lparr>p_encrypted_key := []\<rparr>), db')"
    "providers db' = uncleared n db @ [provider_row now n c (providers_seq db + 1)]"
    "model_mappings db' = model_mappings db" "routing_rules db' = routing_rules db" "healthy db'"
proof -
  let ?i = "providers_seq db + 1" and ?r = "provider_row now n c (providers_seq db + 1)"
  let ?db1 = "db\<lparr>providers := uncleared n db @ [?r], providers_seq := ?i\<rparr>"
  have "select_one (with_slug (np_slug n)) (uncleared n db) = None"
    using assms(2) by (auto simp: uncleared_def select_one_None_iff)
  then have tx: "transaction (and_then (if np_is_default n then clear_defaults else (\<lambda>db. (Ok (), db)))
      (\<lambda>_. insert_provider (provider_row now n c))) db = (Ok ?i, ?db1)"
    using assms(1)
    by (intro transaction_healthy; cases "np_is_default n")
      (simp_all add: uncleared_def and_then_def clear_defaults_def sql_exec_healthy insert_provider_def
        run_stmt_healthy insert_row_def update_where_def provider_row_def)
  let ?db' = "WriteAudit now ''provider.create'' ''provider'' (np_slug n) (create_detail ?r) ?db1"
  show ?thesis
    by (rule that [of ?db'])
      (use assms(1) tx in \<open>simp_all add: CreateProvider_def assms(3) Let_def WriteAudit_def log_err_def sql_exec_healthy\<close>)
qed

text \<open>
  Property C27.  A provider created through the store reaches the router as it was given: the next
  snapshot resolves its slug to the plain key, the endpoint and the extra headers of the call, keeps
  every other provider as it was, and makes it the default when it was created as the default; the
  record returned to the admin carries no key.
\<close>

theorem created_provider_reaches_the_router:
  assumes "healthy db" "aead_ok cr" "length kek = 32" "length nonce = 12"
    and "np_extra_headers n = Some hs" "gm_ok hs" "np_slug n \<noteq> ''''"
    and "select_one (with_slug (np_slug n)) (providers db) = None"
    and "BuildProviderTable cr kek order db = (Ok t, db)"
  shows "\<exists>r db' t' p. CreateProvider cr kek (Some nonce) now n db = (Ok r, db') \<and>
    p_encrypted_key r = [] \<and> BuildProviderTable cr kek order db' = (Ok t', db') \<and>
    GetProviderBySlug t' (np_slug n) = Some p \<and>
    pr_api_key p = np_api_key n \<and> pr_endpoint p = np_endpoint n \<and>
    map_of (pr_extra_headers p) = map_of hs \<and>
    (\<forall>s. s \<noteq> np_slug n \<longrightarrow> GetProviderBySlug t' s = GetProviderBySlug t s) \<and>
    (np_is_default n \<longrightarrow> pt_default t' = np_slug n)"
proof -
  obtain c where c: "Encrypt cr (Some nonce) (np_api_key n) kek = Ok c"
    "Decrypt cr c kek = Ok (np_api_key n)"
    using decrypt_encrypt [OF assms(2-4)] by blast
  obtain hs' where h: "unmarshal_headers (marshal_headers (Some hs)) = Some hs'" "map_of hs' = map_of hs"
    using unmarshal_marshal [OF assms(6)] by blast
  let ?r = "provider_row now n c (providers_seq db + 1)"
  obtain db' where run: "CreateProvider cr kek (Some nonce) now n db = (Ok (?r\<lparr>p_encrypted_key := []\<rparr>), db')"
    and db': "providers db' = uncleared n db @ [?r]" "model_mappings db' = model_mappings db"
      "routing_rules db' = routing_rules db" "healthy db'"
    by (rule create_provider_run [OF assms(1,8) c(1)])
  have r: "p_enabled ?r" "p_slug ?r = np_slug n" "p_is_default ?r = np_is_default n"
    "plain_key cr kek ?r = np_api_key n" "key_readable cr kek ?r"
    by (simp_all add: provider_row_def plain_key_def key_readable_def c(2))
  let ?old = "filter p_enabled (providers db)"
  have old: "\<forall>p \<in> set ?old. key_readable cr kek p" "pt_providers t = entries cr kek ?old"
    using assms(9) build_healthy [OF assms(1), of cr kek order t db] by (simp_all add: Let_def)
  have e: "entries cr kek (filter p_enabled (uncleared n db)) = entries cr kek ?old"
    by (simp add: uncleared_def filter_cleared entries_cleared)
  have k: "\<forall>p \<in> set (filter p_enabled (uncleared n db)). key_readable cr kek p"
    using old(1) by (auto simp: uncleared_def)
  obtain t' where t': "BuildProviderTable cr kek order db' = (Ok t', db')"
    "pt_providers t' = gm_put (np_slug n) (entry_of ?r (np_api_key n)) (entries cr kek ?old)"
    "pt_default t' = choose_default order (pt_providers t')
       (if np_is_default n then np_slug n else default_slug (filter p_enabled (uncleared n db)) '''')"
    using build_healthy [OF db'(4), of cr kek order _ db'] k r
    by (simp add: db' Let_def entries_snoc default_slug_snoc e)
  have "parseExtraHeaders (p_extra_headers ?r) = hs'"
    using h(1) assms(5) by (simp add: parseExtraHeaders_def provider_row_def marshal_headers_def json_members_def)
  then show ?thesis
    using run t' old(2) h(2) assms(7)
    by (intro exI [of _ "?r\<lparr>p_encrypted_key := []\<rparr>"] exI [of _ db'] exI [of _ t']
        exI [of _ "provider_of_entry (entry_of ?r (np_api_key n))"])
      (simp add: GetProviderBySlug_def provider_of_entry_def entry_of_def provider_row_def
        choose_default_def)
qed

definition epoch :: gotime where
  "epoch = \<lparr>instant = 0, zone = 0\<rparr>"

definition sample_provider :: new_provider where
  "sample_provider = \<lparr>np_name = ''Z'', np_slug = ''z'', np_endpoint = ''https://z'',
     np_api_key = ''sk-1'', np_is_default = True, np_allow_passthrough = True,
     np_auth_header = '''', np_auth_scheme = '''', np_extra_headers = Some [(''v'', ''1'')],
     np_monthly_token_limit = 0, np_monthly_call_limit = 0, np_monthly_token_low_ratio = 0,
     np_monthly_call_low_ratio = 0, np_cycle_start_date = ''2026-07-01''\<rparr>"

lemma created_provider_reaches_the_router_witness:
  "\<exists>r db' t' p. CreateProvider toy_crypto (replicate 32 0) (Some (replicate 12 7)) epoch
      sample_provider empty_db = (Ok r, db') \<and>
    BuildProviderTable toy_crypto (replicate 32 0) id db' = (Ok t', db') \<and>
    GetProviderBySlug t' ''z'' = Some p \<and> pr_api_key p = ''sk-1''"
proof -
  have h: "healthy empty_db" "providers empty_db = []" by (simp_all add: empty_db_def)
  obtain t where t: "BuildProviderTable toy_crypto (replicate 32 0) id empty_db = (Ok t, empty_db)"
    using build_healthy [OF h(1), of toy_crypto "replicate 32 0" id _ empty_db] h(2)
    by (simp add: Let_def)
  show ?thesis
    using created_provider_reaches_the_router [OF h(1) toy_crypto_ok(1) _ _ _ _ _ _ t, of
        "replicate 12 7" sample_provider "[(''v'', ''1'')]" epoch]
    by (simp add: sample_provider_def h(2) gm_ok_def) blast
qed

end
