(* ===== verification/StoreInvariant.thy ===== *)
theory StoreInvariant
  imports StoreProperties
begin

text \<open>
  The invariant of the store's tables, kept by every operation whatever the database answers (that at
  most one provider is the default only when every configuration seeded marks at most one), and
  the guards of the deletion of a provider.
\<close>

section \<open>The invariant of the store\<close>

text \<open>Slugs are unique and every mapping belongs to a provider, with one mapping per model and
  provider; and at most one provider is the default, where that is asked for (\<open>od\<close>).\<close>

definition one_default :: "ProviderRecord list \<Rightarrow> bool" where
  "one_default ps \<longleftrightarrow> (\<forall>p \<in> set ps. \<forall>q \<in> set ps. p_is_default p \<longrightarrow> p_is_default q \<longrightarrow> p_slug p = p_slug q)"

definition providers_wf :: "ProviderRecord list \<Rightarrow> bool" where
  "providers_wf ps \<longleftrightarrow> distinct (map p_slug ps)"

definition mappings_wf :: "ModelMappingRecord list \<Rightarrow> bool" where
  "mappings_wf ms \<longleftrightarrow> distinct (map (\<lambda>m. (mm_external m, mm_provider_id m)) ms)"

interpretation provider_tbl: keyed_table p_slug providers_wf
  by unfold_locales (simp add: providers_wf_def)

interpretation mapping_tbl: keyed_table "\<lambda>m. (mm_external m, mm_provider_id m)" mappings_wf
  by unfold_locales (simp add: mappings_wf_def)

definition store_ok :: "bool \<Rightarrow> db \<Rightarrow> bool" where
  "store_ok od db \<longleftrightarrow> providers_wf (providers db) \<and> (od \<longrightarrow> one_default (providers db)) \<and>
     mappings_wf (model_mappings db) \<and>
     (\<forall>m \<in> set (model_mappings db). mm_provider_id m \<in> p_slug ` set (providers db))"

text \<open>The operations of the store, with whatever statement failures; seeding takes any of the
  configurations \<open>C\<close>, of which \<open>SeedFromConfig\<close> checks nothing.\<close>

inductive store_step :: "((cfg_provider \<times> bytes option) list \<Rightarrow> bool) \<Rightarrow> db \<Rightarrow> db \<Rightarrow> bool"
  for C where
  create: "CreateProvider cr kek nonce now n db = (pres, db') \<Longrightarrow> store_step C db db'"
| update: "UpdateProvider cr kek nonce now slug u detail db = (ores, db') \<Longrightarrow> store_step C db db'"
| delete: "DeleteProvider now slug db = (ures, db') \<Longrightarrow> store_step C db db'"
| map_new: "CreateMapping now external providerID realModel db = (mres, db') \<Longrightarrow> store_step C db db'"
| map_del: "DeleteMapping now i db = (ures, db') \<Longrightarrow> store_step C db db'"
| rule_new: "CreateRoutingRule now rule db = (rres, db') \<Longrightarrow> store_step C db db'"
| rule_upd: "UpdateRoutingRule now i ru detail db = (ures, db') \<Longrightarrow> store_step C db db'"
| rule_del: "DeleteRoutingRule now i db = (ures, db') \<Longrightarrow> store_step C db db'"
| seed: "C ps \<Longrightarrow>
    SeedFromConfig cr kek getenv now ps maps db = (ures, db') \<Longrightarrow> store_step C db db'"

text \<open>The tables the invariant reads.\<close>

definition same_store :: "db \<Rightarrow> db \<Rightarrow> bool" where
  "same_store a b \<longleftrightarrow> providers b = providers a \<and> model_mappings b = model_mappings a"

lemma same_storeI: "same_tables a b \<Longrightarrow> same_store a b"
  by (simp add: same_store_def same_tables_select)

lemma store_ok_same: "same_store a b \<Longrightarrow> store_ok od a \<Longrightarrow> store_ok od b"
  by (simp add: store_ok_def same_store_def)

lemma same_store_trans: "same_store a b \<Longrightarrow> same_store b c \<Longrightarrow> same_store a c"
  by (simp add: same_store_def)

lemma same_store_refl [simp]: "same_store a a"
  by (simp add: same_store_def)

lemma exec_store:
  assumes "sql_exec ctx f db = (r, db')"
  shows "same_store db db' \<or> (\<exists>db1. r = Ok () \<and> same_store db db1 \<and> db' = f db1)"
  using assms by (cases rule: sql_exec_cases) (auto intro: same_storeI)

lemma query_store: "sql_query ctx q db = (r, db') \<Longrightarrow> same_store db db'"
  by (erule sql_query_cases) (auto intro: same_storeI)

lemma audit_store [simp]: "same_store db (WriteAudit now a t i d db)"
proof -
  obtain r db' where e: "sql_exec ''write audit''
       (\<lambda>db. db\<lparr>audit_logs := insert_row
            \<lparr>al_id = audit_logs_seq db + 1, al_action = a, al_target_type = t,
             al_target_id = i, al_detail = d, al_created_at = fmt_rfc3339 now\<rparr>
            (audit_logs db),
          audit_logs_seq := audit_logs_seq db + 1\<rparr>) db = (r, db')"
    by fastforce
  then have "same_store db db'" by (cases rule: sql_exec_cases) (auto simp: same_store_def same_tables_select)
  with e show ?thesis by (simp add: WriteAudit_def log_err_def)
qed

lemma transaction_store:
  assumes "transaction body db = (r, db')"
  obtains "same_store db db'" "\<exists>e. r = Err e"
    | x db1 db2 where "r = Ok x" "same_store db db1" "body db1 = (Ok x, db2)" "same_store db2 db'"
  using assms by (cases rule: transaction_cases) (blast intro: same_storeI that)+

section \<open>The operations keep the invariant\<close>

lemma set_opt_keeps: "(\<And>x r. g (f x r) = g r) \<Longrightarrow> g (set_opt v f r) = g r"
  by (simp add: set_opt_def split: option.splits)

lemma provider_set_slug [simp]: "p_slug (provider_set now c u p) = p_slug p"
  by (simp add: provider_set_def set_opt_keeps [where g = p_slug])

lemma set_opt_default:
  "p_is_default (set_opt v (\<lambda>v p. p\<lparr>p_is_default := v\<rparr>) r) = (case v of Some b \<Rightarrow> b | None \<Rightarrow> p_is_default r)"
  by (simp add: set_opt_def split: option.splits)

lemma provider_set_default [simp]:
  "p_is_default (provider_set now c u p) = (case pu_is_default u of Some b \<Rightarrow> b | None \<Rightarrow> p_is_default p)"
  by (simp add: provider_set_def set_opt_default set_opt_keeps [where g = p_is_default]
      split: option.split)

text \<open>An update of rows that keeps slugs keeps everything but the choice of the default.\<close>

lemma store_ok_update:
  assumes "store_ok od db" "\<And>p. p_slug (f p) = p_slug p"
    and "od \<Longrightarrow> one_default (update_where P f (providers db))"
  shows "store_ok od (db\<lparr>providers := update_where P f (providers db)\<rparr>)"
proof -
  have "p_slug ` set (update_where P f (providers db)) = p_slug ` set (providers db)"
    using provider_tbl.keys_update [OF assms(2), of P "providers db"] by (metis list.set_map)
  then show ?thesis
    using assms by (simp add: store_ok_def provider_tbl.wf_update)
qed

lemma cleared_one: "\<forall>p \<in> set (update_where p_is_default (\<lambda>p. p\<lparr>p_is_default := False\<rparr>) ps). \<not> p_is_default p"
  by (auto simp: set_update_where)

lemma clear_store:
  assumes "(if b then clear_defaults else (\<lambda>db. (Ok (), db))) db = (Ok x, db')" "store_ok od db"
  shows "store_ok od db' \<and> (b \<longrightarrow> (\<forall>p \<in> set (providers db'). \<not> p_is_default p))"
proof (cases b)
  case True
  then obtain db1 where d: "same_store db db1"
    "db' = db1\<lparr>providers := update_where p_is_default (\<lambda>p. p\<lparr>p_is_default := False\<rparr>) (providers db1)\<rparr>"
    using exec_store [of _ _ db "Ok x" db'] assms(1) unfolding clear_defaults_def
    by (auto elim!: sql_exec_cases intro: same_storeI)
  have "store_ok od db'" unfolding d(2)
    by (rule store_ok_update [OF store_ok_same [OF d(1) assms(2)]])
      (use cleared_one in \<open>auto simp: one_default_def\<close>)
  then show ?thesis using cleared_one [of "providers db1"] d(2) by simp
qed (use assms in auto)

lemma one_default_snoc:
  assumes "one_default ps" "p_is_default x \<Longrightarrow> \<forall>p \<in> set ps. \<not> p_is_default p"
  shows "one_default (ps @ [x])"
proof (cases "p_is_default x")
  case True
  with assms(2) have "\<forall>p \<in> set ps. \<not> p_is_default p" by blast
  then show ?thesis by (simp add: one_default_def)
next
  case False
  have e: "set (ps @ [x]) = insert x (set ps)" by simp
  show ?thesis using assms(1) False unfolding one_default_def e by blast
qed

lemma insert_provider_store:
  assumes "insert_provider mk db = (r, db')" "store_ok od db" "\<And>i. p_slug (mk i) = p_slug (mk 0)"
    and "\<And>i. od \<Longrightarrow> p_is_default (mk i) \<Longrightarrow> \<forall>p \<in> set (providers db). \<not> p_is_default p"
  shows "store_ok od db' \<and> (\<exists>rows. providers db' = providers db @ rows \<and>
    (\<forall>p \<in> set rows. \<exists>i. p = mk i))"
  using assms(1) unfolding insert_provider_def
proof (cases rule: run_stmt_cases)
  case (ok db1)
  have s: "same_store db db1" by (rule same_storeI [OF ok(2)])
  have f: "select_one (with_slug (p_slug (mk (providers_seq db1 + 1)))) (providers db1) = None"
    unfolding assms(3) [of "providers_seq db1 + 1"] using ok(3) by (simp split: if_splits)
  have w: "providers_wf (providers db1)" using store_ok_same [OF s assms(2)] by (simp add: store_ok_def)
  have "providers_wf (providers db1 @ [mk (providers_seq db1 + 1)])"
    using provider_tbl.wf_insert [OF w f] by (simp add: insert_row_def)
  moreover have "one_default (providers db1 @ [mk (providers_seq db1 + 1)])" if od
    using that one_default_snoc [OF _ assms(4) [OF that]] assms(2) s by (simp add: store_ok_def same_store_def)
  ultimately have "store_ok od db'"
    using store_ok_same [OF s assms(2)] ok(4) by (auto simp: store_ok_def insert_row_def)
  moreover have "providers db' = providers db @ [mk (providers_seq db1 + 1)]"
    using s ok(4) by (simp add: insert_row_def same_store_def)
  ultimately show ?thesis by auto
qed (auto intro: store_ok_same [OF same_storeI assms(2)] simp: same_tables_select)

lemma create_keeps:
  assumes "CreateProvider cr kek nonce now n db = (r, db')" "store_ok od db"
  shows "store_ok od db'"
proof (cases "Encrypt cr nonce (np_api_key n) kek")
  case (Inl e)
  then show ?thesis using assms by (simp add: CreateProvider_def)
next
  case (Inr c)
  let ?body = "and_then (if np_is_default n then clear_defaults else (\<lambda>db. (Ok (), db)))
      (\<lambda>_. insert_provider (provider_row now n c))"
  obtain x db1 where t: "transaction ?body db = (x, db1)" by fastforce
  have "store_ok od db1"
    using t
  proof (cases rule: transaction_store)
    case 1
    then show ?thesis using store_ok_same assms(2) by blast
  next
    case (2 i d1 d2)
    from 2(3) obtain u d where c: "(if np_is_default n then clear_defaults else (\<lambda>db. (Ok (), db))) d1 = (Inr u, d)"
      and i: "insert_provider (provider_row now n c) d = (Ok i, d2)"
      by (cases rule: and_then_cases) auto
    note k = clear_store [OF c store_ok_same [OF 2(2) assms(2)]]
    have "store_ok od d2"
      using insert_provider_store [OF i] k by (simp add: provider_row_def)
    then show ?thesis using store_ok_same [OF 2(4)] by blast
  qed
  moreover have "same_store db1 db'"
    using assms(1) t Inr by (auto simp: CreateProvider_def Let_def split: sum.splits)
  ultimately show ?thesis using store_ok_same by blast
qed

lemma encrypt_update_state: "encrypt_update cr kek nonce u db = (r, db') \<Longrightarrow> db' = db"
  by (auto simp: encrypt_update_def split: option.splits if_splits sum.splits)

lemma one_default_set:
  assumes "one_default ps" "pu_is_default u = Some True \<Longrightarrow> \<forall>p \<in> set ps. \<not> p_is_default p"
  shows "one_default (update_where (with_slug slug) (provider_set n e u) ps)"
  unfolding one_default_def
proof (intro ballI impI)
  let ?f = "\<lambda>p. if p_slug p = slug then provider_set n e u p else p"
  fix p q
  assume "p \<in> set (update_where (with_slug slug) (provider_set n e u) ps)"
    and "q \<in> set (update_where (with_slug slug) (provider_set n e u) ps)"
  then obtain p0 q0 where p0: "p0 \<in> set ps" "p = ?f p0" and q0: "q0 \<in> set ps" "q = ?f q0"
    by (auto simp: set_update_where)
  assume d: "p_is_default p" "p_is_default q"
  show "p_slug p = p_slug q"
  proof (cases "pu_is_default u = Some True")
    case True
    then have "\<not> p_is_default p0" "\<not> p_is_default q0" using assms(2) p0 q0 by auto
    then have "p_slug p0 = slug" "p_slug q0 = slug" using d p0 q0 by (metis (full_types))+
    then show ?thesis using p0 q0 by simp
  next
    case False
    have k: "p_is_default x" if "p_is_default (?f x)" for x
      using that False by (auto split: if_splits option.splits)
    have "p_slug p0 = p_slug q0"
      using k [of p0] k [of q0] d p0 q0 assms(1) unfolding one_default_def by blast
    then show ?thesis using p0 q0 by simp
  qed
qed

lemma update_keeps:
  assumes "UpdateProvider cr kek nonce now slug u detail db = (r, db')" "store_ok od db"
  shows "store_ok od db'"
proof -
  let ?set = "\<lambda>encrypted. sql_exec ''update provider''
     (\<lambda>db. db\<lparr>providers := update_where (with_slug slug)
        (provider_set (fmt_rfc3339 now) encrypted u) (providers db)\<rparr>)"
  let ?body = "and_then (if pu_is_default u = Some True then clear_defaults else (\<lambda>db. (Ok (), db)))
      (\<lambda>_. and_then (encrypt_update cr kek nonce u) ?set)"
  obtain x db1 where t: "transaction ?body db = (x, db1)" by fastforce
  have "store_ok od db1"
    using t
  proof (cases rule: transaction_store)
    case 1
    then show ?thesis using store_ok_same assms(2) by blast
  next
    case (2 y d1 d2)
    from 2(3) obtain v d where c: "(if pu_is_default u = Some True then clear_defaults
        else (\<lambda>db. (Ok (), db))) d1 = (Inr v, d)"
      and r: "and_then (encrypt_update cr kek nonce u) ?set d = (Ok y, d2)"
      by (cases rule: and_then_cases) auto
    from r obtain e where s: "?set e d = (Ok y, d2)"
      by (cases rule: and_then_cases) (auto dest!: encrypt_update_state)
    note k = clear_store [OF c store_ok_same [OF 2(2) assms(2)]]
    from s obtain d' where d': "same_store d d'" "d2 = d'\<lparr>providers := update_where (with_slug slug)
        (provider_set (fmt_rfc3339 now) e u) (providers d')\<rparr>"
      by (cases rule: sql_exec_cases) (auto intro: same_storeI)
    have "one_default (update_where (with_slug slug) (provider_set (fmt_rfc3339 now) e u) (providers d'))" if od
      by (rule one_default_set) (use that k d'(1) in \<open>simp_all add: store_ok_def same_store_def\<close>)
    then have "store_ok od d2" unfolding d'(2)
      by (intro store_ok_update [OF store_ok_same [OF d'(1) conjunct1 [OF k]]]) simp_all
    then show ?thesis using store_ok_same [OF 2(4)] by blast
  qed
  moreover have "same_store db1 db'"
    using assms(1) t same_store_trans [OF audit_store query_store]
    by (auto simp: UpdateProvider_def GetProvider_def split: sum.splits)
  ultimately show ?thesis using store_ok_same by blast
qed

lemma store_ok_table [simp]: "table_property (store_ok od)"
  by (auto simp: table_property_def intro: store_ok_same same_storeI)

lemma store_ok_others [simp]:
  "store_ok od (db\<lparr>routing_rules := x, routing_rules_seq := i\<rparr>) = store_ok od db"
  "store_ok od (db\<lparr>routing_rules := x\<rparr>) = store_ok od db"
  by (simp_all add: store_ok_def)

lemma audit_keeps: "store_ok od db \<Longrightarrow> store_ok od (WriteAudit now a t i d db)"
  by (rule store_ok_same [OF audit_store])

lemma delete_rows_ok:
  assumes "store_ok od db"
  shows "store_ok od (db\<lparr>providers := delete_where (with_slug slug) (providers db),
    model_mappings := delete_where (\<lambda>m. mm_provider_id m = slug) (model_mappings db)\<rparr>)"
  using assms
  by (auto simp: store_ok_def one_default_def provider_tbl.wf_delete mapping_tbl.wf_delete)
    (auto simp: delete_where_def)

lemma delete_keeps: "preserves (store_ok od) (DeleteProvider now slug)"
proof -
  have e: "preserves (store_ok od) (sql_exec ''delete provider''
      (\<lambda>db. db\<lparr>providers := delete_where (with_slug slug) (providers db),
        model_mappings := delete_where (\<lambda>m. mm_provider_id m = slug) (model_mappings db)\<rparr>))"
    by (intro preserves_exec store_ok_table delete_rows_ok)
  have a: "preserves (store_ok od) (\<lambda>db. (Ok (), WriteAudit now ''provider.delete'' ''provider'' slug '''' db))"
    by (intro preserves_map audit_keeps)
  show ?thesis
    unfolding DeleteProvider_def GetUsersByFixedProvider_def
    by (intro preserves_rules store_ok_table e a)
qed

text \<open>A mapping row whose provider exists and whose pair is new.\<close>

lemma insert_mapping_ok:
  assumes "store_ok od db"
    and "select_one (\<lambda>m. mm_external m = mm_external r \<and> mm_provider_id m = mm_provider_id r)
      (model_mappings db) = None"
    and "select_one (with_slug (mm_provider_id r)) (providers db) \<noteq> None"
  shows "store_ok od (db\<lparr>model_mappings := insert_row r (model_mappings db), model_mappings_seq := i\<rparr>)"
proof -
  have "mappings_wf (insert_row r (model_mappings db))"
    using assms(1,2) by (intro mapping_tbl.wf_insert) (auto simp: store_ok_def)
  moreover have "mm_provider_id r \<in> p_slug ` set (providers db)"
    using assms(3) by (force dest: select_one_SomeD)
  ultimately show ?thesis using assms(1) by (auto simp: store_ok_def insert_row_def)
qed

lemma map_new_keeps: "preserves (store_ok od) (CreateMapping now external providerID realModel)"
  unfolding CreateMapping_def Let_def
  by (intro preserves_then preserves_stmt store_ok_table preserves_map audit_keeps)
    (rule insert_mapping_ok; simp split: if_splits)

lemma map_del_keeps: "preserves (store_ok od) (DeleteMapping now i)"
  unfolding DeleteMapping_def
  by (intro preserves_then preserves_exec store_ok_table preserves_map audit_keeps)
    (auto simp: store_ok_def mapping_tbl.wf_delete, auto simp: delete_where_def)

lemma rule_keeps:
  "preserves (store_ok od) (CreateRoutingRule now rule)"
  "preserves (store_ok od) (UpdateRoutingRule now i u detail)"
  "preserves (store_ok od) (DeleteRoutingRule now i)"
  unfolding CreateRoutingRule_def UpdateRoutingRule_def DeleteRoutingRule_def
  by (auto intro!: preserves_then preserves_stmt preserves_exec preserves_map preserves_result
      store_ok_table audit_keeps)

text \<open>Seeding an empty table: once a default is in, none is left to come.\<close>

lemma insert_seed_row:
  assumes i: "insert_provider (seed_row now p c) db = (x, db1)" and "store_ok od db"
    and u: "od \<Longrightarrow> \<exists>q \<in> set (providers db). p_is_default q \<Longrightarrow> \<not> cp_is_default p"
  shows "store_ok od db1 \<and> ((\<exists>q \<in> set (providers db1). p_is_default q) \<longrightarrow>
    cp_is_default p \<or> (\<exists>q \<in> set (providers db). p_is_default q))"
proof -
  have d: "p_is_default (seed_row now p c i) = cp_is_default p" for i
    by (simp add: seed_row_def provider_row_def)
  have "store_ok od db1 \<and> (\<exists>rows. providers db1 = providers db @ rows \<and> (\<forall>q \<in> set rows. \<exists>i. q = seed_row now p c i))"
    by (rule insert_provider_store [OF i assms(2)]) (use u d in \<open>auto simp: seed_row_def provider_row_def\<close>)
  then obtain rows where k: "store_ok od db1" "providers db1 = providers db @ rows"
    "\<forall>q \<in> set rows. \<exists>i. q = seed_row now p c i" by blast
  have "\<forall>q \<in> set rows. p_is_default q = cp_is_default p" using k(3) d by auto
  then show ?thesis using k(1,2) by auto
qed

lemma seed_providers_keeps:
  assumes "seed_providers cr kek getenv now ps db = (r, db')" "store_ok od db"
    and "od \<Longrightarrow> length (filter (cp_is_default \<circ> fst) ps) \<le> 1"
    and "od \<Longrightarrow> \<exists>p \<in> set (providers db). p_is_default p \<Longrightarrow> \<forall>p \<in> set ps. \<not> cp_is_default (fst p)"
  shows "store_ok od db'"
  using assms
proof (induction ps arbitrary: db)
  case (Cons a ps)
  obtain p nonce where a: "a = (p, nonce)" by fastforce
  let ?k = "if cp_api_key_env p \<noteq> '''' then getenv (cp_api_key_env p) else ''''"
  show ?case
  proof (cases "Encrypt cr nonce ?k kek")
    case (Inl e)
    then show ?thesis using Cons.prems by (simp add: a Let_def)
  next
    case (Inr c)
    obtain x db1 where i: "insert_provider (seed_row now p c) db = (x, db1)" by fastforce
    have k: "store_ok od db1" "(\<exists>q \<in> set (providers db1). p_is_default q) \<Longrightarrow>
        cp_is_default p \<or> (\<exists>q \<in> set (providers db). p_is_default q)"
      using insert_seed_row [OF i Cons.prems(2)] Cons.prems(4) by (simp_all add: a)
    have l: "od \<Longrightarrow> length (filter (cp_is_default \<circ> fst) ps) \<le> 1"
      "od \<Longrightarrow> cp_is_default p \<Longrightarrow> filter (cp_is_default \<circ> fst) ps = []"
      using Cons.prems(3) by (simp_all add: a o_def split: if_splits)
    have "\<forall>q \<in> set ps. \<not> cp_is_default (fst q)" if od "\<exists>q \<in> set (providers db1). p_is_default q"
      using k(2) [OF that(2)] that(1) l(2) Cons.prems(4) by (auto simp: filter_empty_conv)
    then show ?thesis using Cons.prems(1) Inr i k(1) l(1) Cons.IH [of db1] by (cases x) (simp_all add: a o_def Let_def)
  qed
qed simp

lemma seed_mapping_keeps: "store_ok od db \<Longrightarrow> store_ok od (seed_mapping now m db)"
proof -
  obtain e p r where m: "m = (e, p, r)" by (metis prod_cases3)
  assume "store_ok od db"
  moreover have "preserves (store_ok od) (run_stmt ''seed mapping''
          (\<lambda>db. if select_one (\<lambda>m. mm_external m = e \<and> mm_provider_id m = p)
                     (model_mappings db) \<noteq> None then Some (UniqueErr ''seed mapping'')
                else if select_one (with_slug p) (providers db) = None
                then Some (DbErr ''seed mapping'') else None)
          (\<lambda>_. ())
          (\<lambda>db. db\<lparr>model_mappings := insert_row
               \<lparr>mm_id = model_mappings_seq db + 1, mm_external = e,
                mm_provider_id = p, mm_real_model = r,
                mm_created_at = fmt_rfc3339 now\<rparr> (model_mappings db),
             model_mappings_seq := model_mappings_seq db + 1\<rparr>))"
    by (intro preserves_stmt store_ok_table) (rule insert_mapping_ok; simp split: if_splits)
  ultimately show ?thesis by (simp add: m seed_mapping_def preserves_def)
qed

lemma seed_keeps:
  assumes "SeedFromConfig cr kek getenv now ps maps db = (r, db')" "store_ok od db"
    and "od \<Longrightarrow> length (filter (cp_is_default \<circ> fst) ps) \<le> 1"
  shows "store_ok od db'"
proof -
  have f: "store_ok od (fold (seed_mapping now) maps d)" if "store_ok od d" for d
    using that by (induction maps arbitrary: d) (simp_all add: seed_mapping_keeps)
  from assms(1) show ?thesis unfolding SeedFromConfig_def
  proof (cases rule: and_then_cases)
    case (err e)
    then show ?thesis using query_store store_ok_same assms(2) by blast
  next
    case (ok n d)
    have s: "store_ok od d" using query_store [OF ok(1)] store_ok_same assms(2) by blast
    have n: "n = length (providers d)" using ok(1) by (cases rule: sql_query_cases) auto
    show ?thesis
    proof (cases "0 < n")
      case True
      then show ?thesis using ok(2) s by simp
    next
      case False
      then have e: "providers d = []" using n by simp
      from ok(2) False have "and_then (seed_providers cr kek getenv now ps)
          (\<lambda>_ db. (Ok (), fold (seed_mapping now) maps db)) d = (r, db')" by simp
      then show ?thesis
      proof (cases rule: and_then_cases)
        case (err e')
        then show ?thesis using seed_providers_keeps [OF err(1) s assms(3)] e by simp
      next
        case (ok u d1)
        have "store_ok od d1" using seed_providers_keeps [OF ok(1) s assms(3)] e by simp
        then show ?thesis using f ok(2) by auto
      qed
    qed
  qed
qed

text \<open>The configurations whose seeding keeps the choice of the default.\<close>

definition marks_one :: "(cfg_provider \<times> bytes option) list \<Rightarrow> bool" where
  "marks_one ps \<longleftrightarrow> length (filter (\<lambda>p. cp_is_default (fst p)) ps) \<le> 1"

lemma store_step_keeps:
  assumes "store_step C db db'" "store_ok od db" "\<And>ps. od \<Longrightarrow> C ps \<Longrightarrow> marks_one ps"
  shows "store_ok od db'"
  using assms(1)
proof cases
  case (seed ps cr kek getenv now maps ures)
  then show ?thesis using seed_keeps [OF seed(2) assms(2)] assms(3) by (simp add: marks_one_def o_def)
qed (fact create_keeps [OF _ assms(2)] update_keeps [OF _ assms(2)] preservesD [OF delete_keeps _ assms(2)]
  preservesD [OF map_new_keeps _ assms(2)] preservesD [OF map_del_keeps _ assms(2)]
  preservesD [OF rule_keeps(1) _ assms(2)] preservesD [OF rule_keeps(2) _ assms(2)]
  preservesD [OF rule_keeps(3) _ assms(2)])+

lemma store_steps_keep:
  assumes "(store_step C)\<^sup>*\<^sup>* db db'" "store_ok od db" "\<And>ps. od \<Longrightarrow> C ps \<Longrightarrow> marks_one ps"
  shows "store_ok od db'"
  using assms(1,2) by (induction rule: rtranclp_induct) (auto intro: store_step_keeps assms(3))

lemma store_ok_default: "store_ok True db \<longleftrightarrow> store_ok False db \<and> one_default (providers db)"
  by (auto simp: store_ok_def)

section \<open>Properties\<close>

text \<open>
  Property C28.  Whatever admin operations and seedings run on the store, in any order and with any
  failing statements, slugs stay unique and every model mapping belongs to an existing provider, one
  per model and provider.  At most one provider stays the default provided that no configuration the
  store is seeded from marks more than one: neither the configuration's loading nor the seeding checks
  that, and \<open>two_defaults_are_seeded\<close> below shows what happens otherwise.
\<close>

theorem store_stays_consistent:
  assumes "(store_step C)\<^sup>*\<^sup>* db db'" and "store_ok False db"
  shows "store_ok False db' \<and> (one_default (providers db) \<and> (\<forall>ps. C ps \<longrightarrow> marks_one ps)
    \<longrightarrow> one_default (providers db'))"
  using store_steps_keep [OF assms] store_steps_keep [OF assms(1), of True] assms(2)
  by (auto simp: store_ok_default)

text \<open>Two entries marked as the default, on an empty store: both rows are written as defaults.\<close>

definition two_marked :: "(cfg_provider \<times> bytes option) list" where
  "two_marked = map (\<lambda>i. (\<lparr>cp_id = i, cp_endpoint = ''https://up'', cp_api_key_env = '''', cp_is_default = True,
     cp_allow_passthrough = False, cp_auth_header = '''', cp_auth_scheme = '''', cp_extra_headers = None\<rparr>,
     Some (replicate 12 7))) [''a'', ''b'']"

abbreviation seeded_twice :: db where
  "seeded_twice \<equiv> snd (SeedFromConfig toy_crypto (replicate 32 0) (\<lambda>_. '''') epoch two_marked [] empty_db)"

lemma two_defaults_are_seeded:
  "map (\<lambda>p. (p_slug p, p_is_default p)) (providers seeded_twice) = [(''a'', True), (''b'', True)]"
  by (simp add: SeedFromConfig_def two_marked_def and_then_def sql_query_healthy run_stmt_healthy empty_db_def
      insert_provider_def insert_row_def seed_row_def provider_row_def Encrypt_def Let_def)

lemma store_stays_consistent_witness:
  "store_ok True (snd (CreateProvider toy_crypto (replicate 32 0) (Some (replicate 12 7)) epoch
     sample_provider empty_db)) \<and> store_ok False seeded_twice"
proof -
  let ?d = "snd (CreateProvider toy_crypto (replicate 32 0) (Some (replicate 12 7)) epoch
     sample_provider empty_db)"
  have "(store_step marks_one)\<^sup>*\<^sup>* empty_db ?d"
    by (intro r_into_rtranclp store_step.create) (rule prod.collapse [symmetric])
  moreover have "(store_step (\<lambda>_. True))\<^sup>*\<^sup>* empty_db seeded_twice"
    by (intro r_into_rtranclp store_step.seed TrueI) (rule prod.collapse [symmetric])
  moreover have "store_ok True empty_db" "store_ok False empty_db"
    by (simp_all add: store_ok_def empty_db_def providers_wf_def one_default_def mappings_wf_def)
  ultimately show ?thesis
    using store_stays_consistent [of marks_one empty_db ?d] store_stays_consistent [of "\<lambda>_. True" empty_db seeded_twice]
    by (simp add: store_ok_default)
qed

text \<open>What keeps a provider from being deleted.\<close>

definition in_use :: "string \<Rightarrow> db \<Rightarrow> bool" where
  "in_use slug db \<longleftrightarrow> (\<exists>r \<in> set (routing_rules db). rr_provider_id r = slug) \<or>
     (\<exists>m \<in> set (model_mappings db). mm_provider_id m = slug) \<or>
     (\<exists>u \<in> set (users db). u_fixed_provider u = slug \<and> u_status u \<noteq> ''deleted'') \<or>
     length (providers db) \<le> 1"

text \<open>
  Deleting a provider is refused while a routing rule, a mapping or a user that is not
  deleted refers to it, or while it is the last one, and then nothing changes; otherwise its row
  goes, and no rule, mapping or other provider with it.
\<close>

theorem provider_deletion_is_guarded:
  assumes "healthy db"
  shows "case DeleteProvider now slug db of
     (Inl e, db') \<Rightarrow> in_use slug db \<and> db' = db
   | (Inr _, db') \<Rightarrow> \<not> in_use slug db \<and>
       providers db' = filter (\<lambda>p. p_slug p \<noteq> slug) (providers db) \<and>
       model_mappings db' = model_mappings db \<and> routing_rules db' = routing_rules db \<and>
       users db' = users db"
proof -
  have m: "delete_where (\<lambda>m. mm_provider_id m = slug) (model_mappings db) = model_mappings db"
    if "\<forall>m \<in> set (model_mappings db). mm_provider_id m \<noteq> slug"
    using that by (simp add: delete_where_def)
  show ?thesis
    using assms m
    by (auto simp: DeleteProvider_def and_then_def sql_query_healthy sql_exec_healthy
        GetUsersByFixedProvider_def in_use_def WriteAudit_def log_err_def delete_where_def
        filter_empty_conv)
qed

lemma provider_deletion_is_guarded_witness:
  "fst (DeleteProvider epoch ''z'' empty_db) \<noteq> Ok ()"
  using provider_deletion_is_guarded [of empty_db "''z''" epoch]
  by (auto simp: in_use_def empty_db_def split: prod.splits sum.splits)

end
