(* ===== verification/RouterProperties.thy ===== *)
theory RouterProperties
  imports Router
begin

text \<open>
  Properties of the router: rules are taken in precedence order, a hit never falls back to another
  provider, the tie-break by window is the number of minutes the window covers, and model names are
  rewritten independently of the order in which Go ranges over the mappings.
\<close>

section \<open>Precedence\<close>

lemma rule_active_shanghai [simp]: "rule_active (t_in shanghai_off now) r = rule_active now r"
  by (simp add: rule_active_def MatchDay_def IsInRange_def)

text \<open>
  Property C16.  A request goes to the provider of the active rule of least rank (priority first, then
  the shorter window, then the older rule), in whatever order the rules are stored; when that
  provider is not configured the resolution fails instead of falling back, also when other providers
  are configured (the doc comment of \<open>ResolveProvider\<close> promises an error only when none is), and only
  when no rule is active does the default provider answer.
\<close>

theorem resolution_follows_precedence:
  assumes "distinct (map rr_id (pt_rules t))"
  shows "((\<forall>r \<in> set (pt_rules t). \<not> rule_active now r) \<longrightarrow>
      ResolveProvider order t now = defaultProvider order t) \<and>
    (\<forall>r \<in> set (pt_rules t). rule_active now r \<and>
        (\<forall>r' \<in> set (pt_rules t). rule_active now r' \<longrightarrow> rank_of r \<le> rank_of r') \<longrightarrow>
      ResolveProvider order t now = (case GetProviderBySlug t (rr_provider_id r) of
          Some p \<Rightarrow> Ok p
        | None \<Rightarrow> Err (GoErr ''routing rule targets provider which is not configured'')))"
proof (intro conjI impI ballI)
  assume "\<forall>r \<in> set (pt_rules t). \<not> rule_active now r"
  then show "ResolveProvider order t now = defaultProvider order t"
    by (simp add: ResolveProvider_def first_hit_None [THEN iffD2] Let_def)
next
  fix r
  assume r: "r \<in> set (pt_rules t)" and a: "rule_active now r \<and>
    (\<forall>r' \<in> set (pt_rules t). rule_active now r' \<longrightarrow> rank_of r \<le> rank_of r')"
  let ?h = "first_hit (t_in shanghai_off now) (sortRoutingRules (pt_rules t))"
  have "?h \<noteq> None" using r a by (auto simp: first_hit_None)
  then obtain h where h: "?h = Some h" by blast
  note f = first_hit_least [OF h]
  have "rank_of h = rank_of r" using f r a by (simp add: order.antisym)
  then have "rr_id h = rr_id r" by (simp add: rank_of_def)
  then have "h = r" using assms f(1) r by (simp add: distinct_map inj_on_def)
  then show "ResolveProvider order t now = (case GetProviderBySlug t (rr_provider_id r) of
          Some p \<Rightarrow> Ok p
        | None \<Rightarrow> Err (GoErr ''routing rule targets provider which is not configured''))"
    by (simp add: ResolveProvider_def h GetProviderBySlug_def split: option.splits)
qed

definition night_rule :: "int \<Rightarrow> string \<Rightarrow> RoutingRule" where
  "night_rule i p = \<lparr>rr_id = i, rr_provider_id = p, rr_start_time = ''22:00'', rr_end_time = ''06:00'',
     rr_days_of_week = ''*'', rr_timezone = ''Asia/Shanghai'', rr_enabled = True, rr_priority = 5,
     rr_default_provider_id = ''''\<rparr>"

definition night_table :: ProviderTable where
  "night_table = \<lparr>pt_providers = [], pt_mappings = [], pt_rules = [night_rule 2 ''b'', night_rule 1 ''a''],
     pt_default = ''''\<rparr>"

definition night :: gotime where
  "night = \<lparr>instant = (1782864000 + 15 * 3600) * sec_ns, zone = 0\<rparr>"

lemma resolution_follows_precedence_witness:
  "ResolveProvider id night_table night
    = Err (GoErr ''routing rule targets provider which is not configured'')"
proof -
  have d: "distinct (map rr_id (pt_rules night_table))" by (simp add: night_table_def night_rule_def)
  have a: "rule_active night (night_rule 1 ''a'')" "rank_of (night_rule 1 ''a'') \<le> rank_of (night_rule 2 ''b'')"
    by code_simp+
  have "night_rule 1 ''a'' \<in> set (pt_rules night_table)" by (simp add: night_table_def)
  from resolution_follows_precedence [OF d, THEN conjunct2, rule_format, OF this, of night id]
  show ?thesis using a by (simp add: night_table_def GetProviderBySlug_def night_rule_def)
qed

section \<open>The length of a window\<close>

lemma parseHHMM_hhmm:
  assumes "0 \<le> k" "k < 1440"
  shows "parseHHMM (hhmm k) = k"
proof -
  define h m where "h = nat (k div 60)" and "m = nat (k mod 60)"
  have b: "h < 24" "m < 60" using assms by (auto simp: h_def m_def)
  have d: "digits 2 n = [digit_char (n div 10), digit_char (n mod 10)]" if "n < 100" for n
    using that by (simp add: numeral_2_eq_2)
  have e: "hhmm k = [digit_char (h div 10), digit_char (h mod 10), CHR '':'',
      digit_char (m div 10), digit_char (m mod 10)]"
    using assms b by (simp add: hhmm_digits d h_def [symmetric] m_def [symmetric])
  have v: "byte_digit (digit_char (n div 10)) * 10 + byte_digit (digit_char (n mod 10)) = int n"
    if "n < 60" for n
  proof -
    have "n div 10 < 10" using that by linarith
    then have "byte_digit (digit_char (n div 10)) * 10 + byte_digit (digit_char (n mod 10))
      = int (n div 10) * 10 + int (n mod 10)"
      by (simp only: byte_digit_digit mod_less_divisor zero_less_numeral)
    then show ?thesis by presburger
  qed
  have "int h = k div 60" "int m = k mod 60" using assms by (simp_all add: h_def m_def pos_imp_zdiv_nonneg_iff)
  then have "int h * 60 + int m = k" by simp
  then show ?thesis
    using v [of h] v [of m] b by (simp add: parseHHMM_def e Let_def)
qed

text \<open>Every minute of the day occurs.\<close>

lemma minute_occurs:
  assumes "0 \<le> m" "m < 1440"
  shows "minute_of_day \<lparr>instant = (m * 60 - 28800) * sec_ns, zone = 0\<rparr> = m"
proof -
  have "(m * 60 - 28800) * sec_ns div sec_ns = m * 60 - 28800" by (simp add: sec_ns_def)
  then show ?thesis
    using assms by (simp add: minute_of_day_def t_sod_def t_secs_def t_in_def shanghai_off_def)
qed

text \<open>
  The tie-break between rules of equal priority is fair to what the rules cover: the
  number \<open>windowMinutes\<close> computes from the two texts is the number of minutes of the day at which
  \<open>IsInRange\<close> accepts the window, overnight windows included.
\<close>

theorem window_minutes_counts_accepted_minutes:
  assumes "0 \<le> s" "s < 1440" "0 \<le> e" "e < 1440"
  shows "windowMinutes (hhmm s) (hhmm e)
    = int (card {minute_of_day now |now. IsInRange (hhmm s) (hhmm e) now})"
proof -
  have "{minute_of_day now |now. IsInRange (hhmm s) (hhmm e) now}
    = {m \<in> {0..<1440}. if s \<le> e then s \<le> m \<and> m < e else s \<le> m \<or> m < e}"
    (is "?L = ?R")
  proof
    show "?L \<subseteq> ?R" using minute_of_day_bounds by (auto simp: IsInRange_minutes [OF assms])
    show "?R \<subseteq> ?L"
    proof
      fix m
      assume m: "m \<in> ?R"
      let ?t = "\<lparr>instant = (m * 60 - 28800) * sec_ns, zone = 0\<rparr> :: gotime"
      have "minute_of_day ?t = m" using m by (intro minute_occurs) auto
      moreover have "IsInRange (hhmm s) (hhmm e) ?t"
        using m calculation by (simp add: IsInRange_minutes [OF assms])
      ultimately show "m \<in> ?L" by (intro CollectI exI [of _ ?t]) simp
    qed
  qed
  also have "\<dots> = (if s \<le> e then {s..<e} else {0..<e} \<union> {s..<1440})"
    using assms by auto
  finally have "card {minute_of_day now |now. IsInRange (hhmm s) (hhmm e) now}
    = (if s \<le> e then nat (e - s) else nat e + nat (1440 - s))"
    using assms by (simp add: card_Un_disjoint)
  then show ?thesis
    using assms by (simp add: windowMinutes_def parseHHMM_hhmm Let_def)
qed

lemma window_minutes_counts_accepted_minutes_witness:
  "int (card {minute_of_day now |now. IsInRange ''22:00'' ''06:00'' now}) = 480"
proof -
  have h: "hhmm 1320 = ''22:00''" "hhmm 360 = ''06:00''" by code_simp+
  have w: "windowMinutes ''22:00'' ''06:00'' = 480" by code_simp
  show ?thesis using window_minutes_counts_accepted_minutes [of 1320 360] by (simp add: h w)
qed

section \<open>Model names\<close>

text \<open>The provider's own name for a model: an empty override counts as none.\<close>

definition override :: "(string, string) gomap \<Rightarrow> string \<Rightarrow> string option" where
  "override m providerID = (case map_of m providerID of
     Some realm \<Rightarrow> if realm \<noteq> '''' then Some realm else None | None \<Rightarrow> None)"

lemma scan_find:
  assumes "\<forall>k \<in> set keys. map_of maps k \<noteq> None"
  shows "scan_mappings maps keys ext pid = (case find (\<lambda>k. equal_fold k ext) keys of
     None \<Rightarrow> None | Some k \<Rightarrow> override (the (map_of maps k)) pid)"
  using assms by (induction keys) (auto simp: override_def split: option.splits)

text \<open>
  The name a request is forwarded with depends only on the mappings: when no two
  mapping keys are equal up to case, it is the override of the key that equals the requested name up
  to case, and the requested name itself when there is no such key or no override for the provider,
  in whatever order Go ranges over the map.
\<close>

theorem rewrite_ignores_map_order:
  assumes "gm_ok (pt_mappings t)" and "\<And>ks. set (order ks) = set ks"
    and "\<And>k k'. k \<in> fst ` set (pt_mappings t) \<Longrightarrow> k' \<in> fst ` set (pt_mappings t) \<Longrightarrow>
      equal_fold k k' \<Longrightarrow> k = k'"
  shows "(\<forall>k m. (k, m) \<in> set (pt_mappings t) \<and> equal_fold k ext \<longrightarrow>
      RewriteModel order t ext pid = (case override m pid of Some realm \<Rightarrow> realm | None \<Rightarrow> ext)) \<and>
    ((\<forall>k \<in> fst ` set (pt_mappings t). \<not> equal_fold k ext) \<longrightarrow> RewriteModel order t ext pid = ext)"
proof -
  let ?M = "pt_mappings t"
  let ?ks = "order (map fst ?M)"
  have dom: "\<forall>k \<in> set ?ks. map_of ?M k \<noteq> None"
    by (simp add: assms(2) map_of_eq_None_iff)
  note scan = scan_find [OF dom]
  have ex: "exact_mapping ?M ext pid = (case map_of ?M ext of None \<Rightarrow> None | Some m \<Rightarrow> override m pid)"
    by (simp add: exact_mapping_def override_def split: option.split)
  show ?thesis
  proof (intro conjI allI impI)
    fix k m
    assume km: "(k, m) \<in> set ?M \<and> equal_fold k ext"
    then have m: "map_of ?M k = Some m" using assms(1) by (simp add: gm_ok_def)
    have u: "k' = k" if "k' \<in> fst ` set ?M" "equal_fold k' ext" for k'
      using assms(3) [of k' k] that km
      by (metis equal_fold_sym equal_fold_trans fst_conv imageI)
    have "find (\<lambda>k. equal_fold k ext) ?ks = Some k"
    proof -
      have "find (\<lambda>k. equal_fold k ext) ?ks \<noteq> None"
        using km imageI [of "(k, m)" "set ?M" fst] by (auto simp: find_None_iff assms(2))
      then obtain k' where f: "find (\<lambda>k. equal_fold k ext) ?ks = Some k'" by blast
      then have "k' \<in> set ?ks" "equal_fold k' ext" by (auto simp: find_Some_iff)
      then show ?thesis using u [of k'] f by (simp add: assms(2))
    qed
    then have s: "scan_mappings ?M ?ks ext pid = override m pid" by (simp add: scan m)
    have "map_of ?M ext = None \<or> map_of ?M ext = Some m"
    proof (cases "map_of ?M ext")
      case (Some m')
      then have "ext \<in> fst ` set ?M" by (metis map_of_eq_None_iff option.distinct(1))
      from u [OF this] m show ?thesis by simp
    qed simp
    then show "RewriteModel order t ext pid = (case override m pid of Some realm \<Rightarrow> realm | None \<Rightarrow> ext)"
      by (auto simp: RewriteModel_def ex s split: option.splits)
  next
    assume n: "\<forall>k \<in> fst ` set ?M. \<not> equal_fold k ext"
    then have "find (\<lambda>k. equal_fold k ext) ?ks = None"
      by (auto simp: find_None_iff assms(2))
    moreover have "ext \<notin> fst ` set ?M" using n by force
    then have "map_of ?M ext = None" by (simp add: map_of_eq_None_iff)
    ultimately show "RewriteModel order t ext pid = ext"
      by (simp add: RewriteModel_def ex scan)
  qed
qed

lemma rewrite_ignores_map_order_witness:
  "RewriteModel rev (night_table\<lparr>pt_mappings := [(''GPT'', [(''z'', ''glm'')]), (''o1'', [])]\<rparr>)
     ''gpt'' ''z'' = ''glm''"
proof -
  let ?t = "night_table\<lparr>pt_mappings := [(''GPT'', [(''z'', ''glm'')]), (''o1'', [])]\<rparr>"
  have f: "equal_fold ''GPT'' ''gpt''" "\<not> equal_fold ''GPT'' ''o1''" "\<not> equal_fold ''o1'' ''GPT''"
    by code_simp+
  have g: "gm_ok (pt_mappings ?t)" by (simp add: gm_ok_def)
  have d: "k = k'" if "k \<in> fst ` set (pt_mappings ?t)" "k' \<in> fst ` set (pt_mappings ?t)" "equal_fold k k'"
    for k k'
    using that f by auto
  have m: "(''GPT'', [(''z'', ''glm'')]) \<in> set (pt_mappings ?t) \<and> equal_fold ''GPT'' ''gpt''"
    using f by simp
  from rewrite_ignores_map_order [OF g set_rev d, THEN conjunct1, rule_format, OF _ _ _ m, of "''z''"]
  show ?thesis by (simp add: override_def)
qed

end
