(* ===== verification/Concurrency.thy ===== *)
theory Concurrency
  imports Prelude
begin

text \<open>
  The per-user cap on requests in flight (\<open>internal/proxy/handler.go\<close>): a \<open>sync.Map\<close> from user ids to
  atomic counters.  First the three operations run one at a time, with the contract of a pool of
  slots; then their atomic actions interleaved over any number of requests, where the counter of a
  user is a heap cell that requests point to.
\<close>

section \<open>The operations\<close>

type_synonym counters = "(int, int) gomap"

definition ForgetConcurrency :: "int \<Rightarrow> counters \<Rightarrow> counters" where
  "ForgetConcurrency userID st = gm_delete userID st"

definition tryAcquireConcurrency :: "int \<Rightarrow> int \<Rightarrow> counters \<Rightarrow> bool \<times> counters" where
  "tryAcquireConcurrency userID maxc st =
     (if maxc \<le> 0 then (True, st)
      else let v = (case map_of st userID of Some n \<Rightarrow> n | None \<Rightarrow> 0);
               c = v + 1
           in if maxc < c then (False, gm_put userID (c - 1) st)
              else (True, gm_put userID c st))"

definition releaseConcurrency :: "int \<Rightarrow> counters \<Rightarrow> counters" where
  "releaseConcurrency userID st =
     (case map_of st userID of Some n \<Rightarrow> gm_put userID (n - 1) st | None \<Rightarrow> st)"

definition in_flight :: "int \<Rightarrow> counters \<Rightarrow> int" where
  "in_flight userID st = (case map_of st userID of Some n \<Rightarrow> n | None \<Rightarrow> 0)"

section \<open>Pools of slots\<close>

locale slot_pool =
  fixes acquire :: "'s \<Rightarrow> bool \<times> 's"
    and release :: "'s \<Rightarrow> 's"
    and in_use :: "'s \<Rightarrow> int"
    and cap :: int
  assumes acquire_yes: "acquire s = (True, s') \<Longrightarrow> in_use s' = in_use s + 1 \<and> in_use s' \<le> cap"
    and acquire_no: "acquire s = (False, s') \<Longrightarrow> in_use s' = in_use s \<and> cap \<le> in_use s"
    and release_one: "0 < in_use s \<Longrightarrow> in_use (release s) = in_use s - 1"
begin

text \<open>A client that releases only what it acquired: \<open>True\<close> is an arrival, \<open>False\<close> the end of a
  request, which is ignored when none is held.\<close>

fun serve :: "bool list \<Rightarrow> int \<Rightarrow> 's \<Rightarrow> int \<times> 's" where
  "serve [] held s = (held, s)"
| "serve (True # es) held s =
     (case acquire s of (True, s') \<Rightarrow> serve es (held + 1) s' | (False, s') \<Rightarrow> serve es held s')"
| "serve (False # es) held s =
     (if 0 < held then serve es (held - 1) (release s) else serve es held s)"

lemma serve_inv:
  assumes "in_use s = held" "0 \<le> held" "held \<le> max 0 cap" "serve es held s = (held', s')"
  shows "in_use s' = held' \<and> 0 \<le> held' \<and> held' \<le> max 0 cap"
  using assms
proof (induction es held s rule: serve.induct)
  case (2 es held s)
  show ?case
  proof (cases "acquire s")
    case (Pair b t)
    then show ?thesis
      using 2 acquire_yes [of s t] acquire_no [of s t] by (cases b) auto
  qed
next
  case (3 es held s)
  then show ?case using release_one [of s] by (auto split: if_splits)
qed auto

end

interpretation user_slots:
  slot_pool "tryAcquireConcurrency uid (1 + int k)" "releaseConcurrency uid" "in_flight uid"
    "1 + int k" for uid k
  by unfold_locales
    (auto simp: tryAcquireConcurrency_def releaseConcurrency_def in_flight_def Let_def
      split: option.splits if_splits)

text \<open>The client at the model's own operations.\<close>

fun run_requests :: "int \<Rightarrow> int \<Rightarrow> bool list \<Rightarrow> int \<Rightarrow> counters \<Rightarrow> int \<times> counters" where
  "run_requests uid maxc [] held st = (held, st)"
| "run_requests uid maxc (True # es) held st =
     (case tryAcquireConcurrency uid maxc st of
        (True, st') \<Rightarrow> run_requests uid maxc es (held + 1) st'
      | (False, st') \<Rightarrow> run_requests uid maxc es held st')"
| "run_requests uid maxc (False # es) held st =
     (if 0 < held then run_requests uid maxc es (held - 1) (releaseConcurrency uid st)
      else run_requests uid maxc es held st)"

lemma run_requests_serve:
  "run_requests uid (1 + int k) es held st = user_slots.serve uid k es held st"
  by (induction uid "1 + int k" es held st rule: run_requests.induct)
    (auto split: prod.splits bool.splits)

section \<open>Interleavings\<close>

text \<open>Where a request stands between the atomic actions of \<open>tryAcquireConcurrency\<close> and
  \<open>releaseConcurrency\<close>; the argument is the cell of the counter it holds a pointer to.\<close>

datatype pc = Ready | Loaded nat | Over nat | Running | Releasing nat | Done | Refused

record conf =
  cells :: "int list"
  slot_of :: "(int, nat) gomap"
  reqs :: "(int \<times> pc) list"

definition goto :: "nat \<Rightarrow> pc \<Rightarrow> conf \<Rightarrow> conf" where
  "goto i p c = c\<lparr>reqs := (reqs c)[i := (fst (reqs c ! i), p)]\<rparr>"

text \<open>Each rule is one atomic action; \<open>cap\<close> gives the positive cap of each user.\<close>

inductive conc_step :: "(int \<Rightarrow> int) \<Rightarrow> conf \<Rightarrow> conf \<Rightarrow> bool" for cap where
  load: "i < length (reqs c) \<Longrightarrow> reqs c ! i = (u, Ready) \<Longrightarrow> map_of (slot_of c) u = Some a \<Longrightarrow>
    conc_step cap c (goto i (Loaded a) c)"
| store: "i < length (reqs c) \<Longrightarrow> reqs c ! i = (u, Ready) \<Longrightarrow> map_of (slot_of c) u = None \<Longrightarrow>
    conc_step cap c (goto i (Loaded (length (cells c)))
      (c\<lparr>cells := cells c @ [0], slot_of := gm_put u (length (cells c)) (slot_of c)\<rparr>))"
| add: "i < length (reqs c) \<Longrightarrow> reqs c ! i = (u, Loaded a) \<Longrightarrow> n = cells c ! a + 1 \<Longrightarrow>
    conc_step cap c (goto i (if cap u < n then Over a else Running) (c\<lparr>cells := (cells c)[a := n]\<rparr>))"
| undo: "i < length (reqs c) \<Longrightarrow> reqs c ! i = (u, Over a) \<Longrightarrow>
    conc_step cap c (goto i Refused (c\<lparr>cells := (cells c)[a := cells c ! a - 1]\<rparr>))"
| rel_load: "i < length (reqs c) \<Longrightarrow> reqs c ! i = (u, Running) \<Longrightarrow> map_of (slot_of c) u = Some a \<Longrightarrow>
    conc_step cap c (goto i (Releasing a) c)"
| rel_none: "i < length (reqs c) \<Longrightarrow> reqs c ! i = (u, Running) \<Longrightarrow> map_of (slot_of c) u = None \<Longrightarrow>
    conc_step cap c (goto i Done c)"
| rel_dec: "i < length (reqs c) \<Longrightarrow> reqs c ! i = (u, Releasing a) \<Longrightarrow>
    conc_step cap c (goto i Done (c\<lparr>cells := (cells c)[a := cells c ! a - 1]\<rparr>))"

inductive_cases conc_stepE: "conc_step cap c c'"

definition start_conf :: "int list \<Rightarrow> conf" where
  "start_conf us = \<lparr>cells = [], slot_of = [], reqs = map (\<lambda>u. (u, Ready)) us\<rparr>"

text \<open>Requests that have added to the counter and not yet subtracted, and requests upstream.\<close>

definition counted :: "pc \<Rightarrow> bool" where
  "counted p = (case p of Over _ \<Rightarrow> True | Running \<Rightarrow> True | Releasing _ \<Rightarrow> True | _ \<Rightarrow> False)"

definition number :: "(pc \<Rightarrow> bool) \<Rightarrow> int \<Rightarrow> conf \<Rightarrow> int" where
  "number P u c = int (length (filter (\<lambda>q. fst q = u \<and> P (snd q)) (reqs c)))"

definition upstream :: "pc \<Rightarrow> bool" where
  "upstream p \<longleftrightarrow> p = Running"

definition pointer_ok :: "conf \<Rightarrow> int \<times> pc \<Rightarrow> bool" where
  "pointer_ok c q = (case snd q of
     Loaded a \<Rightarrow> map_of (slot_of c) (fst q) = Some a
   | Over a \<Rightarrow> map_of (slot_of c) (fst q) = Some a
   | Releasing a \<Rightarrow> map_of (slot_of c) (fst q) = Some a
   | Running \<Rightarrow> map_of (slot_of c) (fst q) \<noteq> None
   | _ \<Rightarrow> True)"

definition conf_ok :: "(int \<Rightarrow> int) \<Rightarrow> conf \<Rightarrow> bool" where
  "conf_ok cap c \<longleftrightarrow>
     (\<forall>u a. map_of (slot_of c) u = Some a \<longrightarrow> a < length (cells c) \<and> cells c ! a = number counted u c) \<and>
     (\<forall>u v a. map_of (slot_of c) u = Some a \<longrightarrow> map_of (slot_of c) v = Some a \<longrightarrow> u = v) \<and>
     (\<forall>u. map_of (slot_of c) u = None \<longrightarrow> number counted u c = 0) \<and>
     (\<forall>q \<in> set (reqs c). pointer_ok c q) \<and>
     (\<forall>u. number upstream u c \<le> cap u)"

lemma length_filter_update:
  assumes "i < length xs"
  shows "int (length (filter P (xs[i := y]))) =
    int (length (filter P xs)) - (if P (xs ! i) then 1 else 0) + (if P y then 1 else 0)"
  using assms
proof (induction xs arbitrary: i)
  case (Cons x xs)
  show ?case
  proof (cases i)
    case (Suc j)
    then show ?thesis using Cons.IH [of j] Cons.prems by (cases "P (xs ! j)"; cases "P y"; simp)
  qed simp
qed simp

lemma number_goto:
  assumes "i < length (reqs c)" "reqs c ! i = (v, p0)"
  shows "number P u (goto i p c) = number P u c
    + (if u = v then (if P p then 1 else 0) - (if P p0 then 1 else 0) else 0)"
  using assms by (simp add: number_def goto_def length_filter_update)

lemma goto_fields [simp]:
  "cells (goto i p c) = cells c" "slot_of (goto i p c) = slot_of c"
  "length (reqs (goto i p c)) = length (reqs c)"
  by (simp_all add: goto_def)

lemma number_fields [simp]:
  "number P u (c\<lparr>cells := x\<rparr>) = number P u c" "number P u (c\<lparr>cells := x, slot_of := y\<rparr>) = number P u c"
  by (simp_all add: number_def)

lemma number_mono:
  assumes "\<And>p. P p \<Longrightarrow> Q p"
  shows "number P u c \<le> number Q u c"
proof -
  have "length (filter (\<lambda>q. fst q = u \<and> P (snd q)) qs) \<le> length (filter (\<lambda>q. fst q = u \<and> Q (snd q)) qs)"
    for qs using assms by (induction qs) auto
  then show ?thesis by (simp add: number_def)
qed

lemma set_reqs_goto:
  "q \<in> set (reqs (goto i p c)) \<Longrightarrow> q = (fst (reqs c ! i), p) \<or> q \<in> set (reqs c)"
  using set_update_subset_insert [of "reqs c" i] by (auto simp: goto_def)

text \<open>An action of request \<open>i\<close> of user \<open>u\<close> on the user's own counter keeps the invariant when it moves
  the counter by the change in what is counted.\<close>

lemma own_action_ok:
  assumes ok: "conf_ok cap c" and i: "i < length (reqs c)" "reqs c ! i = (u, p0)"
    and a: "map_of (slot_of c) u = Some a"
    and cs: "length cs = length (cells c)" "\<And>b. b \<noteq> a \<Longrightarrow> cs ! b = cells c ! b"
      "cs ! a = cells c ! a + (if counted p then 1 else 0) - (if counted p0 then 1 else 0)"
    and p: "pointer_ok c (u, p)"
    and up: "upstream p \<Longrightarrow> upstream p0 \<or> number upstream u c + 1 \<le> cap u"
  shows "conf_ok cap (goto i p (c\<lparr>cells := cs\<rparr>))"
proof -
  let ?c = "goto i p (c\<lparr>cells := cs\<rparr>)"
  have n: "number P v ?c = number P v c
      + (if v = u then (if P p then 1 else 0) - (if P p0 then 1 else 0) else 0)" for P v
    using number_goto [of i "c\<lparr>cells := cs\<rparr>" u p0 P v p] i by simp
  have s: "slot_of ?c = slot_of c" by simp
  have 1: "b < length (cells ?c) \<and> cells ?c ! b = number counted v ?c"
    if "map_of (slot_of ?c) v = Some b" for v b
  proof (cases "v = u")
    case True
    then show ?thesis using that a ok cs(1,3) by (auto simp: n conf_ok_def)
  next
    case False
    then have "b \<noteq> a" using that a ok by (auto simp: conf_ok_def)
    then show ?thesis using False that ok cs(1,2) by (auto simp: n conf_ok_def)
  qed
  have 2: "number counted v ?c = 0" if "map_of (slot_of ?c) v = None" for v
    using that a ok by (auto simp: n conf_ok_def)
  have 3: "pointer_ok ?c q" if "q \<in> set (reqs ?c)" for q
  proof -
    have "pointer_ok c q" using set_reqs_goto [OF that] p ok i by (auto simp: conf_ok_def)
    then show ?thesis by (simp add: pointer_ok_def split: pc.splits)
  qed
  have 4: "number upstream v ?c \<le> cap v" for v
  proof -
    have "number upstream v c \<le> cap v" using ok by (simp add: conf_ok_def)
    then show ?thesis using up by (cases "upstream p"; cases "upstream p0") (auto simp: n)
  qed
  show ?thesis using 1 2 3 4 ok unfolding conf_ok_def s by blast
qed

lemma pointer_known:
  assumes "conf_ok cap c" "i < length (reqs c)" "reqs c ! i = (u, p)" "p = Loaded a \<or> p = Over a \<or> p = Releasing a"
  shows "map_of (slot_of c) u = Some a" "a < length (cells c)" "cells c ! a = number counted u c"
proof -
  have "pointer_ok c (u, p)" using assms(1-3) nth_mem [of i "reqs c"] by (force simp: conf_ok_def)
  then show "map_of (slot_of c) u = Some a" using assms(4) by (auto simp: pointer_ok_def)
  then show "a < length (cells c)" "cells c ! a = number counted u c" using assms(1) by (auto simp: conf_ok_def)
qed

text \<open>The first request of a user makes its counter.\<close>

lemma new_counter_ok:
  assumes ok: "conf_ok cap c" and store: "i < length (reqs c)" "reqs c ! i = (u, Ready)" "map_of (slot_of c) u = None"
  shows "conf_ok cap (goto i (Loaded (length (cells c)))
    (c\<lparr>cells := cells c @ [0], slot_of := gm_put u (length (cells c)) (slot_of c)\<rparr>))" (is "conf_ok cap ?c")
proof -
  let ?d = "c\<lparr>cells := cells c @ [0], slot_of := gm_put u (length (cells c)) (slot_of c)\<rparr>"
  have n: "number P v ?c = number P v c" if "P (Loaded (length (cells c))) = P Ready" for P v
    using number_goto [of i ?d u Ready P v] store that by simp
  have nn: "number counted v ?c = number counted v c" "number upstream v ?c = number upstream v c" for v
    by (simp_all add: n counted_def upstream_def)
  have 1: "b < length (cells ?c) \<and> cells ?c ! b = number counted v ?c"
    if "map_of (slot_of ?c) v = Some b" for v b
    using that ok store(3) by (auto simp: nn conf_ok_def nth_append split: if_splits)
  have 2: "number counted v ?c = 0" if "map_of (slot_of ?c) v = None" for v
    using that ok by (auto simp: nn conf_ok_def split: if_splits)
  have 3: "pointer_ok ?c q" if q: "q \<in> set (reqs ?c)" for q
  proof -
    consider "q = (u, Loaded (length (cells c)))" | "pointer_ok c q"
      using set_reqs_goto [OF q] store ok by (auto simp: conf_ok_def)
    then show ?thesis using store(3) by cases (auto simp: pointer_ok_def split: pc.splits)
  qed
  have 4: "v = w" if "map_of (slot_of ?c) v = Some b" "map_of (slot_of ?c) w = Some b" for v w b
    using that ok by (fastforce simp: conf_ok_def split: if_splits)
  have 5: "number upstream v ?c \<le> cap v" for v using ok by (simp add: nn conf_ok_def)
  show ?thesis unfolding conf_ok_def using 1 2 3 4 5 by blast
qed

lemma conc_step_ok:
  assumes "conc_step cap c c'" "conf_ok cap c" "\<And>u. 0 < cap u"
  shows "conf_ok cap c'"
  using assms(1)
proof cases
  case (load i u a)
  then show ?thesis
    using own_action_ok [OF assms(2) load(2,3,4), of "cells c" "Loaded a"]
    by (simp add: counted_def pointer_ok_def upstream_def)
next
  case (store i u)
  then show ?thesis using new_counter_ok [OF assms(2)] by simp
next
  case (add i u a n)
  note a = pointer_known [OF assms(2) add(2,3), simplified]
  have "number upstream u c \<le> number counted u c"
    by (rule number_mono) (simp add: upstream_def counted_def)
  then show ?thesis
    unfolding add(1) using a add(4)
    by (intro own_action_ok [OF assms(2) add(2,3) a(1)])
      (auto simp: counted_def pointer_ok_def upstream_def split: if_splits)
next
  case (undo i u a)
  note a = pointer_known [OF assms(2) undo(2,3), simplified]
  show ?thesis
    unfolding undo(1) using a
    by (intro own_action_ok [OF assms(2) undo(2,3) a(1)]) (auto simp: counted_def pointer_ok_def upstream_def)
next
  case (rel_load i u a)
  then show ?thesis
    using own_action_ok [OF assms(2) rel_load(2,3,4), of "cells c" "Releasing a"]
    by (simp add: counted_def pointer_ok_def upstream_def)
next
  case (rel_none i u)
  then have False
    using assms(2) nth_mem [of i "reqs c"] by (force simp: conf_ok_def pointer_ok_def)
  then show ?thesis ..
next
  case (rel_dec i u a)
  note a = pointer_known [OF assms(2) rel_dec(2,3), simplified]
  show ?thesis
    unfolding rel_dec(1) using a
    by (intro own_action_ok [OF assms(2) rel_dec(2,3) a(1)]) (auto simp: counted_def pointer_ok_def upstream_def)
qed

lemma start_ok: "(\<And>u. 0 < cap u) \<Longrightarrow> conf_ok cap (start_conf us)"
  by (auto simp: conf_ok_def start_conf_def number_def filter_map o_def counted_def upstream_def
      pointer_ok_def less_imp_le)

lemma conc_steps_ok:
  "(conc_step cap)\<^sup>*\<^sup>* c c' \<Longrightarrow> (\<And>u. 0 < cap u) \<Longrightarrow> conf_ok cap c \<Longrightarrow> conf_ok cap c'"
  by (induction rule: rtranclp_induct) (auto intro: conc_step_ok)

end
