(* ===== verification/ConcurrencyProperties.thy ===== *)
theory ConcurrencyProperties
  imports Concurrency
begin

text \<open>
  What the per-user cap on requests in flight promises under every interleaving of the atomic
  actions, where it stops holding, and that every schedule ends with each request served or refused.
\<close>

text \<open>
  Property C11.  Under every interleaving of the atomic actions of any number of requests, a user with
  a positive cap never has more requests upstream than the cap, and once no request is under way
  every counter is back at zero.
\<close>

theorem cap_holds_under_interleaving:
  assumes "(conc_step cap)\<^sup>*\<^sup>* (start_conf us) c" and "\<And>u. 0 < cap u"
  shows "number upstream u c \<le> cap u \<and>
    ((\<forall>q \<in> set (reqs c). snd q \<in> {Ready, Done, Refused}) \<longrightarrow>
      (\<forall>a. map_of (slot_of c) u = Some a \<longrightarrow> cells c ! a = 0))"
proof -
  have ok: "conf_ok cap c" by (rule conc_steps_ok [OF assms(1,2) start_ok [OF assms(2)]])
  have z: "number counted u c = 0" if "\<forall>q \<in> set (reqs c). snd q \<in> {Ready, Done, Refused}"
  proof -
    have "filter (\<lambda>q. fst q = u \<and> counted (snd q)) (reqs c) = []"
      using that by (auto simp: filter_empty_conv counted_def)
    then show ?thesis by (simp add: number_def)
  qed
  show ?thesis using ok z by (auto simp: conf_ok_def)
qed

text \<open>Two requests of user 7 under a cap of one: both add before either checks out.\<close>

lemma cap_holds_under_interleaving_witness:
  "\<exists>c. (conc_step (\<lambda>_. 1))\<^sup>*\<^sup>* (start_conf [7, 7]) c \<and> number upstream 7 c = 1"
proof -
  let ?S = "conc_step (\<lambda>_. 1)"
  let ?c1 = "\<lparr>cells = [0], slot_of = [(7, 0)], reqs = [(7, Loaded 0), (7, Ready)]\<rparr> :: conf"
  let ?c2 = "\<lparr>cells = [0], slot_of = [(7, 0)], reqs = [(7, Loaded 0), (7, Loaded 0)]\<rparr> :: conf"
  let ?c3 = "\<lparr>cells = [1], slot_of = [(7, 0)], reqs = [(7, Loaded 0), (7, Running)]\<rparr> :: conf"
  let ?c4 = "\<lparr>cells = [2], slot_of = [(7, 0)], reqs = [(7, Over 0), (7, Running)]\<rparr> :: conf"
  have 1: "?S (start_conf [7, 7]) ?c1"
    using conc_step.store [of 0 "start_conf [7, 7]" 7 "\<lambda>_. 1"] by (simp add: start_conf_def goto_def)
  have 2: "?S ?c1 ?c2" using conc_step.load [of 1 ?c1 7 0 "\<lambda>_. 1"] by (simp add: goto_def)
  have 3: "?S ?c2 ?c3" using conc_step.add [of 1 ?c2 7 0 1 "\<lambda>_. 1"] by (simp add: goto_def)
  have 4: "?S ?c3 ?c4" using conc_step.add [of 0 ?c3 7 0 2 "\<lambda>_. 1"] by (simp add: goto_def)
  have r: "?S\<^sup>*\<^sup>* (start_conf [7, 7]) ?c4"
    by (rule converse_rtranclp_into_rtranclp [of ?S, OF 1])
      (rule converse_rtranclp_into_rtranclp [of ?S, OF 2],
        rule converse_rtranclp_into_rtranclp [of ?S, OF 3], rule r_into_rtranclp [of ?S, OF 4])
  from cap_holds_under_interleaving [OF r, of 7] have "number upstream 7 ?c4 \<le> 1" by simp
  moreover have "1 \<le> number upstream 7 ?c4" by (simp add: number_def upstream_def)
  ultimately show ?thesis using r by (intro exI [of _ ?c4]) simp
qed

text \<open>
  Every arrival of a capped user is answered and balanced: a list of arrivals and ends
  served one at a time keeps the counter equal to the requests held, within the cap, and refuses an
  arrival only when the cap is reached.
\<close>

theorem served_requests_are_balanced:
  assumes "run_requests uid (1 + int k) es 0 [] = (held, st)"
  shows "in_flight uid st = held \<and> 0 \<le> held \<and> held \<le> 1 + int k \<and>
    fst (tryAcquireConcurrency uid (1 + int k) st) = (held < 1 + int k)"
proof -
  have "in_flight uid st = held \<and> 0 \<le> held \<and> held \<le> max 0 (1 + int k)"
    using user_slots.serve_inv [of uid "[]" 0 k es held st] assms
    by (simp add: run_requests_serve in_flight_def)
  then show ?thesis
    by (auto simp: tryAcquireConcurrency_def in_flight_def Let_def split: option.splits)
qed

lemma served_requests_are_balanced_witness:
  "in_flight 7 (snd (run_requests 7 2 [True, True, True, False, True] 0 [])) = 2"
  using served_requests_are_balanced [of 7 1 "[True, True, True, False, True]" 2 "[(7, 2)]"]
  by (simp add: tryAcquireConcurrency_def releaseConcurrency_def)

text \<open>
  A request that was admitted without a cap gives back a slot it never took: when the
  counter of the user exists (the cap was positive before an admin lifted it), the release after an
  uncapped request lowers it, and with the cap restored the user gets one more request in flight
  than the cap for every uncapped request that ran in between.
\<close>

theorem uncapped_requests_free_foreign_slots:
  assumes "in_flight uid st = int k" "map_of st uid \<noteq> None" "cap = int k" "0 < k"
    and "maxc \<le> 0"
  shows "fst (tryAcquireConcurrency uid cap st) = False \<and>
    (let st' = releaseConcurrency uid (snd (tryAcquireConcurrency uid maxc st))
     in in_flight uid st' = int k - 1 \<and> fst (tryAcquireConcurrency uid cap st') = True)"
  using assms
  by (auto simp: tryAcquireConcurrency_def releaseConcurrency_def in_flight_def Let_def
      split: option.splits)

lemma uncapped_requests_free_foreign_slots_witness:
  "fst (tryAcquireConcurrency 7 1 (releaseConcurrency 7 (snd (tryAcquireConcurrency 7 0 [(7, 1)]))))"
  using uncapped_requests_free_foreign_slots [of 7 "[(7, 1)]" 1 1 0]
  by (simp add: in_flight_def Let_def)

section \<open>Every request ends\<close>

text \<open>The actions a request has left at most.\<close>

definition actions_left :: "pc \<Rightarrow> nat" where
  "actions_left p = (case p of Ready \<Rightarrow> 4 | Loaded _ \<Rightarrow> 3 | Running \<Rightarrow> 2 | Releasing _ \<Rightarrow> 1 | Over _ \<Rightarrow> 1
     | Done \<Rightarrow> 0 | Refused \<Rightarrow> 0)"

definition work_left :: "conf \<Rightarrow> nat" where
  "work_left c = sum_list (map (actions_left \<circ> snd) (reqs c))"

lemma reqs_fields [simp]: "reqs (c\<lparr>cells := x\<rparr>) = reqs c" "reqs (c\<lparr>cells := x, slot_of := y\<rparr>) = reqs c"
  by simp_all

lemma sum_list_goto:
  assumes "i < length (reqs c)"
  shows "sum_list (map (f \<circ> snd) (reqs (goto i p c))) + f (snd (reqs c ! i)) =
    sum_list (map (f \<circ> snd) (reqs c)) + (f p :: nat)"
proof -
  have "sum_list (map g (xs[i := y])) + g (xs ! i) = sum_list (map g xs) + g y" if "i < length xs"
    for g :: "int \<times> pc \<Rightarrow> nat" and xs y
    using that by (induction xs arbitrary: i) (auto split: nat.split)
  from this [OF assms, of "f \<circ> snd"] show ?thesis by (simp add: goto_def)
qed

lemma work_left_goto:
  assumes "i < length (reqs c)"
  shows "work_left (goto i p c) + actions_left (snd (reqs c ! i)) = work_left c + actions_left p"
  using sum_list_goto [OF assms] by (simp add: work_left_def)

text \<open>An action moves one request on.\<close>

lemma conc_step_moves:
  assumes "conc_step cap c c'"
  obtains i p d where "c' = goto i p d" "reqs d = reqs c" "i < length (reqs c)"
    "actions_left p < actions_left (snd (reqs c ! i))"
  using assms
proof cases
  case (add i u a n)
  show ?thesis by (rule that [OF add(1)]) (use add in \<open>simp_all add: actions_left_def\<close>)
qed (rule that, assumption, simp_all add: actions_left_def)+

lemma conc_step_works: "conc_step cap c c' \<Longrightarrow> work_left c' < work_left c"
proof (elim conc_step_moves)
  fix i p d assume "c' = goto i p d" "reqs d = reqs c" "i < length (reqs c)"
    "actions_left p < actions_left (snd (reqs c ! i))"
  then show ?thesis using work_left_goto [of i d p] by (simp add: work_left_def)
qed

lemma conc_step_users: "conc_step cap c c' \<Longrightarrow> map fst (reqs c') = map fst (reqs c)"
proof (elim conc_step_moves)
  fix i p d assume m: "c' = goto i p d" "reqs d = reqs c" "i < length (reqs c)"
  have "map fst (reqs c') = (map fst (reqs c))[i := fst (reqs c ! i)]" by (simp add: m goto_def map_update)
  also have "fst (reqs c ! i) = map fst (reqs c) ! i" by (simp add: m(3))
  finally show ?thesis by simp
qed

lemma conc_steps_users: "(conc_step cap)\<^sup>*\<^sup>* c c' \<Longrightarrow> map fst (reqs c') = map fst (reqs c)"
  by (induction rule: rtranclp_induct) (simp_all add: conc_step_users)

lemma conc_steps_work: "(conc_step cap ^^ n) c c' \<Longrightarrow> work_left c' + n \<le> work_left c"
  by (induction n arbitrary: c') (fastforce dest: conc_step_works)+

lemma final_reachable: "\<exists>c'. (conc_step cap)\<^sup>*\<^sup>* c c' \<and> (\<forall>d. \<not> conc_step cap c' d)"
proof (induction "work_left c" arbitrary: c rule: less_induct)
  case less
  show ?case
  proof (cases "\<exists>d. conc_step cap c d")
    case True
    then obtain d where d: "conc_step cap c d" by blast
    from less [OF conc_step_works [OF d]] show ?thesis
      using d by (meson converse_rtranclp_into_rtranclp)
  qed auto
qed

lemma final_settled:
  assumes "\<forall>d. \<not> conc_step cap c d" "q \<in> set (reqs c)"
  shows "snd q \<in> {Done, Refused}"
proof (rule ccontr)
  assume n: "snd q \<notin> {Done, Refused}"
  obtain i where i: "i < length (reqs c)" "reqs c ! i = (fst q, snd q)"
    using assms(2) by (auto simp: in_set_conv_nth)
  have "\<exists>d. conc_step cap c d"
    using n i conc_step.load [OF i(1)] conc_step.store [OF i(1)] conc_step.add [OF i(1)] conc_step.undo [OF i(1)]
      conc_step.rel_load [OF i(1)] conc_step.rel_none [OF i(1)] conc_step.rel_dec [OF i(1)]
    by (cases "snd q"; cases "map_of (slot_of c) (fst q)") (simp, blast)+
  then show False using assms(1) by blast
qed

text \<open>While a user has no more requests than its cap allows, none of them is over it.\<close>

definition fits :: "(int \<Rightarrow> int) \<Rightarrow> int \<Rightarrow> conf \<Rightarrow> bool" where
  "fits cap u c \<longleftrightarrow> number (\<lambda>_. True) u c \<le> cap u"

definition none_over :: "int \<Rightarrow> conf \<Rightarrow> bool" where
  "none_over u c \<longleftrightarrow> (\<forall>q \<in> set (reqs c). fst q = u \<longrightarrow> snd q \<noteq> Refused \<and> (\<forall>a. snd q \<noteq> Over a))"

lemma none_over_goto:
  assumes "none_over u c" "reqs d = reqs c" "p \<noteq> Refused" "\<And>a. p \<noteq> Over a"
  shows "none_over u (goto i p d)"
  unfolding none_over_def
proof
  fix q assume "q \<in> set (reqs (goto i p d))"
  from set_reqs_goto [OF this] show "fst q = u \<longrightarrow> snd q \<noteq> Refused \<and> (\<forall>a. snd q \<noteq> Over a)"
    using assms by (auto simp: none_over_def)
qed

lemma none_over_foreign:
  assumes "none_over u c" "reqs d = reqs c" "fst (reqs c ! i) \<noteq> u"
  shows "none_over u (goto i p d)"
  unfolding none_over_def
proof
  fix q assume "q \<in> set (reqs (goto i p d))"
  from set_reqs_goto [OF this] show "fst q = u \<longrightarrow> snd q \<noteq> Refused \<and> (\<forall>a. snd q \<noteq> Over a)"
    using assms by (auto simp: none_over_def)
qed

lemma number_fst: "number (\<lambda>_. True) u c = int (count_list (map fst (reqs c)) u)"
proof -
  have "length (filter (\<lambda>q. fst q = u) qs) = count_list (map fst qs) u" for qs :: "(int \<times> pc) list"
    by (induction qs) auto
  then show ?thesis by (simp add: number_def)
qed

lemma room_left:
  assumes "fits cap u c" "conf_ok cap c" "i < length (reqs c)" "reqs c ! i = (u, Loaded a)"
  shows "cells c ! a + 1 \<le> cap u"
proof -
  have "map_of (slot_of c) u = Some a"
    using assms(2-4) nth_mem [of i "reqs c"] by (force simp: conf_ok_def pointer_ok_def)
  then have "cells c ! a = number counted u c" using assms(2) by (simp add: conf_ok_def)
  moreover have "number counted u c + 1 \<le> number (\<lambda>_. True) u c"
  proof -
    have "number counted u (goto i Running c) \<le> number (\<lambda>_. True) u (goto i Running c)" by (rule number_mono) simp
    then show ?thesis using number_goto [OF assms(3,4), of _ u Running] by (simp add: counted_def)
  qed
  ultimately show ?thesis using assms(1) by (simp add: fits_def)
qed

lemma none_over_room_step:
  assumes "conc_step cap c c'" "none_over u c"
    and room: "\<And>i a. i < length (reqs c) \<Longrightarrow> reqs c ! i = (u, Loaded a) \<Longrightarrow> cells c ! a + 1 \<le> cap u"
  shows "none_over u c'"
  using assms(1)
proof cases
  case (load i v a)
  then show ?thesis using assms(2) by (simp add: none_over_goto)
next
  case (store i v)
  then show ?thesis using assms(2) by (simp add: none_over_goto)
next
  case (add i v a n)
  show ?thesis
  proof (cases "v = u")
    case True
    then have "n \<le> cap v" using room [OF add(2)] add(3,4) by simp
    then show ?thesis unfolding add(1) by (intro none_over_goto [OF assms(2)]) simp_all
  qed (unfold add(1), intro none_over_foreign [OF assms(2)], simp_all add: add(3))
next
  case (undo i v a)
  then have "v \<noteq> u" using assms(2) nth_mem [of i "reqs c"] by (force simp: none_over_def)
  then show ?thesis unfolding undo(1) by (intro none_over_foreign [OF assms(2)]) (simp_all add: undo(3))
next
  case (rel_load i v a)
  then show ?thesis using assms(2) by (simp add: none_over_goto)
next
  case (rel_none i v)
  then show ?thesis using assms(2) by (simp add: none_over_goto)
next
  case (rel_dec i v a)
  then show ?thesis using none_over_goto [OF assms(2)] by simp
qed

lemma none_over_step:
  assumes "conc_step cap c c'" "conf_ok cap c" "fits cap u c" "none_over u c"
  shows "none_over u c'"
  using none_over_room_step [OF assms(1,4)] room_left [OF assms(3,2)] by blast

lemma none_over_steps:
  assumes "(conc_step cap)\<^sup>*\<^sup>* c c'" "conf_ok cap c" "\<And>u. 0 < cap u" "fits cap u c" "none_over u c"
  shows "none_over u c'"
  using assms(1)
proof (induction rule: rtranclp_induct)
  case (step d e)
  have "fits cap u d" using assms(4) conc_steps_users [OF step(1)] by (simp add: fits_def number_fst)
  then show ?case using none_over_step [OF step(2) conc_steps_ok [OF step(1) assms(3,2)]] step(3) by blast
qed (rule assms(5))

text \<open>
  Property C12.  A schedule can always be completed, and when it has ended every request has been served or
  refused, no request of a user who made no more of them than its cap allows has been refused, and every
  counter is back at zero.
\<close>

theorem every_request_is_answered:
  assumes run: "(conc_step cap)\<^sup>*\<^sup>* (start_conf us) c" and pos: "\<And>u. 0 < cap u"
  shows "(\<exists>c'. (conc_step cap)\<^sup>*\<^sup>* c c' \<and> (\<forall>d. \<not> conc_step cap c' d)) \<and>
    ((\<forall>d. \<not> conc_step cap c d) \<longrightarrow> (\<forall>q \<in> set (reqs c). snd q \<in> {Done, Refused} \<and>
      (int (count_list us (fst q)) \<le> cap (fst q) \<longrightarrow> snd q = Done) \<and>
      (\<forall>a. map_of (slot_of c) (fst q) = Some a \<longrightarrow> cells c ! a = 0)))"
proof (intro conjI impI ballI)
  fix q assume f: "\<forall>d. \<not> conc_step cap c d" and q: "q \<in> set (reqs c)"
  note s = final_settled [OF f]
  show "snd q \<in> {Done, Refused}" by (rule s [OF q])
  show "snd q = Done" if "int (count_list us (fst q)) \<le> cap (fst q)"
  proof -
    have "fits cap (fst q) (start_conf us)"
      using that by (simp add: fits_def number_fst start_conf_def o_def)
    moreover have "none_over (fst q) (start_conf us)" by (auto simp: none_over_def start_conf_def)
    ultimately have "none_over (fst q) c" using none_over_steps [OF run start_ok pos] pos by blast
    then show ?thesis using s [OF q] q by (auto simp: none_over_def)
  qed
  have "number counted (fst q) c = 0"
    using s by (fastforce simp: number_def filter_empty_conv counted_def)
  then show "\<forall>a. map_of (slot_of c) (fst q) = Some a \<longrightarrow> cells c ! a = 0"
    using conc_steps_ok [OF run pos start_ok [OF pos]] by (simp add: conf_ok_def)
qed (rule final_reachable)

section \<open>What a finished schedule adds up to\<close>

text \<open>Requests that got past the cap, and the actions a request has behind it.\<close>

definition got_in :: "pc \<Rightarrow> bool" where
  "got_in p = (case p of Running \<Rightarrow> True | Releasing _ \<Rightarrow> True | Done \<Rightarrow> True | _ \<Rightarrow> False)"

definition actions_done :: "pc \<Rightarrow> nat" where
  "actions_done p = (case p of Ready \<Rightarrow> 0 | Loaded _ \<Rightarrow> 1 | Over _ \<Rightarrow> 2 | Running \<Rightarrow> 2 | Releasing _ \<Rightarrow> 3
     | Done \<Rightarrow> 4 | Refused \<Rightarrow> 3)"

definition work_done :: "conf \<Rightarrow> nat" where
  "work_done c = sum_list (map (actions_done \<circ> snd) (reqs c))"

lemma work_done_goto:
  assumes "i < length (reqs c)"
  shows "work_done (goto i p c) + actions_done (snd (reqs c ! i)) = work_done c + actions_done p"
  using sum_list_goto [OF assms] by (simp add: work_done_def)

lemma running_has_counter:
  assumes "conf_ok cap c" "i < length (reqs c)" "reqs c ! i = (u, Running)"
  shows "map_of (slot_of c) u \<noteq> None"
  using assms nth_mem [of i "reqs c"] by (force simp: conf_ok_def pointer_ok_def)

text \<open>Every action is one step of its request: the release finds the counter it needs.\<close>

lemma conc_step_done:
  assumes "conc_step cap c c'" "conf_ok cap c"
  shows "work_done c' = Suc (work_done c)"
proof -
  have one: "work_done (goto i p d) = Suc (work_done c)"
    if "i < length (reqs c)" "reqs d = reqs c" "actions_done p = Suc (actions_done (snd (reqs c ! i)))" for i p d
    using that work_done_goto [of i d p] by (simp add: work_done_def)
  show ?thesis
    using assms(1)
  proof cases
    case (rel_none i u)
    then show ?thesis using running_has_counter [OF assms(2) rel_none(2,3)] by simp
  qed (simp_all add: one actions_done_def)
qed

lemma conc_steps_done:
  assumes "(conc_step cap ^^ n) c c'" "\<And>u. 0 < cap u" "conf_ok cap c"
  shows "work_done c' = work_done c + n"
  using assms(1)
proof (induction n arbitrary: c')
  case (Suc n)
  then obtain d where d: "(conc_step cap ^^ n) c d" "conc_step cap d c'" by auto
  have "conf_ok cap d" using conc_steps_ok [OF relpowp_imp_rtranclp [OF d(1)] assms(2,3)] .
  then show ?case using conc_step_done [OF d(2)] Suc.IH [OF d(1)] by simp
qed simp

text \<open>A request is over the cap only when that many are in.\<close>

definition cap_reached :: "(int \<Rightarrow> int) \<Rightarrow> int \<Rightarrow> conf \<Rightarrow> bool" where
  "cap_reached cap u c \<longleftrightarrow> none_over u c \<or> cap u \<le> number got_in u c"

lemma got_in_stays:
  assumes "conc_step cap c c'"
  shows "number got_in u c \<le> number got_in u c'"
  using assms by cases (auto simp: number_goto got_in_def)

lemma counted_got_in:
  assumes "none_over u c"
  shows "number counted u c \<le> number got_in u c"
proof -
  have "length (filter (\<lambda>q. fst q = u \<and> counted (snd q)) qs) \<le> length (filter (\<lambda>q. fst q = u \<and> got_in (snd q)) qs)"
    if "\<forall>q \<in> set qs. fst q = u \<longrightarrow> snd q \<noteq> Refused \<and> (\<forall>a. snd q \<noteq> Over a)" for qs
    using that by (induction qs) (auto simp: counted_def got_in_def split: pc.splits)
  then show ?thesis using assms by (simp add: number_def none_over_def)
qed

lemma cap_reached_step:
  assumes "conc_step cap c c'" "conf_ok cap c" "cap_reached cap u c"
  shows "cap_reached cap u c'"
proof (cases "cap u \<le> number got_in u c")
  case True
  then show ?thesis using got_in_stays [OF assms(1), of u] by (simp add: cap_reached_def)
next
  case False
  then have n: "none_over u c" using assms(3) by (simp add: cap_reached_def)
  have "none_over u c'"
    using none_over_room_step [OF assms(1) n] counted_got_in [OF n] False
      pointer_known(3) [OF assms(2)] by fastforce
  then show ?thesis by (simp add: cap_reached_def)
qed

lemma cap_reached_steps:
  assumes "(conc_step cap)\<^sup>*\<^sup>* c c'" "conf_ok cap c" "\<And>u. 0 < cap u" "cap_reached cap u c"
  shows "cap_reached cap u c'"
  using assms(1)
  by (induction rule: rtranclp_induct)
    (auto intro: cap_reached_step [OF _ conc_steps_ok [OF _ assms(3,2)]] assms(4))

text \<open>The work of a finished schedule, by how its requests ended.\<close>

lemma work_done_final:
  assumes "\<forall>q \<in> set (reqs c). snd q \<in> {Done, Refused}"
  shows "work_done c = 4 * length (filter (\<lambda>q. snd q = Done) (reqs c))
    + 3 * length (filter (\<lambda>q. snd q = Refused) (reqs c))"
proof -
  have "sum_list (map (actions_done \<circ> snd) qs) = 4 * length (filter (\<lambda>q. snd q = Done) qs)
      + 3 * length (filter (\<lambda>q. snd q = Refused) qs)"
    if "\<forall>q \<in> set qs. snd q \<in> {Done, Refused}" for qs :: "(int \<times> pc) list"
    using that by (induction qs) (auto simp: actions_done_def)
  then show ?thesis using assms by (simp add: work_done_def)
qed

lemma served_of_final:
  assumes "\<forall>q \<in> set (reqs c). snd q \<in> {Done, Refused}"
  shows "number got_in u c = number (\<lambda>p. p = Done) u c"
    and "none_over u c \<Longrightarrow> number (\<lambda>p. p = Done) u c = number (\<lambda>_. True) u c"
proof -
  have "filter (\<lambda>q. fst q = u \<and> got_in (snd q)) (reqs c) = filter (\<lambda>q. fst q = u \<and> snd q = Done) (reqs c)"
    using assms by (intro filter_cong) (auto simp: got_in_def)
  then show "number got_in u c = number (\<lambda>p. p = Done) u c" by (simp add: number_def)
  assume "none_over u c"
  then have "filter (\<lambda>q. fst q = u \<and> snd q = Done) (reqs c) = filter (\<lambda>q. fst q = u) (reqs c)"
    using assms by (intro filter_cong) (auto simp: none_over_def)
  then show "number (\<lambda>p. p = Done) u c = number (\<lambda>_. True) u c" by (simp add: number_def)
qed

text \<open>
  Property C40.  Whatever the schedule of the requests of users with positive caps, it ends, and the gate
  does its work on the way:
  no schedule of \<open>k\<close> requests has more than \<open>4 * k\<close> atomic actions, and one that has come to its end has
  made exactly four for each request served (look up, add, look up, subtract) and three for each
  refused (look up, add, subtract), has left every counter at zero, and has served each user at least
  as many of its requests as its cap admits at once, or all of them.
\<close>

theorem schedules_end:
  assumes run: "(conc_step cap ^^ n) (start_conf us) c" and pos: "\<And>u. 0 < cap u"
  shows "n \<le> 4 * length us \<and>
    ((\<forall>d. \<not> conc_step cap c d) \<longrightarrow>
      n = 4 * length (filter (\<lambda>q. snd q = Done) (reqs c)) + 3 * length (filter (\<lambda>q. snd q = Refused) (reqs c)) \<and>
      (\<forall>u. min (int (count_list us u)) (cap u) \<le> number (\<lambda>p. p = Done) u c \<and>
        (\<forall>a. map_of (slot_of c) u = Some a \<longrightarrow> cells c ! a = 0)))"
proof (intro conjI impI allI)
  note r = relpowp_imp_rtranclp [OF run]
  note ok = conc_steps_ok [OF r pos start_ok [OF pos]]
  have "work_left (start_conf us) = 4 * length us"
    by (simp add: work_left_def start_conf_def o_def actions_left_def sum_list_triv)
  then show "n \<le> 4 * length us" using conc_steps_work [OF run] by simp
  assume f: "\<forall>d. \<not> conc_step cap c d"
  then have s: "\<forall>q \<in> set (reqs c). snd q \<in> {Done, Refused}" using final_settled by blast
  have "work_done (start_conf us) = 0" by (simp add: work_done_def start_conf_def o_def actions_done_def)
  then show "n = 4 * length (filter (\<lambda>q. snd q = Done) (reqs c)) + 3 * length (filter (\<lambda>q. snd q = Refused) (reqs c))"
    using conc_steps_done [OF run pos start_ok [OF pos]] work_done_final [OF s] by simp
  fix u
  have "none_over u (start_conf us)" by (auto simp: none_over_def start_conf_def)
  then have "cap_reached cap u c"
    using cap_reached_steps [OF r start_ok [OF pos] pos] pos by (simp add: cap_reached_def)
  moreover have "number (\<lambda>_. True) u c = int (count_list us u)"
    using conc_steps_users [OF r] by (simp add: number_fst start_conf_def o_def)
  ultimately show "min (int (count_list us u)) (cap u) \<le> number (\<lambda>p. p = Done) u c"
    using served_of_final [OF s] by (auto simp: cap_reached_def)
  have "number counted u c = 0" using s by (fastforce simp: number_def filter_empty_conv counted_def)
  then show "cells c ! a = 0" if "map_of (slot_of c) u = Some a" for a
    using that ok by (simp add: conf_ok_def)
qed

text \<open>One request of user 7, from its arrival to its end.\<close>

lemma single_run:
  "(conc_step (\<lambda>_. 1) ^^ 4) (start_conf [7]) \<lparr>cells = [0], slot_of = [(7, 0)], reqs = [(7, Done)]\<rparr>"
proof -
  let ?S = "conc_step (\<lambda>_. 1)"
  let ?c = "\<lambda>n p. \<lparr>cells = [n], slot_of = [(7, 0)], reqs = [(7, p)]\<rparr> :: conf"
  have "?S (start_conf [7]) (?c 0 (Loaded 0))"
    using conc_step.store [of 0 "start_conf [7]" 7 "\<lambda>_. 1"] by (simp add: start_conf_def goto_def)
  moreover have "?S (?c 0 (Loaded 0)) (?c 1 Running)"
    using conc_step.add [of 0 "?c 0 (Loaded 0)" 7 0 1 "\<lambda>_. 1"] by (simp add: goto_def)
  moreover have "?S (?c 1 Running) (?c 1 (Releasing 0))"
    using conc_step.rel_load [of 0 "?c 1 Running" 7 0 "\<lambda>_. 1"] by (simp add: goto_def)
  moreover have "?S (?c 1 (Releasing 0)) (?c 0 Done)"
    using conc_step.rel_dec [of 0 "?c 1 (Releasing 0)" 7 0 "\<lambda>_. 1"] by (simp add: goto_def)
  ultimately show ?thesis by (auto simp: eval_nat_numeral OO_def)
qed

lemma schedules_end_witness:
  "\<exists>c. (conc_step (\<lambda>_. 1) ^^ 4) (start_conf [7]) c \<and> 1 \<le> number (\<lambda>p. p = Done) 7 c"
proof -
  let ?c = "\<lparr>cells = [0], slot_of = [(7, 0)], reqs = [(7, Done)]\<rparr> :: conf"
  have "\<not> conc_step (\<lambda>_. 1) ?c d" for d by (auto elim!: conc_stepE)
  then show ?thesis using schedules_end [OF single_run] single_run by (auto dest!: spec [of _ 7])
qed

lemma every_request_is_answered_witness:
  "\<exists>c'. (conc_step (\<lambda>_. 1))\<^sup>*\<^sup>* (start_conf [7, 7]) c' \<and> (\<forall>d. \<not> conc_step (\<lambda>_. 1) c' d)"
  using every_request_is_answered [of "\<lambda>_. 1" "[7, 7]" "start_conf [7, 7]"] by simp

end
