(* ===== verification/JsonRaw.thy ===== *)
theory JsonRaw
  imports JsonText GoFloat Http
begin

text \<open>
  JSON texts as the chat proxy handles them: \<open>json.RawMessage\<close> keeps the source text of a value, so
  a parsed text is a tree of lexemes; marshalling a raw message prints it compactly with the HTML
  characters escaped, a Go map prints with its keys sorted, and decoding into a struct matches
  member names up to (ASCII) case, the last member winning and \<open>null\<close> leaving the field alone.
  Decoding into \<open>interface{}\<close> and encoding again goes through \<open>float64\<close> for every number.
  Strings are valid UTF-8, and nesting stays below the limit of 10000 levels.
\<close>

section \<open>Trees of lexemes\<close>

text \<open>String lexemes are the texts between the quotes.\<close>

datatype rj = RLit string | RNum string | RText string | RArr "rj list" | RObj "(string \<times> rj) list"

definition raw_string :: "string \<Rightarrow> (string \<times> string) option" where
  "raw_string s = (case parse_str (Suc (length s)) s of
     None \<Rightarrow> None | Some (t, r) \<Rightarrow> Some (take (length s - length r - 1) s, r))"

definition text_of :: "string \<Rightarrow> string" where
  "text_of l = (case parse_str (length l + 2) (l @ [CHR 0x22]) of Some (t, r) \<Rightarrow> t | None \<Rightarrow> [])"

fun raw_val :: "nat \<Rightarrow> string \<Rightarrow> (rj \<times> string) option"
  and raw_elems :: "nat \<Rightarrow> string \<Rightarrow> (rj list \<times> string) option"
  and raw_members :: "nat \<Rightarrow> string \<Rightarrow> ((string \<times> rj) list \<times> string) option"
where
  "raw_val 0 s = None"
| "raw_val (Suc f) s0 =
     (let s = skip_ws s0 in
      case s of [] \<Rightarrow> None
      | c # r \<Rightarrow>
          if c = CHR 0x22 then map_option (\<lambda>(t, r'). (RText t, r')) (raw_string r)
          else if c = CHR ''{'' then
            (if has_prefix (skip_ws r) ''}'' then Some (RObj [], drop 1 (skip_ws r))
             else map_option (\<lambda>(ms, r'). (RObj ms, r')) (raw_members f r))
          else if c = CHR ''['' then
            (if has_prefix (skip_ws r) '']'' then Some (RArr [], drop 1 (skip_ws r))
             else map_option (\<lambda>(vs, r'). (RArr vs, r')) (raw_elems f r))
          else if has_prefix s ''null'' then Some (RLit ''null'', drop 4 s)
          else if has_prefix s ''true'' then Some (RLit ''true'', drop 4 s)
          else if has_prefix s ''false'' then Some (RLit ''false'', drop 5 s)
          else map_option (\<lambda>(n, r'). (RNum n, r')) (parse_num s))"
| "raw_elems 0 s = None"
| "raw_elems (Suc f) s =
     (case raw_val f s of
        None \<Rightarrow> None
      | Some (v, r0) \<Rightarrow>
          let r = skip_ws r0 in
          if has_prefix r '']'' then Some ([v], drop 1 r)
          else if has_prefix r '','' then
            map_option (\<lambda>(vs, r'). (v # vs, r')) (raw_elems f (drop 1 r))
          else None)"
| "raw_members 0 s = None"
| "raw_members (Suc f) s0 =
     (let s = skip_ws s0 in
      if \<not> has_prefix s [CHR 0x22] then None
      else case raw_string (drop 1 s) of
        None \<Rightarrow> None
      | Some (k, r0) \<Rightarrow>
          let r = skip_ws r0 in
          if \<not> has_prefix r '':'' then None
          else case raw_val f (drop 1 r) of
            None \<Rightarrow> None
          | Some (v, r1) \<Rightarrow>
              let r2 = skip_ws r1 in
              if has_prefix r2 ''}'' then Some ([(k, v)], drop 1 r2)
              else if has_prefix r2 '','' then
                map_option (\<lambda>(ms, r'). ((k, v) # ms, r')) (raw_members f (drop 1 r2))
              else None)"

definition parse_raw :: "string \<Rightarrow> rj option" where
  "parse_raw s = (case raw_val (Suc (length s)) s of
     Some (v, r) \<Rightarrow> if skip_ws r = [] then Some v else None
   | None \<Rightarrow> None)"

section \<open>Printing\<close>

text \<open>The escaping of \<open>json.Marshal\<close> on the text of a raw string.\<close>

definition html_char :: "char \<Rightarrow> string" where
  "html_char c = (let n = of_char c :: nat in
     if n = 60 \<or> n = 62 \<or> n = 38 then unicode_esc c else [c])"

text \<open>The separators U+2028 and U+2029, three bytes of UTF-8, are escaped as well.\<close>

definition line_separator :: "string \<Rightarrow> bool" where
  "line_separator s \<longleftrightarrow> map of_char (take 3 s) \<in> {[226, 128, 168], [226, 128, 169 :: nat]}"

fun html_escape :: "string \<Rightarrow> string" where
  "html_escape [] = []"
| "html_escape (c # s) =
     (if line_separator (c # s)
      then CHR 0x5C # ''u202'' @ [if of_char (s ! 1) = (168 :: nat) then CHR ''8'' else CHR ''9''] @
        html_escape (drop 2 s)
      else html_char c @ html_escape s)"

fun print_raw :: "rj \<Rightarrow> string" where
  "print_raw (RLit s) = s"
| "print_raw (RNum s) = s"
| "print_raw (RText l) = CHR 0x22 # html_escape l @ [CHR 0x22]"
| "print_raw (RArr vs) = ''['' @ str_join (map print_raw vs) '','' @ '']''"
| "print_raw (RObj ms) = ''{'' @ str_join (map (\<lambda>(k, v).
      CHR 0x22 # html_escape k @ [CHR 0x22] @ '':'' @ print_raw v) ms) '','' @ ''}''"

text \<open>A value of \<open>json.Marshal(string)\<close> as a lexeme.\<close>

definition raw_text :: "string \<Rightarrow> rj" where
  "raw_text s = RText (concat (map json_char s))"

definition quote_text :: "string \<Rightarrow> string" where
  "quote_text s = print_raw (raw_text s)"

text \<open>A \<open>map[string]json.RawMessage\<close>: the last member of a name wins; it prints sorted.\<close>

type_synonym raw_map = "(string, rj) gomap"

definition raw_map_of :: "(string \<times> rj) list \<Rightarrow> raw_map" where
  "raw_map_of ms = fold (\<lambda>(k, v). gm_put (text_of k) v) ms []"

definition print_map :: "raw_map \<Rightarrow> string" where
  "print_map m = ''{'' @ str_join (map (\<lambda>(k, v). quote_text k @ '':'' @ print_raw v) (sort_key fst m)) '','' @ ''}''"

text \<open>Decoding a text into such a map: \<open>Some None\<close> is the nil map that \<open>null\<close> leaves.\<close>

definition unmarshal_map :: "string \<Rightarrow> raw_map option option" where
  "unmarshal_map s = (case parse_raw s of
     Some (RObj ms) \<Rightarrow> Some (Some (raw_map_of ms))
   | Some (RLit l) \<Rightarrow> if l = ''null'' then Some None else None
   | _ \<Rightarrow> None)"

section \<open>Struct fields\<close>

definition is_null :: "rj \<Rightarrow> bool" where
  "is_null v \<longleftrightarrow> v = RLit ''null''"

text \<open>\<open>None\<close> is a type error.  A field keeps its value over members of other names and over \<open>null\<close>.\<close>

fun string_field :: "string \<Rightarrow> string \<Rightarrow> (string \<times> rj) list \<Rightarrow> string option" where
  "string_field name cur [] = Some cur"
| "string_field name cur ((k, v) # ms) =
     (if \<not> equal_fold (text_of k) name \<or> is_null v then string_field name cur ms
      else case v of RText l \<Rightarrow> string_field name (text_of l) ms | _ \<Rightarrow> None)"

fun bool_field :: "string \<Rightarrow> bool \<Rightarrow> (string \<times> rj) list \<Rightarrow> bool option" where
  "bool_field name cur [] = Some cur"
| "bool_field name cur ((k, v) # ms) =
     (if \<not> equal_fold (text_of k) name \<or> is_null v then bool_field name cur ms
      else if v = RLit ''true'' then bool_field name True ms
      else if v = RLit ''false'' then bool_field name False ms
      else None)"

text \<open>An integer field takes an integer literal within 64 bits.\<close>

fun int_field :: "string \<Rightarrow> int \<Rightarrow> (string \<times> rj) list \<Rightarrow> int option" where
  "int_field name cur [] = Some cur"
| "int_field name cur ((k, v) # ms) =
     (if \<not> equal_fold (text_of k) name \<or> is_null v then int_field name cur ms
      else case v of
        RNum n \<Rightarrow> (case parse_int64 n of Some i \<Rightarrow> int_field name i ms | None \<Rightarrow> None)
      | _ \<Rightarrow> None)"

text \<open>The members of a struct value: an object, or \<open>null\<close>, which has none.\<close>

definition struct_members :: "rj \<Rightarrow> (string \<times> rj) list option" where
  "struct_members v = (case v of RObj ms \<Rightarrow> Some ms | _ \<Rightarrow> if is_null v then Some [] else None)"

section \<open>Numbers through float64\<close>

text \<open>The value of a number literal.\<close>

definition num_value :: "string \<Rightarrow> rat" where
  "num_value s =
     (let neg = has_prefix s ''-''; s1 = (if neg then drop 1 s else s);
          ip = takeWhile is_digit s1; s2 = dropWhile is_digit s1;
          fp = (if has_prefix s2 ''.'' then takeWhile is_digit (drop 1 s2) else []);
          s3 = (if has_prefix s2 ''.'' then dropWhile is_digit (drop 1 s2) else s2);
          s4 = drop 1 s3;
          eneg = has_prefix s4 ''-'';
          ed = (if has_prefix s4 ''+'' \<or> eneg then drop 1 s4 else s4);
          e = (if s3 = [] then 0 else if eneg then - int (dec_val ed) else int (dec_val ed));
          m = of_nat (dec_val (ip @ fp)) :: rat;
          k = e - int (length fp);
          v = (if 0 \<le> k then m * 10 ^ nat k else m / 10 ^ nat (- k))
      in if neg then - v else v)"

text \<open>The number of decimal digits before the point, for a positive number: the least \<open>e\<close> with
  \<open>x < 10 ^ e\<close>.\<close>

definition dec_exp :: "rat \<Rightarrow> int" where
  "dec_exp x = (let (a, b) = quotient_of x;
       k = int (length (itoa a)) - int (length (itoa b));
       p = (\<lambda>k. if 0 \<le> k then 10 ^ nat k else 1 / 10 ^ nat (- k) :: rat)
     in if x < p k then k else k + 1)"

text \<open>The shortest decimal that reads back as the number, as \<open>strconv\<close> finds it: the nearest decimal
  of \<open>n\<close> digits for the least \<open>n\<close> that round-trips (17 always do).\<close>

definition scale10 :: "int \<Rightarrow> rat \<Rightarrow> rat" where
  "scale10 k x = (if 0 \<le> k then x * 10 ^ nat k else x / 10 ^ nat (- k))"

fun shortest :: "nat \<Rightarrow> nat \<Rightarrow> rat \<Rightarrow> int \<times> int" where
  "shortest 0 n x = (0, 0)"
| "shortest (Suc f) n x =
     (let e = dec_exp x - int n; d = round_half_even (scale10 (- e) x)
      in if round64 (scale10 e (of_int d)) = x \<or> f = 0 then (d, e) else shortest f (Suc n) x)"

definition strip_zeros :: "string \<Rightarrow> string" where
  "strip_zeros ds = rev (dropWhile (\<lambda>c. c = CHR ''0'') (rev ds))"

text \<open>\<open>encoding/json\<close> writes a \<open>float64\<close> without exponent from 1e-6 up to below 1e21, otherwise with
  one, without leading zeros in it.\<close>

definition positive_text :: "rat \<Rightarrow> string" where
  "positive_text x =
     (let (d, e) = shortest 17 1 x;
          ds = strip_zeros (itoa d);
          point = int (length (itoa d)) + e
      in if x < 1 / 10 ^ 6 \<or> 10 ^ 21 \<le> x then
           [hd ds] @ (if length ds = 1 then [] else ''.'' @ drop 1 ds) @ ''e'' @
           (if point - 1 < 0 then ''-'' else ''+'') @ itoa \<bar>point - 1\<bar>
         else if point \<le> 0 then ''0.'' @ replicate (nat (- point)) (CHR ''0'') @ ds
         else if int (length ds) \<le> point then ds @ replicate (nat (point - int (length ds))) (CHR ''0'')
         else take (nat point) ds @ ''.'' @ drop (nat point) ds)"

definition float_text :: "float64 \<Rightarrow> string" where
  "float_text x = (if x = 0 then ''0'' else if x < 0 then CHR ''-'' # positive_text (- x) else positive_text x)"

text \<open>Numbers beyond the range of \<open>float64\<close> are a decoding error.\<close>

definition float_range :: "float64 \<Rightarrow> bool" where
  "float_range x \<longleftrightarrow> \<bar>x\<bar> < 2 ^ 1024"

fun jv_ok :: "jv \<Rightarrow> bool" where
  "jv_ok (JvNum n) = float_range (round64 (num_value n))"
| "jv_ok (JvArr vs) = list_all jv_ok vs"
| "jv_ok (JvObj ms) = list_all (\<lambda>(k, v). jv_ok v) ms"
| "jv_ok _ = True"

definition last_wins :: "(string \<times> 'a) list \<Rightarrow> (string, 'a) gomap" where
  "last_wins ms = fold (\<lambda>(k, v). gm_put k v) ms []"

text \<open>\<open>json.Marshal\<close> of a decoded \<open>interface{}\<close>.\<close>

fun marshal_any :: "jv \<Rightarrow> string" where
  "marshal_any JvNull = ''null''"
| "marshal_any (JvBool b) = (if b then ''true'' else ''false'')"
| "marshal_any (JvNum n) = float_text (round64 (num_value n))"
| "marshal_any (JvStr s) = quote_text s"
| "marshal_any (JvArr vs) = ''['' @ str_join (map marshal_any vs) '','' @ '']''"
| "marshal_any (JvObj ms) =
     ''{'' @ str_join (map (\<lambda>(k, t). quote_text k @ '':'' @ t)
        (sort_key fst (last_wins (map (\<lambda>(k, v). (k, marshal_any v)) ms)))) '','' @ ''}''"

end
