(* ===== verification/Passthrough.thy ===== *)
theory Passthrough
  imports Router Concurrency Auth QuotaEngine
begin

text \<open>
  The wildcard passthrough endpoint: \<open>internal/proxy/passthrough.go\<close> (the handler) and
  \<open>internal/proxy/passthrough_request.go\<close> (the upstream request and the copying of its answer).
  The state is the database, the concurrency counters and the router's snapshot.  The upstream is an
  argument: a function from the request the handler builds to a transport error or a response whose
  body arrives as a list of reads.  A nil dereference is the outcome \<open>Panicked\<close>; the deferred release
  of the concurrency slot runs on every way out.
\<close>

section \<open>Headers\<close>

type_synonym headers = "(string, string list) gomap"

definition is_token_char :: "char \<Rightarrow> bool" where
  "is_token_char c = (let n = of_char c :: nat in
     (48 \<le> n \<and> n \<le> 57) \<or> (65 \<le> n \<and> n \<le> 90) \<or> (97 \<le> n \<and> n \<le> 122) \<or>
     c \<in> set ''!#$%&*+-.^_`|~'' \<or> n = 39)"

definition upper_char :: "char \<Rightarrow> char" where
  "upper_char c = (let n = of_char c :: nat in if 97 \<le> n \<and> n \<le> 122 then char_of (n - 32) else c)"

text \<open>\<open>CanonicalMIMEHeaderKey\<close>: capitals at the start and after a hyphen, unless the key is not a
  token.\<close>

fun canon_from :: "bool \<Rightarrow> string \<Rightarrow> string" where
  "canon_from up [] = []"
| "canon_from up (c # cs) = (if up then upper_char c else lower_char c) # canon_from (c = CHR ''-'') cs"

definition canonical_key :: "string \<Rightarrow> string" where
  "canonical_key k = (if k \<noteq> [] \<and> list_all is_token_char k then canon_from True k else k)"

definition h_add :: "string \<Rightarrow> string \<Rightarrow> headers \<Rightarrow> headers" where
  "h_add k v h = (let ck = canonical_key k in
     gm_put ck ((case map_of h ck of Some vs \<Rightarrow> vs | None \<Rightarrow> []) @ [v]) h)"

definition h_set :: "string \<Rightarrow> string \<Rightarrow> headers \<Rightarrow> headers" where
  "h_set k v h = gm_put (canonical_key k) [v] h"

definition h_del :: "string \<Rightarrow> headers \<Rightarrow> headers" where
  "h_del k h = gm_delete (canonical_key k) h"

definition h_get :: "string \<Rightarrow> headers \<Rightarrow> string" where
  "h_get k h = (case map_of h (canonical_key k) of Some (v # vs) \<Rightarrow> v | _ \<Rightarrow> '''')"

section \<open>Requests\<close>

text \<open>A client request.  The body is what reading it to the end gives, \<open>None\<close> when the read fails.\<close>

record request =
  rq_method :: string
  rq_path :: string
  rq_raw_query :: string
  rq_headers :: headers
  rq_content_length :: int
  rq_body :: "string option"

record upstream_request =
  ur_method :: string
  ur_url :: string
  ur_headers :: headers
  ur_body :: string

text \<open>One read of the upstream body with what surrounds it: whether the client had gone, the bytes
  read, whether writing them failed, and how the read ended.\<close>

datatype read_end = More | Eof | ReadFailed

record body_read =
  br_gone :: bool
  br_bytes :: string
  br_write_failed :: bool
  br_end :: read_end

record upstream_response =
  up_status :: int
  up_headers :: headers
  up_content_length :: int
  up_body :: "body_read list"

definition buildPassthroughTarget :: "string \<Rightarrow> string \<Rightarrow> string \<Rightarrow> string" where
  "buildPassthroughTarget endpoint subPath rawQuery =
     (let base = trim_suffix endpoint ''/''; target = base @ subPath
      in if rawQuery \<noteq> '''' then target @ ''?'' @ rawQuery else target)"

definition isHopByHop :: "string \<Rightarrow> bool" where
  "isHopByHop key \<longleftrightarrow> to_lower key \<in> set [''connection'', ''keep-alive'', ''proxy-authenticate'',
     ''proxy-authorization'', ''te'', ''trailers'', ''transfer-encoding'', ''upgrade'']"

definition injectUpstreamAuth :: "ProviderEntry \<Rightarrow> headers \<Rightarrow> headers" where
  "injectUpstreamAuth prov h =
     (let scheme = (if e_auth_scheme prov = '''' then ''bearer'' else e_auth_scheme prov);
          h1 = (if scheme = ''x-api-key'' then
                  h_set (if e_auth_header prov = '''' then ''X-Api-Key'' else e_auth_header prov)
                    (e_api_key prov) h
                else if scheme = ''none'' then
                  (if e_auth_header prov \<noteq> '''' then h_set (e_auth_header prov) (e_api_key prov) h else h)
                else
                  h_set (if e_auth_header prov = '''' then ''Authorization'' else e_auth_header prov)
                    (''Bearer '' @ e_api_key prov) h)
      in fold (\<lambda>(k, v). h_set k v) (e_extra_headers prov) h1)"

definition client_header_dropped :: "string \<Rightarrow> bool" where
  "client_header_dropped key =
     (let lkey = to_lower key in
      lkey = ''host'' \<or> lkey = ''authorization'' \<or> lkey = ''x-api-key'' \<or>
      lkey = ''proxy-authorization'' \<or> isHopByHop key)"

fun copy_headers :: "(string \<Rightarrow> bool) \<Rightarrow> headers \<Rightarrow> headers \<Rightarrow> headers" where
  "copy_headers skip [] h = h"
| "copy_headers skip ((k, vs) # src) h =
     copy_headers skip src (if skip k then h else fold (h_add k) vs h)"

text \<open>\<open>http.NewRequestWithContext\<close> fails on a method or URL that does not parse; \<open>new_request_ok\<close> says
  which do.  The \<open>Host\<close> of the request is left to the URL.\<close>

definition buildUpstreamRequest ::
  "(string \<Rightarrow> string \<Rightarrow> bool) \<Rightarrow> request \<Rightarrow> string \<Rightarrow> string \<Rightarrow> ProviderEntry \<Rightarrow> upstream_request option" where
  "buildUpstreamRequest new_request_ok r targetURL bodyBytes prov =
     (if \<not> new_request_ok (rq_method r) targetURL then None
      else Some \<lparr>ur_method = rq_method r, ur_url = targetURL,
        ur_headers = injectUpstreamAuth prov (copy_headers client_header_dropped (rq_headers r) []),
        ur_body = bodyBytes\<rparr>)"

section \<open>Answers\<close>

definition copyResponseHeaders :: "headers \<Rightarrow> headers \<Rightarrow> bool \<Rightarrow> headers" where
  "copyResponseHeaders dst src isStream =
     (let h = copy_headers isHopByHop src dst
      in if isStream then h_set ''X-Accel-Buffering'' ''no'' (h_del ''Content-Length'' h) else h)"

definition isStreamingResponse :: "upstream_response \<Rightarrow> bool" where
  "isStreamingResponse resp =
     (let ct = h_get ''Content-Type'' (up_headers resp) in
      if str_contains ct ''text/event-stream'' \<or> str_contains ct ''application/stream'' \<or>
         str_contains ct ''application/x-ndjson'' then True
      else if str_contains (to_lower (h_get ''Transfer-Encoding'' (up_headers resp))) ''chunked'' then True
      else if up_content_length resp < 0 then True
      else False)"

text \<open>The bytes written to the client, and whether the copy was interrupted.  A list that stops
  without an end is a body whose next read never returns.\<close>

fun streamCopy :: "body_read list \<Rightarrow> string \<times> bool" where
  "streamCopy [] = ('''', True)"
| "streamCopy (b # bs) =
     (if br_gone b then ('''', True)
      else if br_bytes b \<noteq> '''' \<and> br_write_failed b then ('''', True)
      else case br_end b of
        Eof \<Rightarrow> (br_bytes b, False)
      | ReadFailed \<Rightarrow> (br_bytes b, True)
      | More \<Rightarrow> (case streamCopy bs of (w, e) \<Rightarrow> (br_bytes b @ w, e)))"

definition methodPathModel :: "string \<Rightarrow> string \<Rightarrow> string" where
  "methodPathModel method subPath = (if subPath = '''' then method else method @ '' '' @ subPath)"

definition providerEntryFromRouter :: "Provider \<Rightarrow> ProviderEntry" where
  "providerEntryFromRouter p = \<lparr>e_slug = pr_id p, e_endpoint = pr_endpoint p,
     e_api_key = pr_api_key p, e_allow_passthrough = pr_allow_passthrough p,
     e_auth_header = pr_auth_header p, e_auth_scheme = pr_auth_scheme p,
     e_extra_headers = pr_extra_headers p\<rparr>"

section \<open>The handler\<close>

record gateway =
  gw_db :: db
  gw_counters :: counters
  gw_table :: ProviderTable

text \<open>What the client gets: an error answer of the gateway, the upstream's answer with its status,
  headers and the bytes copied, or an aborted connection.\<close>

datatype outcome = Answered response | Forwarded int headers string | Panicked

definition writeProxyError :: "int \<Rightarrow> string \<Rightarrow> string \<Rightarrow> response" where
  "writeProxyError statusCode message errType = writeJSON statusCode
     (JObj [(''error'', JObj [(''message'', JStr message), (''type'', JStr errType),
        (''code'', JStr errType)])])"

text \<open>The Chinese messages, as UTF-8: the concurrency cap, the body cap, the token cap.\<close>

definition msg_concurrency :: string where
  "msg_concurrency = map char_of [229, 185, 182, 229, 143, 145, 232, 175, 183, 230, 177, 130,
      230, 149, 176, 232, 182, 133, 232, 191, 135, 228, 184, 138, 233, 153, 144 :: nat]"

definition msg_too_large :: string where
  "msg_too_large = map char_of [232, 175, 183, 230, 177, 130, 230, 147, 141, 228, 189, 156, 229,
      183, 178, 232, 182, 133, 232, 191, 135, 230, 168, 161, 229, 158, 139, 230, 156, 128, 229, 164, 167, 232, 175, 183, 230, 177, 130, 233, 153, 144, 229, 136, 182 :: nat]"

definition msg_token_quota :: string where
  "msg_token_quota = map char_of [84, 111, 107, 101, 110, 32, 233, 162, 157, 229, 186, 166, 229,
      183, 178, 231, 148, 168, 229, 176, 189 :: nat]"

record passthrough_config =
  pc_enabled :: "bool option"
  pc_has_router :: bool
  pc_has_engines :: bool

text \<open>The environment of a request: the time, its latency when logged, the order of ranges over
  maps, the request parser and the upstream.\<close>

record env =
  en_now :: gotime
  en_latency :: int
  en_order :: "string list \<Rightarrow> string list"
  en_request_ok :: "string \<Rightarrow> string \<Rightarrow> bool"
  en_upstream :: "upstream_request \<Rightarrow> string + upstream_response"

definition body_budget :: "ctx \<Rightarrow> int" where
  "body_budget c =
     (let budget = GetMaxBodySize c;
          budget = (if budget \<le> 0 then DefaultMaxBodySize else budget);
          budget = (if MaxBodySizeCeiling < budget then MaxBodySizeCeiling else budget)
      in if budget < 1 then 1 else budget)"

definition has_body :: "request \<Rightarrow> bool" where
  "has_body r \<longleftrightarrow> rq_content_length r \<noteq> 0 \<and> rq_method r \<noteq> ''GET'' \<and> rq_method r \<noteq> ''HEAD'' \<and>
     rq_method r \<noteq> ''DELETE'' \<and> rq_method r \<noteq> ''OPTIONS'' \<and> rq_method r \<noteq> ''TRACE''"

text \<open>\<open>io.ReadAll\<close> through \<open>MaxBytesReader\<close>.\<close>

definition read_body :: "ctx \<Rightarrow> request \<Rightarrow> response + string" where
  "read_body c r =
     (if \<not> has_body r then Inr ''''
      else case rq_body r of
        None \<Rightarrow> Inl (writeProxyError 400 ''Failed to read request body'' ''bad_request'')
      | Some b \<Rightarrow>
          if body_budget c < int (length b)
          then Inl (writeProxyError 413 msg_too_large ''request_entity_too_large'')
          else Inr b)"

definition pick_provider :: "env \<Rightarrow> ProviderTable \<Rightarrow> ctx \<Rightarrow> response + Provider" where
  "pick_provider en table c =
     (if GetRouteMode c = ''fixed'' \<and> GetFixedProvider c \<noteq> '''' then
        (case GetProviderBySlug table (GetFixedProvider c) of
           None \<Rightarrow> Inl (writeProxyError 503
             (''Fixed provider not available: '' @ GetFixedProvider c) ''no_provider'')
         | Some p \<Rightarrow> Inr p)
      else (case ResolveProvider (en_order en) table (en_now en) of
           Inl _ \<Rightarrow> Inl (writeProxyError 503 ''No upstream provider available'' ''no_provider'')
         | Inr p \<Rightarrow> Inr p))"

text \<open>The multiplier of the request and the calls it costs.\<close>

definition request_cost :: "gotime \<Rightarrow> int \<Rightarrow> db \<Rightarrow> (float64 \<times> int) \<times> db" where
  "request_cost now userID db =
     (case GetFixedMultiplier userID db of
        (Inr (Some m), db1) \<Rightarrow> ((m, f_ceil_int m), db1)
      | (_, db1) \<Rightarrow>
          (let (m, db2) = GetEffectiveMultiplier now db1
           in ((m, f_ceil_int (f_mul 1 m)), db2)))"

definition call_log :: "int \<Rightarrow> string \<Rightarrow> string \<Rightarrow> int \<Rightarrow> float64 \<Rightarrow> int \<Rightarrow> int \<Rightarrow> string \<Rightarrow> CallLog" where
  "call_log userID model providerID calls mult status latency msg =
     \<lparr>cl_id = 0, cl_user_id = userID, cl_username = '''', cl_model = model,
      cl_provider_id = providerID, cl_prompt_tokens = 0, cl_completion_tokens = 0,
      cl_total_tokens = 0, cl_raw_total_tokens = 0, cl_effective_calls = calls,
      cl_multiplier_used = mult, cl_status_code = status, cl_latency_ms = latency,
      cl_error_msg = msg, cl_created_at = ''''\<rparr>"

text \<open>An insert whose error is only logged.\<close>

definition log_call :: "gotime \<Rightarrow> CallLog \<Rightarrow> db \<Rightarrow> db" where
  "log_call now l db = snd (InsertCallLog now l db)"

text \<open>The rejection branch: the cause is looked up in the quota row, and a missing row is
  dereferenced.\<close>

definition reject_quota :: "env \<Rightarrow> int \<Rightarrow> string \<Rightarrow> string \<Rightarrow> int \<Rightarrow> float64 \<Rightarrow> db \<Rightarrow> outcome \<times> db" where
  "reject_quota en userID model providerID calls mult db =
     (case GetQuota userID db of
        (Inr None, db1) \<Rightarrow> (Panicked, db1)
      | (q, db1) \<Rightarrow>
          let token = (case q of Inr (Some q) \<Rightarrow>
                q_token_total_limit q \<noteq> 0 \<and> q_token_total_limit q \<le> q_token_total_used q | _ \<Rightarrow> False);
              errType = (if token then ''token_quota_exceeded'' else ''quota_exceeded'');
              errMsg = (if token then msg_token_quota else ''Quota exceeded'')
          in (Answered (writeProxyError 429 errMsg errType),
              log_call (en_now en)
                (call_log userID model providerID calls mult 429 (en_latency en) errMsg) db1))"

text \<open>From the admitted request to the answer.\<close>

definition forward ::
  "env \<Rightarrow> int \<Rightarrow> request \<Rightarrow> string \<Rightarrow> string \<Rightarrow> Provider \<Rightarrow> int \<Rightarrow> float64 \<Rightarrow> db \<Rightarrow> outcome \<times> db" where
  "forward en userID r subPath bodyBytes prov calls mult db =
     (let model = methodPathModel (rq_method r) subPath;
          now = en_now en;
          log = (\<lambda>status msg. call_log userID model (pr_id prov) calls mult status (en_latency en) msg)
      in case buildUpstreamRequest (en_request_ok en) r
            (buildPassthroughTarget (pr_endpoint prov) subPath (rq_raw_query r)) bodyBytes
            (providerEntryFromRouter prov) of
        None \<Rightarrow> (Answered (writeProxyError 500 ''Failed to build upstream request'' ''internal_error''), db)
      | Some upstreamReq \<Rightarrow>
          (case en_upstream en upstreamReq of
             Inl derr \<Rightarrow>
               (let db1 = log_err (RefundQuotaUsage now userID calls) db
                in (Answered (writeProxyError 502 ''Upstream request failed'' ''upstream_error''),
                    log_call now (log 502 derr) db1))
           | Inr resp \<Rightarrow>
               (let db1 = (if 400 \<le> up_status resp
                           then log_err (RefundQuotaUsage now userID calls) db else db);
                    h = copyResponseHeaders [] (up_headers resp) (isStreamingResponse resp);
                    (written, interrupted) = streamCopy (up_body resp)
                in (Forwarded (up_status resp) h written,
                    log_call now (log (up_status resp) '''') db1))))"

text \<open>Everything between the acquisition of the slot and its release.\<close>

definition serve_admitted ::
  "passthrough_config \<Rightarrow> env \<Rightarrow> ProviderTable \<Rightarrow> ctx \<Rightarrow> request \<Rightarrow> db \<Rightarrow> outcome \<times> db" where
  "serve_admitted pc en table c r db =
     (let userID = GetUserID c; subPath = trim_prefix (rq_path r) ''/v1/passthrough'' in
      case read_body c r of
        Inl resp \<Rightarrow> (Answered resp, db)
      | Inr bodyBytes \<Rightarrow>
        if \<not> pc_has_router pc
        then (Answered (writeProxyError 500 ''Gateway misconfigured'' ''internal_error''), db)
        else case pick_provider en table c of
          Inl resp \<Rightarrow> (Answered resp, db)
        | Inr prov \<Rightarrow>
          if \<not> pr_allow_passthrough prov
          then (Answered (writeProxyError 403 ''Passthrough disabled for provider'' ''passthrough_disabled''), db)
          else if \<not> pc_has_engines pc
          then (Answered (writeProxyError 500 ''Gateway misconfigured'' ''internal_error''), db)
          else
            (case request_cost (en_now en) userID db of
               ((mult, calls), db1) \<Rightarrow>
                 (case CheckAndDeduct (en_now en) userID calls db1 of
                    (Inl _, db2) \<Rightarrow>
                      (Answered (writeProxyError 500 ''Internal server error'' ''internal_error''), db2)
                  | (Inr False, db2) \<Rightarrow>
                      reject_quota en userID (methodPathModel (rq_method r) subPath) (pr_id prov)
                        calls mult db2
                  | (Inr True, db2) \<Rightarrow>
                      forward en userID r subPath bodyBytes prov calls mult db2)))"

definition with_header :: "string \<Rightarrow> string \<Rightarrow> response \<Rightarrow> response" where
  "with_header k v r = r\<lparr>rs_headers := (k, v) # rs_headers r\<rparr>"

definition ServePassthrough ::
  "passthrough_config \<Rightarrow> env \<Rightarrow> ctx \<Rightarrow> request \<Rightarrow> gateway \<Rightarrow> outcome \<times> gateway" where
  "ServePassthrough pc en c r g =
     (let userID = GetUserID c in
      if userID = 0 then (Answered (writeProxyError 401 ''Not authenticated'' ''not_authenticated''), g)
      else if pc_enabled pc \<noteq> Some True
      then (Answered (writeProxyError 403 ''Passthrough is disabled'' ''passthrough_disabled''), g)
      else case tryAcquireConcurrency userID (GetMaxConcurrency c) (gw_counters g) of
        (False, st) \<Rightarrow>
          (Answered (with_header ''Retry-After'' ''1''
             (writeProxyError 429 msg_concurrency ''concurrency_limit_exceeded'')),
           g\<lparr>gw_counters := st\<rparr>)
      | (True, st) \<Rightarrow>
          (case serve_admitted pc en (gw_table g) c r (gw_db g) of
             (out, db') \<Rightarrow> (out, g\<lparr>gw_db := db', gw_counters := releaseConcurrency userID st\<rparr>)))"

end
