(* ===== verification/ChatBody.thy ===== *)
theory ChatBody
  imports JsonRaw Passthrough
begin

text \<open>
  The bodies of chat completions: \<open>internal/proxy/handler.go\<close> (decoding, normalisation of content
  arrays, the rewriting of model names both ways, compaction to the body budget, token usage) and
  \<open>internal/proxy/upstream.go\<close> (the upstream request and the \<open>stream_options\<close> it forces), and the
  list of models of \<open>models.go\<close>.  A body is a text; a function that returns the body unchanged
  returns the same text.
\<close>

section \<open>The request\<close>

record chat_request =
  cq_model :: string
  cq_stream :: bool

text \<open>One message: a role that is a string, and any content.\<close>

definition message_ok :: "rj \<Rightarrow> bool" where
  "message_ok v = (case struct_members v of
     None \<Rightarrow> False | Some ms \<Rightarrow> string_field ''role'' '''' ms \<noteq> None)"

fun messages_ok :: "(string \<times> rj) list \<Rightarrow> bool" where
  "messages_ok [] = True"
| "messages_ok ((k, v) # ms) =
     ((\<not> equal_fold (text_of k) ''messages'' \<or> is_null v \<or>
       (case v of RArr vs \<Rightarrow> list_all message_ok vs | _ \<Rightarrow> False)) \<and> messages_ok ms)"

text \<open>\<open>json.Unmarshal\<close> into \<open>ChatCompletionRequest\<close>; \<open>None\<close> is an error.\<close>

definition decode_chat :: "string \<Rightarrow> chat_request option" where
  "decode_chat body = (case parse_raw body of
     None \<Rightarrow> None
   | Some v \<Rightarrow> (case struct_members v of
       None \<Rightarrow> None
     | Some ms \<Rightarrow>
         (case (string_field ''model'' '''' ms, bool_field ''stream'' False ms) of
            (Some m, Some s) \<Rightarrow> if messages_ok ms then Some \<lparr>cq_model = m, cq_stream = s\<rparr> else None
          | _ \<Rightarrow> None)))"

section \<open>Content\<close>

text \<open>The texts of an array of content parts; \<open>None\<close> when a part does not decode.\<close>

fun part_texts :: "rj list \<Rightarrow> string list option" where
  "part_texts [] = Some []"
| "part_texts (v # vs) =
     (case struct_members v of
        None \<Rightarrow> None
      | Some ms \<Rightarrow>
          (case (string_field ''type'' '''' ms, string_field ''text'' '''' ms, part_texts vs) of
             (Some ty, Some tx, Some rest) \<Rightarrow>
               Some (if ty = ''text'' \<and> tx \<noteq> '''' then tx # rest else rest)
           | _ \<Rightarrow> None))"

definition newline :: string where "newline = [char_of (10 :: nat)]"

text \<open>\<open>ContentText\<close> on the content's value and its source text.\<close>

definition ContentText :: "rj \<Rightarrow> string \<Rightarrow> string" where
  "ContentText v src = (case v of
     RText l \<Rightarrow> text_of l
   | RArr vs \<Rightarrow> (case part_texts vs of Some ts \<Rightarrow> str_join ts newline | None \<Rightarrow> src)
   | _ \<Rightarrow> if is_null v then '''' else src)"

text \<open>One message of the array, as a map (\<open>None\<close> for \<open>null\<close>); \<open>True\<close> when its content was an array of
  parts.\<close>

definition normalize_message :: "raw_map option \<Rightarrow> bool \<times> raw_map option" where
  "normalize_message m = (case m of
     None \<Rightarrow> (False, m)
   | Some ms \<Rightarrow> (case map_of ms ''content'' of
       Some (RArr vs) \<Rightarrow> (case part_texts vs of
           Some ts \<Rightarrow> (True, Some (gm_put ''content'' (raw_text (str_join ts newline)) ms))
         | None \<Rightarrow> (False, m))
     | _ \<Rightarrow> (False, m)))"

fun unmarshal_maps :: "rj list \<Rightarrow> raw_map option list option" where
  "unmarshal_maps [] = Some []"
| "unmarshal_maps (v # vs) =
     (case (v, unmarshal_maps vs) of
        (RObj ms, Some rest) \<Rightarrow> Some (Some (raw_map_of ms) # rest)
      | (RLit l, Some rest) \<Rightarrow> if l = ''null'' then Some (None # rest) else None
      | _ \<Rightarrow> None)"

definition print_maps :: "raw_map option list \<Rightarrow> string" where
  "print_maps ms = ''['' @ str_join (map (\<lambda>m. case m of None \<Rightarrow> ''null'' | Some m \<Rightarrow> print_map m) ms) '','' @ '']''"

text \<open>A member whose text is already marshalled.\<close>

definition print_map_with :: "string \<Rightarrow> string \<Rightarrow> raw_map \<Rightarrow> string" where
  "print_map_with key text m =
     ''{'' @ str_join (map (\<lambda>(k, t). quote_text k @ '':'' @ t)
       (sort_key fst (gm_put key text (map (\<lambda>(k, v). (k, print_raw v)) m)))) '','' @ ''}''"

definition normalizeContentArrays :: "string \<Rightarrow> string" where
  "normalizeContentArrays body = (case unmarshal_map body of
     Some (Some raw) \<Rightarrow>
       (case map_of raw ''messages'' of
          Some (RArr vs) \<Rightarrow>
            (case unmarshal_maps vs of
               None \<Rightarrow> body
             | Some msgs \<Rightarrow>
                 let rs = map normalize_message msgs in
                 if \<not> list_ex fst rs then body
                 else print_map_with ''messages'' (print_maps (map snd rs)) raw)
        | _ \<Rightarrow> body)
   | _ \<Rightarrow> body)"

section \<open>Model names\<close>

text \<open>\<open>None\<close> is the panic of assigning into the nil map that a \<open>null\<close> body leaves.\<close>

definition rewriteBodyModel :: "string \<Rightarrow> string \<Rightarrow> string option" where
  "rewriteBodyModel body model = (case unmarshal_map body of
     None \<Rightarrow> Some body
   | Some None \<Rightarrow> None
   | Some (Some raw) \<Rightarrow> Some (print_map (gm_put ''model'' (raw_text model) raw)))"

text \<open>\<open>bytes.Replace(s, old, new, 1)\<close> for a non-empty \<open>old\<close>.\<close>

fun replace_first :: "string \<Rightarrow> string \<Rightarrow> string \<Rightarrow> string" where
  "replace_first old new [] = []"
| "replace_first old new (c # s) =
     (if has_prefix (c # s) old then new @ drop (length old) (c # s)
      else c # replace_first old new s)"

definition model_pattern :: "string \<Rightarrow> string" where
  "model_pattern m = CHR 0x22 # ''model'' @ [CHR 0x22] @ '':'' @ [CHR 0x22] @ m @ [CHR 0x22]"

text \<open>Decoding just the \<open>model\<close> field.\<close>

definition decode_model :: "string \<Rightarrow> string option" where
  "decode_model body = (case parse_raw body of
     None \<Rightarrow> None
   | Some v \<Rightarrow> (case struct_members v of None \<Rightarrow> None | Some ms \<Rightarrow> string_field ''model'' '''' ms))"

definition rewriteResponseModel :: "string \<Rightarrow> string \<Rightarrow> string" where
  "rewriteResponseModel body model =
     (if model = '''' then body
      else case decode_model body of
        None \<Rightarrow> body
      | Some m \<Rightarrow> if m = '''' \<or> m = model then body
                  else replace_first (model_pattern m) (model_pattern model) body)"

section \<open>Compaction\<close>

definition is_system :: "rj \<Rightarrow> bool" where
  "is_system v = (case struct_members v of
     None \<Rightarrow> False | Some ms \<Rightarrow> string_field ''role'' '''' ms = Some ''system'')"

text \<open>\<open>tryBuild\<close>: the request with the system messages and the newest \<open>keepN\<close> others.\<close>

definition tryBuild :: "raw_map \<Rightarrow> rj list \<Rightarrow> rj list \<Rightarrow> nat \<Rightarrow> string" where
  "tryBuild raw system others keepN =
     print_map (gm_put ''messages'' (RArr (system @ drop (length others - keepN) others)) raw)"

text \<open>The loop from \<open>keepN\<close> down to \<open>minKeep\<close>.\<close>

fun try_down :: "(nat \<Rightarrow> string) \<Rightarrow> int \<Rightarrow> nat \<Rightarrow> nat \<Rightarrow> string option" where
  "try_down build maxBody minKeep 0 =
     (if minKeep = 0 \<and> int (length (build 0)) \<le> maxBody then Some (build 0) else None)"
| "try_down build maxBody minKeep (Suc n) =
     (if Suc n < minKeep then None
      else if int (length (build (Suc n))) \<le> maxBody then Some (build (Suc n))
      else try_down build maxBody minKeep n)"

definition compactMessagesToBudget :: "string \<Rightarrow> int \<Rightarrow> string" where
  "compactMessagesToBudget body maxBody =
     (if maxBody \<le> 0 \<or> int (length body) \<le> maxBody then body
      else case unmarshal_map body of
        Some (Some raw) \<Rightarrow>
          (case map_of raw ''messages'' of
             Some (RArr msgs) \<Rightarrow>
               if msgs = [] then body
               else
                 let system = filter is_system msgs;
                     others = filter (\<lambda>m. \<not> is_system m) msgs;
                     minKeep = (if others \<noteq> [] then 1 else 0);
                     build = tryBuild raw system others
                 in (case try_down build maxBody minKeep (length others) of
                       Some out \<Rightarrow> out
                     | None \<Rightarrow> build minKeep)
           | _ \<Rightarrow> body)
      | _ \<Rightarrow> body)"

section \<open>Token usage\<close>

record usage =
  us_prompt :: int
  us_completion :: int
  us_total :: int

definition no_usage :: usage where
  "no_usage = \<lparr>us_prompt = 0, us_completion = 0, us_total = 0\<rparr>"

definition usage_fields :: "usage \<Rightarrow> (string \<times> rj) list \<Rightarrow> usage option" where
  "usage_fields u ms =
     (case (int_field ''prompt_tokens'' (us_prompt u) ms, int_field ''completion_tokens'' (us_completion u) ms,
            int_field ''total_tokens'' (us_total u) ms) of
        (Some p, Some c, Some t) \<Rightarrow> Some \<lparr>us_prompt = p, us_completion = c, us_total = t\<rparr>
      | _ \<Rightarrow> None)"

text \<open>The \<open>usage\<close> members in order: a struct field is filled by each, \<open>null\<close> leaves it.\<close>

fun usage_members :: "usage \<Rightarrow> (string \<times> rj) list \<Rightarrow> usage option" where
  "usage_members u [] = Some u"
| "usage_members u ((k, v) # ms) =
     (if \<not> equal_fold (text_of k) ''usage'' \<or> is_null v then usage_members u ms
      else case v of
        RObj us \<Rightarrow> (case usage_fields u us of Some u' \<Rightarrow> usage_members u' ms | None \<Rightarrow> None)
      | _ \<Rightarrow> None)"

definition ExtractTokenUsage :: "string \<Rightarrow> int \<times> int \<times> int" where
  "ExtractTokenUsage body = (case parse_raw body of
     None \<Rightarrow> (0, 0, 0)
   | Some v \<Rightarrow> (case struct_members v of
       None \<Rightarrow> (0, 0, 0)
     | Some ms \<Rightarrow> (case usage_members no_usage ms of
         None \<Rightarrow> (0, 0, 0)
       | Some u \<Rightarrow> (us_prompt u, us_completion u, us_total u))))"

text \<open>The pointer field of a stream chunk: \<open>null\<close> resets it to nil.\<close>

fun usage_pointer :: "usage option \<Rightarrow> (string \<times> rj) list \<Rightarrow> usage option option" where
  "usage_pointer u [] = Some u"
| "usage_pointer u ((k, v) # ms) =
     (if \<not> equal_fold (text_of k) ''usage'' then usage_pointer u ms
      else if is_null v then usage_pointer None ms
      else case v of
        RObj us \<Rightarrow> (case usage_fields (case u of Some x \<Rightarrow> x | None \<Rightarrow> no_usage) us of
            Some u' \<Rightarrow> usage_pointer (Some u') ms | None \<Rightarrow> None)
      | _ \<Rightarrow> None)"

definition chunk_usage :: "string \<Rightarrow> usage option" where
  "chunk_usage s = (case parse_raw s of
     None \<Rightarrow> None
   | Some v \<Rightarrow> (case struct_members v of
       None \<Rightarrow> None
     | Some ms \<Rightarrow> (case usage_pointer None ms of Some u \<Rightarrow> u | None \<Rightarrow> None)))"

section \<open>The upstream request\<close>

definition ensureStreamUsage :: "string \<Rightarrow> string" where
  "ensureStreamUsage body = (case parse_json body of
     Some (JvObj ms) \<Rightarrow>
       if \<not> jv_ok (JvObj ms) then body
       else
         let req = last_wins ms in
         if map_of req ''stream'' \<noteq> Some (JvBool True) then body
         else
           let opts = (case map_of req ''stream_options'' of
                 Some (JvObj os) \<Rightarrow> last_wins os | _ \<Rightarrow> []) in
           if map_of opts ''include_usage'' = Some (JvBool False) then body
           else marshal_any (JvObj (gm_put ''stream_options''
                  (JvObj (gm_put ''include_usage'' (JvBool True) opts)) req))
   | _ \<Rightarrow> body)"

definition chat_url :: "string \<Rightarrow> string" where
  "chat_url upstreamURL = (if has_suffix upstreamURL ''/chat/completions'' then upstreamURL
     else trim_suffix upstreamURL ''/'' @ ''/chat/completions'')"

definition BuildUpstreamRequest ::
  "(string \<Rightarrow> string \<Rightarrow> bool) \<Rightarrow> string \<Rightarrow> string \<Rightarrow> string \<Rightarrow> upstream_request option" where
  "BuildUpstreamRequest new_request_ok upstreamURL realAPIKey bodyBytes =
     (let url = chat_url upstreamURL; bodyBytes = ensureStreamUsage bodyBytes in
      if \<not> new_request_ok ''POST'' url then None
      else Some \<lparr>ur_method = ''POST'', ur_url = url,
        ur_headers = h_set ''Accept'' ''application/json''
          (h_set ''Authorization'' (''Bearer '' @ realAPIKey)
            (h_set ''Content-Type'' ''application/json'' [])),
        ur_body = bodyBytes\<rparr>)"

section \<open>The list of models\<close>

definition supportedModels :: "string list" where
  "supportedModels = [''glm-5.2'', ''glm-4'', ''glm-4-flash'', ''glm-4v'', ''glm-4-plus'']"

definition model_entry :: "string \<Rightarrow> json" where
  "model_entry i = JObj [(''id'', JStr i), (''object'', JStr ''model''), (''created'', JInt 1735689600),
     (''owned_by'', JStr ''zhipu'')]"

definition allowedModelCORSOrigins :: "string list" where
  "allowedModelCORSOrigins = [''https://ai.shimiaocheng.top'']"

definition ServeModels :: "string \<Rightarrow> string \<Rightarrow> response" where
  "ServeModels method origin =
     (let cors = (if origin \<noteq> '''' \<and> origin \<in> set allowedModelCORSOrigins then
            [(''Access-Control-Allow-Origin'', origin),
             (''Access-Control-Allow-Methods'', ''GET, OPTIONS''),
             (''Access-Control-Allow-Headers'', ''Authorization, Content-Type'')] else []);
          hs = (''Content-Type'', ''application/json'') # cors
      in if method = ''OPTIONS'' then \<lparr>rs_status = 204, rs_headers = hs, rs_cookies = [], rs_body = NoBody\<rparr>
         else \<lparr>rs_status = 200, rs_headers = hs, rs_cookies = [],
           rs_body = JsonBody (JObj [(''object'', JStr ''list''),
             (''data'', JArr (map model_entry supportedModels))])\<rparr>)"

end
