(* ===== verification/ChatProxy.thy ===== *)
theory ChatProxy
  imports ChatBody "HOL-Library.Monad_Syntax"
begin

text \<open>
  The chat completion endpoint: \<open>ServeHTTP\<close> and \<open>handleSync\<close> of \<open>internal/proxy/handler.go\<close> and
  \<open>handleStream\<close> of \<open>internal/proxy/stream.go\<close>, over the state and the environment of the
  passthrough handler.  The body of an upstream answer arrives as a list of reads; a list that stops
  without an end is a body that hangs until the client's timeout turns it into an error.  Writes to
  the client are recorded as handed to the response writer.
\<close>

section \<open>Freshness of a window\<close>

text \<open>\<open>time.Parse("2006-01-02 15:04:05", s)\<close>.\<close>

definition parse_datetime :: "string \<Rightarrow> gotime option" where
  "parse_datetime s = do {
     ((y, m, d), s) \<leftarrow> parse_ymd s;
     s \<leftarrow> expect '' '' s;
     (hh, s) \<leftarrow> take_1_2 s;
     if 24 \<le> hh then None else do {
     s \<leftarrow> expect '':'' s;
     (mi, s) \<leftarrow> take_digits 2 s;
     if 60 \<le> mi then None else do {
     s \<leftarrow> expect '':'' s;
     (ss, s) \<leftarrow> take_digits 2 s;
     if 60 \<le> ss then None else
     (let (ns, s) = parse_frac s in
      if s \<noteq> [] then None else Some (go_date y m d (int hh) (int mi) (int ss) ns 0)) } } }"

definition freshWindow :: "gotime \<Rightarrow> string \<Rightarrow> int \<Rightarrow> bool" where
  "freshWindow now ts dur =
     (if ts = '''' then False
      else case parse_rfc3339 ts of
        Some t \<Rightarrow> t_sub now t \<le> dur
      | None \<Rightarrow> (case parse_datetime ts of
          Some t \<Rightarrow> t_sub now t \<le> dur
        | None \<Rightarrow> False))"

section \<open>The rejection\<close>

text \<open>The messages for the five-hour and the weekly Token cap.\<close>

definition msg_token_5h :: string where
  "msg_token_5h = map char_of [53, 32, 229, 176, 143, 230, 151, 182, 229, 134, 133, 32, 84, 111,
      107, 101, 110, 32, 229, 183, 178, 232, 182, 133, 233, 153, 144 :: nat]"

definition msg_token_week :: string where
  "msg_token_week = map char_of [230, 156, 172, 229, 145, 168, 32, 84, 111, 107, 101, 110, 32,
      229, 183, 178, 232, 182, 133, 233, 153, 144 :: nat]"

text \<open>The cause of a rejection, as type and message: five hours, week, total, in this order.\<close>

definition reject_cause :: "gotime \<Rightarrow> Quota \<Rightarrow> string \<times> string" where
  "reject_cause now q =
     (if q_token_5h_limit q \<noteq> 0 \<and> q_token_5h_limit q \<le> q_token_5h_used q \<and>
         freshWindow now (q_window_start q) (5 * hour_ns)
      then (''token_5h_quota_exceeded'', msg_token_5h)
      else if q_token_week_limit q \<noteq> 0 \<and> q_token_week_limit q \<le> q_token_week_used q \<and>
         q_week_start q \<noteq> ''''
      then (case parse_rfc3339 (q_week_start q) of
              Some ws \<Rightarrow>
                if freshWindow now (fmt_rfc3339 (AlignedCycleStartUTC ws now)) (7 * 24 * hour_ns)
                then (''token_week_quota_exceeded'', msg_token_week)
                else (''quota_exceeded'', ''Quota exceeded'')
            | None \<Rightarrow> (''quota_exceeded'', ''Quota exceeded''))
      else if q_token_total_limit q \<noteq> 0 \<and> q_token_total_limit q \<le> q_token_total_used q
      then (''token_quota_exceeded'', msg_token_quota)
      else (''quota_exceeded'', ''Quota exceeded''))"

definition chat_reject :: "env \<Rightarrow> int \<Rightarrow> string \<Rightarrow> string \<Rightarrow> int \<Rightarrow> float64 \<Rightarrow> db \<Rightarrow> outcome \<times> db" where
  "chat_reject en userID model providerID calls mult db =
     (case GetQuota userID db of
        (Inr None, db1) \<Rightarrow> (Panicked, db1)
      | (q, db1) \<Rightarrow>
          (case (case q of Inr (Some q) \<Rightarrow> reject_cause (en_now en) q
                 | _ \<Rightarrow> (''quota_exceeded'', ''Quota exceeded'')) of
             (errType, errMsg) \<Rightarrow>
               (Answered (writeProxyError 429 errMsg errType),
                log_call (en_now en)
                  (call_log userID model providerID calls mult 429 (en_latency en) errMsg) db1)))"

section \<open>Token accounting\<close>

text \<open>Addition of \<open>int\<close>s wraps at 64 bits.\<close>

definition wrap64 :: "int \<Rightarrow> int" where
  "wrap64 x = (x + 2 ^ 63) mod 2 ^ 64 - 2 ^ 63"

definition billed_tokens :: "int \<Rightarrow> int \<Rightarrow> float64 \<Rightarrow> int" where
  "billed_tokens p c mult = f_ceil_int (f_mul (f_of_int (wrap64 (p + c))) mult)"

definition with_tokens :: "int \<times> int \<times> int \<Rightarrow> CallLog \<Rightarrow> CallLog" where
  "with_tokens u l = (case u of (p, c, t) \<Rightarrow>
     l\<lparr>cl_prompt_tokens := p, cl_completion_tokens := c, cl_total_tokens := t\<rparr>)"

text \<open>The call log and the token counters after an answered call.\<close>

definition account :: "env \<Rightarrow> int \<Rightarrow> int \<times> int \<times> int \<Rightarrow> float64 \<Rightarrow> CallLog \<Rightarrow> db \<Rightarrow> db" where
  "account en userID u mult l db = (case u of (p, c, t) \<Rightarrow>
     log_err (AddTokenUsage userID (billed_tokens p c mult)) (log_call (en_now en) (with_tokens u l) db))"

section \<open>Synchronous completion\<close>

text \<open>\<open>io.ReadAll\<close>.\<close>

fun read_all :: "body_read list \<Rightarrow> string option" where
  "read_all [] = None"
| "read_all (b # bs) =
     (case br_end b of
        Eof \<Rightarrow> Some (br_bytes b)
      | ReadFailed \<Rightarrow> None
      | More \<Rightarrow> map_option (\<lambda>t. br_bytes b @ t) (read_all bs))"

text \<open>\<open>read_error\<close> is the text of a failed read.\<close>

definition handleSync ::
  "env \<Rightarrow> string \<Rightarrow> int \<Rightarrow> string \<Rightarrow> string \<Rightarrow> string \<Rightarrow> string \<Rightarrow> string \<Rightarrow> string \<Rightarrow> int \<Rightarrow> float64 \<Rightarrow> db
   \<Rightarrow> outcome \<times> db" where
  "handleSync en read_error userID bodyBytes model requestModel providerID endpoint apiKey calls mult db =
     (let now = en_now en;
          log = (\<lambda>status msg. call_log userID model providerID calls mult status (en_latency en) msg);
          refund = log_err (RefundQuotaUsage now userID calls)
      in case BuildUpstreamRequest (en_request_ok en) endpoint apiKey bodyBytes of
        None \<Rightarrow> (Answered (writeProxyError 500 ''Failed to build upstream request'' ''internal_error''), db)
      | Some upstreamReq \<Rightarrow>
          (case en_upstream en upstreamReq of
             Inl err \<Rightarrow>
               (Answered (writeProxyError 502 ''Upstream request failed'' ''upstream_error''),
                log_call now (log 502 err) (refund db))
           | Inr resp \<Rightarrow>
               (case read_all (up_body resp) of
                  None \<Rightarrow>
                    (Answered (writeProxyError 502 ''Failed to read upstream response'' ''upstream_error''),
                     log_call now (log 502 read_error) (refund db))
                | Some respBody0 \<Rightarrow>
                    (let respBody = rewriteResponseModel respBody0 requestModel;
                         db1 = (if 400 \<le> up_status resp then refund db else db)
                     in (Forwarded (up_status resp) (copy_headers (\<lambda>_. False) (up_headers resp) []) respBody,
                         account en userID (ExtractTokenUsage respBody) mult
                           (log (up_status resp) '''') db1)))))"

section \<open>Streaming completion\<close>

text \<open>All bytes a body delivers, whether it ends or fails.\<close>

fun delivered :: "body_read list \<Rightarrow> string" where
  "delivered [] = []"
| "delivered (b # bs) = br_bytes b @ (case br_end b of More \<Rightarrow> delivered bs | _ \<Rightarrow> [])"

text \<open>\<open>bufio.Scanner\<close> with \<open>ScanLines\<close>: lines without their end, a last line without a newline
  included, up to the first line that does not fit the buffer of 1 MiB.\<close>

definition scan_lines :: "string \<Rightarrow> string list" where
  "scan_lines s =
     (let ls = split_char (char_of (10 :: nat)) s;
          ls = (if last ls = [] then butlast ls else ls)
      in map (\<lambda>l. if l \<noteq> [] \<and> last l = char_of (13 :: nat) then butlast l else l)
           (takeWhile (\<lambda>l. length l < 1048576) ls))"

definition data_line :: "string \<Rightarrow> bool" where
  "data_line line \<longleftrightarrow> has_prefix line ''data:'' \<and> \<not> str_contains line ''[DONE]''"

definition data_text :: "string \<Rightarrow> string" where
  "data_text line = trim_space (trim_prefix line ''data:'')"

definition rewrite_line :: "string \<Rightarrow> string \<Rightarrow> string" where
  "rewrite_line requestModel line =
     (if requestModel \<noteq> '''' \<and> data_line line then
        (let dataStr = data_text line in
         if dataStr = '''' then line
         else case decode_model dataStr of
           None \<Rightarrow> line
         | Some m \<Rightarrow> if m \<noteq> '''' \<and> m \<noteq> requestModel
             then ''data: '' @ replace_first (model_pattern m) (model_pattern requestModel) dataStr
             else line)
      else line)"

definition line_usage :: "string \<Rightarrow> int \<times> int \<times> int \<Rightarrow> int \<times> int \<times> int" where
  "line_usage line u =
     (if data_line line \<and> data_text line \<noteq> '''' then
        (case chunk_usage (data_text line) of
           Some x \<Rightarrow> (us_prompt x, us_completion x, us_total x) | None \<Rightarrow> u)
      else u)"

text \<open>The loop: \<open>gone\<close> is the number of lines after which the client has disconnected.\<close>

fun stream_loop :: "string \<Rightarrow> nat \<Rightarrow> string list \<Rightarrow> int \<times> int \<times> int \<Rightarrow> string \<times> (int \<times> int \<times> int)" where
  "stream_loop requestModel gone [] u = ('''', u)"
| "stream_loop requestModel 0 (l # ls) u = ('''', u)"
| "stream_loop requestModel (Suc gone) (l # ls) u =
     (let line = rewrite_line requestModel l;
          (w, u') = stream_loop requestModel gone ls (line_usage line u)
      in (line @ newline @ w, u'))"

definition sse_headers :: headers where
  "sse_headers = h_set ''X-Accel-Buffering'' ''no'' (h_set ''Connection'' ''keep-alive''
     (h_set ''Cache-Control'' ''no-cache'' (h_set ''Content-Type'' ''text/event-stream'' [])))"

definition handleStream ::
  "env \<Rightarrow> bool \<Rightarrow> nat \<Rightarrow> int \<Rightarrow> string \<Rightarrow> string \<Rightarrow> string \<Rightarrow> string \<Rightarrow> string \<Rightarrow> string \<Rightarrow> int \<Rightarrow> float64 \<Rightarrow> db
   \<Rightarrow> outcome \<times> db" where
  "handleStream en flusher gone userID bodyBytes model requestModel providerID endpoint apiKey calls mult db =
     (let now = en_now en;
          log = (\<lambda>status msg. call_log userID model providerID calls mult status (en_latency en) msg)
      in case BuildUpstreamRequest (en_request_ok en) endpoint apiKey bodyBytes of
        None \<Rightarrow> (Answered (writeProxyError 500 ''Failed to build upstream request'' ''internal_error''), db)
      | Some upstreamReq \<Rightarrow>
          (case en_upstream en upstreamReq of
             Inl err \<Rightarrow>
               (Answered (writeProxyError 502 ''Upstream request failed'' ''upstream_error''),
                log_call now (log 502 err) db)
           | Inr resp \<Rightarrow>
               if up_status resp \<noteq> 200 then
                 (Forwarded (up_status resp) (h_set ''Content-Type'' ''application/json'' [])
                    (delivered (up_body resp)),
                  log_call now (log (up_status resp) (''Upstream returned '' @ itoa (up_status resp)))
                    (log_err (RefundQuotaUsage now userID calls) db))
               else if \<not> flusher then (Forwarded 200 sse_headers '''', db)
               else
                 (case stream_loop requestModel gone (scan_lines (delivered (up_body resp))) (0, 0, 0) of
                    (written, u) \<Rightarrow>
                      (Forwarded 200 sse_headers written,
                       account en userID u mult (log 200 '''') db))))"

section \<open>The handler\<close>

text \<open>The handler's fields: the getters give their present value, \<open>None\<close> for a nil getter.\<close>

record chat_config =
  cc_has_router :: bool
  cc_endpoint :: "string option"
  cc_api_key :: "string option"
  cc_has_multiplier :: bool
  cc_has_checker :: bool
  cc_compaction_off :: bool

text \<open>What a request brings beside the passthrough environment: a flushing writer, when the client
  disconnects, the text of a failed read of the upstream body.\<close>

record chat_env =
  ce_env :: env
  ce_flusher :: bool
  ce_gone :: nat
  ce_read_error :: string

definition chat_budget :: "ctx \<Rightarrow> int" where
  "chat_budget c =
     (let budget = GetMaxBodySize c;
          budget = (if budget \<le> 0 then DefaultMaxBodySize else budget)
      in if MaxBodySizeCeiling < budget then MaxBodySizeCeiling else budget)"

definition chat_read :: "chat_config \<Rightarrow> ctx \<Rightarrow> request \<Rightarrow> response + string" where
  "chat_read cc c r =
     (let readLimit = (if cc_compaction_off cc then chat_budget c else MaxBodySizeCeiling) in
      case rq_body r of
        None \<Rightarrow> Inl (writeProxyError 400 ''Failed to read request body'' ''bad_request'')
      | Some b \<Rightarrow>
          if readLimit < int (length b)
          then Inl (writeProxyError 413 msg_too_large ''request_entity_too_large'')
          else Inr b)"

text \<open>The upstream target: provider id, endpoint and key.\<close>

definition chat_target ::
  "chat_config \<Rightarrow> env \<Rightarrow> ProviderTable \<Rightarrow> ctx \<Rightarrow> response + (string \<times> string \<times> string)" where
  "chat_target cc en table c =
     (if cc_has_router cc then
        if GetRouteMode c = ''fixed'' \<and> GetFixedProvider c \<noteq> '''' then
          (case GetProviderBySlug table (GetFixedProvider c) of
             None \<Rightarrow> Inl (writeProxyError 503
               (''Fixed provider not available: '' @ GetFixedProvider c) ''provider_unavailable'')
           | Some p \<Rightarrow> Inr (pr_id p, pr_endpoint p, pr_api_key p))
        else
          (case ResolveProvider (en_order en) table (en_now en) of
             Inl _ \<Rightarrow>
               (case (cc_endpoint cc, cc_api_key cc) of
                  (Some e, Some k) \<Rightarrow> Inr (''zhipu'', e, k)
                | _ \<Rightarrow> Inl (writeProxyError 503 ''No upstream provider available'' ''no_provider''))
           | Inr p \<Rightarrow> Inr (pr_id p, pr_endpoint p, pr_api_key p))
      else
        (case (cc_endpoint cc, cc_api_key cc) of
           (Some e, Some k) \<Rightarrow> Inr (''zhipu'', e, k)
         | _ \<Rightarrow> Inl (writeProxyError 500 ''Gateway misconfigured'' ''internal_error'')))"

text \<open>The body as it is before routing: normalised, and compacted when it is over the budget.\<close>

definition prepare_body :: "chat_config \<Rightarrow> ctx \<Rightarrow> string \<Rightarrow> string" where
  "prepare_body cc c bodyBytes =
     (let b = normalizeContentArrays bodyBytes in
      if \<not> cc_compaction_off cc \<and> chat_budget c < int (length b)
      then compactMessagesToBudget b (chat_budget c) else b)"

text \<open>From the parsed request to the answer.\<close>

definition chat_forward ::
  "chat_config \<Rightarrow> chat_env \<Rightarrow> ProviderTable \<Rightarrow> ctx \<Rightarrow> string \<Rightarrow> chat_request \<Rightarrow> db \<Rightarrow> outcome \<times> db" where
  "chat_forward cc ce table c bodyBytes req db =
     (let en = ce_env ce; userID = GetUserID c; now = en_now en;
          requestModel = (if cq_model req = '''' then ''glm-5.2'' else cq_model req)
      in case chat_target cc en table c of
        Inl resp \<Rightarrow> (Answered resp, db)
      | Inr (providerID, endpoint, apiKey) \<Rightarrow>
          let rewrittenModel = (if cc_has_router cc
                then RewriteModel (en_order en) table requestModel providerID else requestModel) in
          (case rewriteBodyModel (prepare_body cc c bodyBytes) rewrittenModel of
             None \<Rightarrow> (Panicked, db)
           | Some body \<Rightarrow>
               if \<not> cc_has_multiplier cc \<or> \<not> cc_has_checker cc
               then (Answered (writeProxyError 500 ''Gateway misconfigured'' ''internal_error''), db)
               else
                 (case request_cost now userID db of
                    ((mult, calls), db1) \<Rightarrow>
                      (case CheckAndDeduct now userID calls db1 of
                         (Inl _, db2) \<Rightarrow>
                           (Answered (writeProxyError 500 ''Internal server error'' ''internal_error''), db2)
                       | (Inr False, db2) \<Rightarrow> chat_reject en userID rewrittenModel providerID calls mult db2
                       | (Inr True, db2) \<Rightarrow>
                           if cq_stream req
                           then handleStream en (ce_flusher ce) (ce_gone ce) userID body rewrittenModel
                                  requestModel providerID endpoint apiKey calls mult db2
                           else handleSync en (ce_read_error ce) userID body rewrittenModel
                                  requestModel providerID endpoint apiKey calls mult db2))))"

definition chat_admitted ::
  "chat_config \<Rightarrow> chat_env \<Rightarrow> ProviderTable \<Rightarrow> ctx \<Rightarrow> request \<Rightarrow> db \<Rightarrow> outcome \<times> db" where
  "chat_admitted cc ce table c r db =
     (case chat_read cc c r of
        Inl resp \<Rightarrow> (Answered resp, db)
      | Inr bodyBytes \<Rightarrow>
          (case decode_chat bodyBytes of
             None \<Rightarrow> (Answered (writeProxyError 400 ''Invalid JSON request body'' ''bad_request''), db)
           | Some req \<Rightarrow> chat_forward cc ce table c bodyBytes req db))"

definition ServeChat :: "chat_config \<Rightarrow> chat_env \<Rightarrow> ctx \<Rightarrow> request \<Rightarrow> gateway \<Rightarrow> outcome \<times> gateway" where
  "ServeChat cc ce c r g =
     (let userID = GetUserID c; en = ce_env ce in
      if userID = 0 then (Answered (writeProxyError 401 ''Not authenticated'' ''not_authenticated''), g)
      else case tryAcquireConcurrency userID (GetMaxConcurrency c) (gw_counters g) of
        (False, st) \<Rightarrow>
          (Answered (with_header ''Retry-After'' ''1''
             (writeProxyError 429 msg_concurrency ''concurrency_limit_exceeded'')),
           g\<lparr>gw_counters := st,
             gw_db := (if cc_has_checker cc
               then log_call (en_now en) (call_log userID '''' ''concurrency_rejected'' 0 0 429
                      (en_latency en) ''concurrency_limit_exceeded'') (gw_db g)
               else gw_db g)\<rparr>)
      | (True, st) \<Rightarrow>
          (case chat_admitted cc ce (gw_table g) c r (gw_db g) of
             (out, db') \<Rightarrow> (out, g\<lparr>gw_db := db', gw_counters := releaseConcurrency userID st\<rparr>)))"

end
