(* ===== verification/PassthroughProperties.thy ===== *)
theory PassthroughProperties
  imports Passthrough StoreProperties
begin

text \<open>
  Properties of the passthrough endpoint: the switches that close it, what the upstream gets to see,
  what a request costs, and that its concurrency slot is given back on every way out.
\<close>

section \<open>Statements of one request\<close>

lemma cost_healthy: "healthy db \<Longrightarrow> snd (request_cost now uid db) = db"
  by (simp add: request_cost_def GetFixedMultiplier_def sql_query_healthy multiplier_healthy Let_def
      split: option.splits)

lemma log_call_quotas [simp]: "quotas (log_call now l db) = quotas db"
proof -
  obtain x db' where i: "InsertCallLog now l db = (x, db')" by fastforce
  then have "quotas db' = quotas db" unfolding InsertCallLog_def Let_def
    by (cases rule: run_stmt_cases) (auto simp: same_tables_select)
  with i show ?thesis by (simp add: log_call_def)
qed

lemma quota_of_log [simp]: "quota_of (log_call now l db) u = quota_of db u"
  by (simp add: quota_of_def)

lemma refund_effect:
  assumes "healthy db" "quota_of db uid = Some r"
  shows "quota_of (log_err (RefundQuotaUsage now uid calls) db) u =
    (if u = uid then Some (if calls \<le> 0 then r else refund_set calls (fmt_rfc3339 now) r)
     else quota_of db u)"
proof (cases "calls \<le> 0")
  case True
  then show ?thesis using assms(2) by (simp add: RefundQuotaUsage_def log_err_def)
next
  case False
  have k: "q_user_id (refund_set calls n r) = q_user_id r" for n r by (simp add: refund_set_def)
  show ?thesis
    using False assms quota_tbl.select_update_key [OF k] quota_tbl.select_update_other [OF k, where Q = "\<lambda>_. True"]
    by (simp add: RefundQuotaUsage_def log_err_def exec_quotas_def sql_exec_healthy quota_of_def
        set_quotas_def)
qed

section \<open>The switches\<close>

text \<open>
  While the global switch is off, or the provider chosen for the request does not allow
  passthrough, nothing is charged, logged or sent: the database stays as it was, and the answer does
  not depend on the upstream at all.
\<close>

theorem closed_passthrough_has_no_effect:
  assumes "pc_enabled pc \<noteq> Some True \<or>
      (\<forall>p. pick_provider en (gw_table g) c = Inr p \<longrightarrow> \<not> pr_allow_passthrough p)"
  shows "gw_db (snd (ServePassthrough pc en c q g)) = gw_db g \<and>
    fst (ServePassthrough pc (en\<lparr>en_upstream := up\<rparr>) c q g) = fst (ServePassthrough pc en c q g)"
proof -
  have s: "snd (serve_admitted pc en (gw_table g) c q db) = db"
    "serve_admitted pc (en\<lparr>en_upstream := up\<rparr>) (gw_table g) c q db = serve_admitted pc en (gw_table g) c q db"
    if "\<forall>p. pick_provider en (gw_table g) c = Inr p \<longrightarrow> \<not> pr_allow_passthrough p" for db
    using that
    by (auto simp: serve_admitted_def pick_provider_def Let_def split: sum.splits option.splits)
  show ?thesis
    using assms s by (auto simp: ServePassthrough_def Let_def case_prod_beta split: bool.splits)
qed

definition toy_env :: "(upstream_request \<Rightarrow> string + upstream_response) \<Rightarrow> env" where
  "toy_env up = \<lparr>en_now = epoch, en_latency = 3, en_order = id, en_request_ok = (\<lambda>_ _. True),
     en_upstream = up\<rparr>"

definition toy_request :: request where
  "toy_request = \<lparr>rq_method = ''POST'', rq_path = ''/v1/passthrough/mcp'', rq_raw_query = '''',
     rq_headers = [(''Authorization'', [''Bearer sk-client'']), (''Accept'', [''text/plain''])],
     rq_content_length = 2, rq_body = Some ''{}''\<rparr>"

definition toy_pc :: passthrough_config where
  "toy_pc = \<lparr>pc_enabled = Some True, pc_has_router = True, pc_has_engines = True\<rparr>"

definition toy_entry :: ProviderEntry where
  "toy_entry = \<lparr>e_slug = ''z'', e_endpoint = ''https://z/'', e_api_key = ''K'',
     e_allow_passthrough = True, e_auth_header = '''', e_auth_scheme = '''', e_extra_headers = []\<rparr>"

definition toy_ctx :: ctx where
  "toy_ctx = empty_ctx\<lparr>cx_user_id := Some 7, cx_max_concurrency := Some 2\<rparr>"

lemma closed_passthrough_has_no_effect_witness:
  "gw_db (snd (ServePassthrough (toy_pc\<lparr>pc_enabled := None\<rparr>) (toy_env (\<lambda>_. Inl ''x'')) toy_ctx toy_request
     \<lparr>gw_db = empty_db, gw_counters = [], gw_table = empty_table\<rparr>)) = empty_db"
  using closed_passthrough_has_no_effect [of "toy_pc\<lparr>pc_enabled := None\<rparr>" "toy_env (\<lambda>_. Inl ''x'')"
      "\<lparr>gw_db = empty_db, gw_counters = [], gw_table = empty_table\<rparr>" toy_ctx toy_request]
  by simp

section \<open>What the upstream sees\<close>

lemma copy_headers_kept:
  "copy_headers skip (filter (\<lambda>(k, vs). \<not> skip k) src) h = copy_headers skip src h"
  by (induction skip src h rule: copy_headers.induct) auto

text \<open>A name keeps its letters when it is made canonical, whatever their case.\<close>

lemma lower_upper_char: "lower_char (upper_char c) = lower_char c"
proof (cases "97 \<le> (of_char c :: nat) \<and> of_char c \<le> (122 :: nat)")
  case True
  then have "(of_char c - 32) mod 256 = of_char c - (32 :: nat)" by (intro mod_less) linarith
  moreover have "(65 :: nat) \<le> of_char c - 32 \<and> of_char c - (32 :: nat) \<le> 90" using True by linarith
  ultimately show ?thesis by (simp add: lower_char_def upper_char_def Let_def)
qed (auto simp: upper_char_def Let_def)

lemma lower_lower_char: "lower_char (lower_char c) = lower_char c"
proof (cases "65 \<le> (of_char c :: nat) \<and> of_char c \<le> (90 :: nat)")
  case True
  then have "(of_char c + 32) mod 256 = of_char c + (32 :: nat)" by (intro mod_less) linarith
  with True show ?thesis by (simp add: lower_char_def Let_def)
qed (auto simp: lower_char_def Let_def)

lemma to_lower_canonical: "to_lower (canonical_key k) = to_lower k"
proof -
  have "to_lower (canon_from up s) = to_lower s" for up s
    by (induction up s rule: canon_from.induct) (simp_all add: to_lower_def lower_upper_char lower_lower_char)
  then show ?thesis by (simp add: canonical_key_def)
qed

lemma copied_key:
  assumes "map_of (copy_headers skip src h) k = Some vs"
  shows "map_of h k \<noteq> None \<or> (\<exists>k0. \<not> skip k0 \<and> canonical_key k0 = k)"
proof -
  have add: "map_of (fold (h_add k0) ws h) k = map_of h k" if "canonical_key k0 \<noteq> k" for k0 ws h
    using that by (induction ws arbitrary: h) (simp_all add: h_add_def Let_def)
  show ?thesis
    using assms
  proof (induction skip src h rule: copy_headers.induct)
    case (2 skip ka vs' src h)
    then show ?case using add [of ka vs' h] by (cases "canonical_key ka = k") (auto split: if_splits)
  qed simp
qed

lemma fold_set_other:
  assumes "\<forall>(k, v) \<in> set kvs. canonical_key k \<noteq> ck"
  shows "map_of (fold (\<lambda>(k, v). h_set k v) kvs h) ck = map_of h ck"
  using assms by (induction kvs arbitrary: h) (auto simp: h_set_def)

lemma fold_set_value:
  assumes "map_of (fold (\<lambda>(k, v). h_set k v) kvs h) ck = Some vs"
  shows "map_of h ck = Some vs \<or> (\<exists>(k, v) \<in> set kvs. canonical_key k = ck \<and> vs = [v])"
  using assms by (induction kvs arbitrary: h) (fastforce simp: h_set_def split: if_splits)+

lemma injected_value:
  assumes "map_of (injectUpstreamAuth prov h) k = Some vs" "map_of h k = None"
  shows "vs = [e_api_key prov] \<or> vs = [''Bearer '' @ e_api_key prov] \<or>
    (\<exists>(k', v) \<in> set (e_extra_headers prov). canonical_key k' = k \<and> vs = [v])"
proof -
  have "\<exists>h1. injectUpstreamAuth prov h = fold (\<lambda>(k, v). h_set k v) (e_extra_headers prov) h1 \<and>
      map_of h1 k \<in> {None, Some [e_api_key prov], Some [''Bearer '' @ e_api_key prov]}"
    unfolding injectUpstreamAuth_def Let_def
    by (rule exI, rule conjI, rule refl) (use assms(2) in \<open>auto simp: h_set_def\<close>)
  then obtain h1 where "injectUpstreamAuth prov h = fold (\<lambda>(k, v). h_set k v) (e_extra_headers prov) h1"
    and h1: "map_of h1 k \<in> {None, Some [e_api_key prov], Some [''Bearer '' @ e_api_key prov]}" by blast
  with assms(1) have "map_of h1 k = Some vs \<or> (\<exists>(k', v) \<in> set (e_extra_headers prov). canonical_key k' = k \<and> vs = [v])"
    using fold_set_value by metis
  then show ?thesis using h1 by auto
qed

text \<open>The names the gateway drops, in lower case.\<close>

definition dropped_names :: "string set" where
  "dropped_names = {''authorization'', ''x-api-key'', ''proxy-authorization'', ''host'', ''connection'',
     ''keep-alive'', ''proxy-authenticate'', ''te'', ''trailers'', ''transfer-encoding'', ''upgrade''}"

lemma dropped_iff: "client_header_dropped k \<longleftrightarrow> to_lower k \<in> dropped_names"
  by (auto simp: client_header_dropped_def isHopByHop_def dropped_names_def Let_def)

text \<open>
  Property C29.  The client's credentials never leave the gateway.  The upstream request is the same for
  any two client requests that differ only in headers named Authorization, X-Api-Key,
  Proxy-Authorization, Host or as one of the hop-by-hop headers, in any spelling; what it carries under
  one of the three credential names is the provider's key, plain or as a bearer token, or a static
  extra header of the provider, whatever the scheme; and with the bearer scheme under the default header
  name, when no extra header overrides it, the Authorization sent is the provider's own key.
\<close>

theorem client_credentials_stay_inside:
  assumes "buildUpstreamRequest ok r url b prov = Some u"
  shows "(\<forall>r' :: request. rq_method r' = rq_method r \<and>
      filter (\<lambda>(k, vs). to_lower k \<notin> dropped_names) (rq_headers r')
        = filter (\<lambda>(k, vs). to_lower k \<notin> dropped_names) (rq_headers r) \<longrightarrow>
      buildUpstreamRequest ok r' url b prov = Some u) \<and>
    (\<forall>h vs. to_lower h \<in> {''authorization'', ''x-api-key'', ''proxy-authorization''} \<and>
      map_of (ur_headers u) h = Some vs \<longrightarrow>
      vs = [e_api_key prov] \<or> vs = [''Bearer '' @ e_api_key prov] \<or>
      (\<exists>(k, v) \<in> set (e_extra_headers prov). canonical_key k = h \<and> vs = [v])) \<and>
    (e_auth_scheme prov \<notin> {''x-api-key'', ''none''} \<and> e_auth_header prov \<in> {'''', ''Authorization''} \<and>
      (\<forall>(k, v) \<in> set (e_extra_headers prov). canonical_key k \<noteq> ''Authorization'') \<longrightarrow>
      map_of (ur_headers u) ''Authorization'' = Some [''Bearer '' @ e_api_key prov])"
proof (intro conjI allI impI)
  let ?copied = "\<lambda>r. copy_headers client_header_dropped (rq_headers r) []"
  have u: "ok (rq_method r) url" "ur_headers u = injectUpstreamAuth prov (?copied r)"
    "u = \<lparr>ur_method = rq_method r, ur_url = url, ur_headers = injectUpstreamAuth prov (?copied r), ur_body = b\<rparr>"
    using assms by (auto simp: buildUpstreamRequest_def split: if_splits)
  fix r' :: request assume same: "rq_method r' = rq_method r \<and>
      filter (\<lambda>(k, vs). to_lower k \<notin> dropped_names) (rq_headers r')
        = filter (\<lambda>(k, vs). to_lower k \<notin> dropped_names) (rq_headers r)"
  have "?copied r' = ?copied r"
    using same copy_headers_kept [of client_header_dropped "rq_headers r" "[]"]
      copy_headers_kept [of client_header_dropped "rq_headers r'" "[]"] by (simp add: dropped_iff)
  then show "buildUpstreamRequest ok r' url b prov = Some u"
    using same u by (simp add: buildUpstreamRequest_def)
next
  fix h vs assume h: "to_lower h \<in> {''authorization'', ''x-api-key'', ''proxy-authorization''} \<and>
      map_of (ur_headers u) h = Some vs"
  let ?h = "copy_headers client_header_dropped (rq_headers r) []"
  have none: "map_of ?h h = None"
  proof (rule ccontr)
    assume "map_of ?h h \<noteq> None"
    then obtain k0 where "\<not> client_header_dropped k0" "canonical_key k0 = h"
      using copied_key [of client_header_dropped "rq_headers r" "[]" h] by auto
    then show False using h to_lower_canonical [of k0] by (auto simp: dropped_iff dropped_names_def)
  qed
  have "ur_headers u = injectUpstreamAuth prov ?h"
    using assms by (auto simp: buildUpstreamRequest_def split: if_splits)
  then show "vs = [e_api_key prov] \<or> vs = [''Bearer '' @ e_api_key prov] \<or>
      (\<exists>(k, v) \<in> set (e_extra_headers prov). canonical_key k = h \<and> vs = [v])"
    using h injected_value [OF _ none] by metis
next
  assume a: "e_auth_scheme prov \<notin> {''x-api-key'', ''none''} \<and> e_auth_header prov \<in> {'''', ''Authorization''} \<and>
      (\<forall>(k, v) \<in> set (e_extra_headers prov). canonical_key k \<noteq> ''Authorization'')"
  have c: "canonical_key ''Authorization'' = ''Authorization''" by code_simp
  have "map_of (injectUpstreamAuth prov h) ''Authorization'' = Some [''Bearer '' @ e_api_key prov]" for h
  proof -
    have "injectUpstreamAuth prov h = fold (\<lambda>(k, v). h_set k v) (e_extra_headers prov)
        (h_set ''Authorization'' (''Bearer '' @ e_api_key prov) h)"
      using a by (auto simp: injectUpstreamAuth_def Let_def)
    then show ?thesis using fold_set_other [of "e_extra_headers prov" "''Authorization''"] a
      by (simp add: h_set_def c)
  qed
  then show "map_of (ur_headers u) ''Authorization'' = Some [''Bearer '' @ e_api_key prov]"
    using assms by (auto simp: buildUpstreamRequest_def split: if_splits)
qed

text \<open>A client that sends its key in two headers: neither reaches the upstream.\<close>

lemma client_credentials_stay_inside_witness:
  "\<exists>u. buildUpstreamRequest (\<lambda>_ _. True) (toy_request\<lparr>rq_headers := (''X-Api-Key'', [''sk-client'']) # rq_headers toy_request\<rparr>)
      ''https://z/mcp'' ''{}'' toy_entry = Some u \<and>
    map_of (ur_headers u) ''Authorization'' = Some [''Bearer K''] \<and>
    (\<forall>vs. map_of (ur_headers u) ''X-Api-Key'' = Some vs \<longrightarrow> vs \<in> {[''K''], [''Bearer K'']})"
proof -
  let ?r = "toy_request\<lparr>rq_headers := (''X-Api-Key'', [''sk-client'']) # rq_headers toy_request\<rparr>"
  obtain u where u: "buildUpstreamRequest (\<lambda>_ _. True) ?r ''https://z/mcp'' ''{}'' toy_entry = Some u"
    by (simp add: buildUpstreamRequest_def)
  have "to_lower ''X-Api-Key'' = ''x-api-key''" by code_simp
  then show ?thesis
    using client_credentials_stay_inside [OF u] u by (auto simp: toy_entry_def)
qed

section \<open>The slot\<close>

text \<open>
  A capped request leaves the concurrency counters as it found them, on every way out
  of the handler, a panic included.
\<close>

theorem slot_is_given_back:
  assumes "ServePassthrough pc en c q g = (out, g')" "0 < GetMaxConcurrency c"
  shows "in_flight v (gw_counters g') = in_flight v (gw_counters g)"
  using assms
  by (auto simp: ServePassthrough_def tryAcquireConcurrency_def releaseConcurrency_def in_flight_def
      Let_def split: prod.splits if_splits option.splits)

lemma slot_is_given_back_witness:
  "in_flight 7 (gw_counters (snd (ServePassthrough toy_pc (toy_env (\<lambda>_. Inl ''x'')) toy_ctx toy_request
     \<lparr>gw_db = empty_db, gw_counters = [(7, 1)], gw_table = empty_table\<rparr>))) = 1"
proof -
  have "0 < GetMaxConcurrency toy_ctx"
    by (simp add: toy_ctx_def GetMaxConcurrency_def value_or_def empty_ctx_def)
  from slot_is_given_back [OF prod.collapse [symmetric] this] show ?thesis
    by (simp add: in_flight_def)
qed

section \<open>The price\<close>

text \<open>What the client pays for an outcome: the calls of a request the upstream answered with success,
  and those of a request for which no upstream request could be built.\<close>

definition build_failed :: response where
  "build_failed = writeProxyError 500 ''Failed to build upstream request'' ''internal_error''"

definition billed :: "outcome \<Rightarrow> int \<Rightarrow> int" where
  "billed out calls = (case out of
     Forwarded status _ _ \<Rightarrow> if status < 400 then calls else 0
   | Answered resp \<Rightarrow> if resp = build_failed then calls else 0
   | Panicked \<Rightarrow> 0)"

lemma writeProxyError_eq: "writeProxyError s m t = writeProxyError s' m' t' \<longleftrightarrow> s = s' \<and> m = m' \<and> t = t'"
  by (auto simp: writeProxyError_def writeJSON_def)

lemma is_build_failed:
  "writeProxyError s m t = build_failed \<longleftrightarrow>
    s = 500 \<and> m = ''Failed to build upstream request'' \<and> t = ''internal_error''"
  by (simp add: build_failed_def writeProxyError_eq)

lemma other_answers:
  "writeProxyError 500 ''Gateway misconfigured'' ''internal_error'' \<noteq> build_failed"
  "writeProxyError 403 ''Passthrough disabled for provider'' ''passthrough_disabled'' \<noteq> build_failed"
  by (simp_all add: is_build_failed)

lemma retry_not_build_failed: "with_header k v (writeProxyError 429 m t) \<noteq> build_failed"
  by (simp add: with_header_def build_failed_def writeProxyError_def writeJSON_def)

lemma read_body_error: "read_body c q = Inl resp \<Longrightarrow> resp \<noteq> build_failed"
  by (auto simp: read_body_def is_build_failed split: if_splits option.splits)

lemma pick_provider_error: "pick_provider en t c = Inl resp \<Longrightarrow> resp \<noteq> build_failed"
  by (auto simp: pick_provider_def is_build_failed split: if_splits option.splits sum.splits)

text \<open>The price of a request is not negative: no rule lowers the multiplier below one, and a fixed
  multiplier is positive (\<open>users.go\<close> stores no other).\<close>

lemma cost_nonneg:
  assumes "healthy db" "quota_of db uid = Some r" "\<forall>m. q_fixed_multiplier r = Some m \<longrightarrow> 0 \<le> m"
  shows "0 \<le> snd (fst (request_cost now uid db))"
proof -
  have "1 \<le> fst (GetEffectiveMultiplier now db)"
    by (simp add: multiplier_healthy [OF assms(1)] max_multiplier_max)
  then have "0 \<le> f_ceil_int (f_mul 1 (fst (GetEffectiveMultiplier now db)))"
    using round64_nonneg [of "fst (GetEffectiveMultiplier now db)"] by (simp add: f_ceil_int_def f_mul_def)
  moreover have "GetFixedMultiplier uid db = (Ok (q_fixed_multiplier r), db)"
    using assms(1,2) by (simp add: GetFixedMultiplier_def sql_query_healthy quota_of_def)
  ultimately show ?thesis
    using assms(3) by (auto simp: request_cost_def f_ceil_int_def Let_def split: option.splits prod.splits)
qed

text \<open>The usage of a user's row after an operation, with the other rows as before.\<close>

definition charged :: "int \<Rightarrow> int \<Rightarrow> quota_row \<Rightarrow> db \<Rightarrow> db \<Rightarrow> bool" where
  "charged uid n r db db' \<longleftrightarrow> (\<exists>r'. quota_of db' uid = Some r' \<and>
     q_5h_used r' = q_5h_used r + n \<and> q_total_used r' = q_total_used r + n) \<and>
     (\<forall>v. v \<noteq> uid \<longrightarrow> quota_of db' v = quota_of db v)"

lemma forward_charges:
  assumes "healthy db1" "quota_of db1 uid = Some r1"
    and "q_5h_used r1 = q_5h_used r + calls" "q_total_used r1 = q_total_used r + calls"
    and "0 \<le> q_5h_used r" "0 \<le> q_total_used r" "0 \<le> calls"
    and "\<And>v. v \<noteq> uid \<Longrightarrow> quota_of db1 v = quota_of db v"
    and "forward en uid q sub b prov calls mult db1 = (out, db')"
  shows "charged uid (billed out calls) r db db' \<and> out \<noteq> Panicked"
proof -
  let ?ref = "log_err (RefundQuotaUsage (en_now en) uid calls) db1"
  have z: "charged uid 0 r db ?ref"
    using refund_effect [OF assms(1,2), of "en_now en" calls] assms(3-8)
    by (auto simp: charged_def refund_set_def)
  have f: "charged uid calls r db db1" using assms by (simp add: charged_def)
  have l: "charged uid n r db (log_call t l d) = charged uid n r db d" for n t l d
    by (simp add: charged_def)
  show ?thesis
    using assms(9) z f
    by (auto simp: forward_def buildUpstreamRequest_def billed_def l is_build_failed Let_def
        split: sum.splits prod.splits if_splits)
qed

text \<open>The gate in one request: what it answers, and what it leaves of the row.\<close>

lemma gate_outcomes:
  assumes "healthy db" "quotas_wf (quotas db)" "quota_of db uid = Some r"
  obtains (admitted) d r1 where "AtomicDeductQuota now uid calls db = (Ok True, d)" "healthy d"
    "\<And>u. u \<noteq> uid \<Longrightarrow> quota_of d u = quota_of db u" "quota_of d uid = Some r1"
    "q_5h_used r1 = q_5h_used r + calls" "q_total_used r1 = q_total_used r + calls"
  | (rejected) d where "AtomicDeductQuota now uid calls db = (Ok False, d)" "healthy d"
    "quota_of d uid = Some r" "charged uid 0 r db d"
proof -
  obtain d where d: "AtomicDeductQuota now uid calls db
      = (Ok (deduct_guard calls (gate_cycle (q_week_start r) now) (month_cutoff now) r), d)"
    "quota_of d uid = Some (if deduct_guard calls (gate_cycle (q_week_start r) now) (month_cutoff now) r
      then deduct_set calls (gate_cycle (q_week_start r) now) (month_cutoff now) (fmt_rfc3339 now) r else r)"
    "\<forall>u. u \<noteq> uid \<longrightarrow> quota_of d u = quota_of db u" "healthy d"
    using deduct_effect [OF assms, of now calls] by blast
  show ?thesis
  proof (cases "deduct_guard calls (gate_cycle (q_week_start r) now) (month_cutoff now) r")
    case True
    then show ?thesis using admitted [OF _ d(4)] d(1-3) by (simp add: deduct_set_def)
  next
    case False
    then show ?thesis using rejected [OF _ d(4)] d(1-3) by (simp add: charged_def)
  qed
qed

lemma billed_answer: "resp \<noteq> build_failed \<Longrightarrow> billed (Answered resp) n = 0"
  by (simp add: billed_def)

lemma charged_same: "quota_of db uid = Some r \<Longrightarrow> charged uid 0 r db db"
  by (simp add: charged_def)

text \<open>A request that holds a slot is turned away before the gate, or gets to it.\<close>

lemma serve_admitted_cases:
  assumes "serve_admitted pc en t c q db = (out, db')"
    and cost: "request_cost (en_now en) (GetUserID c) db = ((mult, calls), db)"
  obtains (early) resp where "out = Answered resp" "resp \<noteq> build_failed" "db' = db"
  | (gate) m sub b p where "(case AtomicDeductQuota (en_now en) (GetUserID c) calls db of
      (Inl _, db2) \<Rightarrow> (Answered (writeProxyError 500 ''Internal server error'' ''internal_error''), db2)
    | (Inr False, db2) \<Rightarrow> reject_quota en (GetUserID c) m (pr_id p) calls mult db2
    | (Inr True, db2) \<Rightarrow> forward en (GetUserID c) q sub b p calls mult db2) = (out, db')"
proof (cases "read_body c q")
  case (Inl resp)
  then show thesis using early [of resp] assms(1) read_body_error by (simp add: serve_admitted_def Let_def)
next
  case b: (Inr b)
  show thesis
  proof (cases "pick_provider en t c")
    case (Inl resp)
    show thesis
    proof (cases "pc_has_router pc")
      case True
      then show ?thesis using early [of resp] assms(1) b Inl pick_provider_error [OF Inl]
        by (simp add: serve_admitted_def Let_def)
    next
      case False
      then show ?thesis using early [OF _ other_answers(1)] assms(1) b by (simp add: serve_admitted_def Let_def)
    qed
  next
    case (Inr p)
    consider "\<not> pc_has_router pc" | "pc_has_router pc" "pr_allow_passthrough p" "\<not> pc_has_engines pc"
      | "pc_has_router pc" "\<not> pr_allow_passthrough p"
      | "pc_has_router pc" "pr_allow_passthrough p" "pc_has_engines pc" by blast
    then show thesis
    proof cases
      case 1
      then show ?thesis using early [OF _ other_answers(1)] assms(1) b Inr by (simp add: serve_admitted_def Let_def)
    next
      case 2
      then show ?thesis using early [OF _ other_answers(1)] assms(1) b Inr by (simp add: serve_admitted_def Let_def)
    next
      case 3
      then show ?thesis using early [OF _ other_answers(2)] assms(1) b Inr by (simp add: serve_admitted_def Let_def)
    next
      case 4
      then show ?thesis
        using gate [where p = p] assms(1) b Inr
        by (simp add: serve_admitted_def cost CheckAndDeduct_def Let_def)
    qed
  qed
qed

lemma reject_quota_free:
  assumes "healthy db" "quota_of db uid = Some r" "reject_quota en uid m p n f db = (out, db')"
  shows "\<exists>x. out = Answered x \<and> x \<noteq> build_failed" "quota_of db' v = quota_of db v"
proof -
  have "GetQuota uid db = (Inr (Some (quota_of_row r)), db)"
    using assms(1,2) by (simp add: GetQuota_def sql_query_healthy quota_of_def)
  then show "\<exists>x. out = Answered x \<and> x \<noteq> build_failed" "quota_of db' v = quota_of db v"
    using assms(3) by (clarsimp simp: reject_quota_def is_build_failed Let_def)+
qed

text \<open>An admitted request, once its slot is taken.\<close>

lemma serve_admitted_charges:
  assumes "healthy db" "quotas_wf (quotas db)" "quota_of db (GetUserID c) = Some r" "0 \<le> q_5h_used r" "0 \<le> q_total_used r"
    and cost: "request_cost (en_now en) (GetUserID c) db = ((mult, calls), db)" "0 \<le> calls"
    and s: "serve_admitted pc en t c q db = (out, db')"
  shows "charged (GetUserID c) (billed out calls) r db db' \<and> out \<noteq> Panicked"
  using s cost(1)
proof (cases rule: serve_admitted_cases)
  case (early resp)
  then show ?thesis using charged_same [OF assms(3)] by (simp add: billed_answer)
next
  case (gate m sub b p)
  show ?thesis
    using assms(1-3)
  proof (cases rule: gate_outcomes [of _ _ _ "en_now en" calls])
    case (admitted d r1)
    then show ?thesis
      using forward_charges [OF admitted(2,4-6) assms(4,5) cost(2) admitted(3)] gate by simp
  next
    case (rejected d)
    then have "reject_quota en (GetUserID c) m (pr_id p) calls mult d = (out, db')" using gate by simp
    from reject_quota_free [OF rejected(2,3) this] rejected(4) show ?thesis
      by (auto simp: billed_answer charged_def)
  qed
qed

text \<open>
  Property C8.  What a passthrough request costs, on every way out of the handler, for a user with a
  quota row and a fixed multiplier that is not negative, while the database answers.  It pays its
  calls (the fixed multiplier of the user, or the one in force, rounded up) when the upstream answered
  below 400, and in one other case: when no upstream request could be built, which is answered 500
  after the deduction without a refund.  Every other way out (the switches, the slot, the body, the
  provider, the gate, transport errors, upstream answers from 400 on) leaves both call counters where
  they were; no other user's row changes, and the handler does not panic.
\<close>

theorem passthrough_bills_successes_only:
  assumes "healthy (gw_db g)" "quotas_wf (quotas (gw_db g))"
    and "quota_of (gw_db g) (GetUserID c) = Some r" "0 \<le> q_5h_used r" "0 \<le> q_total_used r"
    and "\<forall>m. q_fixed_multiplier r = Some m \<longrightarrow> 0 \<le> m"
    and "ServePassthrough pc en c q g = (out, g')"
  shows "charged (GetUserID c)
      (billed out (snd (fst (request_cost (en_now en) (GetUserID c) (gw_db g))))) r (gw_db g) (gw_db g') \<and>
    out \<noteq> Panicked"
proof -
  obtain mult calls where cost: "request_cost (en_now en) (GetUserID c) (gw_db g) = ((mult, calls), gw_db g)"
    using cost_healthy [OF assms(1)] by (metis prod.collapse)
  then have "0 \<le> calls" using cost_nonneg [OF assms(1,3,6), of "en_now en"] by simp
  note adm = serve_admitted_charges [OF assms(1-5) cost this]
  show ?thesis
    using assms(7) adm charged_same [OF assms(3)] cost
    by (auto simp: ServePassthrough_def billed_answer is_build_failed retry_not_build_failed Let_def
        split: prod.splits if_splits bool.splits)
qed

definition toy_row :: quota_row where
  "toy_row = \<lparr>q_id = 1, q_user_id = 7, q_5h_limit = 3, q_5h_used = 2, q_total_limit = 0,
     q_total_used = 40, q_token_total_limit = 0, q_token_total_used = 0, q_token_5h_limit = 0,
     q_token_5h_used = 0, q_token_week_limit = 0, q_token_week_used = 0,
     q_week_start = '''', q_month_start = '''', q_window_start = '''', q_updated_at = '''',
     q_fixed_multiplier = Some 1, q_week_cycle_start = ''''\<rparr>"

definition toy_gateway :: gateway where
  "toy_gateway = \<lparr>gw_db = empty_db\<lparr>quotas := [toy_row]\<rparr>, gw_counters = [],
     gw_table = \<lparr>pt_providers = [(''z'', toy_entry)], pt_mappings = [], pt_rules = [], pt_default = ''z''\<rparr>\<rparr>"

lemma toy_gateway_row:
  "healthy (gw_db toy_gateway)" "quotas_wf (quotas (gw_db toy_gateway))"
  "quota_of (gw_db toy_gateway) (GetUserID toy_ctx) = Some toy_row" "GetUserID toy_ctx = 7"
  "snd (fst (request_cost now 7 (gw_db toy_gateway))) = 1"
  by (simp_all add: toy_gateway_def empty_db_def quotas_wf_def quota_of_def toy_row_def toy_ctx_def
      GetUserID_def value_or_def empty_ctx_def request_cost_def GetFixedMultiplier_def
      sql_query_healthy f_ceil_int_def)

lemma toy_cost: "request_cost epoch 7 (gw_db toy_gateway) = ((1, 1), gw_db toy_gateway)"
  by (simp add: request_cost_def GetFixedMultiplier_def toy_gateway_def sql_query_healthy empty_db_def
      toy_row_def f_ceil_int_def)

lemma toy_gate_admits:
  "AtomicDeductQuota epoch 7 1 (gw_db toy_gateway) = (Ok True, snd (AtomicDeductQuota epoch 7 1 (gw_db toy_gateway)))"
proof -
  have "deduct_guard 1 c m toy_row" for c m by (simp add: deduct_guard_def toy_row_def)
  then show ?thesis using toy_gateway_row by (simp add: deduct_run)
qed

text \<open>Where the requests of the witness come to: the gate lets them through.\<close>

lemma toy_request_forwarded:
  assumes "en = toy_env up\<lparr>en_request_ok := ok\<rparr>"
  shows "\<exists>sub b p db. fst (ServePassthrough toy_pc en toy_ctx toy_request toy_gateway)
    = fst (forward en 7 toy_request sub b p 1 1 db)"
proof -
  have b: "read_body toy_ctx toy_request = Inr ''{}''" by code_simp
  have p: "pick_provider en (gw_table toy_gateway) toy_ctx = Inr (provider_of_entry toy_entry)"
  proof -
    have "ResolveProvider id (gw_table toy_gateway) epoch = Inr (provider_of_entry toy_entry)"
      "GetRouteMode toy_ctx \<noteq> ''fixed''" by code_simp+
    then show ?thesis by (simp add: assms pick_provider_def toy_env_def)
  qed
  have "tryAcquireConcurrency 7 (GetMaxConcurrency toy_ctx) (gw_counters toy_gateway) = (True, [(7, 1)])" by code_simp
  moreover have "pr_allow_passthrough (provider_of_entry toy_entry)" by code_simp
  ultimately show ?thesis
    using b p toy_gate_admits toy_cost
    by (auto simp: ServePassthrough_def serve_admitted_def CheckAndDeduct_def toy_gateway_row toy_pc_def
        assms toy_env_def Let_def split: prod.splits) (metis fst_conv)
qed

text \<open>Two requests for a row with two calls used: the upstream refuses the connection of one, and no
  upstream request can be built for the other.\<close>

lemma passthrough_bills_successes_only_witness:
  "(\<exists>r'. quota_of (gw_db (snd (ServePassthrough toy_pc (toy_env (\<lambda>_. Inl ''refused'')) toy_ctx toy_request
      toy_gateway))) 7 = Some r' \<and> q_5h_used r' = 2) \<and>
   (\<exists>r'. quota_of (gw_db (snd (ServePassthrough toy_pc (toy_env (\<lambda>_. Inl ''x'')\<lparr>en_request_ok := \<lambda>_ _. False\<rparr>)
      toy_ctx toy_request toy_gateway))) 7 = Some r' \<and> q_5h_used r' = 3)"
proof -
  let ?s = "\<lambda>en. ServePassthrough toy_pc en toy_ctx toy_request toy_gateway"
  have row: "\<exists>r'. quota_of (gw_db (snd (?s en))) 7 = Some r' \<and> q_5h_used r' = 2 + billed (fst (?s en)) 1" for en
    using passthrough_bills_successes_only [OF toy_gateway_row(1-3), of toy_pc en toy_request "fst (?s en)" "snd (?s en)"]
    by (auto simp: toy_gateway_row toy_row_def charged_def)
  have "billed (fst (?s (toy_env (\<lambda>_. Inl ''refused'')))) 1 = 0"
    using toy_request_forwarded [of "toy_env (\<lambda>_. Inl ''refused'')" "\<lambda>_ _. True" "\<lambda>_. Inl ''refused''"]
    by (auto simp: toy_env_def forward_def buildUpstreamRequest_def billed_def is_build_failed Let_def)
  moreover have "billed (fst (?s (toy_env (\<lambda>_. Inl ''x'')\<lparr>en_request_ok := \<lambda>_ _. False\<rparr>))) 1 = 1"
    using toy_request_forwarded [OF refl, of "\<lambda>_ _. False" "\<lambda>_. Inl ''x''"]
    by (auto simp: toy_env_def forward_def buildUpstreamRequest_def billed_def is_build_failed Let_def)
  ultimately show ?thesis
    using row [of "toy_env (\<lambda>_. Inl ''refused'')"]
      row [of "toy_env (\<lambda>_. Inl ''x'')\<lparr>en_request_ok := \<lambda>_ _. False\<rparr>"] by simp
qed

section \<open>Where it falls short\<close>

text \<open>
  A request that was charged but whose upstream request cannot be built (a method or
  target that does not parse) is answered 500 and keeps its charge: the database is returned as the
  gate left it, with no refund and no call log.
\<close>

theorem unbuildable_request_keeps_its_charge:
  assumes "\<not> en_request_ok en (rq_method q) (buildPassthroughTarget (pr_endpoint p) sub (rq_raw_query q))"
  shows "forward en uid q sub b p calls mult db
    = (Answered (writeProxyError 500 ''Failed to build upstream request'' ''internal_error''), db)"
  using assms by (simp add: forward_def buildUpstreamRequest_def Let_def)

lemma unbuildable_request_keeps_its_charge_witness:
  "snd (forward (toy_env (\<lambda>_. Inl '''')\<lparr>en_request_ok := \<lambda>_ _. False\<rparr>) 7 toy_request ''/mcp'' ''''
     (provider_of_entry toy_entry) 1 1 empty_db) = empty_db"
  by (subst unbuildable_request_keeps_its_charge) simp_all

text \<open>
  An admitted account without a quota row brings the handler down: whenever the request
  gets as far as the gate, the gate says no, the cause is looked up in a row that does not exist, and
  the nil result is dereferenced.
\<close>

theorem missing_quota_row_panics:
  assumes "healthy (gw_db g)" "quota_of (gw_db g) (GetUserID c) = None" "GetUserID c \<noteq> 0"
    and "pc_enabled pc = Some True" "pc_has_router pc" "pc_has_engines pc"
    and "read_body c q = Inr b" "pick_provider en (gw_table g) c = Inr p" "pr_allow_passthrough p"
    and "fst (tryAcquireConcurrency (GetUserID c) (GetMaxConcurrency c) (gw_counters g))"
  shows "fst (ServePassthrough pc en c q g) = Panicked"
proof -
  let ?uid = "GetUserID c" and ?db = "gw_db g"
  obtain mult calls where cost: "request_cost (en_now en) ?uid ?db = ((mult, calls), ?db)"
    using cost_healthy [OF assms(1)] by (metis prod.collapse)
  have "AtomicDeductQuota (en_now en) ?uid calls ?db = (Ok False, ?db)"
    using assms(1,2) by (simp add: AtomicDeductQuota_def and_then_def sql_query_healthy quota_of_def)
  moreover have "fst (reject_quota en ?uid m s n f ?db) = Panicked" for m s n f
    using assms(1,2) by (simp add: reject_quota_def GetQuota_def sql_query_healthy quota_of_def)
  ultimately have "fst (serve_admitted pc en (gw_table g) c q ?db) = Panicked"
    using assms(5-9) by (simp add: serve_admitted_def cost CheckAndDeduct_def Let_def)
  then show ?thesis
    using assms(3,4,10) by (auto simp: ServePassthrough_def Let_def split: prod.splits bool.splits)
qed

lemma missing_quota_row_panics_witness:
  "fst (ServePassthrough toy_pc (toy_env (\<lambda>_. Inl '''')) toy_ctx toy_request
     (toy_gateway\<lparr>gw_db := empty_db\<rparr>)) = Panicked"
proof -
  have b: "read_body toy_ctx toy_request = Inr ''{}''" by code_simp
  obtain p where p: "pick_provider (toy_env (\<lambda>_. Inl '''')) (gw_table (toy_gateway\<lparr>gw_db := empty_db\<rparr>)) toy_ctx = Inr p"
    "pr_allow_passthrough p"
  proof -
    have "case pick_provider (toy_env (\<lambda>_. Inl '''')) (gw_table (toy_gateway\<lparr>gw_db := empty_db\<rparr>)) toy_ctx of
        Inr p \<Rightarrow> pr_allow_passthrough p | Inl _ \<Rightarrow> False" by code_simp
    then show ?thesis using that by (auto split: sum.splits)
  qed
  have t: "fst (tryAcquireConcurrency (GetUserID toy_ctx) (GetMaxConcurrency toy_ctx)
      (gw_counters (toy_gateway\<lparr>gw_db := empty_db\<rparr>)))" by code_simp
  show ?thesis
    by (rule missing_quota_row_panics [OF _ _ _ _ _ _ b p t])
      (simp_all add: quota_of_def empty_db_def toy_gateway_row toy_pc_def)
qed

text \<open>
  The store's default for the header name overrides the scheme: a provider created
  without a header name sends its key as \<open>Authorization\<close> even when the scheme is \<open>x-api-key\<close>, whose
  documented default is \<open>X-Api-Key\<close>, and even when the scheme is \<open>none\<close>, which is documented to
  inject nothing without a header name.
\<close>

theorem stored_header_name_overrides_scheme:
  assumes "np_auth_header n = ''''" "np_auth_scheme n \<in> {''x-api-key'', ''none''}"
    and "np_extra_headers n = Some []"
  shows "map_of (injectUpstreamAuth (entry_of (provider_row now n c i) k) []) ''Authorization'' = Some [k]"
proof -
  have c: "canonical_key ''Authorization'' = ''Authorization''" by code_simp
  have h: "parseExtraHeaders (marshal_headers (Some [])) = []" by code_simp
  show ?thesis
    using assms
    by (auto simp: injectUpstreamAuth_def entry_of_def provider_row_def h h_set_def c Let_def)
qed

lemma stored_header_name_overrides_scheme_witness:
  "map_of (injectUpstreamAuth (entry_of (provider_row epoch
     (sample_provider\<lparr>np_auth_scheme := ''none'', np_extra_headers := Some []\<rparr>) [] 1) ''K'') [])
     ''Authorization'' = Some [''K'']"
  by (rule stored_header_name_overrides_scheme) (simp_all add: sample_provider_def)

end
