(* ===== verification/ChatProperties.thy ===== *)
theory ChatProperties
  imports ChatProxy PassthroughProperties
begin

text \<open>
  Properties of the chat completion endpoint: what an answered, failed, rejected or interrupted
  request costs, what the streaming loop relays and counts, which messages survive compaction, and
  the request that brings the handler down.
\<close>

section \<open>Effects of the accounting statements\<close>

lemma log_call_healthy: "healthy db \<Longrightarrow> healthy (log_call now l db)"
  by (simp add: log_call_def InsertCallLog_def run_stmt_healthy Let_def split: option.splits)

lemma tokens_effect:
  assumes "healthy db" "quota_of db uid = Some r"
  shows "quota_of (log_err (AddTokenUsage uid d) db) u =
    (if u = uid then Some (if d \<le> 0 then r else token_set d r) else quota_of db u)"
proof (cases "d \<le> 0")
  case True
  then show ?thesis using assms(2) by (simp add: AddTokenUsage_def log_err_def)
next
  case False
  then show ?thesis
    using assms quota_tbl.select_update_key [OF row_sets_key(3)]
      quota_tbl.select_update_other [OF row_sets_key(3), where Q = "\<lambda>_. True"]
    by (simp add: AddTokenUsage_def log_err_def exec_quotas_def sql_exec_healthy quota_of_def
        set_quotas_def)
qed

lemma account_effect:
  assumes "healthy db" "quota_of db uid = Some r"
  shows "quota_of (account en uid (p, c, t) mult l db) u =
    (if u = uid then Some (if billed_tokens p c mult \<le> 0 then r else token_set (billed_tokens p c mult) r)
     else quota_of db u)"
  using tokens_effect [OF log_call_healthy [OF assms(1)], where uid = uid and r = r] assms(2)
  by (simp add: account_def)

lemma refund_healthy: "healthy db \<Longrightarrow> healthy (log_err (RefundQuotaUsage now uid calls) db)"
  by (simp add: RefundQuotaUsage_def log_err_def exec_quotas_def sql_exec_healthy set_quotas_def)

lemma quota_changes [simp]:
  "q_5h_used (token_set d r) = q_5h_used r" "q_total_used (token_set d r) = q_total_used r"
  by (simp_all add: token_set_def)

lemma charged_account:
  assumes "healthy db'" "charged uid n r db db'"
  shows "charged uid n r db (account en uid u mult l db')"
proof -
  obtain p c t where u: "u = (p, c, t)" by (cases u)
  from assms(2) obtain r' where "quota_of db' uid = Some r'" by (auto simp: charged_def)
  from account_effect [OF assms(1) this] assms(2) this show ?thesis
    by (auto simp: charged_def u)
qed

lemma charged_log [simp]: "charged uid n r db (log_call t l db') = charged uid n r db db'"
  by (simp add: charged_def)

section \<open>The price of a request\<close>

text \<open>What a chat request pays: the calls when the upstream answered with success, when no upstream
  request could be built, and, on the streaming path, also when the upstream could not be reached.\<close>

definition chat_billed :: "bool \<Rightarrow> outcome \<Rightarrow> int \<Rightarrow> int" where
  "chat_billed streamed out calls = (case out of
     Forwarded status _ _ \<Rightarrow> if (if streamed then status = 200 else status < 400) then calls else 0
   | Answered resp \<Rightarrow> if resp = build_failed \<or> (streamed \<and> rs_status resp = 502) then calls else 0
   | Panicked \<Rightarrow> 0)"

lemma error_status: "rs_status (writeProxyError s m t) = s"
  by (simp add: writeProxyError_def writeJSON_def)

text \<open>A row after the gate, and what is true of every way on from there.\<close>

lemma chat_forward_charges:
  assumes "healthy db1" "quota_of db1 uid = Some r1"
    and "q_5h_used r1 = q_5h_used r + calls" "q_total_used r1 = q_total_used r + calls"
    and "0 \<le> q_5h_used r" "0 \<le> q_total_used r" "0 \<le> calls"
    and "\<And>v. v \<noteq> uid \<Longrightarrow> quota_of db1 v = quota_of db v"
  shows "handleSync en err uid b m rm pid e k calls mult db1 = (out, db') \<Longrightarrow>
      charged uid (chat_billed False out calls) r db db' \<and> out \<noteq> Panicked"
    and "handleStream en fl gone uid b m rm pid e k calls mult db1 = (out, db') \<Longrightarrow>
      charged uid (chat_billed True out calls) r db db' \<and> out \<noteq> Panicked"
proof -
  let ?ref = "log_err (RefundQuotaUsage (en_now en) uid calls) db1"
  have z: "charged uid 0 r db ?ref"
    using refund_effect [OF assms(1,2), of "en_now en" calls] assms(3-8)
    by (auto simp: charged_def refund_set_def)
  have f: "charged uid calls r db db1" using assms by (simp add: charged_def)
  have a: "charged uid calls r db (account en uid u mult l db1)"
    "charged uid 0 r db (account en uid u mult l ?ref)" for u l
    using charged_account [OF assms(1) f] charged_account [OF refund_healthy [OF assms(1)] z] by auto
  show "handleSync en err uid b m rm pid e k calls mult db1 = (out, db') \<Longrightarrow>
      charged uid (chat_billed False out calls) r db db' \<and> out \<noteq> Panicked"
    using z f
    by (auto simp: handleSync_def chat_billed_def is_build_failed error_status Let_def intro: a split: sum.splits option.splits if_splits)
  show "handleStream en fl gone uid b m rm pid e k calls mult db1 = (out, db') \<Longrightarrow>
      charged uid (chat_billed True out calls) r db db' \<and> out \<noteq> Panicked"
    using z f
    by (auto simp: handleStream_def chat_billed_def is_build_failed error_status Let_def intro: a
        split: option.splits sum.splits prod.splits if_splits)
qed

text \<open>Whether the client asked for a stream.\<close>

definition stream_request :: "chat_config \<Rightarrow> ctx \<Rightarrow> request \<Rightarrow> bool" where
  "stream_request cc c q = (case chat_read cc c q of
     Inl _ \<Rightarrow> False
   | Inr b \<Rightarrow> (case decode_chat b of Some rq \<Rightarrow> cq_stream rq | None \<Rightarrow> False))"

text \<open>Answers that cost nothing.\<close>

lemma free_answer:
  assumes "resp \<noteq> build_failed" "rs_status resp \<noteq> 502"
  shows "chat_billed st (Answered resp) n = 0"
  using assms by (simp add: chat_billed_def)

lemma free_error:
  "s \<noteq> 500 \<Longrightarrow> s \<noteq> 502 \<Longrightarrow> chat_billed st (Answered (writeProxyError s m t)) n = 0"
  "m \<noteq> ''Failed to build upstream request'' \<Longrightarrow> chat_billed st (Answered (writeProxyError 500 m t)) n = 0"
  by (simp_all add: free_answer is_build_failed error_status)

lemma chat_reject_free:
  assumes "healthy db" "quota_of db uid = Some r" "chat_reject en uid m p n f db = (out, db')"
  shows "chat_billed st out k = 0" "out \<noteq> Panicked" "quota_of db' v = quota_of db v"
proof -
  have "GetQuota uid db = (Inr (Some (quota_of_row r)), db)"
    using assms(1,2) by (simp add: GetQuota_def sql_query_healthy quota_of_def)
  with assms(3) show "chat_billed st out k = 0" "out \<noteq> Panicked" "quota_of db' v = quota_of db v"
    by (auto simp: chat_reject_def chat_billed_def error_status is_build_failed split: prod.splits)
qed

lemma chat_target_error:
  assumes "chat_target cc en t c = Inl resp"
  shows "chat_billed st (Answered resp) n = 0"
  using assms
  by (auto simp: chat_target_def free_error split: if_splits option.splits sum.splits prod.splits)

lemma chat_read_error:
  assumes "chat_read cc c q = Inl resp"
  shows "chat_billed st (Answered resp) n = 0"
  using assms by (auto simp: chat_read_def free_error Let_def split: if_splits option.splits)

text \<open>A parsed request is turned away before the gate, panics there, or gets to it.\<close>

lemma chat_forward_cases:
  assumes "chat_forward cc ce t c b rq db = (out, db')"
    and cost: "request_cost (en_now (ce_env ce)) (GetUserID c) db = ((mult, calls), db)"
  obtains (early) resp where "out = Answered resp" "\<And>st n. chat_billed st (Answered resp) n = 0" "db' = db"
  | (panic) "out = Panicked" "db' = db"
  | (gate) m pid body rm e k where "(case AtomicDeductQuota (en_now (ce_env ce)) (GetUserID c) calls db of
      (Inl _, db2) \<Rightarrow> (Answered (writeProxyError 500 ''Internal server error'' ''internal_error''), db2)
    | (Inr False, db2) \<Rightarrow> chat_reject (ce_env ce) (GetUserID c) m pid calls mult db2
    | (Inr True, db2) \<Rightarrow>
        if cq_stream rq
        then handleStream (ce_env ce) (ce_flusher ce) (ce_gone ce) (GetUserID c) body m rm pid e k calls mult db2
        else handleSync (ce_env ce) (ce_read_error ce) (GetUserID c) body m rm pid e k calls mult db2) = (out, db')"
proof (cases "chat_target cc (ce_env ce) t c")
  case (Inl resp)
  then show thesis using early [OF _ chat_target_error [OF Inl]] assms(1) by (simp add: chat_forward_def Let_def)
next
  case (Inr tg)
  obtain pid e k where tg: "tg = (pid, e, k)" by (cases tg)
  let ?rm = "if cq_model rq = '''' then ''glm-5.2'' else cq_model rq"
  let ?m = "if cc_has_router cc then RewriteModel (en_order (ce_env ce)) t ?rm pid else ?rm"
  note run = assms(1) [unfolded chat_forward_def Let_def Inr tg sum.case prod.case]
  show thesis
  proof (cases "rewriteBodyModel (prepare_body cc c b) ?m")
    case None
    then show ?thesis using panic run by simp
  next
    case (Some body)
    show ?thesis
    proof (cases "cc_has_multiplier cc \<and> cc_has_checker cc")
      case True
      then show ?thesis using gate [where m = ?m and pid = pid and body = body and rm = ?rm and e = e and k = k] run
        by (simp add: Some cost CheckAndDeduct_def)
    next
      case False
      then show ?thesis using early run by (auto simp: Some free_error)
    qed
  qed
qed

lemma chat_forward_bills:
  assumes "healthy db" "quotas_wf (quotas db)" "quota_of db (GetUserID c) = Some r" "0 \<le> q_5h_used r" "0 \<le> q_total_used r"
    and cost: "request_cost (en_now (ce_env ce)) (GetUserID c) db = ((mult, calls), db)" "0 \<le> calls"
    and s: "chat_forward cc ce t c b rq db = (out, db')"
  shows "charged (GetUserID c) (chat_billed (cq_stream rq) out calls) r db db'"
  using s cost(1)
proof (cases rule: chat_forward_cases)
  case (early resp)
  then show ?thesis using charged_same [OF assms(3)] by simp
next
  case panic
  then show ?thesis using charged_same [OF assms(3)] by (simp add: chat_billed_def)
next
  case (gate m pid body rm e k)
  show ?thesis
    using assms(1-3)
  proof (cases rule: gate_outcomes [of _ _ _ "en_now (ce_env ce)" calls])
    case (admitted d r1)
    then show ?thesis
      using chat_forward_charges [OF admitted(2,4-6) assms(4,5) cost(2) admitted(3)] gate
      by (cases "cq_stream rq") simp_all
  next
    case (rejected d)
    then have "chat_reject (ce_env ce) (GetUserID c) m pid calls mult d = (out, db')" using gate by simp
    from chat_reject_free [OF rejected(2,3) this] rejected(4) show ?thesis by (auto simp: charged_def)
  qed
qed

text \<open>
  Property C3.  What a chat request costs, on every way out of the handler, for a user with a quota row
  and a fixed multiplier that is not negative, while the database answers.  A synchronous request pays
  its calls when the upstream answered below 400; a streaming request pays them when the upstream
  answered 200, and also (unlike the synchronous path) when the upstream could not be reached; and
  both pay them when no upstream request could be built, which is answered 500 after the deduction
  without a refund.  Rejections, bad requests, other upstream answers and the panic cost nothing, and
  no other user's row changes.
\<close>

theorem chat_bills_answered_requests:
  assumes "healthy (gw_db g)" "quotas_wf (quotas (gw_db g))"
    and "quota_of (gw_db g) (GetUserID c) = Some r" "0 \<le> q_5h_used r" "0 \<le> q_total_used r"
    and "\<forall>m. q_fixed_multiplier r = Some m \<longrightarrow> 0 \<le> m"
    and "ServeChat cc ce c q g = (out, g')"
  shows "charged (GetUserID c)
    (chat_billed (stream_request cc c q) out
      (snd (fst (request_cost (en_now (ce_env ce)) (GetUserID c) (gw_db g))))) r (gw_db g) (gw_db g')"
proof -
  let ?uid = "GetUserID c" and ?db = "gw_db g"
  obtain mult calls where cost: "request_cost (en_now (ce_env ce)) ?uid ?db = ((mult, calls), ?db)"
    using cost_healthy [OF assms(1)] by (metis prod.collapse)
  then have "0 \<le> calls" using cost_nonneg [OF assms(1,3,6), of "en_now (ce_env ce)"] by simp
  note fwd = chat_forward_bills [OF assms(1-5) cost this] and same = charged_same [OF assms(3)]
  have adm: "charged ?uid (chat_billed (stream_request cc c q) o1 calls) r ?db db1"
    if s: "chat_admitted cc ce (gw_table g) c q ?db = (o1, db1)" for o1 db1
    using s same fwd
    by (auto simp: chat_admitted_def stream_request_def chat_read_error free_error
        split: sum.splits option.splits)
  have busy: "chat_billed st (Answered (with_header k v (writeProxyError 429 m t))) n = 0" for st k v m t n
    by (rule free_answer [OF retry_not_build_failed]) (simp add: with_header_def error_status)
  show ?thesis
    using assms(7) adm same cost
    by (auto simp: ServeChat_def free_error busy Let_def split: prod.splits if_splits bool.splits)
qed

definition toy_cc :: chat_config where
  "toy_cc = \<lparr>cc_has_router = True, cc_endpoint = None, cc_api_key = None, cc_has_multiplier = True,
     cc_has_checker = True, cc_compaction_off = False\<rparr>"

definition toy_ce :: "(upstream_request \<Rightarrow> string + upstream_response) \<Rightarrow> chat_env" where
  "toy_ce up = \<lparr>ce_env = toy_env up, ce_flusher = True, ce_gone = 100, ce_read_error = ''unexpected EOF''\<rparr>"

definition toy_chat :: "string \<Rightarrow> request" where
  "toy_chat body = toy_request\<lparr>rq_path := ''/v1/chat/completions'', rq_body := Some body\<rparr>"

definition stream_body :: string where
  "stream_body = ''{'' @ json_quote ''stream'' @ '':true}''"

text \<open>Where the requests of the witness come to: the gate lets them through to the stream.\<close>

lemma toy_chat_streams:
  assumes "ce = toy_ce up\<lparr>ce_env := toy_env up\<lparr>en_request_ok := ok\<rparr>\<rparr>"
  shows "\<exists>b m rm pid e k db. fst (ServeChat toy_cc ce toy_ctx (toy_chat stream_body) toy_gateway)
    = fst (handleStream (ce_env ce) True 100 7 b m rm pid e k 1 1 db)"
proof -
  have d: "decode_chat stream_body = Some \<lparr>cq_model = [], cq_stream = True\<rparr>" by code_simp
  have r: "chat_read toy_cc toy_ctx (toy_chat stream_body) = Inr stream_body" by code_simp
  have t: "chat_target toy_cc (ce_env ce) (gw_table toy_gateway) toy_ctx = Inr (''z'', ''https://z/'', ''K'')"
  proof -
    have "ResolveProvider id (gw_table toy_gateway) epoch = Inr (provider_of_entry toy_entry)"
      "GetRouteMode toy_ctx \<noteq> ''fixed''" "cc_has_router toy_cc"
      "(pr_id (provider_of_entry toy_entry), pr_endpoint (provider_of_entry toy_entry),
        pr_api_key (provider_of_entry toy_entry)) = (''z'', ''https://z/'', ''K'')" by code_simp+
    then show ?thesis by (simp add: assms chat_target_def toy_env_def)
  qed
  have "rewriteBodyModel (prepare_body toy_cc toy_ctx stream_body)
      (RewriteModel id (gw_table toy_gateway) ''glm-5.2'' ''z'') \<noteq> None" by code_simp
  then obtain body where b: "rewriteBodyModel (prepare_body toy_cc toy_ctx stream_body)
      (RewriteModel id (gw_table toy_gateway) ''glm-5.2'' ''z'') = Some body" by blast
  obtain d where d': "AtomicDeductQuota epoch 7 1 (gw_db toy_gateway) = (Ok True, d)" using toy_gate_admits by blast
  have "tryAcquireConcurrency 7 (GetMaxConcurrency toy_ctx) (gw_counters toy_gateway) = (True, [(7, 1)])" by code_simp
  then have "fst (ServeChat toy_cc ce toy_ctx (toy_chat stream_body) toy_gateway) =
      fst (chat_forward toy_cc ce (gw_table toy_gateway) toy_ctx stream_body
        \<lparr>cq_model = [], cq_stream = True\<rparr> (gw_db toy_gateway))"
    by (simp add: ServeChat_def chat_admitted_def d r toy_gateway_row split: prod.splits)
  also have "\<dots> = fst (handleStream (ce_env ce) True 100 7 body (RewriteModel id (gw_table toy_gateway) ''glm-5.2'' ''z'')
      ''glm-5.2'' ''z'' ''https://z/'' ''K'' 1 1 d)"
    using t b d' toy_cost
    by (simp add: chat_forward_def CheckAndDeduct_def Let_def toy_gateway_row assms toy_env_def toy_cc_def toy_ce_def)
  finally show ?thesis by blast
qed

text \<open>Two streaming requests for a row with two calls used, both charged: the upstream refuses the
  connection of one, and no upstream request can be built for the other.\<close>

lemma chat_bills_answered_requests_witness:
  "(\<exists>r'. quota_of (gw_db (snd (ServeChat toy_cc (toy_ce (\<lambda>_. Inl ''refused'')) toy_ctx
      (toy_chat stream_body) toy_gateway))) 7 = Some r' \<and> q_5h_used r' = 3) \<and>
   (\<exists>r'. quota_of (gw_db (snd (ServeChat toy_cc
      (toy_ce (\<lambda>_. Inl ''x'')\<lparr>ce_env := toy_env (\<lambda>_. Inl ''x'')\<lparr>en_request_ok := \<lambda>_ _. False\<rparr>\<rparr>) toy_ctx
      (toy_chat stream_body) toy_gateway))) 7 = Some r' \<and> q_5h_used r' = 3)"
proof -
  let ?s = "\<lambda>ce. ServeChat toy_cc ce toy_ctx (toy_chat stream_body) toy_gateway"
  have s: "stream_request toy_cc toy_ctx (toy_chat stream_body)" by code_simp
  have row: "\<exists>r'. quota_of (gw_db (snd (?s ce))) 7 = Some r' \<and> q_5h_used r' = 2 + chat_billed True (fst (?s ce)) 1" for ce
    using chat_bills_answered_requests [OF toy_gateway_row(1-3), of toy_cc ce "toy_chat stream_body" "fst (?s ce)" "snd (?s ce)"]
    by (auto simp: toy_gateway_row toy_row_def charged_def s)
  have "chat_billed True (fst (?s (toy_ce (\<lambda>_. Inl ''refused'')))) 1 = 1"
    using toy_chat_streams [of "toy_ce (\<lambda>_. Inl ''refused'')" "\<lambda>_ _. True" "\<lambda>_. Inl ''refused''"]
    by (auto simp: toy_ce_def toy_env_def handleStream_def BuildUpstreamRequest_def chat_billed_def error_status Let_def)
  moreover have "chat_billed True (fst (?s (toy_ce (\<lambda>_. Inl ''x'')\<lparr>ce_env :=
      toy_env (\<lambda>_. Inl ''x'')\<lparr>en_request_ok := \<lambda>_ _. False\<rparr>\<rparr>))) 1 = 1"
    using toy_chat_streams [OF refl, of "\<lambda>_ _. False" "\<lambda>_. Inl ''x''"]
    by (auto simp: toy_ce_def toy_env_def handleStream_def BuildUpstreamRequest_def chat_billed_def is_build_failed Let_def)
  ultimately show ?thesis
    using row [of "toy_ce (\<lambda>_. Inl ''refused'')"]
      row [of "toy_ce (\<lambda>_. Inl ''x'')\<lparr>ce_env := toy_env (\<lambda>_. Inl ''x'')\<lparr>en_request_ok := \<lambda>_ _. False\<rparr>\<rparr>"] by simp
qed

section \<open>The stream\<close>

text \<open>The loop relays and counts the lines up to the disconnection, each on its own.\<close>

lemma stream_loop_relays:
  "stream_loop m gone ls u =
    (concat (map (\<lambda>l. rewrite_line m l @ newline) (take gone ls)),
     fold (\<lambda>l. line_usage (rewrite_line m l)) (take gone ls) u)"
  by (induction m gone ls u rule: stream_loop.induct) (simp_all add: Let_def)

text \<open>The lines of a body, and the first occurrence of a text.\<close>

lemma split_char_lines:
  assumes "\<forall>l \<in> set (rest # raw). nl \<notin> set l"
  shows "split_char nl (concat (map (\<lambda>l. l @ [nl]) raw) @ rest) = raw @ [rest]"
proof -
  have ne: "split_char nl t \<noteq> []" for t by (induction nl t rule: split_char.induct) (simp_all split: list.split)
  have one: "split_char nl (l @ t) = (case split_char nl t of [] \<Rightarrow> [l] | w # ws \<Rightarrow> (l @ w) # ws)"
    if "nl \<notin> set l" for l t
    using that ne [of t] by (induction l) (auto split: list.splits)
    have last: "split_char nl l = [l]" if "nl \<notin> set l" for l
    using one [OF that, of "[]"] by simp
  show ?thesis
    using assms by (induction raw) (simp_all add: one last ne split: list.splits)
qed

lemma str_contains_iff: "str_contains s p \<longleftrightarrow> (\<exists>a b. s = a @ p @ b)"
proof (induction s)
  case (Cons c s)
  have "(\<exists>a b. c # s = a @ p @ b) \<longleftrightarrow> (\<exists>b. c # s = p @ b) \<or> (\<exists>a b. s = a @ p @ b)"
    by (metis append_Cons append_Nil list.exhaust list.inject)
  moreover have "has_prefix (c # s) p \<longleftrightarrow> (\<exists>b. c # s = p @ b)" by (metis has_prefixE has_prefix_append)
  ultimately show ?case using Cons.IH by simp
qed simp

definition replaces_first :: "string \<Rightarrow> string \<Rightarrow> string \<Rightarrow> string \<Rightarrow> bool" where
  "replaces_first old new s t \<longleftrightarrow>
     (if \<exists>a b. s = a @ old @ b
      then \<exists>a b. s = a @ old @ b \<and> t = a @ new @ b \<and> (\<forall>a' b'. s = a' @ old @ b' \<longrightarrow> length a \<le> length a')
      else t = s)"

lemma replaces_firstI:
  assumes "s = a @ old @ b" "t = a @ new @ b" "\<And>a' b'. s = a' @ old @ b' \<Longrightarrow> length a \<le> length a'"
  shows "replaces_first old new s t"
proof -
  have "\<exists>a b. s = a @ old @ b \<and> t = a @ new @ b \<and> (\<forall>a' b'. s = a' @ old @ b' \<longrightarrow> length a \<le> length a')"
    using assms by blast
  moreover have "\<exists>a b. s = a @ old @ b" using assms(1) by blast
  ultimately show ?thesis unfolding replaces_first_def by simp
qed

lemma replace_first_replaces: "old \<noteq> [] \<Longrightarrow> replaces_first old new s (replace_first old new s)"
proof (induction s)
  case Nil
  then show ?case by (simp add: replaces_first_def)
next
  case (Cons c s)
  show ?case
  proof (cases "has_prefix (c # s) old")
    case True
    then obtain b where b: "c # s = old @ b" by (rule has_prefixE)
    have "replace_first old new (c # s) = new @ b" using True by (simp only: replace_first.simps(2) if_True) (simp add: b)
    then show ?thesis using b by (intro replaces_firstI [of _ "[]"]) simp_all
  next
    case False
    have later: "\<exists>a''. a' = c # a'' \<and> s = a'' @ old @ b'" if "c # s = a' @ old @ b'" for a' b'
      using that False by (cases a') auto
    have r: "replace_first old new (c # s) = c # replace_first old new s" using False by simp
    have ih: "replaces_first old new s (replace_first old new s)" using Cons by blast
    show ?thesis
    proof (cases "\<exists>a b. s = a @ old @ b")
      case True
      then have "\<exists>a b. s = a @ old @ b \<and> replace_first old new s = a @ new @ b \<and>
          (\<forall>a' b'. s = a' @ old @ b' \<longrightarrow> length a \<le> length a')"
        using ih unfolding replaces_first_def by simp
      then obtain a b where ab: "s = a @ old @ b" "replace_first old new s = a @ new @ b"
        "\<And>a' b'. s = a' @ old @ b' \<Longrightarrow> length a \<le> length a'" by blast
      show ?thesis unfolding r
      proof (rule replaces_firstI [of _ "c # a"])
        show "length (c # a) \<le> length a'" if "c # s = a' @ old @ b'" for a' b'
          using later [OF that] ab(3) by fastforce
      qed (simp add: ab(1), simp only: ab(2) append_Cons)
    next
      case none: False
      then have "replace_first old new s = s" using ih unfolding replaces_first_def by simp
      moreover have "\<nexists>a b. c # s = a @ old @ b" using later none by blast
      ultimately show ?thesis unfolding r replaces_first_def by simp
    qed
  qed
qed

lemma replaces_first_unique:
  assumes "replaces_first old new s t" "replaces_first old new s t'"
  shows "t = t'"
proof (cases "\<exists>a b. s = a @ old @ b")
  case True
  have "\<exists>a b. s = a @ old @ b \<and> u = a @ new @ b \<and> (\<forall>x y. s = x @ old @ y \<longrightarrow> length a \<le> length x)"
    if "replaces_first old new s u" for u
    using that True unfolding replaces_first_def by simp
  from this [OF assms(1)] this [OF assms(2)] obtain a b a' b'
    where 1: "s = a @ old @ b" "t = a @ new @ b" "\<And>x y. s = x @ old @ y \<Longrightarrow> length a \<le> length x"
      and 2: "s = a' @ old @ b'" "t' = a' @ new @ b'" "\<And>x y. s = x @ old @ y \<Longrightarrow> length a' \<le> length x"
    by metis
  have "length a = length a'" using 1(3) [OF 2(1)] 2(3) [OF 1(1)] by simp
  then show ?thesis using 1(1,2) 2(1,2) by simp
next
  case False
  then show ?thesis using assms unfolding replaces_first_def by simp
qed

text \<open>What a line of the stream is to be relayed as.  A frame is the text after \<open>data:\<close> of a line
  without \<open>[DONE]\<close>; when it is JSON that names another model than the client asked for, the first
  \<open>"model":"..."\<close> of that name is changed; every other line is relayed as it is.\<close>

definition frame_text :: "string \<Rightarrow> string option" where
  "frame_text l = (if (\<exists>t. l = ''data:'' @ t) \<and> (\<nexists>a b. l = a @ ''[DONE]'' @ b)
     then Some (trim_space (drop 5 l)) else None)"

definition name_member :: "string \<Rightarrow> string" where
  "name_member m = [CHR 0x22] @ ''model'' @ [CHR 0x22, CHR '':'', CHR 0x22] @ m @ [CHR 0x22]"

definition put_back :: "string \<Rightarrow> string \<Rightarrow> string \<Rightarrow> bool" where
  "put_back rm l l' \<longleftrightarrow> (case frame_text l of
     None \<Rightarrow> l' = l
   | Some t \<Rightarrow> (case decode_model t of
       None \<Rightarrow> l' = l
     | Some m \<Rightarrow>
         if m \<noteq> '''' \<and> m \<noteq> rm \<and> rm \<noteq> ''''
         then \<exists>t'. l' = ''data: '' @ t' \<and> replaces_first (name_member m) (name_member rm) t t'
         else l' = l))"

text \<open>The usage a relayed line reports, and the last one.\<close>

definition frame_usage :: "string \<Rightarrow> (int \<times> int \<times> int) option" where
  "frame_usage l = (case frame_text l of
     None \<Rightarrow> None
   | Some t \<Rightarrow> map_option (\<lambda>x. (us_prompt x, us_completion x, us_total x)) (chunk_usage t))"

definition last_usage :: "string list \<Rightarrow> int \<times> int \<times> int" where
  "last_usage ls = (case filter (\<lambda>l. frame_usage l \<noteq> None) ls of
     [] \<Rightarrow> (0, 0, 0) | us \<Rightarrow> the (frame_usage (last us)))"

text \<open>A line as the scanner hands it over: without a carriage return before the newline.\<close>

definition without_cr :: "string \<Rightarrow> string" where
  "without_cr l = (if l \<noteq> [] \<and> last l = char_of (13 :: nat) then butlast l else l)"

lemma frame_text_data [code]: "frame_text l = (if data_line l then Some (data_text l) else None)"
proof -
  have "has_prefix l ''data:'' \<longleftrightarrow> (\<exists>t. l = ''data:'' @ t)" by (metis has_prefixE has_prefix_append)
  then show ?thesis by (simp add: frame_text_def data_line_def data_text_def trim_prefix_def str_contains_iff eval_nat_numeral)
qed

lemma empty_frame: "decode_model [] = None" "chunk_usage [] = None"
  by code_simp+

lemma rewrite_line_puts_back: "put_back rm l (rewrite_line rm l)"
proof -
  have p: "model_pattern m = name_member m" "name_member m \<noteq> []" for m
    by (simp_all add: model_pattern_def name_member_def)
  show ?thesis
    using replace_first_replaces [OF p(2)] empty_frame(1)
    by (auto simp: put_back_def rewrite_line_def frame_text_data p(1) Let_def split: option.splits)
qed

lemma put_back_unique: "put_back rm l l' \<Longrightarrow> l' = rewrite_line rm l"
  using rewrite_line_puts_back [of rm l]
  by (auto simp: put_back_def dest: replaces_first_unique split: option.splits if_splits)

lemma line_usage_frame: "line_usage l u = (case frame_usage l of Some v \<Rightarrow> v | None \<Rightarrow> u)"
  using empty_frame(2) by (auto simp: line_usage_def frame_usage_def frame_text_data split: option.splits)

lemma usage_of_lines: "fold line_usage ls (0, 0, 0) = last_usage ls"
proof (induction ls rule: rev_induct)
  case (snoc l ls)
  then show ?case by (auto simp: last_usage_def line_usage_frame split: option.splits list.splits)
qed (simp add: last_usage_def)

lemma scanned_lines:
  assumes "body = concat (map (\<lambda>l. l @ newline) raw) @ rest" "\<forall>l \<in> set (rest # raw). char_of (10 :: nat) \<notin> set l"
  shows "scan_lines body = map without_cr (takeWhile (\<lambda>l. length l < 2 ^ 20) (raw @ (if rest = [] then [] else [rest])))"
  using split_char_lines [OF assms(2)] by (simp add: assms(1) newline_def scan_lines_def without_cr_def [abs_def])

lemma billed_exact:
  assumes "\<bar>p + c\<bar> \<le> 2 ^ 53"
  shows "billed_tokens p c mult = \<lceil>round64 (of_int (p + c) * mult)\<rceil>"
proof -
  have "wrap64 (p + c) = p + c" using assms by (simp add: wrap64_def mod_pos_pos_trivial)
  then show ?thesis by (simp add: billed_tokens_def f_of_int_exact [OF assms] f_mul_def f_ceil_int_def)
qed

text \<open>
  Property C9.  A stream answered with 200, to a client whose writer can flush, for an account with a
  row, while the database answers.  Cut the upstream's body at its newlines: the client is sent the
  lines, each without a carriage return at its end, up to the first of 1 MiB or more (where the
  scanner gives up) or to the moment it disconnects, whichever comes first, with the model name the
  client used put back into each frame that names another (at the first \<open>"model":"name"\<close> of that name,
  if the frame spells it without blanks).  The last usage the relayed frames report
  (nothing when none does) is what is charged, whether or not the client stayed to the end: the sum of
  prompt and completion tokens times the multiplier in double precision, rounded up, is added to the
  three token counters (for sums within 2^53, and unless it is negative), no call counter changes, and
  the one new call log keeps the unscaled counts.
\<close>

theorem stream_bills_what_it_relayed:
  assumes "healthy db" "quota_of db uid = Some r" "select_one (with_id uid) (users db) \<noteq> None"
    and "BuildUpstreamRequest (en_request_ok en) e k b = Some u" "en_upstream en u = Inr resp"
    and "up_status resp = 200"
    and "delivered (up_body resp) = concat (map (\<lambda>l. l @ newline) raw) @ rest"
    and "\<forall>l \<in> set (rest # raw). char_of (10 :: nat) \<notin> set l"
  shows "\<exists>out db' r' l p c t. handleStream en True gone uid b m rm pid e k calls mult db
      = (Forwarded 200 sse_headers (concat (map (\<lambda>l. l @ newline) out)), db') \<and>
    list_all2 (put_back rm) (map without_cr (take gone
      (takeWhile (\<lambda>l. length l < 2 ^ 20) (raw @ (if rest = [] then [] else [rest]))))) out \<and>
    last_usage out = (p, c, t) \<and> quota_of db' uid = Some r' \<and>
    (\<bar>p + c\<bar> \<le> 2 ^ 53 \<longrightarrow> (let n = max 0 \<lceil>round64 (of_int (p + c) * mult)\<rceil> in
      q_token_total_used r' = q_token_total_used r + n \<and> q_token_5h_used r' = q_token_5h_used r + n \<and>
      q_token_week_used r' = q_token_week_used r + n)) \<and>
    q_5h_used r' = q_5h_used r \<and> q_total_used r' = q_total_used r \<and>
    call_logs db' = call_logs db @ [l] \<and>
    (cl_user_id l, cl_prompt_tokens l, cl_completion_tokens l, cl_total_tokens l, cl_status_code l)
      = (uid, p, c, t, 200)"
proof -
  let ?ls = "take gone (scan_lines (delivered (up_body resp)))"
  let ?out = "map (rewrite_line rm) ?ls"
  obtain p c t where pct: "last_usage ?out = (p, c, t)" by (metis prod_cases3)
  let ?l = "with_tokens (p, c, t) (call_log uid m pid calls mult 200 (en_latency en) '''')"
  let ?db = "account en uid (p, c, t) mult (call_log uid m pid calls mult 200 (en_latency en) '''') db"
  have f: "fold (\<lambda>l. line_usage (rewrite_line rm l)) ?ls (0, 0, 0) = (p, c, t)"
    using pct usage_of_lines [of ?out] by (simp add: fold_map o_def)
  have h: "handleStream en True gone uid b m rm pid e k calls mult db
      = (Forwarded 200 sse_headers (concat (map (\<lambda>l. l @ newline) ?out)), ?db)"
    using assms(4-6) f by (simp add: handleStream_def stream_loop_relays o_def)
  have ls: "?ls = map without_cr (take gone
      (takeWhile (\<lambda>l. length l < 2 ^ 20) (raw @ (if rest = [] then [] else [rest]))))"
    by (simp only: scanned_lines [OF assms(7,8)] take_map)
  have rel: "list_all2 (put_back rm) ?ls ?out" by (simp add: list_all2_map2 rewrite_line_puts_back list_all2_same)
  obtain r' where r': "quota_of ?db uid = Some r'"
    "\<bar>p + c\<bar> \<le> 2 ^ 53 \<longrightarrow> (let n = max 0 \<lceil>round64 (of_int (p + c) * mult)\<rceil> in
      q_token_total_used r' = q_token_total_used r + n \<and> q_token_5h_used r' = q_token_5h_used r + n \<and>
      q_token_week_used r' = q_token_week_used r + n)"
    "q_5h_used r' = q_5h_used r" "q_total_used r' = q_total_used r"
    using account_effect [OF assms(1,2), of en p c t mult] billed_exact [of p c mult]
    by (auto simp: token_set_def Let_def)
  have t: "call_logs ?db = call_logs (log_call (en_now en) ?l db)"
    using log_call_healthy [OF assms(1)]
    by (simp add: account_def AddTokenUsage_def log_err_def exec_quotas_def sql_exec_healthy)
  have "\<exists>l. call_logs (log_call (en_now en) ?l db) = call_logs db @ [l] \<and>
    (cl_user_id l, cl_prompt_tokens l, cl_completion_tokens l, cl_total_tokens l, cl_status_code l)
      = (uid, p, c, t, 200)"
    using assms(1,3)
    by (auto simp: log_call_def InsertCallLog_def run_stmt_healthy insert_row_def with_tokens_def
        call_log_def Let_def)
  with h r' t rel pct show ?thesis unfolding ls by metis
qed

definition frame_body :: string where
  "frame_body = ''{'' @ json_quote ''model'' @ '':'' @ json_quote ''up'' @ '','' @ json_quote ''usage'' @
     '':{'' @ json_quote ''prompt_tokens'' @ '':3,'' @ json_quote ''completion_tokens'' @ '':4}}''"

text \<open>A frame that names another model, and the last line; the frame as it is to be relayed.\<close>

definition stream_lines :: "string list" where
  "stream_lines = [''data: '' @ frame_body, ''data: [DONE]'']"

definition relayed_body :: string where
  "relayed_body = ''{'' @ json_quote ''model'' @ '':'' @ json_quote ''glm-5.2'' @ '','' @ json_quote ''usage'' @
     '':{'' @ json_quote ''prompt_tokens'' @ '':3,'' @ json_quote ''completion_tokens'' @ '':4}}''"

definition stream_answer :: upstream_response where
  "stream_answer = \<lparr>up_status = 200, up_headers = [], up_content_length = -1,
     up_body = [\<lparr>br_gone = False, br_bytes = concat (map (\<lambda>l. l @ newline) stream_lines), br_write_failed = False,
       br_end = Eof\<rparr>]\<rparr>"

definition toy_user :: User where
  "toy_user = \<lparr>u_id = 7, u_username = ''u'', u_password_hash = '''', u_sub_key_hash = '''',
     u_sub_key_preview = '''', u_role = ''user'', u_status = ''active'', u_created_at = '''',
     u_updated_at = '''', u_expires_at = '''', u_route_mode = '''', u_fixed_provider = '''',
     u_max_body_size = 0, u_max_concurrency = 0\<rparr>"

lemma stream_bills_what_it_relayed_witness:
  "\<exists>db' r'. handleStream (toy_env (\<lambda>_. Inr stream_answer)) True 5 7 '''' ''m'' ''glm-5.2'' ''z''
      ''https://z'' ''K'' 1 2 (empty_db\<lparr>quotas := [toy_row], users := [toy_user]\<rparr>)
    = (Forwarded 200 sse_headers (''data: '' @ relayed_body @ newline @ ''data: [DONE]'' @ newline), db') \<and>
    quota_of db' 7 = Some r' \<and> q_token_total_used r' = 14 \<and> q_5h_used r' = q_5h_used toy_row"
proof -
  let ?en = "toy_env (\<lambda>_. Inr stream_answer)"
  let ?db = "empty_db\<lparr>quotas := [toy_row], users := [toy_user]\<rparr>"
  let ?out = "[''data: '' @ relayed_body, ''data: [DONE]'']"
  have body: "delivered (up_body stream_answer) = concat (map (\<lambda>l. l @ newline) stream_lines) @ []"
    by (simp add: stream_answer_def)
  have nl: "\<forall>l \<in> set ([] # stream_lines). char_of (10 :: nat) \<notin> set l" by code_simp
  have out: "map without_cr (take 5 (takeWhile (\<lambda>l. length l < 2 ^ 20) (stream_lines @ (if [] = [] then [] else [[]]))))
      = stream_lines"
  proof -
    have "length frame_body < 100" by code_simp
    then have short: "takeWhile (\<lambda>l. length l < 2 ^ 20) stream_lines = stream_lines" by (simp add: stream_lines_def)
    have "map without_cr (take 5 stream_lines) = stream_lines" by code_simp
    then show ?thesis by (simp only: refl if_True append_Nil2 short)
  qed
  have rw: "map (rewrite_line ''glm-5.2'') stream_lines = ?out" "last_usage ?out = (3, 4, 0)" by code_simp+
  have unique: "o2 = ?out" if "list_all2 (put_back ''glm-5.2'') stream_lines o2" for o2
  proof -
    from that have "o2 = map (rewrite_line ''glm-5.2'') stream_lines"
      by (induction rule: list_all2_induct) (simp_all add: put_back_unique)
    then show ?thesis by (simp add: rw(1))
  qed
  have n: "\<lceil>round64 (of_int (3 + 4) * 2)\<rceil> = 14" using round64_int [of 14] by simp
  obtain u where u: "BuildUpstreamRequest (en_request_ok ?en) ''https://z'' ''K'' '''' = Some u"
    by (auto simp: BuildUpstreamRequest_def toy_env_def Let_def)
  have q: "quota_of ?db 7 = Some toy_row" "healthy ?db" "select_one (with_id 7) (users ?db) \<noteq> None"
    by (simp_all add: quota_of_def toy_row_def toy_user_def empty_db_def)
  have up: "en_upstream ?en u = Inr stream_answer" "up_status stream_answer = 200"
    by (simp_all add: toy_env_def stream_answer_def)
  obtain o2 db' r' p c t where run: "handleStream ?en True 5 7 '''' ''m'' ''glm-5.2'' ''z'' ''https://z'' ''K'' 1 2 ?db
      = (Forwarded 200 sse_headers (concat (map (\<lambda>l. l @ newline) o2)), db')"
    "list_all2 (put_back ''glm-5.2'') stream_lines o2" "last_usage o2 = (p, c, t)" "quota_of db' 7 = Some r'"
    "\<bar>p + c\<bar> \<le> 2 ^ 53 \<longrightarrow> q_token_total_used r' = q_token_total_used toy_row + max 0 \<lceil>round64 (of_int (p + c) * 2)\<rceil>"
    "q_5h_used r' = q_5h_used toy_row"
    using stream_bills_what_it_relayed [OF q(2,1,3) u up body nl, where gone = 5 and rm = "''glm-5.2''" and m = "''m''"
        and pid = "''z''" and calls = 1 and mult = 2] unfolding out Let_def by metis
  have "q_token_total_used toy_row = 0" by (simp add: toy_row_def)
  then show ?thesis using run unique [OF run(2)] rw(2) n by auto
qed

section \<open>Compaction\<close>

lemma try_down_Some:
  "try_down build M mk n = Some out \<Longrightarrow>
   \<exists>k. mk \<le> k \<and> k \<le> n \<and> out = build k \<and> int (length (build k)) \<le> M \<and>
     (\<forall>j. k < j \<and> j \<le> n \<longrightarrow> M < int (length (build j)))"
proof (induction n)
  case 0
  then show ?case by (auto split: if_splits)
next
  case (Suc n)
  show ?case
  proof (cases "int (length (build (Suc n))) \<le> M")
    case True
    with Suc.prems show ?thesis by (intro exI [of _ "Suc n"]) (auto split: if_splits)
  next
    case False
    with Suc obtain k where "mk \<le> k" "k \<le> n" "out = build k" "int (length (build k)) \<le> M"
      "\<forall>j. k < j \<and> j \<le> n \<longrightarrow> M < int (length (build j))"
      by (auto split: if_splits)
    with False show ?thesis by (intro exI [of _ k]) (auto simp: le_Suc_eq)
  qed
qed

lemma try_down_None:
  "try_down build M mk n = None \<Longrightarrow> mk \<le> k \<Longrightarrow> k \<le> n \<Longrightarrow> M < int (length (build k))"
  by (induction n) (auto simp: le_Suc_eq split: if_splits)

text \<open>
  Property C15.  Compaction of a request over its budget keeps every system message and drops as few
  of the oldest other messages as it can: the result is the same request with the system messages
  followed by the others without the first \<open>n\<close>, no smaller \<open>n\<close> fits the budget, and the result
  itself fits unless only the newest message is left.
\<close>

theorem compaction_drops_fewest_oldest:
  assumes "0 < maxBody" "maxBody < int (length body)"
    and "unmarshal_map body = Some (Some raw)" "map_of raw ''messages'' = Some (RArr msgs)" "msgs \<noteq> []"
    and "others = filter (\<lambda>m. \<not> is_system m) msgs"
    and "shorter = (\<lambda>n. print_map (gm_put ''messages'' (RArr (filter is_system msgs @ drop n others)) raw))"
  shows "\<exists>n \<le> length others. compactMessagesToBudget body maxBody = shorter n \<and>
    (\<forall>k < n. maxBody < int (length (shorter k))) \<and>
    (int (length (shorter n)) \<le> maxBody \<or> n = length others - 1)"
proof -
  let ?build = "tryBuild raw (filter is_system msgs) others"
  let ?mk = "if others \<noteq> [] then 1 else 0 :: nat"
  have shorter: "?build k = shorter (length others - k)" for k by (simp add: tryBuild_def assms(7))
  have mk: "?mk \<le> length others" by (cases others) simp_all
  have c: "compactMessagesToBudget body maxBody
      = (case try_down ?build maxBody ?mk (length others) of Some out \<Rightarrow> out | None \<Rightarrow> ?build ?mk)"
    using assms(1-5) by (simp add: compactMessagesToBudget_def assms(6) [symmetric] Let_def)
  show ?thesis
  proof (cases "try_down ?build maxBody ?mk (length others)")
    case None
    have "maxBody < int (length (shorter k))" if "k < length others - ?mk" for k
      using try_down_None [OF None, of "length others - k"] that by (simp add: shorter)
    with None c mk show ?thesis
      by (intro exI [of _ "length others - ?mk"]) (auto simp: shorter)
  next
    case (Some out)
    from try_down_Some [OF Some] obtain k where k: "?mk \<le> k" "k \<le> length others" "out = ?build k"
      "int (length (?build k)) \<le> maxBody"
      "\<forall>j. k < j \<and> j \<le> length others \<longrightarrow> maxBody < int (length (?build j))" by blast
    have "maxBody < int (length (shorter i))" if "i < length others - k" for i
      using k(5) [rule_format, of "length others - i"] that by (simp add: shorter)
    with k c Some show ?thesis
      by (intro exI [of _ "length others - k"]) (auto simp: shorter)
  qed
qed

definition long_chat :: string where
  "long_chat = ''{'' @ json_quote ''messages'' @ '':[{'' @ json_quote ''role'' @ '':'' @ json_quote ''user'' @ ''},{'' @
     json_quote ''role'' @ '':'' @ json_quote ''system'' @ ''},{'' @ json_quote ''role'' @ '':'' @
     json_quote ''tool'' @ ''}]}''"

definition long_messages :: "rj list" where
  "long_messages = map (\<lambda>r. RObj [(''role'', RText r)]) [''user'', ''system'', ''tool'']"

lemma compaction_drops_fewest_oldest_witness:
  "\<exists>n \<le> 2. compactMessagesToBudget long_chat 60
    = print_map [(''messages'', RArr (RObj [(''role'', RText ''system'')] # drop n
        [RObj [(''role'', RText ''user'')], RObj [(''role'', RText ''tool'')]]))]"
proof -
  have l: "int (length long_chat) = 64" by code_simp
  have u: "unmarshal_map long_chat = Some (Some [(''messages'', RArr long_messages)])" by code_simp
  have f: "filter (\<lambda>m. \<not> is_system m) long_messages = [RObj [(''role'', RText ''user'')], RObj [(''role'', RText ''tool'')]]"
    "filter is_system long_messages = [RObj [(''role'', RText ''system'')]]" by code_simp+
  show ?thesis
    using compaction_drops_fewest_oldest [OF _ _ u _ _ refl refl, of 60 long_messages] l
    by (auto simp: f long_messages_def [symmetric] numeral_2_eq_2) (auto simp: long_messages_def)
qed

section \<open>The body that panics\<close>

text \<open>
  The body \<open>null\<close> is valid JSON for the request, and it brings the handler down: once an
  upstream target is found, the model name is written into the nil map that \<open>null\<close> decodes to.  The
  panic comes before anything is charged or logged, and the concurrency slot is still given back.
\<close>

theorem null_body_panics:
  assumes "GetUserID c \<noteq> 0" "fst (tryAcquireConcurrency (GetUserID c) (GetMaxConcurrency c) (gw_counters g))"
    and "chat_read cc c q = Inr ''null''" "chat_target cc (ce_env ce) (gw_table g) c = Inr tgt"
  shows "\<exists>st. ServeChat cc ce c q g = (Panicked, g\<lparr>gw_counters := st\<rparr>) \<and>
    (0 < GetMaxConcurrency c \<longrightarrow> (\<forall>v. in_flight v st = in_flight v (gw_counters g)))"
proof -
  have d: "decode_chat ''null'' = Some \<lparr>cq_model = '''', cq_stream = False\<rparr>" by code_simp
  have u: "unmarshal_map ''null'' = Some None" by code_simp
  have p: "prepare_body cc c ''null'' = ''null''"
    by (simp add: prepare_body_def normalizeContentArrays_def compactMessagesToBudget_def u Let_def)
  have f: "chat_forward cc ce (gw_table g) c ''null'' \<lparr>cq_model = '''', cq_stream = False\<rparr> db = (Panicked, db)" for db
    using assms(4) by (simp add: chat_forward_def p rewriteBodyModel_def u Let_def split: prod.splits)
  obtain st where t: "tryAcquireConcurrency (GetUserID c) (GetMaxConcurrency c) (gw_counters g) = (True, st)"
    using assms(2) by (cases "tryAcquireConcurrency (GetUserID c) (GetMaxConcurrency c) (gw_counters g)") auto
  have s: "ServeChat cc ce c q g = (Panicked, g\<lparr>gw_counters := releaseConcurrency (GetUserID c) st\<rparr>)"
    using assms(1,3) t d f by (simp add: ServeChat_def chat_admitted_def Let_def)
  have "in_flight v (releaseConcurrency (GetUserID c) st) = in_flight v (gw_counters g)"
    if "0 < GetMaxConcurrency c" for v
    using t that by (auto simp: tryAcquireConcurrency_def releaseConcurrency_def in_flight_def Let_def
        split: if_splits option.splits)
  with s show ?thesis by blast
qed

lemma null_body_panics_witness:
  "fst (ServeChat toy_cc (toy_ce (\<lambda>_. Inl '''')) toy_ctx (toy_chat ''null'') toy_gateway) = Panicked"
proof -
  have b: "chat_read toy_cc toy_ctx (toy_chat ''null'') = Inr ''null''" by code_simp
  have t: "fst (tryAcquireConcurrency (GetUserID toy_ctx) (GetMaxConcurrency toy_ctx) (gw_counters toy_gateway))"
    by code_simp
  have "\<not> isl (chat_target toy_cc (ce_env (toy_ce (\<lambda>_. Inl ''''))) (gw_table toy_gateway) toy_ctx)" by code_simp
  then obtain tgt where "chat_target toy_cc (ce_env (toy_ce (\<lambda>_. Inl ''''))) (gw_table toy_gateway) toy_ctx = Inr tgt"
    by (cases "chat_target toy_cc (ce_env (toy_ce (\<lambda>_. Inl ''''))) (gw_table toy_gateway) toy_ctx") auto
  from null_body_panics [OF _ t b this] show ?thesis by (auto simp: toy_gateway_row)
qed

end
