(* ===== verification/CallStats.thy ===== *)
theory CallStats
  imports SessionModel "HOL-Library.Multiset"
begin

text \<open>
  \<open>internal/models/call_stats.go\<close>: the global call log, the summary of a filtered set of calls with
  its breakdowns by model and by user, and the list of models.  Sums of the counters are taken not
  to leave 64 bits.  The order of the ranges over the two Go maps is an argument.
\<close>

section \<open>The filter\<close>

text \<open>\<open>buildCallLogWhere\<close>: SQLite's \<open>LOWER\<close> folds ASCII letters.\<close>

definition buildCallLogWhere :: "CallLogFilter \<Rightarrow> CallLog \<Rightarrow> bool" where
  "buildCallLogWhere f l \<longleftrightarrow>
     (f_user_id f = 0 \<or> cl_user_id l = f_user_id f) \<and>
     (f_provider_id f = '''' \<or> cl_provider_id l = f_provider_id f) \<and>
     (f_model f = '''' \<or> to_lower (cl_model l) = to_lower (f_model f)) \<and>
     (f_from f = '''' \<or> f_from f \<le> cl_created_at l) \<and>
     (f_to f = '''' \<or> cl_created_at l \<le> f_to f)"

definition filtered_calls :: "CallLogFilter \<Rightarrow> db \<Rightarrow> CallLog list" where
  "filtered_calls f db = filter (buildCallLogWhere f) (call_logs db)"

definition username_of :: "db \<Rightarrow> int \<Rightarrow> string" where
  "username_of db uid = (case select_one (with_id uid) (users db) of None \<Rightarrow> '''' | Some u \<Rightarrow> u_username u)"

definition QueryCallLogsGlobal :: "CallLogFilter \<Rightarrow> CallLogPage op" where
  "QueryCallLogsGlobal f =
     (let limit = (if f_limit f \<le> 0 then 20 else f_limit f);
          page = (if f_page f \<le> 0 then 1 else f_page f)
      in and_then (sql_query '''' (\<lambda>db. length (filtered_calls f db)))
           (\<lambda>total. and_then (sql_query ''''
               (\<lambda>db. map (\<lambda>l. l\<lparr>cl_raw_total_tokens := 0, cl_username := username_of db (cl_user_id l)\<rparr>)
                  (page_of page limit (newest_first (filtered_calls f db)))))
             (\<lambda>rows db. (Ok \<lparr>pg_data = rows, pg_page = page, pg_limit = limit, pg_total = total\<rparr>, db))))"

section \<open>The summary\<close>

record TokenBreakdown =
  tb_prompt :: int
  tb_completion :: int
  tb_total :: int

record SuccessStats =
  ss_success :: int
  ss_error :: int
  ss_rate :: float64

record ModelBreakdown =
  mb_model :: string
  mb_calls :: int
  mb_tokens :: TokenBreakdown

record UserBreakdown =
  ub_user_id :: int
  ub_username :: string
  ub_calls :: int
  ub_effective_calls :: int
  ub_tokens :: TokenBreakdown

record CallStats =
  cs_total_calls :: int
  cs_tokens :: TokenBreakdown
  cs_raw_tokens :: TokenBreakdown
  cs_effective_calls :: int
  cs_success :: SuccessStats
  cs_by_model :: "ModelBreakdown list"
  cs_by_user :: "UserBreakdown list"

text \<open>The billed prompt, completion and total of a call.\<close>

definition multipliedTokenBreakdown :: "int \<Rightarrow> int \<Rightarrow> float64 \<Rightarrow> int \<times> int \<times> int" where
  "multipliedTokenBreakdown prompt completion multiplier =
     (let m = (if multiplier = 0 then 1 else multiplier);
          promptBilled = f_ceil_int (f_mul (f_of_int prompt) m);
          totalBilled = f_ceil_int (f_mul (f_of_int (prompt + completion)) m)
      in (promptBilled, totalBilled - promptBilled, totalBilled))"

definition no_tokens :: TokenBreakdown where
  "no_tokens = \<lparr>tb_prompt = 0, tb_completion = 0, tb_total = 0\<rparr>"

definition add_tokens :: "int \<times> int \<times> int \<Rightarrow> TokenBreakdown \<Rightarrow> TokenBreakdown" where
  "add_tokens x t = (case x of (p, c, b) \<Rightarrow>
     \<lparr>tb_prompt = tb_prompt t + p, tb_completion = tb_completion t + c, tb_total = tb_total t + b\<rparr>)"

abbreviation billed_row :: "CallLog \<Rightarrow> int \<times> int \<times> int" where
  "billed_row l \<equiv> multipliedTokenBreakdown (cl_prompt_tokens l) (cl_completion_tokens l) (cl_multiplier_used l)"

abbreviation raw_row :: "CallLog \<Rightarrow> int \<times> int \<times> int" where
  "raw_row l \<equiv> (cl_prompt_tokens l, cl_completion_tokens l, cl_raw_total_tokens l)"

text \<open>The first loop: one row of the main query.\<close>

definition add_row :: "CallLog \<Rightarrow> CallStats \<Rightarrow> CallStats" where
  "add_row l s = s\<lparr>
     cs_total_calls := cs_total_calls s + 1,
     cs_tokens := add_tokens (billed_row l) (cs_tokens s),
     cs_raw_tokens := add_tokens (raw_row l) (cs_raw_tokens s),
     cs_effective_calls := cs_effective_calls s + cl_effective_calls l,
     cs_success := (cs_success s)\<lparr>
       ss_success := ss_success (cs_success s) +
         (if 200 \<le> cl_status_code l \<and> cl_status_code l < 300 then 1 else 0),
       ss_error := ss_error (cs_success s) + (if 400 \<le> cl_status_code l then 1 else 0)\<rparr>\<rparr>"

definition empty_stats :: CallStats where
  "empty_stats = \<lparr>cs_total_calls = 0, cs_tokens = no_tokens, cs_raw_tokens = no_tokens,
     cs_effective_calls = 0, cs_success = \<lparr>ss_success = 0, ss_error = 0, ss_rate = 0\<rparr>,
     cs_by_model = [], cs_by_user = []\<rparr>"

text \<open>The two other loops fill a map of entries, one per key.\<close>

fun bucket_rows :: "('r \<Rightarrow> 'k) \<Rightarrow> ('r \<Rightarrow> 'e) \<Rightarrow> ('r \<Rightarrow> 'e \<Rightarrow> 'e) \<Rightarrow> 'r list \<Rightarrow> ('k, 'e) gomap \<Rightarrow> ('k, 'e) gomap" where
  "bucket_rows key fresh add [] m = m"
| "bucket_rows key fresh add (r # rs) m =
     bucket_rows key fresh add rs
       (gm_put (key r) (add r (case map_of m (key r) of Some e \<Rightarrow> e | None \<Rightarrow> fresh r)) m)"

definition model_key :: "CallLog \<Rightarrow> string" where "model_key l = to_lower (cl_model l)"

definition fresh_model :: "CallLog \<Rightarrow> ModelBreakdown" where
  "fresh_model l = \<lparr>mb_model = model_key l, mb_calls = 0, mb_tokens = no_tokens\<rparr>"

definition add_model :: "CallLog \<Rightarrow> ModelBreakdown \<Rightarrow> ModelBreakdown" where
  "add_model l e = e\<lparr>mb_calls := mb_calls e + 1, mb_tokens := add_tokens (billed_row l) (mb_tokens e)\<rparr>"

definition fresh_user :: "db \<Rightarrow> CallLog \<Rightarrow> UserBreakdown" where
  "fresh_user db l = \<lparr>ub_user_id = cl_user_id l, ub_username = username_of db (cl_user_id l),
     ub_calls = 0, ub_effective_calls = 0, ub_tokens = no_tokens\<rparr>"

definition add_user :: "CallLog \<Rightarrow> UserBreakdown \<Rightarrow> UserBreakdown" where
  "add_user l e = e\<lparr>ub_calls := ub_calls e + 1, ub_tokens := add_tokens (billed_row l) (ub_tokens e),
     ub_effective_calls := ub_effective_calls e + cl_effective_calls l\<rparr>"

text \<open>The entries in the order of the range, then sorted by calls.\<close>

definition range_entries :: "('k list \<Rightarrow> 'k list) \<Rightarrow> ('k, 'e) gomap \<Rightarrow> 'e list" where
  "range_entries order m = List.map_filter (map_of m) (order (map fst m))"

definition AggregateCallStats ::
  "(string list \<Rightarrow> string list) \<Rightarrow> (int list \<Rightarrow> int list) \<Rightarrow> CallLogFilter \<Rightarrow> CallStats op" where
  "AggregateCallStats model_order user_order f =
     and_then (sql_query '''' (\<lambda>db. fold add_row (filtered_calls f db) empty_stats)) (\<lambda>s0.
     let total = cs_total_calls s0;
         s1 = (if 0 < total then s0\<lparr>cs_success := (cs_success s0)\<lparr>ss_rate :=
             f_mul (f_div (f_of_int (ss_success (cs_success s0))) (f_of_int total)) 100\<rparr>\<rparr> else s0)
     in and_then (sql_query '''' (\<lambda>db. bucket_rows model_key fresh_model add_model (filtered_calls f db) []))
          (\<lambda>bm. and_then (sql_query ''''
             (\<lambda>db. bucket_rows cl_user_id (fresh_user db) add_user (filtered_calls f db) []))
          (\<lambda>bu db. (Ok (s1\<lparr>
             cs_by_model := slice_stable (\<lambda>a b. mb_calls b < mb_calls a) (range_entries model_order bm),
             cs_by_user := slice_stable (\<lambda>a b. ub_calls b < ub_calls a) (range_entries user_order bu)\<rparr>), db))))"

section \<open>The list of models\<close>

definition DistinctModels :: "string list op" where
  "DistinctModels = sql_query ''''
     (\<lambda>db. sort (remdups (map model_key (filter (\<lambda>l. cl_model l \<noteq> '''') (call_logs db)))))"

section \<open>What bucketing promises\<close>

lemma map_filter_Some:
  "(\<And>k. k \<in> set ks \<Longrightarrow> f k \<noteq> None) \<Longrightarrow> List.map_filter f ks = map (\<lambda>k. the (f k)) ks"
  by (induction ks) (auto simp: List.map_filter_simps split: option.splits)

text \<open>Entries that count: a fresh entry measures zero and adding a row adds the row's weight, in
  every dimension \<open>i\<close>.\<close>

locale counting_buckets =
  fixes key :: "'r \<Rightarrow> 'k" and fresh :: "'r \<Rightarrow> 'e" and add :: "'r \<Rightarrow> 'e \<Rightarrow> 'e"
    and label :: "'e \<Rightarrow> 'k" and meas :: "'i \<Rightarrow> 'e \<Rightarrow> int" and weight :: "'i \<Rightarrow> 'r \<Rightarrow> int"
  assumes meas_fresh: "meas i (fresh r) = 0"
    and meas_add: "meas i (add r e) = meas i e + weight i r"
    and label_fresh: "label (fresh r) = key r"
    and label_add: "label (add r e) = label e"
begin

definition tally :: "'i \<Rightarrow> 'k \<Rightarrow> 'r list \<Rightarrow> int" where
  "tally i k rs = sum_list (map (weight i) (filter (\<lambda>r. key r = k) rs))"

definition fits :: "('k, 'e) gomap \<Rightarrow> 'r list \<Rightarrow> bool" where
  "fits m rs \<longleftrightarrow> gm_ok m \<and> fst ` set m = key ` set rs \<and>
     (\<forall>k e. map_of m k = Some e \<longrightarrow> label e = k \<and> (\<forall>i. meas i e = tally i k rs))"

lemma fits_put:
  assumes "fits m ds"
  shows "fits (gm_put (key r) (add r (case map_of m (key r) of Some e \<Rightarrow> e | None \<Rightarrow> fresh r)) m) (ds @ [r])"
proof -
  have n: "tally i (key r) ds = 0" if "map_of m (key r) = None" for i
  proof -
    have "key r \<notin> key ` set ds" using assms that by (auto simp: fits_def map_of_eq_None_iff)
    then have "filter (\<lambda>x. key x = key r) ds = []" unfolding filter_empty_conv by (metis image_eqI)
    then show ?thesis by (simp add: tally_def)
  qed
  show ?thesis
    using assms n
    by (auto simp: fits_def gm_ok_put set_fst_gm_put meas_add meas_fresh label_add label_fresh tally_def
        split: option.splits)
qed

lemma fits_rows: "fits m ds \<Longrightarrow> fits (bucket_rows key fresh add rs m) (ds @ rs)"
proof (induction rs arbitrary: m ds)
  case (Cons r rs)
  from Cons.IH [OF fits_put [OF Cons.prems]] show ?case by simp
qed simp

lemma fits_all: "fits (bucket_rows key fresh add rs []) rs"
proof -
  have "fits [] []" by (simp add: fits_def gm_ok_def)
  from fits_rows [OF this, of rs] show ?thesis by simp
qed

lemma tally_sum:
  assumes "distinct ks" "key ` set rs \<subseteq> set ks"
  shows "sum_list (map (\<lambda>k. tally i k rs) ks) = sum_list (map (weight i) rs)"
  using assms(2)
proof (induction rs)
  case Nil
  then show ?case by (simp add: tally_def)
next
  case (Cons r rs)
  have "tally i k (r # rs) = (if k = key r then weight i r else 0) + tally i k rs" for k
    by (simp add: tally_def)
  then have "sum_list (map (\<lambda>k. tally i k (r # rs)) ks)
      = sum_list (map (\<lambda>k. if k = key r then weight i r else 0) ks) + sum_list (map (\<lambda>k. tally i k rs) ks)"
    by (simp add: sum_list_addf)
  moreover have "sum_list (map (\<lambda>k. if k = key r then weight i r else 0) ks) = weight i r"
    using assms(1) Cons.prems by (simp add: sum_list_distinct_conv_sum_set sum.delta)
  ultimately show ?case using Cons by simp
qed

text \<open>Whatever the order of the range, the entries are one per key, each tallies its rows, and
  together they tally all.\<close>

lemma range_tallies:
  fixes order :: "'k list \<Rightarrow> 'k list" and rs :: "'r list"
  assumes "\<And>ks. mset (order ks) = mset ks"
  defines "es \<equiv> range_entries order (bucket_rows key fresh add rs [])"
  shows "e \<in> set es \<Longrightarrow> meas i e = tally i (label e) rs"
    and "sum_list (map (meas i) es) = sum_list (map (weight i) rs)"
    and "distinct (map label es)" "label ` set es = key ` set rs"
proof -
  let ?m = "bucket_rows key fresh add rs []"
  let ?ks = "order (map fst ?m)"
  have f: "fits ?m rs" by (rule fits_all)
  have d: "distinct ?ks" "set ?ks = fst ` set ?m"
    using assms(1) [of "map fst ?m"] f
    by (metis fits_def gm_ok_def distinct_count_atmost_1 mset_eq_setD set_map)
      (metis assms(1) mset_eq_setD set_map)
  have look: "\<exists>e. map_of ?m k = Some e \<and> label e = k \<and> (\<forall>i. meas i e = tally i k rs)" if "k \<in> set ?ks" for k
  proof -
    have "map_of ?m k \<noteq> None" using that d(2) by (simp add: map_of_eq_None_iff)
    then show ?thesis using f by (fastforce simp: fits_def)
  qed
  have es: "es = map (\<lambda>k. the (map_of ?m k)) ?ks"
    unfolding es_def range_entries_def using look by (intro map_filter_Some) fastforce
  have l: "label (the (map_of ?m k)) = k" "meas i (the (map_of ?m k)) = tally i k rs" if "k \<in> set ?ks" for k i
    using look [OF that] by auto
  have lab: "map label es = ?ks" by (simp add: es l map_idI)
  show "e \<in> set es \<Longrightarrow> meas i e = tally i (label e) rs" by (auto simp: es l)
  have "map (meas i) es = map (\<lambda>k. tally i k rs) ?ks" by (simp add: es l)
  then show "sum_list (map (meas i) es) = sum_list (map (weight i) rs)"
    using tally_sum [OF d(1), of rs i] f d(2) by (simp add: fits_def)
  show "distinct (map label es)" using d(1) lab by simp
  show "label ` set es = key ` set rs" using f d(2) lab by (metis fits_def set_map)
qed

end

text \<open>The dimensions of an entry.\<close>

datatype dim = Calls | Prompt | Completion | Total | Effective

fun token_dim :: "dim \<Rightarrow> TokenBreakdown \<Rightarrow> int" where
  "token_dim Prompt t = tb_prompt t"
| "token_dim Completion t = tb_completion t"
| "token_dim Total t = tb_total t"
| "token_dim _ t = 0"

definition row_weight :: "dim \<Rightarrow> CallLog \<Rightarrow> int" where
  "row_weight d l = (case billed_row l of (p, c, b) \<Rightarrow>
     (case d of Calls \<Rightarrow> 1 | Prompt \<Rightarrow> p | Completion \<Rightarrow> c | Total \<Rightarrow> b | Effective \<Rightarrow> cl_effective_calls l))"

definition model_dim :: "dim \<Rightarrow> ModelBreakdown \<Rightarrow> int" where
  "model_dim d e = (case d of Calls \<Rightarrow> mb_calls e | Effective \<Rightarrow> 0 | _ \<Rightarrow> token_dim d (mb_tokens e))"

definition user_dim :: "dim \<Rightarrow> UserBreakdown \<Rightarrow> int" where
  "user_dim d e = (case d of Calls \<Rightarrow> ub_calls e | Effective \<Rightarrow> ub_effective_calls e
     | _ \<Rightarrow> token_dim d (ub_tokens e))"

definition stats_dim :: "dim \<Rightarrow> CallStats \<Rightarrow> int" where
  "stats_dim d s = (case d of Calls \<Rightarrow> cs_total_calls s | Effective \<Rightarrow> cs_effective_calls s
     | _ \<Rightarrow> token_dim d (cs_tokens s))"

lemma token_dim_simps [simp]:
  "token_dim d no_tokens = 0"
  "token_dim d (add_tokens x t) = token_dim d t + (case x of (p, c, b) \<Rightarrow>
     (case d of Prompt \<Rightarrow> p | Completion \<Rightarrow> c | Total \<Rightarrow> b | _ \<Rightarrow> 0))"
  by (cases d; cases x; simp add: no_tokens_def add_tokens_def)+

interpretation model_buckets: counting_buckets model_key fresh_model add_model mb_model
  model_dim "\<lambda>d l. if d = Effective then 0 else row_weight d l"
  by unfold_locales
    (auto simp: model_dim_def fresh_model_def add_model_def row_weight_def split: dim.splits prod.splits)

interpretation user_buckets: counting_buckets cl_user_id "fresh_user db" add_user ub_user_id
  user_dim row_weight for db
  by unfold_locales
    (auto simp: user_dim_def fresh_user_def add_user_def row_weight_def split: dim.splits prod.splits)

interpretation by_calls: comparator "\<lambda>a b :: ModelBreakdown. mb_calls b < mb_calls a"
  by unfold_locales auto

interpretation by_calls_user: comparator "\<lambda>a b :: UserBreakdown. ub_calls b < ub_calls a"
  by unfold_locales auto

lemma mset_insert_stable: "mset (insert_stable lt x ys) = add_mset x (mset ys)"
  by (induction lt x ys rule: insert_stable.induct) auto

lemma mset_slice_stable [simp]: "mset (slice_stable lt xs) = mset xs"
  by (induction xs) (auto simp: mset_insert_stable)

lemma sum_slice_stable [simp]:
  fixes f :: "'a \<Rightarrow> int"
  shows "sum_list (map f (slice_stable lt xs)) = sum_list (map f xs)"
  by (metis mset_map mset_slice_stable sum_mset_sum_list)

lemma set_slice_stable [simp]: "set (slice_stable lt xs) = set xs"
  by (metis mset_slice_stable set_mset_mset)

lemma distinct_map_slice_stable [simp]: "distinct (map f (slice_stable lt xs)) = distinct (map f xs)"
  by (metis mset_map mset_slice_stable mset_eq_imp_distinct_iff)

text \<open>The main loop.\<close>

lemma main_rows:
  "stats_dim d (fold add_row rs s) = stats_dim d s + sum_list (map (row_weight d) rs)"
  "cs_raw_tokens (fold add_row rs s) = fold (\<lambda>l. add_tokens (raw_row l)) rs (cs_raw_tokens s)"
  "ss_success (cs_success (fold add_row rs s)) = ss_success (cs_success s) +
     int (length (filter (\<lambda>l. 200 \<le> cl_status_code l \<and> cl_status_code l < 300) rs))"
proof -
  have "stats_dim d (add_row l s) = stats_dim d s + row_weight d l" for l s
    by (cases d) (auto simp: stats_dim_def add_row_def row_weight_def split: prod.splits)
  then show "stats_dim d (fold add_row rs s) = stats_dim d s + sum_list (map (row_weight d) rs)"
    by (induction rs arbitrary: s) auto
  show "cs_raw_tokens (fold add_row rs s) = fold (\<lambda>l. add_tokens (raw_row l)) rs (cs_raw_tokens s)"
    by (induction rs arbitrary: s) (auto simp: add_row_def)
  show "ss_success (cs_success (fold add_row rs s)) = ss_success (cs_success s) +
     int (length (filter (\<lambda>l. 200 \<le> cl_status_code l \<and> cl_status_code l < 300) rs))"
    by (induction rs arbitrary: s) (auto simp: add_row_def)
qed

lemma stats_healthy:
  assumes "healthy db"
  shows "\<exists>s. AggregateCallStats om ou f db = (Ok s, db) \<and>
    (\<forall>d. stats_dim d s = sum_list (map (row_weight d) (filtered_calls f db))) \<and>
    cs_by_model s = slice_stable (\<lambda>a b. mb_calls b < mb_calls a)
      (range_entries om (bucket_rows model_key fresh_model add_model (filtered_calls f db) [])) \<and>
    cs_by_user s = slice_stable (\<lambda>a b. ub_calls b < ub_calls a)
      (range_entries ou (bucket_rows cl_user_id (fresh_user db) add_user (filtered_calls f db) []))"
proof -
  have "stats_dim d empty_stats = 0" for d
    by (cases d) (simp_all add: stats_dim_def empty_stats_def no_tokens_def)
  moreover have "stats_dim d (s\<lparr>cs_success := x\<rparr>) = stats_dim d s"
    "stats_dim d (s\<lparr>cs_by_model := m, cs_by_user := u\<rparr>) = stats_dim d s" for d s x m u
    by (cases d; simp add: stats_dim_def)+
  ultimately show ?thesis
    using assms by (simp add: AggregateCallStats_def and_then_def sql_query_healthy main_rows Let_def)
qed

end
