(* ===== verification/ProviderUsage.thy ===== *)
theory ProviderUsage
  imports CallStats
begin

text \<open>
  \<open>internal/models/provider_usage.go\<close>: the billing cycle of a provider, its usage and allocation, the
  attribution of automatically routed users, and the view the admin panel shows.  The joins use
  that \<open>quotas.user_id\<close> and \<open>users.id\<close> are unique.  SQLite computes \<open>REAL\<close> columns in doubles.
\<close>

section \<open>Windows\<close>

definition RollingWindowStart :: "gotime \<Rightarrow> string" where
  "RollingWindowStart now = fmt_rfc3339 (t_in shanghai_off (t_add now (- 30 * 24 * hour_ns)))"

text \<open>\<open>Duration.Hours\<close>.\<close>

definition dur_hours :: "duration \<Rightarrow> float64" where
  "dur_hours d = f_add (f_of_int (go_div d hour_ns)) (f_div (f_of_int (go_mod d hour_ns)) (of_int hour_ns))"

definition dur_days :: "duration \<Rightarrow> int" where
  "dur_days d = f_to_int (f_div (dur_hours d) 24)"

definition today_midnight :: "gotime \<Rightarrow> gotime" where
  "today_midnight now = go_date (t_year now) (t_month now) (t_day now) 0 0 0 0 shanghai_off"

definition CurrentCycleWindow :: "gotime \<Rightarrow> string \<Rightarrow> string \<times> string" where
  "CurrentCycleWindow nowT cycleStartDate =
     (let now = t_in shanghai_off nowT;
          cycleStart = (case parse_date_in shanghai_off cycleStartDate of
             Some t \<Rightarrow> t | None \<Rightarrow> today_midnight now);
          days = dur_days (t_sub now cycleStart);
          n = go_div days 30;
          n = (if n < 0 then 0 else n)
      in (fmt_date (t_add_days cycleStart (n * 30)), fmt_date (t_add_days cycleStart ((n + 1) * 30))))"

section \<open>Usage\<close>

record ProviderMonthlyUsage =
  pu_slug :: string
  pu_token_used :: int
  pu_call_used :: int

definition usage_of :: "string \<Rightarrow> CallLog list \<Rightarrow> ProviderMonthlyUsage" where
  "usage_of slug ls = \<lparr>pu_slug = slug,
     pu_token_used = sum_list (map (\<lambda>l. cl_prompt_tokens l + cl_completion_tokens l) ls),
     pu_call_used = sum_list (map cl_effective_calls ls)\<rparr>"

text \<open>\<open>GROUP BY provider_id\<close>.\<close>

definition AggregateProviderUsage :: "string \<Rightarrow> (string, ProviderMonthlyUsage) gomap op" where
  "AggregateProviderUsage windowStart = sql_query ''aggregate provider usage''
     (\<lambda>db. let ls = filter (\<lambda>l. windowStart \<le> cl_created_at l) (call_logs db)
           in map (\<lambda>slug. (slug, usage_of slug (filter (\<lambda>l. cl_provider_id l = slug) ls)))
                (remdups (map cl_provider_id ls)))"

definition GetProviderUsage :: "string \<Rightarrow> string \<Rightarrow> ProviderMonthlyUsage op" where
  "GetProviderUsage slug windowStart = sql_query ''get provider usage''
     (\<lambda>db. usage_of slug (filter (\<lambda>l. cl_provider_id l = slug \<and> windowStart \<le> cl_created_at l) (call_logs db)))"

section \<open>Allocation\<close>

record ProviderAllocation =
  pa_tokens :: int
  pa_calls :: int
  pa_unlimited :: int

text \<open>\<open>status = 'active' AND (expires_at = '' OR expires_at > datetime('now'))\<close>.\<close>

definition counts_now :: "gotime \<Rightarrow> User \<Rightarrow> bool" where
  "counts_now now u \<longleftrightarrow> u_status u = ''active'' \<and>
     (u_expires_at u = '''' \<or> sqlite_datetime now < u_expires_at u)"

text \<open>\<open>users JOIN quotas\<close>.\<close>

definition joined :: "(User \<Rightarrow> bool) \<Rightarrow> db \<Rightarrow> (User \<times> quota_row) list" where
  "joined P db = List.map_filter (\<lambda>u. map_option (Pair u) (select_one (is_user (u_id u)) (quotas db)))
     (filter P (users db))"

definition positive_sum :: "int list \<Rightarrow> int" where
  "positive_sum xs = sum_list (filter (\<lambda>x. 0 < x) xs)"

definition GetProviderAllocation :: "gotime \<Rightarrow> string \<Rightarrow> ProviderAllocation op" where
  "GetProviderAllocation now providerSlug = sql_query ''get provider allocation''
     (\<lambda>db. let qs = map snd (joined (\<lambda>u. u_fixed_provider u = providerSlug \<and> counts_now now u) db)
           in \<lparr>pa_tokens = positive_sum (map q_token_total_limit qs),
               pa_calls = positive_sum (map q_total_limit qs),
               pa_unlimited = int (length (filter (\<lambda>q. q_token_total_limit q = 0) qs))\<rparr>)"

text \<open>\<open>CAST((prompt_tokens + completion_tokens) * multiplier_used + 0.999999 AS INTEGER)\<close>.\<close>

definition sql_billed :: "CallLog \<Rightarrow> int" where
  "sql_billed l = f_to_int (f_add (f_mul (f_of_int (cl_prompt_tokens l + cl_completion_tokens l))
     (cl_multiplier_used l)) (round64 (999999 / 10 ^ 6)))"

record ProviderAllocationUser =
  au_username :: string
  au_status :: string
  au_created_at :: string
  au_expires_at :: string
  au_token_limit :: int
  au_call_limit :: int
  au_token_used :: int
  au_call_used :: int

definition allocation_user :: "db \<Rightarrow> string \<Rightarrow> User \<times> quota_row \<Rightarrow> ProviderAllocationUser" where
  "allocation_user db windowStart uq = (case uq of (u, q) \<Rightarrow>
     (let ls = filter (\<lambda>l. cl_user_id l = u_id u \<and> windowStart \<le> cl_created_at l) (call_logs db)
      in \<lparr>au_username = u_username u, au_status = u_status u, au_created_at = u_created_at u,
          au_expires_at = u_expires_at u, au_token_limit = q_token_total_limit q,
          au_call_limit = q_total_limit q, au_token_used = sum_list (map sql_billed ls),
          au_call_used = sum_list (map cl_effective_calls ls)\<rparr>))"

definition heavier_user :: "ProviderAllocationUser \<Rightarrow> ProviderAllocationUser \<Rightarrow> bool" where
  "heavier_user a b \<longleftrightarrow> au_token_used b < au_token_used a \<or>
     au_token_used a = au_token_used b \<and> au_username a < au_username b"

definition GetProviderAllocationDetails :: "gotime \<Rightarrow> string \<Rightarrow> string \<Rightarrow> ProviderAllocationUser list op" where
  "GetProviderAllocationDetails now providerSlug windowStart = sql_query ''get provider allocation details''
     (\<lambda>db. slice_stable heavier_user (map (allocation_user db windowStart)
        (joined (\<lambda>u. u_fixed_provider u = providerSlug \<and> counts_now now u) db)))"

section \<open>Automatically routed users\<close>

record AutoProviderLoad =
  ld_slug :: string
  ld_token_share :: int
  ld_call_share :: int
  ld_token_usage :: int
  ld_call_usage :: int

record AutoAllocationResult =
  ar_by_provider :: "AutoProviderLoad list"
  ar_pool_token :: int
  ar_pool_call :: int
  ar_unlimited :: int

text \<open>The usage of one user: provider, billed tokens, calls.\<close>

type_synonym provider_usage = "string \<times> int \<times> int"

definition auto_user :: "gotime \<Rightarrow> User \<Rightarrow> bool" where
  "auto_user now u \<longleftrightarrow> u_route_mode u = ''auto'' \<and> counts_now now u"

definition user_usage :: "CallLog list \<Rightarrow> provider_usage list" where
  "user_usage ls = map (\<lambda>slug. let ps = filter (\<lambda>l. cl_provider_id l = slug) ls
       in (slug, sum_list (map sql_billed ps), sum_list (map cl_effective_calls ps)))
     (remdups (map cl_provider_id ls))"

definition auto_usage :: "gotime \<Rightarrow> string \<Rightarrow> db \<Rightarrow> (int, provider_usage list) gomap" where
  "auto_usage now windowStart db =
     (let ls = filter (\<lambda>l. windowStart \<le> cl_created_at l \<and>
            (case select_one (with_id (cl_user_id l)) (users db) of None \<Rightarrow> False | Some u \<Rightarrow> auto_user now u))
          (call_logs db)
      in map (\<lambda>uid. (uid, user_usage (filter (\<lambda>l. cl_user_id l = uid) ls))) (remdups (map cl_user_id ls)))"

text \<open>One provider's part of a user's quotas.\<close>

definition share_of :: "int \<Rightarrow> int \<Rightarrow> int \<Rightarrow> int" where
  "share_of limit billed billedTotal =
     (if 0 < limit then f_round_int (f_mul (f_of_int limit) (f_div (f_of_int billed) (f_of_int billedTotal))) else 0)"

definition add_load :: "int \<Rightarrow> int \<Rightarrow> int \<Rightarrow> provider_usage \<Rightarrow> (string, AutoProviderLoad) gomap
    \<Rightarrow> (string, AutoProviderLoad) gomap" where
  "add_load tokenLimit callLimit billedTotal x m = (case x of (slug, billed, calls) \<Rightarrow>
     (let l = (case map_of m slug of Some l \<Rightarrow> l
          | None \<Rightarrow> \<lparr>ld_slug = slug, ld_token_share = 0, ld_call_share = 0, ld_token_usage = 0, ld_call_usage = 0\<rparr>)
      in gm_put slug (l\<lparr>
           ld_token_usage := ld_token_usage l + billed,
           ld_call_usage := ld_call_usage l + calls,
           ld_token_share := ld_token_share l + share_of tokenLimit billed billedTotal,
           ld_call_share := ld_call_share l + share_of callLimit billed billedTotal\<rparr>) m))"

definition distribute_user :: "(int, provider_usage list) gomap \<Rightarrow> int \<times> int \<times> int
    \<Rightarrow> (string, AutoProviderLoad) gomap \<Rightarrow> (string, AutoProviderLoad) gomap" where
  "distribute_user usage au m = (case au of (uid, tokenLimit, callLimit) \<Rightarrow>
     (case map_of usage uid of
        None \<Rightarrow> m
      | Some ups \<Rightarrow>
          (let billedTotal = sum_list (map (\<lambda>(slug, billed, calls). billed) ups) in
           if billedTotal \<le> 0 then m else fold (add_load tokenLimit callLimit billedTotal) ups m)))"

definition GetAutoUserAllocationByProvider :: "gotime \<Rightarrow> string \<Rightarrow> AutoAllocationResult op" where
  "GetAutoUserAllocationByProvider now windowStart =
     and_then (sql_query ''list auto users''
         (\<lambda>db. map (\<lambda>(u, q). (u_id u, q_token_total_limit q, q_total_limit q)) (joined (auto_user now) db)))
       (\<lambda>us. let res = \<lparr>ar_by_provider = [],
                ar_pool_token = sum_list (map (\<lambda>(i, t, c). t) us),
                ar_pool_call = positive_sum (map (\<lambda>(i, t, c). c) us),
                ar_unlimited = int (length (filter (\<lambda>(i, t, c). t = 0) us))\<rparr>
             in if us = [] then (\<lambda>db. (Ok res, db))
                else and_then (sql_query ''auto usage'' (auto_usage now windowStart))
                  (\<lambda>usage db. (Ok (res\<lparr>ar_by_provider :=
                     sort_key ld_slug (map snd (fold (distribute_user usage) us []))\<rparr>), db)))"

section \<open>The view\<close>

record ProviderUsageView =
  pv_slug :: string
  pv_name :: string
  pv_token_limit :: int
  pv_call_limit :: int
  pv_token_used :: int
  pv_token_remaining :: int
  pv_token_unlimited :: bool
  pv_call_used :: int
  pv_call_remaining :: int
  pv_call_unlimited :: bool
  pv_window_start :: string
  pv_token_low :: bool
  pv_call_low :: bool
  pv_allocated_tokens :: int
  pv_allocated_calls :: int
  pv_unlimited_users :: int
  pv_allocation_low :: bool
  pv_auto_tokens :: int
  pv_auto_calls :: int
  pv_auto_token_usage :: int
  pv_auto_call_usage :: int
  pv_cycle_start :: string
  pv_cycle_end :: string
  pv_days_remaining :: int

definition IsLowBalance :: "int \<Rightarrow> int \<Rightarrow> float64 \<Rightarrow> bool" where
  "IsLowBalance used limit remainingRatio =
     (if limit \<le> 0 then False
      else f_sub 1 remainingRatio \<le> f_div (f_of_int used) (f_of_int limit))"

definition days_left :: "gotime \<Rightarrow> string \<Rightarrow> int" where
  "days_left nowT cycleEnd = (case parse_date_in shanghai_off cycleEnd of
     None \<Rightarrow> 0
   | Some endTime \<Rightarrow>
       (let remaining = dur_days (t_sub endTime (today_midnight (t_in shanghai_off nowT)))
        in if remaining < 0 then 0 else remaining))"

definition BuildProviderUsageView ::
  "gotime \<Rightarrow> ProviderRecord \<Rightarrow> ProviderMonthlyUsage option \<Rightarrow> ProviderAllocation option
   \<Rightarrow> float64 \<Rightarrow> float64 \<Rightarrow> ProviderUsageView" where
  "BuildProviderUsageView now p used alloc globalToken globalCall =
     (let (cycleStart, cycleEnd) = CurrentCycleWindow now (p_cycle_start_date p);
          tokenUsed = (case used of None \<Rightarrow> 0 | Some u \<Rightarrow> pu_token_used u);
          callUsed = (case used of None \<Rightarrow> 0 | Some u \<Rightarrow> pu_call_used u);
          tl = p_monthly_token_limit p; cl = p_monthly_call_limit p;
          tokenRatio = (if 0 < p_monthly_token_low_ratio p then p_monthly_token_low_ratio p else globalToken);
          callRatio = (if 0 < p_monthly_call_low_ratio p then p_monthly_call_low_ratio p else globalCall)
      in \<lparr>pv_slug = p_slug p, pv_name = p_name p, pv_token_limit = tl, pv_call_limit = cl,
          pv_token_used = tokenUsed, pv_token_remaining = (if tl \<le> 0 then -1 else tl - tokenUsed),
          pv_token_unlimited = (tl \<le> 0), pv_call_used = callUsed,
          pv_call_remaining = (if cl \<le> 0 then -1 else cl - callUsed), pv_call_unlimited = (cl \<le> 0),
          pv_window_start = cycleStart,
          pv_token_low = IsLowBalance tokenUsed tl tokenRatio,
          pv_call_low = IsLowBalance callUsed cl callRatio,
          pv_allocated_tokens = (case alloc of None \<Rightarrow> 0 | Some a \<Rightarrow> pa_tokens a),
          pv_allocated_calls = (case alloc of None \<Rightarrow> 0 | Some a \<Rightarrow> pa_calls a),
          pv_unlimited_users = (case alloc of None \<Rightarrow> 0 | Some a \<Rightarrow> pa_unlimited a),
          pv_allocation_low = (case alloc of None \<Rightarrow> False
             | Some a \<Rightarrow> IsLowBalance (pa_tokens a) tl tokenRatio \<or> IsLowBalance (pa_calls a) cl callRatio),
          pv_auto_tokens = 0, pv_auto_calls = 0, pv_auto_token_usage = 0, pv_auto_call_usage = 0,
          pv_cycle_start = cycleStart, pv_cycle_end = cycleEnd,
          pv_days_remaining = days_left now cycleEnd\<rparr>)"

end
