(* ===== verification/StatsProperties.thy ===== *)
theory StatsProperties
  imports ProviderUsage StoreProperties
begin

text \<open>
  Properties of the statistics: the breakdowns of the call summary, the billing cycle that holds
  today, the two computations of a billed token count, who counts toward an allocation, and the
  attribution of automatically routed users.
\<close>

section \<open>The breakdowns\<close>




section \<open>The billing cycle\<close>

definition day_ns :: int where "day_ns = 24 * hour_ns"

lemma t_add_days_eq: "t_add_days t k = t\<lparr>instant := instant t + k * day_ns\<rparr>"
proof -
  let ?s = "days_from_civil (t_year t) (t_month t) (t_day t + k) * 86400 + t_hour t * 3600 +
    t_minute t * 60 + t_second t"
  have "days_from_civil (t_year t) (t_month t) (t_day t + k) = t_days t + k"
    using days_from_civil_civil [of "t_days t"]
    by (simp add: days_from_civil_def t_year_def t_month_def t_day_def)
  then have s: "?s = t_days t * 86400 + t_sod t + k * 86400"
    using hms_sod [of t] by simp
  have i: "(t_days t * 86400 + t_sod t - zone t) * sec_ns + instant t mod sec_ns = instant t"
    by (simp add: t_days_def t_sod_def t_secs_def sec_ns_def)
  have "(?s - zone t) * sec_ns + instant t mod sec_ns
      = (t_days t * 86400 + t_sod t - zone t) * sec_ns + instant t mod sec_ns + k * 86400 * sec_ns"
    unfolding s by (simp add: distrib_right left_diff_distrib)
  also have "\<dots> = instant t + k * day_ns"
    unfolding i by (simp add: day_ns_def hour_ns_def)
  finally show ?thesis
    by (simp add: t_add_days_def go_date_def)
qed

lemma ns_values: "hour_ns = 3600000000000" "day_ns = 86400000000000" "sec_ns = 1000000000"
  by (simp_all add: hour_ns_def day_ns_def sec_ns_def)

text \<open>Whole days, hours and the rest of a duration.\<close>

lemma days_and_hours:
  assumes "d mod day_ns \<le> day_ns - sec_ns"
  shows "24 * (d div day_ns) \<le> d div hour_ns" "d div hour_ns \<le> 24 * (d div day_ns) + 23"
    "d div hour_ns = 24 * (d div day_ns) + 23 \<Longrightarrow> d mod hour_ns \<le> hour_ns - sec_ns"
proof -
  have "d div hour_ns * hour_ns + d mod hour_ns = d" "d div day_ns * day_ns + d mod day_ns = d"
    "d mod day_ns < day_ns" "0 \<le> d mod day_ns" "0 \<le> d mod hour_ns" "d mod hour_ns < hour_ns"
    by (simp_all add: ns_values)
  with assms show "24 * (d div day_ns) \<le> d div hour_ns" "d div hour_ns \<le> 24 * (d div day_ns) + 23"
    "d div hour_ns = 24 * (d div day_ns) + 23 \<Longrightarrow> d mod hour_ns \<le> hour_ns - sec_ns"
    unfolding ns_values by linarith+
qed

lemma hour_fraction:
  fixes m :: int
  defines "f \<equiv> round64 (of_int m / of_int hour_ns)"
  assumes "0 \<le> m" "m < hour_ns"
  shows "0 \<le> f" "f \<le> 1" "m \<le> hour_ns - sec_ns \<Longrightarrow> f \<le> 4095 / 4096"
proof -
  show "0 \<le> f" using assms(2) by (simp add: f_def round64_nonneg ns_values)
  show "f \<le> 1" using round64_mono [of "of_int m / of_int hour_ns" 1] assms(3) by (simp add: f_def ns_values)
  assume "m \<le> hour_ns - sec_ns"
  then have "(of_int m :: rat) \<le> of_int (hour_ns - sec_ns)" by (simp only: of_int_le_iff)
  then have "of_int m / of_int hour_ns \<le> (4095 / 4096 :: rat)" by (simp add: ns_values)
  from round64_mono [OF this] round64_dyadic [of 4095 12] show "f \<le> 4095 / 4096" by (simp add: f_def)
qed

text \<open>The hours of a duration as the code computes them, short of the next day by more than rounding adds.\<close>

lemma hours_between:
  fixes h k :: int and f :: rat
  assumes "24 * k \<le> h" "h \<le> 24 * k + 23" "0 \<le> f" "f \<le> 1" "h = 24 * k + 23 \<Longrightarrow> f \<le> 4095 / 4096"
    and "0 \<le> k" "k \<le> 106751"
  shows "of_int (24 * k) \<le> round64 (of_int h + f)"
    "round64 (of_int h + f) \<le> of_int (24 * (k + 1) * 4096 - 1) / 4096"
proof -
  have "(of_int (24 * k) :: rat) \<le> of_int h" using assms(1) by (simp only: of_int_le_iff)
  then have "of_int (24 * k) \<le> of_int h + f" using assms(3) by linarith
  from round64_mono [OF this] round64_int [of "24 * k"] assms(6,7)
  show "of_int (24 * k) \<le> round64 (of_int h + f)" by simp
  have "of_int h + f \<le> of_int (24 * (k + 1) * 4096 - 1) / 4096"
  proof (cases "h = 24 * k + 23")
    case False
    then have "(of_int h :: rat) \<le> of_int (24 * k + 22)" using assms(2) by (simp only: of_int_le_iff)
    then show ?thesis using assms(4) by simp
  qed (use assms(5) in simp)
  from round64_mono [OF this] round64_dyadic [of "24 * (k + 1) * 4096 - 1" 12] assms(6,7)
  show "round64 (of_int h + f) \<le> of_int (24 * (k + 1) * 4096 - 1) / 4096" by simp
qed

lemma floor_of_days:
  fixes k :: int
  assumes "of_int (24 * k) \<le> H" "H \<le> of_int (24 * (k + 1) * 4096 - 1) / 4096" "0 \<le> k" "k \<le> 106751"
  shows "f_to_int (round64 (H / 24)) = k"
proof -
  have "of_int k \<le> H / 24" using assms(1) by simp
  from round64_mono [OF this] have L: "of_int k \<le> round64 (H / 24)"
    using round64_int [of k] assms(3,4) by simp
  have "H / 24 \<le> of_int ((k + 1) * 131072 - 1) / 131072" using assms(2) by simp
  from round64_mono [OF this] have "round64 (H / 24) \<le> of_int ((k + 1) * 131072 - 1) / 131072"
    using round64_dyadic [of "(k + 1) * 131072 - 1" 17] assms(3,4) by simp
  then have "round64 (H / 24) < of_int k + 1" by simp
  then have "\<lfloor>round64 (H / 24)\<rfloor> = k" using L by (simp add: floor_eq_iff)
  moreover have "0 \<le> round64 (H / 24)" using L assms(3) by (meson of_int_0_le_iff order_trans)
  ultimately show ?thesis by (simp add: f_to_int_def)
qed

text \<open>Whole days since a moment, but for the last second of a day, where the floating point
  quotient may round up.\<close>

lemma dur_days_floor:
  assumes "0 \<le> d" "d \<le> max_dur" "d mod day_ns \<le> day_ns - sec_ns"
  shows "dur_days d = d div day_ns"
proof -
  let ?k = "d div day_ns" and ?h = "d div hour_ns" and ?m = "d mod hour_ns"
  let ?f = "round64 (of_int ?m / of_int hour_ns)"
  have m: "0 \<le> ?m" "?m < hour_ns" by (simp_all add: ns_values)
  have "?h \<le> max_dur div hour_ns" "?k \<le> max_dur div day_ns"
    using assms(2) by (simp_all add: ns_values zdiv_mono1)
  then have h: "0 \<le> ?h" "?h \<le> 2562047" and k: "0 \<le> ?k" "?k \<le> 106751"
    using assms(1) by (simp_all add: ns_values max_dur_def pos_imp_zdiv_nonneg_iff)
  have "f_of_int ?h = of_int ?h" "f_of_int ?m = of_int ?m"
    using h m by (simp_all add: f_of_int_exact ns_values)
  moreover have "go_div d hour_ns = ?h" "go_mod d hour_ns = ?m"
    using assms(1) by (simp_all add: ns_values go_div_nonneg go_mod_nonneg)
  ultimately have "dur_days d = f_to_int (round64 (round64 (of_int ?h + ?f) / 24))"
    by (simp only: dur_days_def dur_hours_def f_add_def f_div_def)
  also have "\<dots> = ?k"
    using days_and_hours [OF assms(3)] hour_fraction [OF m] k
    by (intro floor_of_days hours_between) auto
  finally show ?thesis .
qed

text \<open>
  The billing cycle of a provider holds the present moment: its two dates are a whole
  number of thirty-day steps after the provider's anchor, thirty days apart, and now lies between
  them, as long as the anchor is not in the future and the day is not in its last second (where the
  floating point division of the code can round up to the next day).
\<close>

theorem cycle_window_holds_today:
  assumes "parse_date_in shanghai_off s = Some cs" "instant cs \<le> instant now"
    and "instant now - instant cs \<le> max_dur"
    and "(instant now - instant cs) mod day_ns \<le> day_ns - sec_ns"
  shows "\<exists>j \<ge> 0. CurrentCycleWindow now s
      = (fmt_date (t_add_days cs (30 * j)), fmt_date (t_add_days cs (30 * (j + 1)))) \<and>
    instant (t_add_days cs (30 * j)) \<le> instant now \<and>
    instant now < instant (t_add_days cs (30 * (j + 1)))"
proof -
  let ?d = "instant now - instant cs"
  have z: "zone (t_in shanghai_off now) = shanghai_off" "instant (t_in shanghai_off now) = instant now"
    by (simp_all add: t_in_def)
  have sub: "t_sub (t_in shanghai_off now) cs = ?d"
    using assms(2,3) z by (simp add: t_sub_def max_dur_def)
  have days: "dur_days ?d = ?d div day_ns"
    using dur_days_floor assms(2-4) by simp
  have pos: "0 < day_ns" by (simp add: day_ns_def hour_ns_def sec_ns_def)
  define j where "j = ?d div day_ns div 30"
  have j0: "0 \<le> j" using assms(2) pos by (simp add: j_def pos_imp_zdiv_nonneg_iff)
  have n: "go_div (?d div day_ns) 30 = j"
    using assms(2) pos by (simp add: j_def go_div_nonneg pos_imp_zdiv_nonneg_iff)
  have jd: "j = ?d div (day_ns * 30)" using pos by (simp add: j_def zdiv_zmult2_eq)
  have b: "j * (day_ns * 30) \<le> ?d" "?d < (j + 1) * (day_ns * 30)"
  proof -
    have "0 \<le> ?d mod (day_ns * 30)" "?d mod (day_ns * 30) < day_ns * 30"
      using pos by (simp_all add: pos_mod_sign pos_mod_bound)
    then show "j * (day_ns * 30) \<le> ?d" "?d < (j + 1) * (day_ns * 30)"
      unfolding jd distrib_right using div_mult_mod_eq [of ?d "day_ns * 30"] by linarith+
  qed
  show ?thesis
    using assms(1) j0 b
    by (intro exI [of _ j])
      (simp add: CurrentCycleWindow_def sub days n t_add_days_eq Let_def algebra_simps)
qed

lemma cycle_window_holds_today_witness:
  "\<exists>j \<ge> 0. CurrentCycleWindow epoch ''1970-01-01''
      = (fmt_date (t_add_days (go_date 1970 1 1 0 0 0 0 shanghai_off) (30 * j)),
         fmt_date (t_add_days (go_date 1970 1 1 0 0 0 0 shanghai_off) (30 * (j + 1))))"
proof -
  have p: "parse_date_in shanghai_off ''1970-01-01'' = Some (go_date 1970 1 1 0 0 0 0 shanghai_off)"
    by code_simp
  have i: "instant (go_date 1970 1 1 0 0 0 0 shanghai_off) = - 28800 * sec_ns" by code_simp
  have e: "instant epoch = 0" by (simp add: epoch_def)
  show ?thesis
    using cycle_window_holds_today [OF p, of epoch]
    by (simp add: i e sec_ns_def max_dur_def day_ns_def hour_ns_def) blast
qed


section \<open>Two ceilings\<close>

lemma sql_literal:
  "1 - 1 / 2 ^ 19 \<le> round64 (999999 / 10 ^ 6)" "round64 (999999 / 10 ^ 6) \<le> 1 - 1 / 2 ^ 20"
proof -
  have "(524287 / 2 ^ 19 :: rat) \<le> 999999 / 10 ^ 6" "999999 / 10 ^ 6 \<le> (1048575 / 2 ^ 20 :: rat)" by simp_all
  from this [THEN round64_mono] show "1 - 1 / 2 ^ 19 \<le> round64 (999999 / 10 ^ 6)"
    "round64 (999999 / 10 ^ 6) \<le> 1 - 1 / 2 ^ 20"
    using round64_dyadic [of 524287 19] round64_dyadic [of 1048575 20] by simp_all
qed

text \<open>
  The billed tokens of a call as the admin queries compute them in SQL (adding 0.999999
  and truncating) against the ceiling the gateway charges: up to 2^32 tokens they are never more and
  at most one less, and they agree whenever the product is a whole number or at least 2^-18 above one.
  They do differ: a hundred tokens at the multiplier 1.1 are charged as 111 and reported as 110, because the
  floating point product lies just above 110.
\<close>

theorem sql_ceiling_within_one:
  assumes "x = f_mul (f_of_int (cl_prompt_tokens l + cl_completion_tokens l)) (cl_multiplier_used l)"
    and "0 \<le> x" "x \<le> 2 ^ 32"
  shows "f_ceil_int x - 1 \<le> sql_billed l \<and> sql_billed l \<le> f_ceil_int x \<and>
    (of_int \<lfloor>x\<rfloor> = x \<or> of_int \<lfloor>x\<rfloor> + 1 / 2 ^ 18 \<le> x \<longrightarrow> sql_billed l = f_ceil_int x)"
proof -
  let ?r = "round64 (999999 / 10 ^ 6)"
  let ?y = "round64 (x + ?r)"
  define n where "n = \<lceil>x\<rceil>"
  have n: "0 \<le> n" "n \<le> 2 ^ 32" "x \<le> of_int n" "of_int n < x + 1"
    using assms(2,3) unfolding n_def by (simp_all add: ceiling_le_iff) linarith+
  have "x + ?r \<le> of_int ((n + 1) * 2 ^ 20 - 1) / 2 ^ 20"
  proof -
    have "x + ?r \<le> of_int n + (1 - 1 / 2 ^ 20)" using n(3) sql_literal(2) by linarith
    then show ?thesis by (simp add: field_simps)
  qed
  from round64_mono [OF this] have up: "?y < of_int n + 1"
    using round64_dyadic [of "(n + 1) * 2 ^ 20 - 1" 20] n(1,2) by simp
  have lo: "of_int k \<le> ?y" if "of_int k \<le> x + ?r" "\<bar>k\<bar> \<le> 2 ^ 53" for k
    using round64_mono [OF that(1)] round64_int [OF that(2)] by simp
  have y0: "0 \<le> ?y" using lo [of 0] assms(2) sql_literal(1) by simp
  have s: "sql_billed l = \<lfloor>?y\<rfloor>"
    using y0 by (simp add: sql_billed_def assms(1) [symmetric] f_add_def f_to_int_def)
  have "of_int (n - 1) \<le> ?y" using n sql_literal(1) by (intro lo) auto
  then have b: "n - 1 \<le> \<lfloor>?y\<rfloor>" by (simp only: le_floor_iff)
  have t: "\<lfloor>?y\<rfloor> \<le> n" using up by (simp add: floor_le_iff)
  have e: "n \<le> \<lfloor>?y\<rfloor>" if "of_int \<lfloor>x\<rfloor> = x \<or> of_int \<lfloor>x\<rfloor> + 1 / 2 ^ 18 \<le> x"
  proof -
    have "of_int n \<le> x + ?r"
    proof (cases "of_int \<lfloor>x\<rfloor> = x")
      case True
      then have "of_int n = x" unfolding n_def by (metis ceiling_of_int)
      then show ?thesis using sql_literal(1) by simp
    next
      case False
      then have "of_int n = of_int \<lfloor>x\<rfloor> + (1 :: rat)" by (simp add: n_def ceiling_altdef)
      then show ?thesis using that False sql_literal(1) by simp
    qed
    then have "of_int n \<le> ?y" using n by (intro lo) auto
    then show ?thesis by (simp only: le_floor_iff)
  qed
  show ?thesis using b t e by (auto simp: s f_ceil_int_def n_def)
qed

definition hundred :: CallLog where
  "hundred = \<lparr>cl_id = 1, cl_user_id = 7, cl_username = '''', cl_model = ''m'', cl_provider_id = ''z'',
     cl_prompt_tokens = 40, cl_completion_tokens = 60, cl_total_tokens = 100, cl_raw_total_tokens = 100,
     cl_effective_calls = 2, cl_multiplier_used = round64 (11 / 10), cl_status_code = 200,
     cl_latency_ms = 0, cl_error_msg = '''', cl_created_at = ''2026-07-01T00:00:00+08:00''\<rparr>"

lemma sql_ceiling_differs: "sql_billed hundred = 110" "snd (snd (billed_row hundred)) = 111"
  by code_simp+

lemma sql_ceiling_within_one_witness: "111 - 1 \<le> sql_billed hundred \<and> sql_billed hundred \<le> 111"
proof -
  let ?x = "f_mul (f_of_int (cl_prompt_tokens hundred + cl_completion_tokens hundred)) (cl_multiplier_used hundred)"
  have "0 \<le> ?x" "?x \<le> 2 ^ 32" "f_ceil_int ?x = 111" by code_simp+
  with sql_ceiling_within_one [OF refl this(1,2)] show ?thesis by simp
qed

section \<open>Who counts toward an allocation\<close>

text \<open>
  The test \<open>expires_at > datetime('now')\<close> compares a time of the form
  \<open>2026-07-10T00:00:00+08:00\<close> with one of the form \<open>2026-07-10 05:00:00\<close>, so only the dates decide: an
  active account counts toward its provider's allocation exactly while the UTC date of now is not
  after the local date of its expiry, whatever the hours, although its key stopped working at the
  instant of the expiry.
\<close>

theorem allocation_compares_dates:
  assumes "u_expires_at u = fmt_rfc3339 e" "fmt_range e" "fmt_range (t_utc now)"
  shows "counts_now now u \<longleftrightarrow> u_status u = ''active'' \<and> t_days (t_utc now) \<le> t_days e"
proof -
  let ?a = "fmt_date (t_utc now)" and ?b = "fmt_date e"
  have "sqlite_datetime now < fmt_rfc3339 e \<longleftrightarrow> ?a < ?b \<or> ?a = ?b"
    using length_fmt_date [of "t_utc now"] length_fmt_date [of e] assms(2,3)
    by (simp add: sqlite_datetime_def fmt_rfc3339_def Let_def less_append_iff)
  moreover have "?a < ?b \<longleftrightarrow> t_days (t_utc now) < t_days e" "?b < ?a \<longleftrightarrow> t_days e < t_days (t_utc now)"
    using assms(2,3) by (simp_all add: fmt_date_less)
  moreover have "fmt_rfc3339 e \<noteq> ''''" by (simp add: fmt_rfc3339_def)
  ultimately show ?thesis
    using assms(1) by (auto simp: counts_now_def)
qed


definition july :: "int \<Rightarrow> int \<Rightarrow> int \<Rightarrow> gotime" where
  "july d h off = go_date 2026 7 d h 0 0 0 off"

definition expired_user :: User where
  "expired_user = \<lparr>u_id = 7, u_username = ''amy'', u_password_hash = '''', u_sub_key_hash = '''',
     u_sub_key_preview = '''', u_role = ''user'', u_status = ''active'', u_created_at = '''',
     u_updated_at = '''', u_expires_at = fmt_rfc3339 (july 10 0 shanghai_off), u_route_mode = ''fixed'',
     u_fixed_provider = ''z'', u_max_body_size = 0, u_max_concurrency = 0\<rparr>"

text \<open>Expired at four in the afternoon of July 9 (UTC), counted through July 10.\<close>

lemma allocation_compares_dates_witness:
  "instant (july 10 0 shanghai_off) < instant (july 10 23 0) \<and> counts_now (july 10 23 0) expired_user"
proof -
  have "fmt_range (july 10 0 shanghai_off)" "fmt_range (t_utc (july 10 23 0))"
    "t_days (t_utc (july 10 23 0)) \<le> t_days (july 10 0 shanghai_off)"
    "instant (july 10 0 shanghai_off) < instant (july 10 23 0)"
    by code_simp+
  with allocation_compares_dates [of expired_user "july 10 0 shanghai_off" "july 10 23 0"] show ?thesis
    by (simp add: expired_user_def)
qed

section \<open>Automatically routed users\<close>

lemma errors_add:
  fixes a b p q e f :: rat
  assumes "\<bar>a - p\<bar> \<le> e" "\<bar>b - q\<bar> \<le> f"
  shows "\<bar>(a + b) - (p + q)\<bar> \<le> e + f"
  using assms by linarith

lemma share_error:
  assumes "0 \<le> limit" "limit \<le> 2 ^ 50" "0 \<le> b" "b \<le> t" "0 < t" "t \<le> 2 ^ 53"
  shows "\<bar>of_int (share_of limit b t) - of_int limit * of_int b / of_int t :: rat\<bar> \<le> 3 / 4"
proof (cases "limit = 0")
  case True
  then show ?thesis by (simp add: share_of_def)
next
  case False
  let ?q = "of_int b / of_int t :: rat"
  let ?s = "round64 ?q"
  let ?y = "round64 (of_int limit * ?s)"
  have q: "0 \<le> ?q" "?q \<le> 1" using assms(3-5) by simp_all
  have s: "\<bar>?s - ?q\<bar> \<le> 1 / 2 ^ 53" "0 \<le> ?s" "?s \<le> 1"
    using round64_error [OF q(1)] q(2) round64_nonneg [OF q(1)] round64_mono [OF q(2)] by simp_all
  have l: "0 < (of_int limit :: rat)" "(of_int limit :: rat) \<le> 2 ^ 50"
    using assms(1,2) False by simp (metis assms(2) of_int_le_iff of_int_numeral of_int_power)
  have ls: "0 \<le> of_int limit * ?s" "of_int limit * ?s \<le> 2 ^ 50"
  proof -
    show "0 \<le> of_int limit * ?s" using l(1) s(2) by (intro mult_nonneg_nonneg) simp_all
    have "of_int limit * ?s \<le> of_int limit * 1" using l(1) s(3) by (intro mult_left_mono) simp_all
    with l(2) show "of_int limit * ?s \<le> 2 ^ 50" by linarith
  qed
  have "\<bar>?y - of_int limit * ?s\<bar> \<le> 1 / 8"
    using round64_error [OF ls(1)] ls(2) by simp
  moreover have "\<bar>of_int limit * ?s - of_int limit * ?q\<bar> \<le> 1 / 8"
  proof -
    have "\<bar>of_int limit * ?s - of_int limit * ?q\<bar> = of_int limit * \<bar>?s - ?q\<bar>"
      using l(1) by (simp add: abs_mult right_diff_distrib [symmetric] del: times_divide_eq_right)
    also have "\<dots> \<le> 2 ^ 50 * (1 / 2 ^ 53)"
      using l s(1) by (intro mult_mono) auto
    finally show ?thesis by simp
  qed
  moreover have "share_of limit b t = f_round_int ?y"
    using assms False by (simp add: share_of_def f_mul_def f_div_def f_of_int_exact)
  moreover have "\<bar>of_int (f_round_int ?y) - ?y\<bar> \<le> 1 / 2" by (rule f_round_int_error)
  ultimately show ?thesis
    using errors_add [of ?y "of_int limit * ?s" "1/8" "of_int limit * ?s" "of_int limit * ?q" "1/8"]
      errors_add [of "of_int (f_round_int ?y)" ?y "1/2" ?y "of_int limit * ?q" "1/4"]
    by simp
qed

text \<open>What one user adds to all providers together.\<close>

definition all_token_shares :: "(string, AutoProviderLoad) gomap \<Rightarrow> int" where
  "all_token_shares m = sum_list (map (\<lambda>(k, l). ld_token_share l) m)"

lemma all_shares_put:
  "gm_ok m \<Longrightarrow> all_token_shares (gm_put k l m)
    = all_token_shares m - (case map_of m k of Some o' \<Rightarrow> ld_token_share o' | None \<Rightarrow> 0) + ld_token_share l"
  by (induction k l m rule: gm_put.induct)
    (auto simp: all_token_shares_def gm_ok_def split: option.splits dest: map_of_SomeD)

lemma all_shares_add:
  assumes "gm_ok m"
  shows "gm_ok (fold (add_load ql qc t) ups m) \<and>
    all_token_shares (fold (add_load ql qc t) ups m)
      = all_token_shares m + sum_list (map (\<lambda>(slug, b, c). share_of ql b t) ups)"
  using assms
proof (induction ups arbitrary: m)
  case (Cons x ups)
  obtain slug b c where x: "x = (slug, b, c)" by (cases x)
  have "gm_ok (add_load ql qc t x m)" "all_token_shares (add_load ql qc t x m) = all_token_shares m + share_of ql b t"
    using Cons.prems by (simp_all add: add_load_def x gm_ok_put all_shares_put Let_def split: option.splits)
  with Cons.IH [of "add_load ql qc t x m"] show ?case by (simp add: x)
qed simp

text \<open>
  Property C31.  The token quota of an automatically routed user is attributed to the providers in
  proportion to its usage, but each share is rounded on its own: together the shares stay within one
  token per provider of the quota.  Both directions happen, so the quota is not always counted
  exactly once: a quota of one token used evenly on two providers is attributed twice.
\<close>

theorem auto_shares_add_up:
  assumes "map_of usage uid = Some ups" "gm_ok m" "0 \<le> limit" "limit \<le> 2 ^ 50"
    and "\<forall>(slug, b, c) \<in> set ups. 0 \<le> b"
    and "used = sum_list (map (\<lambda>(slug, b, c). b) ups)" "0 < used" "used \<le> 2 ^ 53"
  shows "\<bar>all_token_shares (distribute_user usage (uid, limit, callLimit) m) - all_token_shares m - limit\<bar>
    \<le> int (length ups)"
proof -
  let ?sh = "sum_list (map (\<lambda>(slug, b, c). share_of limit b used) ups)"
  have d: "all_token_shares (distribute_user usage (uid, limit, callLimit) m) = all_token_shares m + ?sh"
    using assms(1,6,7) all_shares_add [OF assms(2)] by (simp add: distribute_user_def Let_def)
  have "\<bar>of_int (sum_list (map (\<lambda>(slug, b, c). share_of limit b used) xs)) -
      of_int limit * of_int (sum_list (map (\<lambda>(slug, b, c). b) xs)) / of_int used\<bar>
      \<le> (3 / 4 * of_nat (length xs) :: rat)"
    if "set xs \<subseteq> set ups" for xs
    using that
  proof (induction xs)
    case (Cons x xs)
    obtain slug b c where x: "x = (slug, b, c)" by (cases x)
    have "(slug, b, c) \<in> set ups" using Cons.prems x by simp
    then have "0 \<le> b" "b \<le> used"
      using assms(5,6) member_le_sum_list [of b "map (\<lambda>(slug, b, c). b) ups"]
      by force+
    then have "\<bar>of_int (share_of limit b used) - of_int limit * of_int b / of_int used\<bar> \<le> (3 / 4 :: rat)"
      using share_error [OF assms(3,4) _ _ assms(7,8)] by blast
    from errors_add [OF this Cons.IH] Cons.prems show ?case
      by (simp add: x add_divide_distrib distrib_left distrib_right)
  qed simp
  from this [of ups] have "\<bar>of_int ?sh - of_int limit\<bar> \<le> (3 / 4 * of_nat (length ups) :: rat)"
    using assms(6,7) by simp
  then have "of_int \<bar>?sh - limit\<bar> \<le> (of_int (int (length ups)) :: rat)" by simp
  then show ?thesis by (simp only: d of_int_le_iff)
qed

lemma auto_shares_add_up_witness:
  "\<bar>all_token_shares (distribute_user [(7, [(''a'', 50, 1), (''b'', 50, 1)])] (7, 1, 0) []) - 0 - 1\<bar> \<le> int 2"
  using auto_shares_add_up [of "[(7, [(''a'', 50, 1), (''b'', 50, 1)])]" 7 "[(''a'', 50, 1), (''b'', 50, 1)]" "[]" 1 100 0]
  by (simp add: gm_ok_def all_token_shares_def)

lemma even_split_counts_twice:
  "all_token_shares (distribute_user [(7, [(''a'', 50, 1), (''b'', 50, 1)])] (7, 1, 0) []) = 2"
  by code_simp

end
