(* ===== verification/Panel.thy ===== *)
theory Panel
  imports Passthrough JsonRaw CallStats ProviderUsage
begin

text \<open>
  The vocabulary of the admin panel and the self-service endpoints (\<open>internal/admin\<close>,
  \<open>internal/handler\<close>): handlers as sequences of steps that may answer early, query parameters, the
  JSON of the records they return, and the environment of a request.  A request body arrives decoded
  into its request struct, with \<open>None\<close> for a body that does not decode.
\<close>

section \<open>Handlers\<close>

text \<open>The fields of \<open>Handler\<close> the operations use.  \<open>pn_ratios\<close> are the two thresholds of the
  configuration, absent when there is none.\<close>

record panel =
  pn_crypto :: crypto
  pn_kek :: bytes
  pn_salt :: string
  pn_has_db :: bool
  pn_ratios :: "(float64 \<times> float64) option"
  pn_session_hours :: int

text \<open>What differs from request to request: the time, the random bytes of a key, of an encryption
  nonce and of a session token, and the order of ranges over maps.\<close>

record moment =
  mo_now :: gotime
  mo_key_bytes :: bytes
  mo_nonce :: "bytes option"
  mo_token_bytes :: bytes
  mo_order :: "string list \<Rightarrow> string list"
  mo_user_order :: "int list \<Rightarrow> int list"

text \<open>A step answers the request, or goes on with a value.\<close>

type_synonym 'a step = "db \<Rightarrow> (outcome + 'a) \<times> db"

definition go_on :: "'a \<Rightarrow> 'a step" where "go_on x db = (Inr x, db)"

definition answer :: "response \<Rightarrow> 'a step" where "answer r db = (Inl (Answered r), db)"

definition panic :: "'a step" where "panic db = (Inl Panicked, db)"

definition then_step :: "'a step \<Rightarrow> ('a \<Rightarrow> 'b step) \<Rightarrow> 'b step" where
  "then_step m k db = (case m db of (Inl r, db1) \<Rightarrow> (Inl r, db1) | (Inr x, db1) \<Rightarrow> k x db1)"

text \<open>\<open>if err != nil { writeJSON(...); return }\<close>.\<close>

definition or_answer :: "'a op \<Rightarrow> (goerr \<Rightarrow> response) \<Rightarrow> 'a step" where
  "or_answer m bad db = (case m db of (Inl e, db1) \<Rightarrow> (Inl (Answered (bad e)), db1) | (Inr x, db1) \<Rightarrow> (Inr x, db1))"

text \<open>A call whose error leaves the value absent.\<close>

definition or_absent :: "'a op \<Rightarrow> 'a option step" where
  "or_absent m db = (case m db of (Inl e, db1) \<Rightarrow> (Inr None, db1) | (Inr x, db1) \<Rightarrow> (Inr (Some x), db1))"

definition reject_if :: "bool \<Rightarrow> response \<Rightarrow> unit step" where
  "reject_if b r = (if b then answer r else go_on ())"

definition note_down :: "(db \<Rightarrow> db) \<Rightarrow> unit step" where
  "note_down f db = (Inr (), f db)"

definition skip_step :: "unit step" where "skip_step = go_on ()"

text \<open>The whole handler.\<close>

definition respond :: "response step \<Rightarrow> db \<Rightarrow> outcome \<times> db" where
  "respond m db = (case m db of (Inl r, db1) \<Rightarrow> (r, db1) | (Inr r, db1) \<Rightarrow> (Answered r, db1))"

lemma then_step_simps [simp]:
  "then_step (go_on x) k = k x" "then_step (answer r) j db = (Inl (Answered r), db)"
  "then_step (reject_if b r) m db = (if b then (Inl (Answered r), db) else m () db)"
  "then_step (note_down f) m db = m () (f db)"
  "then_step skip_step m db = m () db"
  by (auto simp: then_step_def go_on_def answer_def reject_if_def note_down_def skip_step_def fun_eq_iff)

lemma respond_simps [simp]:
  "respond (answer r) db = (Answered r, db)" "respond (go_on r) db = (Answered r, db)"
  by (simp_all add: respond_def answer_def go_on_def)

lemma then_step_cases [consumes 1, case_names early ok]:
  assumes "then_step m k db = (r, db')"
  obtains o1 where "m db = (Inl o1, db')" "r = Inl o1"
    | x db1 where "m db = (Inr x, db1)" "k x db1 = (r, db')"
  using assms by (auto simp: then_step_def split: prod.splits sum.splits)

text \<open>What error texts begin with; the driver's own message after the context is not modelled.\<close>

definition err_text :: "goerr \<Rightarrow> string" where
  "err_text e = (case e of DbErr s \<Rightarrow> s | UniqueErr s \<Rightarrow> s @ '': UNIQUE constraint failed'' | GoErr s \<Rightarrow> s)"

section \<open>Query parameters\<close>

type_synonym query = "(string, string) gomap"

definition q_get :: "query \<Rightarrow> string \<Rightarrow> string" where
  "q_get q k = (case map_of q k of Some v \<Rightarrow> v | None \<Rightarrow> '''')"

text \<open>\<open>strconv.ParseInt\<close> and \<open>Atoi\<close> with the error ignored: 0 for a syntax error, the nearest bound
  when out of range.\<close>

definition parse_int_lax :: "string \<Rightarrow> int" where
  "parse_int_lax s =
     (let neg = has_prefix s ''-'';
          ds = (if neg \<or> has_prefix s ''+'' then drop 1 s else s)
      in if ds = '''' \<or> \<not> list_all is_digit ds then 0
         else max (- (2 ^ 63)) (min (2 ^ 63 - 1) (if neg then - int (dec_val ds) else int (dec_val ds))))"

lemma parse_int_lax_exact: "parse_int64 s = Some n \<Longrightarrow> parse_int_lax s = n"
  by (auto simp: parse_int64_def parse_int_lax_def Let_def split: if_splits)

section \<open>fmt\<close>

text \<open>\<open>%v\<close> of a \<open>float64\<close>: the shortest decimal, with an exponent of at least two digits below 1e-4
  and from 1e6.\<close>

definition fmt_v_pos :: "float64 \<Rightarrow> string" where
  "fmt_v_pos x =
     (let (d, e) = shortest 17 1 x;
          ds = strip_zeros (itoa d);
          point = int (length (itoa d)) + e
      in if point - 1 < - 4 \<or> 6 \<le> point - 1 then
           [hd ds] @ (if length ds = 1 then [] else ''.'' @ drop 1 ds) @ ''e'' @
           (if point - 1 < 0 then ''-'' else ''+'') @ append_int 2 \<bar>point - 1\<bar>
         else if point \<le> 0 then ''0.'' @ replicate (nat (- point)) (CHR ''0'') @ ds
         else if int (length ds) \<le> point then ds @ replicate (nat (point - int (length ds))) (CHR ''0'')
         else take (nat point) ds @ ''.'' @ drop (nat point) ds)"

definition fmt_v :: "float64 \<Rightarrow> string" where
  "fmt_v x = (if x = 0 then ''0'' else if x < 0 then CHR ''-'' # fmt_v_pos (- x) else fmt_v_pos x)"

text \<open>\<open>%q\<close> of a text whose characters beyond ASCII are printable UTF-8.\<close>

definition quote_char :: "char \<Rightarrow> string" where
  "quote_char c = (let n = of_char c :: nat in
     if n = 34 then [CHR 0x5C, CHR 0x22] else if n = 92 then [CHR 0x5C, CHR 0x5C]
     else if n = 7 then [CHR 0x5C, CHR ''a''] else if n = 8 then [CHR 0x5C, CHR ''b'']
     else if n = 9 then [CHR 0x5C, CHR ''t''] else if n = 10 then [CHR 0x5C, CHR ''n'']
     else if n = 11 then [CHR 0x5C, CHR ''v''] else if n = 12 then [CHR 0x5C, CHR ''f'']
     else if n = 13 then [CHR 0x5C, CHR ''r'']
     else if n < 32 \<or> n = 127 then [CHR 0x5C, CHR ''x'', hex_digit (n div 16), hex_digit (n mod 16)]
     else [c])"

definition go_quote :: "string \<Rightarrow> string" where
  "go_quote s = quoted (concat (map quote_char s))"

text \<open>\<open>%v\<close> of a map of updates: its members sorted by key.  The members are printed texts.\<close>

definition fmt_map :: "(string \<times> string option) list \<Rightarrow> string" where
  "fmt_map ms = ''map['' @
     str_join (map (\<lambda>(k, v). k @ '':'' @ v)
       (sort_key fst (List.map_filter (\<lambda>(k, v). map_option (Pair k) v) ms))) '' '' @ '']''"

definition fmt_bytes :: "bytes \<Rightarrow> string" where
  "fmt_bytes bs = ''['' @ str_join (map (\<lambda>b. itoa (int b)) bs) '' '' @ '']''"

definition arrow :: string where
  "arrow = '' '' @ map char_of [226, 134, 146 :: nat] @ '' ''"

section \<open>The JSON of records\<close>

text \<open>Field by field, by the tags of the structs; the order of members carries no meaning.\<close>

definition user_members :: "'a User_scheme \<Rightarrow> (string \<times> json) list" where
  "user_members u =
     [(''id'', JInt (u_id u)), (''username'', JStr (u_username u)),
      (''sub_key_preview'', JStr (u_sub_key_preview u)), (''role'', JStr (u_role u)),
      (''status'', JStr (u_status u)), (''created_at'', JStr (u_created_at u)),
      (''updated_at'', JStr (u_updated_at u)), (''expires_at'', JStr (u_expires_at u)),
      (''route_mode'', JStr (u_route_mode u)), (''fixed_provider'', JStr (u_fixed_provider u)),
      (''max_body_size'', JInt (u_max_body_size u)), (''max_concurrency'', JInt (u_max_concurrency u))]"

definition nullable :: "('a \<Rightarrow> json) \<Rightarrow> 'a option \<Rightarrow> json" where
  "nullable f v = (case v of None \<Rightarrow> JNull | Some x \<Rightarrow> f x)"

definition user_json :: "UserWithQuota \<Rightarrow> json" where
  "user_json u = JObj (user_members u @
     [(''quota_5h_limit'', JInt (uwq_5h_limit u)), (''quota_5h_used'', JInt (uwq_5h_used u)),
      (''quota_total_limit'', JInt (uwq_total_limit u)), (''quota_total_used'', JInt (uwq_total_used u)),
      (''quota_token_total_limit'', JInt (uwq_token_total_limit u)),
      (''quota_token_total_used'', JInt (uwq_token_total_used u)),
      (''quota_token_5h_limit'', JInt (uwq_token_5h_limit u)),
      (''quota_token_5h_used'', JInt (uwq_token_5h_used u)),
      (''quota_token_week_limit'', JInt (uwq_token_week_limit u)),
      (''quota_token_week_used'', JInt (uwq_token_week_used u)),
      (''week_start'', JStr (uwq_week_start u)), (''total_tokens'', JInt (uwq_total_tokens u))] @
     (if uwq_sub_key u = '''' then [] else [(''sub_key'', JStr (uwq_sub_key u))]) @
     [(''fixed_multiplier'', nullable JFloat (uwq_fixed_multiplier u))])"

definition call_json :: "CallLog \<Rightarrow> json" where
  "call_json l = JObj
     ([(''id'', JInt (cl_id l)), (''user_id'', JInt (cl_user_id l)), (''username'', JStr (cl_username l)),
       (''model'', JStr (cl_model l)), (''provider_id'', JStr (cl_provider_id l)),
       (''prompt_tokens'', JInt (cl_prompt_tokens l)), (''completion_tokens'', JInt (cl_completion_tokens l)),
       (''total_tokens'', JInt (cl_total_tokens l)), (''raw_total_tokens'', JInt (cl_raw_total_tokens l)),
       (''effective_calls'', JInt (cl_effective_calls l)), (''multiplier_used'', JFloat (cl_multiplier_used l)),
       (''status_code'', JInt (cl_status_code l)), (''latency_ms'', JInt (cl_latency_ms l))] @
      (if cl_error_msg l = '''' then [] else [(''error_msg'', JStr (cl_error_msg l))]) @
      [(''created_at'', JStr (cl_created_at l))])"

definition page_json :: "CallLogPage \<Rightarrow> json" where
  "page_json p = JObj [(''data'', JArr (map call_json (pg_data p))),
     (''pagination'', JObj [(''page'', JInt (pg_page p)), (''limit'', JInt (pg_limit p)),
        (''total'', JInt (int (pg_total p)))])]"

definition tokens_json :: "TokenBreakdown \<Rightarrow> json" where
  "tokens_json t = JObj [(''prompt'', JInt (tb_prompt t)), (''completion'', JInt (tb_completion t)),
     (''total'', JInt (tb_total t))]"

definition stats_json :: "CallStats \<Rightarrow> json" where
  "stats_json s = JObj
     [(''total_calls'', JInt (cs_total_calls s)), (''tokens'', tokens_json (cs_tokens s)),
      (''raw_tokens'', tokens_json (cs_raw_tokens s)), (''effective_calls'', JInt (cs_effective_calls s)),
      (''success'', JObj [(''success_count'', JInt (ss_success (cs_success s))),
         (''error_count'', JInt (ss_error (cs_success s))), (''success_rate'', JFloat (ss_rate (cs_success s)))]),
      (''by_model'', JArr (map (\<lambda>m. JObj [(''model'', JStr (mb_model m)), (''calls'', JInt (mb_calls m)),
         (''tokens'', tokens_json (mb_tokens m))]) (cs_by_model s))),
      (''by_user'', JArr (map (\<lambda>u. JObj [(''user_id'', JInt (ub_user_id u)),
         (''username'', JStr (ub_username u)), (''calls'', JInt (ub_calls u)),
         (''effective_calls'', JInt (ub_effective_calls u)), (''tokens'', tokens_json (ub_tokens u))])
         (cs_by_user s)))]"

definition overview_json :: "DashboardOverview \<Rightarrow> json" where
  "overview_json d = JObj
     [(''total_users'', JInt (o_total_users d)), (''active_users'', JInt (o_active_users d)),
      (''total_calls'', JInt (o_total_calls d)), (''total_calls_today'', JInt (o_total_calls_today d)),
      (''avg_latency_ms'', JInt (o_avg_latency_ms d)), (''total_tokens_today'', JInt (o_total_tokens_today d)),
      (''expiring_soon'', JInt (o_expiring_soon d))]"

definition multiplier_json :: "TimeMultiplier \<Rightarrow> json" where
  "multiplier_json r = JObj
     [(''id'', JInt (tm_id r)), (''start_time'', JStr (tm_start_time r)), (''end_time'', JStr (tm_end_time r)),
      (''multiplier'', JFloat (tm_multiplier r)), (''days_of_week'', JStr (tm_days_of_week r)),
      (''enabled'', JBool (tm_enabled r)), (''created_at'', JStr (tm_created_at r))]"

text \<open>The encrypted key is never written; the masked view has its mask instead.\<close>

definition provider_members :: "ProviderRecord \<Rightarrow> (string \<times> json) list" where
  "provider_members p =
     [(''id'', JInt (p_id p)), (''name'', JStr (p_name p)), (''slug'', JStr (p_slug p)),
      (''endpoint'', JStr (p_endpoint p)), (''is_default'', JBool (p_is_default p)),
      (''enabled'', JBool (p_enabled p)), (''allow_passthrough'', JBool (p_allow_passthrough p)),
      (''auth_header'', JStr (p_auth_header p)), (''auth_scheme'', JStr (p_auth_scheme p)),
      (''extra_headers'', JStr (p_extra_headers p)), (''monthly_token_limit'', JInt (p_monthly_token_limit p)),
      (''monthly_call_limit'', JInt (p_monthly_call_limit p)),
      (''monthly_token_low_ratio'', JFloat (p_monthly_token_low_ratio p)),
      (''monthly_call_low_ratio'', JFloat (p_monthly_call_low_ratio p)),
      (''cycle_start_date'', JStr (p_cycle_start_date p)), (''created_at'', JStr (p_created_at p)),
      (''updated_at'', JStr (p_updated_at p))]"

definition provider_json :: "ProviderRecord \<Rightarrow> json" where
  "provider_json p = JObj (provider_members p)"

definition masked_json :: "ProviderRecord \<times> string \<Rightarrow> json" where
  "masked_json pm = (case pm of (p, masked) \<Rightarrow>
     JObj (provider_members p @ [(''masked_key'', JStr masked)]))"

definition mapping_json :: "ModelMappingRecord \<Rightarrow> json" where
  "mapping_json m = JObj
     [(''id'', JInt (mm_id m)), (''external'', JStr (mm_external m)), (''provider_id'', JStr (mm_provider_id m)),
      (''real_model'', JStr (mm_real_model m)), (''created_at'', JStr (mm_created_at m))]"

definition rule_json :: "RoutingRule \<Rightarrow> json" where
  "rule_json r = JObj
     ([(''id'', JInt (rr_id r)), (''provider_id'', JStr (rr_provider_id r)),
       (''start_time'', JStr (rr_start_time r)), (''end_time'', JStr (rr_end_time r)),
       (''days_of_week'', JStr (rr_days_of_week r)), (''timezone'', JStr (rr_timezone r)),
       (''enabled'', JBool (rr_enabled r)), (''priority'', JInt (rr_priority r))] @
      (if rr_default_provider_id r = '''' then []
       else [(''default_provider_id'', JStr (rr_default_provider_id r))]))"

definition audit_json :: "AuditLogRecord \<Rightarrow> json" where
  "audit_json a = JObj
     [(''id'', JInt (al_id a)), (''action'', JStr (al_action a)), (''target_type'', JStr (al_target_type a)),
      (''target_id'', JStr (al_target_id a)), (''detail'', JStr (al_detail a)),
      (''created_at'', JStr (al_created_at a))]"

definition allocation_json :: "ProviderAllocationUser \<Rightarrow> json" where
  "allocation_json a = JObj
     [(''username'', JStr (au_username a)), (''status'', JStr (au_status a)),
      (''created_at'', JStr (au_created_at a)), (''expires_at'', JStr (au_expires_at a)),
      (''quota_token_total_limit'', JInt (au_token_limit a)), (''quota_total_limit'', JInt (au_call_limit a)),
      (''token_used'', JInt (au_token_used a)), (''call_used'', JInt (au_call_used a))]"

definition view_json :: "ProviderUsageView \<Rightarrow> json" where
  "view_json v = JObj
     [(''slug'', JStr (pv_slug v)), (''name'', JStr (pv_name v)),
      (''monthly_token_limit'', JInt (pv_token_limit v)), (''monthly_call_limit'', JInt (pv_call_limit v)),
      (''token_used'', JInt (pv_token_used v)), (''token_remaining'', JInt (pv_token_remaining v)),
      (''token_unlimited'', JBool (pv_token_unlimited v)), (''call_used'', JInt (pv_call_used v)),
      (''call_remaining'', JInt (pv_call_remaining v)), (''call_unlimited'', JBool (pv_call_unlimited v)),
      (''window_start'', JStr (pv_window_start v)), (''token_low'', JBool (pv_token_low v)),
      (''call_low'', JBool (pv_call_low v)), (''allocated_tokens'', JInt (pv_allocated_tokens v)),
      (''allocated_calls'', JInt (pv_allocated_calls v)), (''unlimited_user_count'', JInt (pv_unlimited_users v)),
      (''allocation_low'', JBool (pv_allocation_low v)), (''auto_allocated_tokens'', JInt (pv_auto_tokens v)),
      (''auto_allocated_calls'', JInt (pv_auto_calls v)), (''auto_token_usage'', JInt (pv_auto_token_usage v)),
      (''auto_call_usage'', JInt (pv_auto_call_usage v)), (''cycle_start'', JStr (pv_cycle_start v)),
      (''cycle_end'', JStr (pv_cycle_end v)), (''cycle_days_remaining'', JInt (pv_days_remaining v))]"

text \<open>The path value of a route with an id.\<close>

definition path_id :: "string \<Rightarrow> string \<Rightarrow> int step" where
  "path_id idStr msg = (case parse_int64 idStr of
     None \<Rightarrow> answer (json_error 400 msg) | Some i \<Rightarrow> go_on i)"

definition decoded :: "'a option \<Rightarrow> 'a step" where
  "decoded body = (case body of None \<Rightarrow> answer (json_error 400 ''Invalid request body'') | Some r \<Rightarrow> go_on r)"

end
