(* ===== verification/AdminUsers.thy ===== *)
theory AdminUsers
  imports Panel
begin

text \<open>
  \<open>internal/admin/users.go\<close>: the account endpoints of the admin panel.  Each handler is the sequence of
  its steps; a step answers early or goes on.  Audit entries are inserted with their error ignored.
\<close>

section \<open>Creating an account\<close>

record createUserRequest =
  cu_username :: string
  cu_5h_limit :: int
  cu_total_limit :: int
  cu_token_total_limit :: int
  cu_token_5h_limit :: int
  cu_token_week_limit :: int
  cu_expires_at :: string
  cu_route_mode :: string
  cu_fixed_provider :: string
  cu_fixed_multiplier :: "float64 option"
  cu_max_body_size :: int
  cu_max_concurrency :: "int option"

definition msg_5h_negative :: string where
  "msg_5h_negative = ''quota_5h_limit must be >= 0 (0 = '' @ map char_of [228, 184, 141, 233,
      153, 144, 229, 136, 182 :: nat] @ '')''"

definition msg_total_negative :: string where
  "msg_total_negative = ''quota_total_limit must be >= 0 (0 = '' @ map char_of [228, 184, 141,
      233, 153, 144, 229, 136, 182 :: nat] @ '')''"

definition msg_conc_limit :: string where
  "msg_conc_limit = map char_of [229, 185, 182, 229, 143, 145, 228, 184, 138, 233, 153, 144, 228,
      184, 141, 232, 131, 189, 232, 182, 133, 232, 191, 135 :: nat] @ '' 200''"

definition clamp_body :: "int \<Rightarrow> int" where
  "clamp_body v =
     (let v = (if v \<le> 0 then DefaultMaxBodySize else v)
      in if MaxBodySizeCeiling < v then MaxBodySizeCeiling else v)"

text \<open>The checks before the insert, and what is inserted.\<close>

definition checked_concurrency :: "int option \<Rightarrow> int step" where
  "checked_concurrency mc = (case mc of
     None \<Rightarrow> go_on DefaultMaxConcurrency
   | Some v \<Rightarrow>
       then_step (reject_if (v < 0) (json_error 400 ''max_concurrency must be >= 0''))
         (\<lambda>_. then_step (reject_if (MaxConcurrencyHardLimit < v) (json_error 400 msg_conc_limit))
           (\<lambda>_. go_on v)))"

definition create_checks :: "createUserRequest option \<Rightarrow> (createUserRequest \<times> new_user) step" where
  "create_checks body = (case body of
     None \<Rightarrow> answer (json_error 400 ''Invalid request body'')
   | Some req \<Rightarrow>
       then_step (reject_if (cu_username req = '''') (json_error 400 ''Username is required''))
      (\<lambda>_. then_step (reject_if (cu_5h_limit req < 0) (json_error 400 msg_5h_negative))
      (\<lambda>_. then_step (reject_if (cu_total_limit req < 0) (json_error 400 msg_total_negative))
      (\<lambda>_. let req = (if cu_route_mode req = '''' then req\<lparr>cu_route_mode := ''auto''\<rparr> else req) in
        (case NormalizeExpiry (cu_expires_at req) of
           Inl e \<Rightarrow> answer (json_error 400 (err_text e))
         | Inr normExpires \<Rightarrow>
             then_step (checked_concurrency (cu_max_concurrency req))
               (\<lambda>maxConc.
                  let fm = (case cu_fixed_multiplier req of None \<Rightarrow> None
                            | Some m \<Rightarrow> if m \<le> 0 then None else Some m);
                      req = req\<lparr>cu_expires_at := normExpires, cu_fixed_multiplier := fm\<rparr>
                  in go_on (req,
                       \<lparr>nu_username = cu_username req, nu_password_hash = ''$2a$10$placeholder'',
                        nu_sub_key_hash = '''', nu_sub_key_preview = '''', nu_role = ''user'',
                        nu_status = ''active'', nu_expires_at = normExpires,
                        nu_route_mode = cu_route_mode req, nu_fixed_provider = cu_fixed_provider req,
                        nu_5h_limit = cu_5h_limit req, nu_total_limit = cu_total_limit req,
                        nu_fixed_multiplier = fm, nu_max_body_size = clamp_body (cu_max_body_size req),
                        nu_max_concurrency = maxConc\<rparr>)))))))"

definition isUniqueConstraintError :: "goerr \<Rightarrow> bool" where
  "isUniqueConstraintError e = (case e of UniqueErr _ \<Rightarrow> True | _ \<Rightarrow> False)"

definition create_failed :: "goerr \<Rightarrow> response" where
  "create_failed e = (if isUniqueConstraintError e then json_error 409 ''username already exists''
     else json_error 500 (''Failed to create user: '' @ err_text e))"

text \<open>The token caps are checked and written after the account exists.\<close>

definition token_caps :: "gotime \<Rightarrow> createUserRequest \<Rightarrow> int \<Rightarrow> unit step" where
  "token_caps now req uid =
     then_step (reject_if (cu_token_total_limit req < 0)
         (json_error 400 ''quota_token_total_limit must be >= 0''))
    (\<lambda>_. then_step (if 0 < cu_token_total_limit req
         then or_answer (UpdateQuotaTokenTotalLimit now uid (cu_token_total_limit req))
           (\<lambda>e. json_error 500 (''Failed to set token limit: '' @ err_text e))
         else skip_step)
    (\<lambda>_. then_step (reject_if (cu_token_5h_limit req < 0)
         (json_error 400 ''quota_token_5h_limit must be >= 0''))
    (\<lambda>_. then_step (reject_if (cu_token_week_limit req < 0)
         (json_error 400 ''quota_token_week_limit must be >= 0''))
    (\<lambda>_. if 0 < cu_token_5h_limit req \<or> 0 < cu_token_week_limit req
         then or_answer (UpdateQuotaTokenWindowLimits now uid (cu_token_5h_limit req) (cu_token_week_limit req))
           (\<lambda>e. json_error 500 (''Failed to set token window limits: '' @ err_text e))
         else skip_step))))"

text \<open>\<open>json.Marshal\<close> of a map: the keys sorted.\<close>

definition create_user_detail :: "createUserRequest \<Rightarrow> string" where
  "create_user_detail req = ''{'' @
     quoted ''fixed_multiplier'' @ '':'' @
       (case cu_fixed_multiplier req of None \<Rightarrow> ''null'' | Some m \<Rightarrow> float_text m) @ '','' @
     quoted ''fixed_provider'' @ '':'' @ quote_text (cu_fixed_provider req) @ '','' @
     quoted ''route_mode'' @ '':'' @ quote_text (cu_route_mode req) @ '','' @
     quoted ''username'' @ '':'' @ quote_text (cu_username req) @ ''}''"

definition created_json :: "createUserRequest \<Rightarrow> UserWithQuota \<Rightarrow> string \<Rightarrow> json" where
  "created_json req user subKey = JObj
     ([(''id'', JInt (u_id user)), (''username'', JStr (u_username user)), (''sub_key'', JStr subKey),
       (''sub_key_preview'', JStr (SubKeyPreview subKey)),
       (''quota_5h_limit'', JInt (uwq_5h_limit user)), (''quota_5h_used'', JInt (uwq_5h_used user)),
       (''quota_total_limit'', JInt (uwq_total_limit user)), (''quota_total_used'', JInt (uwq_total_used user)),
       (''quota_token_total_limit'', JInt (cu_token_total_limit req)), (''quota_token_total_used'', JInt 0),
       (''quota_token_5h_limit'', JInt (cu_token_5h_limit req)), (''quota_token_5h_used'', JInt 0),
       (''quota_token_week_limit'', JInt (cu_token_week_limit req)), (''quota_token_week_used'', JInt 0),
       (''route_mode'', JStr (u_route_mode user)), (''fixed_provider'', JStr (u_fixed_provider user)),
       (''status'', JStr (u_status user)), (''max_body_size'', JInt (u_max_body_size user)),
       (''max_concurrency'', JInt (u_max_concurrency user)), (''created_at'', JStr (u_created_at user))] @
      (case cu_fixed_multiplier req of None \<Rightarrow> [] | Some m \<Rightarrow> [(''fixed_multiplier'', JFloat m)]))"

definition HandleCreateUser :: "panel \<Rightarrow> moment \<Rightarrow> createUserRequest option \<Rightarrow> db \<Rightarrow> outcome \<times> db" where
  "HandleCreateUser pn mo body = respond
     (then_step (create_checks body)
     (\<lambda>(req, n). then_step (or_answer (CreateUser (mo_now mo) n) create_failed)
     (\<lambda>user. then_step (token_caps (mo_now mo) req (u_id user))
     (\<lambda>_. let subKey = GenerateSubKey (pn_crypto pn) (mo_key_bytes mo) (pn_salt pn) (u_id user) in
       then_step (or_answer (RegenerateUserKey (mo_now mo) (u_id user) (HashSubKey (pn_crypto pn) subKey)
            (SubKeyPreview subKey)) (\<lambda>e. json_error 500 ''Failed to set user key''))
     (\<lambda>_. then_step (note_down (WriteAudit (mo_now mo) ''user.create'' ''user'' (itoa (u_id user))
            (create_user_detail req)))
     (\<lambda>_. go_on (writeJSON 201 (created_json req user subKey))))))))"

definition HandleListUsers :: "db \<Rightarrow> outcome \<times> db" where
  "HandleListUsers = respond
     (then_step (or_answer ListUsers (\<lambda>e. json_error 500 ''Failed to list users''))
     (\<lambda>users. go_on (writeJSON 200 (JObj [(''data'',
        if users = [] then JNull else JArr (map user_json users))]))))"

section \<open>Updating an account\<close>

record updateUserRequest =
  up_5h_limit :: "int option"
  up_total_limit :: "int option"
  up_token_total_limit :: "int option"
  up_token_5h_limit :: "int option"
  up_token_week_limit :: "int option"
  up_status :: "string option"
  up_regenerate_key :: "bool option"
  up_route_mode :: "string option"
  up_fixed_provider :: "string option"
  up_fixed_multiplier :: "float64 option"
  up_fixed_multiplier_clear :: bool
  up_max_body_size :: "int option"
  up_max_concurrency :: "int option"

type_synonym members = "(string \<times> json) list"

definition is_negative :: "int option \<Rightarrow> bool" where
  "is_negative v = (case v of None \<Rightarrow> False | Some n \<Rightarrow> n < 0)"

definition limit_checks :: "updateUserRequest \<Rightarrow> unit step" where
  "limit_checks req =
     then_step (reject_if (is_negative (up_5h_limit req)) (json_error 400 msg_5h_negative))
    (\<lambda>_. then_step (reject_if (is_negative (up_total_limit req)) (json_error 400 msg_total_negative))
    (\<lambda>_. then_step (reject_if (is_negative (up_token_total_limit req))
         (json_error 400 ''quota_token_total_limit must be >= 0''))
    (\<lambda>_. then_step (reject_if (is_negative (up_token_5h_limit req))
         (json_error 400 ''quota_token_5h_limit must be >= 0''))
    (\<lambda>_. reject_if (is_negative (up_token_week_limit req))
         (json_error 400 ''quota_token_week_limit must be >= 0'')))))"

definition update_counts :: "gotime \<Rightarrow> int \<Rightarrow> updateUserRequest \<Rightarrow> members step" where
  "update_counts now uid req =
     (if up_5h_limit req \<noteq> None \<or> up_total_limit req \<noteq> None then
        then_step (or_answer (UpdateQuotaLimits now uid (up_5h_limit req) (up_total_limit req))
            (\<lambda>e. json_error 500 ''Failed to update quota''))
          (\<lambda>_. go_on [(''quota_updated'', JBool True)])
      else go_on [])"

text \<open>The reread quota is used without a test for a missing row.\<close>

definition reread :: "int \<Rightarrow> (Quota \<Rightarrow> members) \<Rightarrow> members step" where
  "reread uid f = then_step (or_absent (GetQuota uid))
     (\<lambda>q. case q of None \<Rightarrow> go_on [] | Some None \<Rightarrow> panic | Some (Some q) \<Rightarrow> go_on (f q))"

definition update_token_cap :: "gotime \<Rightarrow> int \<Rightarrow> updateUserRequest \<Rightarrow> members step" where
  "update_token_cap now uid req = (case up_token_total_limit req of
     None \<Rightarrow> go_on []
   | Some v \<Rightarrow>
       then_step (or_answer (UpdateQuotaTokenTotalLimit now uid v)
           (\<lambda>e. json_error 500 ''Failed to update token limit''))
         (\<lambda>_. reread uid (\<lambda>q. [(''quota_token_total_limit'', JInt (q_token_total_limit q)),
            (''quota_token_total_used'', JInt (q_token_total_used q))])))"

text \<open>A cap that is not in the request keeps its stored value.\<close>

definition update_window_caps :: "gotime \<Rightarrow> int \<Rightarrow> updateUserRequest \<Rightarrow> members step" where
  "update_window_caps now uid req =
     (if up_token_5h_limit req = None \<and> up_token_week_limit req = None then go_on []
      else then_step (or_absent (GetQuota uid))
        (\<lambda>cur. let (c5h, cw) = (case cur of Some (Some q) \<Rightarrow> (q_token_5h_limit q, q_token_week_limit q)
                                | _ \<Rightarrow> (0, 0));
                   t5h = value_or c5h (up_token_5h_limit req);
                   tw = value_or cw (up_token_week_limit req)
               in then_step (or_answer (UpdateQuotaTokenWindowLimits now uid t5h tw)
                    (\<lambda>e. json_error 500 ''Failed to update token window limits''))
                  (\<lambda>_. reread uid (\<lambda>q. [(''quota_token_5h_limit'', JInt (q_token_5h_limit q)),
                     (''quota_token_5h_used'', JInt (q_token_5h_used q)),
                     (''quota_token_week_limit'', JInt (q_token_week_limit q)),
                     (''quota_token_week_used'', JInt (q_token_week_used q))]))))"

definition update_status :: "gotime \<Rightarrow> int \<Rightarrow> updateUserRequest \<Rightarrow> members step" where
  "update_status now uid req = (case up_status req of
     None \<Rightarrow> go_on []
   | Some s \<Rightarrow>
       then_step (reject_if (s \<noteq> ''active'' \<and> s \<noteq> ''disabled'')
           (json_error 400 (''Status must be '' @ [CHR 0x27] @ ''active'' @ [CHR 0x27] @ '' or '' @
              [CHR 0x27] @ ''disabled'' @ [CHR 0x27])))
      (\<lambda>_. then_step (or_answer (UpdateUserStatus now uid s) (\<lambda>e. json_error 500 ''Failed to update status''))
      (\<lambda>_. go_on [(''status'', JStr s)])))"

text \<open>The flag says whether the route has changed.\<close>

definition update_route :: "gotime \<Rightarrow> User \<Rightarrow> updateUserRequest \<Rightarrow> (members \<times> bool) step" where
  "update_route now user req =
     (if up_route_mode req = None \<and> up_fixed_provider req = None then go_on ([], False)
      else if u_role user = ''admin'' then go_on ([], False)
      else let rm = value_or (u_route_mode user) (up_route_mode req);
               fp = value_or (u_fixed_provider user) (up_fixed_provider req)
           in then_step (or_answer (UpdateUserRoute now (u_id user) rm fp)
                (\<lambda>e. json_error 500 ''Failed to update route''))
              (\<lambda>_. go_on ([(''route_mode'', JStr rm), (''fixed_provider'', JStr fp)], True)))"

definition update_body_cap :: "gotime \<Rightarrow> int \<Rightarrow> updateUserRequest \<Rightarrow> members step" where
  "update_body_cap now uid req = (case up_max_body_size req of
     None \<Rightarrow> go_on []
   | Some v \<Rightarrow>
       then_step (or_answer (UpdateUserMaxBodySize now uid (clamp_body v))
           (\<lambda>e. json_error 500 ''Failed to update max body size''))
         (\<lambda>_. go_on [(''max_body_size'', JInt (clamp_body v))]))"

definition update_concurrency :: "gotime \<Rightarrow> int \<Rightarrow> updateUserRequest \<Rightarrow> members step" where
  "update_concurrency now uid req = (case up_max_concurrency req of
     None \<Rightarrow> go_on []
   | Some v \<Rightarrow>
       then_step (reject_if (v < 0) (json_error 400 ''max_concurrency must be >= 0''))
      (\<lambda>_. then_step (reject_if (MaxConcurrencyHardLimit < v) (json_error 400 msg_conc_limit))
      (\<lambda>_. then_step (or_answer (UpdateUserMaxConcurrency now uid v)
           (\<lambda>e. json_error 500 ''Failed to update max concurrency''))
      (\<lambda>_. then_step (note_down (WriteAudit now ''user.update'' ''user'' (itoa uid)
           (''max_concurrency'' @ arrow @ (if v = 0 then map char_of [228, 184, 141, 233, 153,
      144 :: nat] else itoa v))))
      (\<lambda>_. go_on [(''max_concurrency'', JInt v)])))))"

definition set_multiplier :: "gotime \<Rightarrow> int \<Rightarrow> float64 option \<Rightarrow> string \<Rightarrow> (members \<times> bool) step" where
  "set_multiplier now uid m msg =
     then_step (or_answer (UpdateFixedMultiplier now uid m) (\<lambda>e. json_error 500 msg))
       (\<lambda>_. go_on ([(''fixed_multiplier'', nullable JFloat m)], True))"

definition update_multiplier :: "gotime \<Rightarrow> int \<Rightarrow> updateUserRequest \<Rightarrow> (members \<times> bool) step" where
  "update_multiplier now uid req =
     (if up_fixed_multiplier_clear req
      then set_multiplier now uid None ''Failed to clear fixed multiplier''
      else case up_fixed_multiplier req of
        None \<Rightarrow> go_on ([], False)
      | Some m \<Rightarrow>
          if m \<le> 0 then set_multiplier now uid None ''Failed to clear fixed multiplier''
          else if m < round64 (1 / 10) \<or> 100 < m
          then answer (json_error 400 ''fixed_multiplier must be between 0.1 and 100.0'')
          else set_multiplier now uid (Some m) ''Failed to update fixed multiplier'')"

definition route_detail :: "User \<Rightarrow> updateUserRequest \<Rightarrow> string" where
  "route_detail user req = str_join
     ((case up_route_mode req of
         Some rm \<Rightarrow> if u_role user \<noteq> ''admin'' then [''route_mode: '' @ u_route_mode user @ arrow @ rm] else []
       | None \<Rightarrow> []) @
      (case up_fixed_provider req of
         Some fp \<Rightarrow> if u_role user \<noteq> ''admin''
           then [''fixed_provider: '' @ go_quote (u_fixed_provider user) @ arrow @ go_quote fp] else []
       | None \<Rightarrow> []) @
      (if up_fixed_multiplier_clear req then [''fixed_multiplier'' @ arrow @ ''cleared (NULL)'']
       else case up_fixed_multiplier req of
         Some m \<Rightarrow> [''fixed_multiplier'' @ arrow @ fmt_v m] | None \<Rightarrow> [])) ''; ''"

definition regenerate_key :: "panel \<Rightarrow> moment \<Rightarrow> int \<Rightarrow> updateUserRequest \<Rightarrow> members step" where
  "regenerate_key pn mo uid req =
     (if up_regenerate_key req = Some True then
        let newSubKey = GenerateSubKey (pn_crypto pn) (mo_key_bytes mo) (pn_salt pn) uid;
            preview = SubKeyPreview newSubKey
        in then_step (or_answer (RegenerateUserKey (mo_now mo) uid (HashSubKey (pn_crypto pn) newSubKey) preview)
               (\<lambda>e. json_error 500 ''Failed to regenerate key''))
             (\<lambda>_. go_on [(''new_sub_key'', JStr newSubKey), (''sub_key_preview'', JStr preview),
                (''old_key_disabled'', JBool True)])
      else go_on [])"

text \<open>A failed lookup and a missing account are both answered 404.\<close>

definition the_user :: "int \<Rightarrow> User step" where
  "the_user uid db = (case GetUserByID uid db of
     (Inr (Some u), db1) \<Rightarrow> (Inr u, db1)
   | (_, db1) \<Rightarrow> (Inl (Answered (json_error 404 ''User not found'')), db1))"

definition HandleUpdateUser ::
  "panel \<Rightarrow> moment \<Rightarrow> string \<Rightarrow> updateUserRequest option \<Rightarrow> db \<Rightarrow> outcome \<times> db" where
  "HandleUpdateUser pn mo idStr body = (let now = mo_now mo in respond
     (then_step (path_id idStr ''Invalid user ID'')
     (\<lambda>uid. then_step (decoded body)
     (\<lambda>req. then_step (the_user uid)
     (\<lambda>user. then_step (limit_checks req)
     (\<lambda>_. then_step (update_counts now uid req)
     (\<lambda>m1. then_step (update_token_cap now uid req)
     (\<lambda>m2. then_step (update_window_caps now uid req)
     (\<lambda>m3. then_step (update_status now uid req)
     (\<lambda>m4. then_step (update_route now user req)
     (\<lambda>(m5, r1). then_step (update_body_cap now uid req)
     (\<lambda>m6. then_step (update_concurrency now uid req)
     (\<lambda>m7. then_step (update_multiplier now uid req)
     (\<lambda>(m8, r2). then_step (if r1 \<or> r2
          then note_down (WriteAudit now ''user.route_update'' ''user'' (itoa uid) (route_detail user req))
          else skip_step)
     (\<lambda>_. then_step (regenerate_key pn mo uid req)
     (\<lambda>m9. go_on (writeJSON 200 (JObj (m1 @ m2 @ m3 @ m4 @ m5 @ m6 @ m7 @ m8 @ m9)))))))))))))))))))"

section \<open>The calls of an account\<close>

definition HandleGetUserCalls :: "string \<Rightarrow> query \<Rightarrow> db \<Rightarrow> outcome \<times> db" where
  "HandleGetUserCalls idStr q = respond
     (then_step (path_id idStr ''Invalid user ID'')
     (\<lambda>uid. then_step (or_answer (QueryCallLogs \<lparr>f_user_id = uid, f_provider_id = '''', f_model = '''',
            f_from = q_get q ''from'', f_to = q_get q ''to'',
            f_page = parse_int_lax (q_get q ''page''), f_limit = parse_int_lax (q_get q ''limit'')\<rparr>)
          (\<lambda>e. json_error 500 ''Failed to query call logs''))
     (\<lambda>page. go_on (writeJSON 200 (page_json page)))))"

section \<open>Extending an account\<close>

record extendUserRequest =
  eu_days :: int
  eu_until :: string
  eu_reset_token_stats :: bool

definition new_expiry :: "gotime \<Rightarrow> string \<Rightarrow> extendUserRequest \<Rightarrow> string step" where
  "new_expiry now oldExpiresAt req =
     (if eu_until req \<noteq> '''' then
        (case NormalizeExpiry (eu_until req) of
           Inl e \<Rightarrow> answer (json_error 400 (err_text e)) | Inr nrm \<Rightarrow> go_on nrm)
      else if 0 < eu_days req then
        let base = (if oldExpiresAt = '''' then now
                    else case ParseExpiry oldExpiresAt of Some p \<Rightarrow> p | None \<Rightarrow> now)
        in go_on (fmt_rfc3339 (t_add_days base (eu_days req)))
      else answer (json_error 400 (''Provide either '' @ [CHR 0x27] @ ''days'' @ [CHR 0x27] @ '' or '' @
        [CHR 0x27] @ ''until'' @ [CHR 0x27])))"

definition extend_detail :: "string \<Rightarrow> string \<Rightarrow> string" where
  "extend_detail oldExpiresAt newExpiresAt = ''expires_at: '' @
     (if oldExpiresAt = '''' then ''(permanent)'' else oldExpiresAt) @ arrow @ newExpiresAt"

definition reset_on_extend :: "gotime \<Rightarrow> int \<Rightarrow> db \<Rightarrow> db" where
  "reset_on_extend now uid db =
     (case ResetQuotaUsage now uid (fmt_rfc3339 (t_in shanghai_off now)) db of
        (Inl e, db1) \<Rightarrow> db1
      | (Inr _, db1) \<Rightarrow> WriteAudit (t_in shanghai_off now) ''quota_reset'' ''user'' (itoa uid)
          (''{'' @ quoted ''dimensions'' @ '':['' @ quoted ''calls'' @ '','' @ quoted ''tokens-5h'' @ '','' @
           quoted ''tokens-week'' @ '','' @ quoted ''tokens-month'' @ ''],'' @ quoted ''trigger'' @ '':'' @
           quoted ''extend'' @ '','' @ quoted ''operator'' @ '':'' @ quoted ''admin'' @ ''}'') db1)"

definition display_date :: "string \<Rightarrow> string" where
  "display_date newExpiresAt = (case parse_rfc3339 newExpiresAt of
     Some t \<Rightarrow> if 0 < instant t div sec_ns then fmt_date (t_in shanghai_off t) else newExpiresAt
   | None \<Rightarrow> newExpiresAt)"

definition HandleExtendUser :: "moment \<Rightarrow> string \<Rightarrow> extendUserRequest option \<Rightarrow> db \<Rightarrow> outcome \<times> db" where
  "HandleExtendUser mo idStr body = (let now = t_in shanghai_off (mo_now mo) in respond
     (then_step (path_id idStr ''Invalid user ID'')
     (\<lambda>uid. then_step (the_user uid)
     (\<lambda>user. then_step (reject_if (u_role user = ''admin'') (json_error 400 ''Admin users do not expire''))
     (\<lambda>_. then_step (decoded body)
     (\<lambda>req. then_step (new_expiry now (u_expires_at user) req)
     (\<lambda>newExpiresAt. then_step (or_answer (ExtendUserExpiry (mo_now mo) uid newExpiresAt)
          (\<lambda>e. json_error 500 ''Failed to extend user expiry''))
     (\<lambda>_. then_step (note_down (WriteAudit now ''extend'' ''user'' (itoa uid)
          (extend_detail (u_expires_at user) newExpiresAt)))
     (\<lambda>_. then_step (if eu_reset_token_stats req then note_down (reset_on_extend (mo_now mo) uid) else skip_step)
     (\<lambda>_. go_on (writeJSON 200 (JObj [(''expires_at'', JStr newExpiresAt),
        (''message'', JStr (map char_of [230, 156, 137, 230, 149, 136, 230, 156, 159, 229, 183,
      178, 230, 155, 180, 230, 150, 176, 232, 135, 179 :: nat] @ '' '' @ display_date newExpiresAt))]))))))))))))"

section \<open>Resetting usage\<close>

definition reset_scope :: "moment \<Rightarrow> int \<Rightarrow> string \<Rightarrow> unit op" where
  "reset_scope mo uid scope =
     (let nows = fmt_rfc3339 (mo_now mo) in
      if scope = ''calls'' then ResetCallCount (mo_now mo) uid nows
      else if scope = ''tokens'' then ResetTokenStats (mo_now mo) uid nows
      else ResetQuotaUsage (mo_now mo) uid nows)"

definition scope_dimensions :: "string \<Rightarrow> string list" where
  "scope_dimensions scope =
     (if scope = ''calls'' then [''calls'', ''tokens-5h-window'']
      else if scope = ''tokens'' then [''tokens-5h'', ''tokens-week'', ''tokens-month'']
      else [''calls'', ''tokens-5h'', ''tokens-week'', ''tokens-month''])"

definition scope_label :: "string \<Rightarrow> string" where
  "scope_label scope =
     (if scope = ''calls'' then map char_of [232, 176, 131, 231, 148, 168, 230, 172, 161, 230,
      149, 176 :: nat]
      else if scope = ''tokens'' then ''Token '' @ map char_of [231, 148, 168, 233, 135, 143 :: nat]
      else map char_of [229, 133, 168, 233, 131, 168, 231, 148, 168, 233, 135, 143 :: nat])"

definition HandleResetUsage :: "moment \<Rightarrow> string \<Rightarrow> query \<Rightarrow> db \<Rightarrow> outcome \<times> db" where
  "HandleResetUsage mo idStr q = respond
     (then_step (path_id idStr ''Invalid user ID'')
     (\<lambda>uid. then_step (the_user uid)
     (\<lambda>user. let scope = (if q_get q ''scope'' = '''' then ''all'' else q_get q ''scope'') in
       then_step (reject_if (scope \<noteq> ''all'' \<and> scope \<noteq> ''calls'' \<and> scope \<noteq> ''tokens'')
          (json_error 400 ''scope must be one of: all, calls, tokens''))
     (\<lambda>_. then_step (or_answer (reset_scope mo uid scope) (\<lambda>e. json_error 500 ''Failed to reset usage''))
     (\<lambda>_. then_step (note_down (WriteAudit (mo_now mo) ''quota_reset'' ''user'' (itoa uid)
          (''{'' @ quoted ''dimensions'' @ '':['' @ str_join (map quoted (scope_dimensions scope)) '','' @ ''],'' @
           quoted ''trigger'' @ '':'' @ quoted ''manual_reset'' @ '','' @
           quoted ''operator'' @ '':'' @ quoted ''admin'' @ ''}'')))
     (\<lambda>_. go_on (writeJSON 200 (JObj [(''message'', JStr (map char_of [231, 148, 168,
      230, 136, 183 :: nat] @ '' '' @ u_username user @ '' '' @
          map char_of [231, 154, 132, 227, 128, 140 :: nat] @ scope_label scope @ map char_of [227, 128, 141, 229, 183, 178, 233, 135, 141, 231, 189, 174 :: nat]))]))))))))"

section \<open>The weekly anchor\<close>

definition week_start_text :: "gotime \<Rightarrow> string \<Rightarrow> string step" where
  "week_start_text now ws =
     (if ws = '''' then go_on (fmt_rfc3339 (t_utc now))
      else if parse_rfc3339 ws = None
      then answer (json_error 400 ''invalid week_start (must be RFC3339 UTC)'')
      else go_on ws)"

definition anchor_of :: "Quota option option \<Rightarrow> string" where
  "anchor_of q = (case q of Some (Some q) \<Rightarrow> q_week_start q | _ \<Rightarrow> '''')"

definition anchor_moved :: "Quota option option \<Rightarrow> Quota option option \<Rightarrow> bool" where
  "anchor_moved before q = (case q of Some (Some q) \<Rightarrow> q_week_start q \<noteq> anchor_of before | _ \<Rightarrow> True)"

definition HandleSetUserWeekStart :: "moment \<Rightarrow> string \<Rightarrow> string option \<Rightarrow> db \<Rightarrow> outcome \<times> db" where
  "HandleSetUserWeekStart mo idStr body = (let now = mo_now mo in respond
     (then_step (path_id idStr ''invalid user id'')
     (\<lambda>uid. then_step (decoded body)
     (\<lambda>weekStart. then_step (week_start_text now weekStart)
     (\<lambda>ws. then_step (or_absent (GetQuota uid))
     (\<lambda>before. then_step (or_answer (SetQuotaWeekStart now uid ws)
          (\<lambda>e. json_error 500 (''set week start: '' @ err_text e)))
     (\<lambda>_. then_step (or_absent (GetQuota uid))
     (\<lambda>q. then_step (if anchor_moved before q
          then note_down (WriteAudit now ''quota_week_start_set'' ''user'' (itoa uid)
            (''{'' @ quoted ''user_id'' @ '':'' @ itoa uid @ '','' @
             quoted ''week_start'' @ '':'' @ quote_text ws @ ''}''))
          else skip_step)
     (\<lambda>_. let done_members = [(''quota_week_start_set'', JBool True), (''changed'', JBool (anchor_moved before q))]
        in case q of
          None \<Rightarrow> go_on (writeJSON 200 (JObj done_members))
        | Some None \<Rightarrow> panic
        | Some (Some q) \<Rightarrow> go_on (writeJSON 200 (JObj (done_members @
            [(''quota_week_start'', JStr (q_week_start q)),
             (''quota_token_week_used'', JInt (q_token_week_used q))]))))))))))))"

text \<open>Each account on its own; the results with the error of those that failed.\<close>

fun set_week_starts :: "gotime \<Rightarrow> string \<Rightarrow> int list \<Rightarrow> db \<Rightarrow> (int \<times> goerr option) list \<times> db" where
  "set_week_starts now ws [] db = ([], db)"
| "set_week_starts now ws (uid # uids) db =
     (case SetQuotaWeekStart now uid ws db of (r, db1) \<Rightarrow>
       (case set_week_starts now ws uids db1 of (rs, db2) \<Rightarrow>
         ((uid, case r of Inl e \<Rightarrow> Some e | Inr _ \<Rightarrow> None) # rs, db2)))"

record batchWeekStartRequest =
  bw_user_ids :: "int list"
  bw_week_start :: string

definition batch_result :: "int \<times> goerr option \<Rightarrow> json" where
  "batch_result r = (case r of (uid, e) \<Rightarrow> JObj
     ([(''id'', JInt uid), (''ok'', JBool (e = None))] @
      (case e of None \<Rightarrow> [] | Some e \<Rightarrow> [(''error'', JStr (err_text e))])))"

definition HandleBatchSetWeekStart ::
  "moment \<Rightarrow> batchWeekStartRequest option \<Rightarrow> db \<Rightarrow> outcome \<times> db" where
  "HandleBatchSetWeekStart mo body = (let now = mo_now mo in respond
     (then_step (decoded body)
     (\<lambda>req. then_step (reject_if (bw_user_ids req = []) (json_error 400 ''user_ids is required''))
     (\<lambda>_. then_step (reject_if (parse_rfc3339 (bw_week_start req) = None)
          (json_error 400 ''invalid week_start (must be RFC3339 UTC)''))
     (\<lambda>_. then_step (\<lambda>db. case set_week_starts now (bw_week_start req) (bw_user_ids req) db of
          (rs, db1) \<Rightarrow> (Inr rs, db1))
     (\<lambda>rs. let n = int (length (bw_user_ids req));
              succeeded = int (length (filter (\<lambda>(uid, e). e = None) rs)) in
       then_step (note_down (WriteAudit now ''quota_week_start_batch'' ''user'' ''0''
          (''{'' @ quoted ''failed'' @ '':'' @ itoa (n - succeeded) @ '','' @
           quoted ''succeeded'' @ '':'' @ itoa succeeded @ '','' @
           quoted ''user_ids'' @ '':['' @ str_join (map itoa (bw_user_ids req)) '','' @ ''],'' @
           quoted ''week_start'' @ '':'' @ quote_text (bw_week_start req) @ ''}'')))
     (\<lambda>_. go_on (writeJSON 200 (JObj [(''results'', JArr (map batch_result rs)),
        (''succeeded'', JInt succeeded), (''failed'', JInt (n - succeeded))])))))))))"

section \<open>Deleting an account\<close>

text \<open>The quota row and the call log of the account go with it (\<open>ON DELETE CASCADE\<close>), then the
  counter of its requests in flight.\<close>

definition delete_user :: "int \<Rightarrow> unit op" where
  "delete_user uid = sql_exec ''delete user''
     (\<lambda>db. db\<lparr>users := delete_where (with_id uid) (users db),
             quotas := delete_where (is_user uid) (quotas db),
             call_logs := delete_where (\<lambda>l. cl_user_id l = uid) (call_logs db)\<rparr>)"

definition delete_steps :: "string \<Rightarrow> int step" where
  "delete_steps idStr =
     then_step (path_id idStr ''Invalid user ID'')
    (\<lambda>uid. then_step (the_user uid)
    (\<lambda>user. then_step (reject_if (u_role user = ''admin'') (json_error 403 ''Cannot delete admin user''))
    (\<lambda>_. then_step (or_answer (delete_user uid) (\<lambda>e. json_error 500 ''Failed to delete user''))
    (\<lambda>_. go_on uid))))"

definition HandleDeleteUser :: "string \<Rightarrow> db \<Rightarrow> counters \<Rightarrow> (outcome \<times> db) \<times> counters" where
  "HandleDeleteUser idStr db cs =
     (case delete_steps idStr db of
        (Inl r, db1) \<Rightarrow> ((r, db1), cs)
      | (Inr uid, db1) \<Rightarrow>
          ((Answered (writeJSON 200 (JObj [(''message'', JStr ''User deleted'')])), db1),
           ForgetConcurrency uid cs))"

end
