(* ===== verification/AdminConsole.thy ===== *)
theory AdminConsole
  imports Panel
begin

text \<open>
  The other endpoints of the admin panel (\<open>internal/admin\<close>): providers, model mappings, routing rules,
  time multipliers, the audit trail, the call log, the dashboard and the usage of providers.  The
  handlers that change what the router works on reload its snapshot afterwards; a failed reload is
  only logged.
\<close>

definition data_answer :: "int \<Rightarrow> json \<Rightarrow> response" where
  "data_answer code d = writeJSON code (JObj [(''data'', d)])"

text \<open>The database and the router's snapshot.\<close>

type_synonym console = "db \<times> ProviderTable"

definition reload_after ::
  "panel \<Rightarrow> moment \<Rightarrow> 'a step \<Rightarrow> ('a \<Rightarrow> response) \<Rightarrow> console \<Rightarrow> outcome \<times> console" where
  "reload_after pn mo m resp c = (case c of (db, table) \<Rightarrow>
     (case m db of
        (Inl r, db1) \<Rightarrow> (r, (db1, table))
      | (Inr x, db1) \<Rightarrow>
          (case Reload (pn_crypto pn) (pn_kek pn) (mo_order mo) (pn_has_db pn) table db1 of
             ((e, table1), db2) \<Rightarrow> (Answered (resp x), (db2, table1)))))"

section \<open>providers.go\<close>

definition HandleListProviders :: "panel \<Rightarrow> db \<Rightarrow> outcome \<times> db" where
  "HandleListProviders pn = respond
     (then_step (or_answer (BuildMaskedProviders (pn_crypto pn) (pn_kek pn))
        (\<lambda>e. json_error 500 ''Failed to list providers''))
     (\<lambda>ps. go_on (data_answer 200 (JArr (map masked_json ps)))))"

definition bad_ratio :: "float64 \<Rightarrow> bool" where
  "bad_ratio r \<longleftrightarrow> r < 0 \<or> 1 < r"

definition create_provider_steps :: "panel \<Rightarrow> moment \<Rightarrow> new_provider option \<Rightarrow> ProviderRecord step" where
  "create_provider_steps pn mo body =
     then_step (decoded body)
    (\<lambda>req. then_step (reject_if (np_name req = '''' \<or> np_slug req = '''' \<or> np_endpoint req = '''')
         (json_error 400 ''name, slug, and endpoint are required''))
    (\<lambda>_. then_step (reject_if (bad_ratio (np_monthly_token_low_ratio req) \<or>
          bad_ratio (np_monthly_call_low_ratio req)) (json_error 400 ''invalid low ratio''))
    (\<lambda>_. let authHeader = (if np_auth_header req = '''' then ''Authorization'' else np_auth_header req);
             authScheme = (if np_auth_scheme req = '''' then ''bearer'' else np_auth_scheme req)
      in or_answer (CreateProvider (pn_crypto pn) (pn_kek pn) (mo_nonce mo) (mo_now mo)
             (req\<lparr>np_auth_header := authHeader, np_auth_scheme := authScheme\<rparr>))
           (\<lambda>e. json_error 500 (err_text e)))))"

definition HandleCreateProvider ::
  "panel \<Rightarrow> moment \<Rightarrow> new_provider option \<Rightarrow> console \<Rightarrow> outcome \<times> console" where
  "HandleCreateProvider pn mo body =
     reload_after pn mo (create_provider_steps pn mo body) (\<lambda>prov. data_answer 201 (provider_json prov))"

text \<open>The request struct has the fields of the map of updates; an empty key is left out of the map.\<close>

definition collect_updates :: "provider_updates \<Rightarrow> provider_updates step" where
  "collect_updates req =
     then_step (reject_if (case pu_monthly_token_low_ratio req of None \<Rightarrow> False | Some r \<Rightarrow> bad_ratio r)
         (json_error 400 ''invalid low ratio''))
    (\<lambda>_. then_step (reject_if (case pu_monthly_call_low_ratio req of None \<Rightarrow> False | Some r \<Rightarrow> bad_ratio r)
         (json_error 400 ''invalid low ratio''))
    (\<lambda>_. go_on (if pu_api_key req = Some '''' then req\<lparr>pu_api_key := None\<rparr> else req)))"

definition no_updates :: "provider_updates \<Rightarrow> bool" where
  "no_updates u \<longleftrightarrow> pu_name u = None \<and> pu_endpoint u = None \<and> pu_api_key u = None \<and>
     pu_is_default u = None \<and> pu_enabled u = None \<and> pu_allow_passthrough u = None \<and>
     pu_auth_header u = None \<and> pu_auth_scheme u = None \<and> pu_extra_headers u = None \<and>
     pu_monthly_token_limit u = None \<and> pu_monthly_call_limit u = None \<and>
     pu_monthly_token_low_ratio u = None \<and> pu_monthly_call_low_ratio u = None \<and>
     pu_cycle_start_date u = None"

text \<open>The audited text: the printed map, in which the key has been replaced by its ciphertext.\<close>

definition updates_text :: "panel \<Rightarrow> moment \<Rightarrow> provider_updates \<Rightarrow> string" where
  "updates_text pn mo u = fmt_map
     [(''name'', pu_name u), (''endpoint'', pu_endpoint u),
      (''encrypted_key'', case pu_api_key u of None \<Rightarrow> None
         | Some k \<Rightarrow> (case Encrypt (pn_crypto pn) (mo_nonce mo) k (pn_kek pn) of
              Inl _ \<Rightarrow> Some k | Inr c \<Rightarrow> Some (fmt_bytes c))),
      (''is_default'', map_option fmt_bool (pu_is_default u)),
      (''enabled'', map_option fmt_bool (pu_enabled u)),
      (''allow_passthrough'', map_option fmt_bool (pu_allow_passthrough u)),
      (''auth_header'', pu_auth_header u), (''auth_scheme'', pu_auth_scheme u),
      (''extra_headers'', map_option (\<lambda>m. fmt_map (map (\<lambda>(k, v). (k, Some v)) m)) (pu_extra_headers u)),
      (''monthly_token_limit'', map_option itoa (pu_monthly_token_limit u)),
      (''monthly_call_limit'', map_option itoa (pu_monthly_call_limit u)),
      (''monthly_token_low_ratio'', map_option fmt_v (pu_monthly_token_low_ratio u)),
      (''monthly_call_low_ratio'', map_option fmt_v (pu_monthly_call_low_ratio u)),
      (''cycle_start_date'', pu_cycle_start_date u)]"

definition update_provider_steps ::
  "panel \<Rightarrow> moment \<Rightarrow> string \<Rightarrow> provider_updates option \<Rightarrow> ProviderRecord step" where
  "update_provider_steps pn mo slug body =
     then_step (reject_if (slug = '''') (json_error 400 ''Missing provider slug''))
    (\<lambda>_. then_step (decoded body)
    (\<lambda>req. then_step (collect_updates req)
    (\<lambda>u. then_step (reject_if (no_updates u) (json_error 400 ''No fields to update''))
    (\<lambda>_. then_step (or_answer (UpdateProvider (pn_crypto pn) (pn_kek pn) (mo_nonce mo) (mo_now mo) slug u
            (updates_text pn mo u)) (\<lambda>e. json_error 500 (err_text e)))
    (\<lambda>prov. case prov of None \<Rightarrow> answer (json_error 404 ''Provider not found'') | Some p \<Rightarrow> go_on p)))))"

definition HandleUpdateProvider ::
  "panel \<Rightarrow> moment \<Rightarrow> string \<Rightarrow> provider_updates option \<Rightarrow> console \<Rightarrow> outcome \<times> console" where
  "HandleUpdateProvider pn mo slug body =
     reload_after pn mo (update_provider_steps pn mo slug body) (\<lambda>prov. data_answer 200 (provider_json prov))"

definition HandleDeleteProvider :: "panel \<Rightarrow> moment \<Rightarrow> string \<Rightarrow> console \<Rightarrow> outcome \<times> console" where
  "HandleDeleteProvider pn mo slug =
     reload_after pn mo
       (then_step (reject_if (slug = '''') (json_error 400 ''Missing provider slug''))
         (\<lambda>_. or_answer (DeleteProvider (mo_now mo) slug) (\<lambda>e. json_error 409 (err_text e))))
       (\<lambda>_. no_content)"

section \<open>mappings.go\<close>

definition HandleListMappings :: "db \<Rightarrow> outcome \<times> db" where
  "HandleListMappings = respond
     (then_step (or_answer ListMappings (\<lambda>e. json_error 500 ''Failed to list mappings''))
     (\<lambda>ms. go_on (data_answer 200 (JArr (map mapping_json ms)))))"

record createMappingRequest =
  cm_external :: string
  cm_provider_id :: string
  cm_real_model :: string

definition HandleCreateMapping ::
  "panel \<Rightarrow> moment \<Rightarrow> createMappingRequest option \<Rightarrow> console \<Rightarrow> outcome \<times> console" where
  "HandleCreateMapping pn mo body = reload_after pn mo
     (then_step (decoded body)
     (\<lambda>req. then_step (reject_if (cm_external req = '''' \<or> cm_provider_id req = '''' \<or> cm_real_model req = '''')
         (json_error 400 ''external, provider_id, and real_model are required''))
     (\<lambda>_. or_answer (CreateMapping (mo_now mo) (cm_external req) (cm_provider_id req) (cm_real_model req))
         (\<lambda>e. json_error 409 (err_text e)))))
     (\<lambda>mapping. data_answer 201 (mapping_json mapping))"

definition HandleDeleteMapping :: "panel \<Rightarrow> moment \<Rightarrow> string \<Rightarrow> console \<Rightarrow> outcome \<times> console" where
  "HandleDeleteMapping pn mo idStr = reload_after pn mo
     (then_step (path_id idStr ''Invalid mapping ID'')
     (\<lambda>i. or_answer (DeleteMapping (mo_now mo) i) (\<lambda>e. json_error 500 (err_text e))))
     (\<lambda>_. no_content)"

section \<open>routing.go\<close>

definition HandleListRoutingRules :: "db \<Rightarrow> outcome \<times> db" where
  "HandleListRoutingRules = respond
     (then_step (or_answer ListRoutingRules (\<lambda>e. json_error 500 ''Failed to list routing rules''))
     (\<lambda>rs. go_on (data_answer 200 (JArr (map rule_json rs)))))"

record createRoutingRuleRequest =
  cr_provider_id :: string
  cr_start_time :: string
  cr_end_time :: string
  cr_days_of_week :: string
  cr_timezone :: string
  cr_priority :: int
  cr_enabled :: bool

definition requested_rule :: "createRoutingRuleRequest \<Rightarrow> RoutingRule" where
  "requested_rule req = \<lparr>rr_id = 0, rr_provider_id = cr_provider_id req, rr_start_time = cr_start_time req,
     rr_end_time = cr_end_time req,
     rr_days_of_week = (if cr_days_of_week req = '''' then ''*'' else cr_days_of_week req),
     rr_timezone = (if cr_timezone req = '''' then ''Asia/Shanghai'' else cr_timezone req),
     rr_enabled = cr_enabled req, rr_priority = cr_priority req, rr_default_provider_id = ''''\<rparr>"

definition HandleCreateRoutingRule ::
  "panel \<Rightarrow> moment \<Rightarrow> createRoutingRuleRequest option \<Rightarrow> console \<Rightarrow> outcome \<times> console" where
  "HandleCreateRoutingRule pn mo body = reload_after pn mo
     (then_step (decoded body)
     (\<lambda>req. then_step (reject_if (cr_provider_id req = '''' \<or> cr_start_time req = '''' \<or> cr_end_time req = '''')
         (json_error 400 ''provider_id, start_time, and end_time are required''))
     (\<lambda>_. or_answer (CreateRoutingRule (mo_now mo) (requested_rule req)) (\<lambda>e. json_error 500 (err_text e)))))
     (\<lambda>rule. data_answer 201 (rule_json rule))"

definition rule_updates_text :: "rule_updates \<Rightarrow> string" where
  "rule_updates_text u = fmt_map
     [(''provider_id'', ru_provider_id u), (''start_time'', ru_start_time u), (''end_time'', ru_end_time u),
      (''days_of_week'', ru_days_of_week u), (''priority'', map_option itoa (ru_priority u)),
      (''enabled'', map_option fmt_bool (ru_enabled u))]"

definition HandleUpdateRoutingRule ::
  "panel \<Rightarrow> moment \<Rightarrow> string \<Rightarrow> rule_updates option \<Rightarrow> console \<Rightarrow> outcome \<times> console" where
  "HandleUpdateRoutingRule pn mo idStr body = reload_after pn mo
     (then_step (path_id idStr ''Invalid routing rule ID'')
     (\<lambda>i. then_step (decoded body)
     (\<lambda>u. then_step (reject_if (no_rule_updates u) (json_error 400 ''No fields to update''))
     (\<lambda>_. or_answer (UpdateRoutingRule (mo_now mo) i u (rule_updates_text u))
         (\<lambda>e. json_error 500 (err_text e))))))
     (\<lambda>_. writeJSON 200 (JObj [(''message'', JStr ''Updated'')]))"

definition HandleDeleteRoutingRule :: "panel \<Rightarrow> moment \<Rightarrow> string \<Rightarrow> console \<Rightarrow> outcome \<times> console" where
  "HandleDeleteRoutingRule pn mo idStr = reload_after pn mo
     (then_step (path_id idStr ''Invalid routing rule ID'')
     (\<lambda>i. or_answer (DeleteRoutingRule (mo_now mo) i) (\<lambda>e. json_error 500 (err_text e))))
     (\<lambda>_. no_content)"

section \<open>multipliers.go\<close>

definition HandleListMultipliers :: "db \<Rightarrow> outcome \<times> db" where
  "HandleListMultipliers = respond
     (then_step (or_answer FindAll (\<lambda>e. json_error 500 ''Failed to list multipliers''))
     (\<lambda>rs. go_on (data_answer 200 (JArr (map multiplier_json rs)))))"

record createMultiplierRequest =
  cx_start_time :: string
  cx_end_time :: string
  cx_multiplier :: float64
  cx_days_of_week :: string

definition HandleCreateMultiplier :: "moment \<Rightarrow> createMultiplierRequest option \<Rightarrow> db \<Rightarrow> outcome \<times> db" where
  "HandleCreateMultiplier mo body = respond
     (then_step (decoded body)
     (\<lambda>req. then_step (reject_if (cx_start_time req = '''' \<or> cx_end_time req = '''')
         (json_error 400 ''start_time and end_time are required''))
     (\<lambda>_. then_step (reject_if (cx_multiplier req < 1) (json_error 400 ''multiplier must be >= 1.0''))
     (\<lambda>_. then_step (or_answer (CreateMultiplierRule (mo_now mo) (cx_start_time req) (cx_end_time req)
            (cx_multiplier req) (if cx_days_of_week req = '''' then ''*'' else cx_days_of_week req))
          (\<lambda>e. json_error 500 ''Failed to create multiplier''))
     (\<lambda>rule. go_on (writeJSON 201 (multiplier_json rule)))))))"

record updateMultiplierRequest =
  ux_start_time :: "string option"
  ux_end_time :: "string option"
  ux_multiplier :: "float64 option"
  ux_days_of_week :: "string option"
  ux_enabled :: "bool option"

definition multiplier_updates :: "updateMultiplierRequest \<Rightarrow> tm_updates" where
  "multiplier_updates req = \<lparr>tmu_start_time = ux_start_time req, tmu_end_time = ux_end_time req,
     tmu_multiplier = ux_multiplier req, tmu_days_of_week = ux_days_of_week req,
     tmu_enabled = map_option (\<lambda>b. if b then 1 else 0) (ux_enabled req)\<rparr>"

definition HandleUpdateMultiplier :: "string \<Rightarrow> updateMultiplierRequest option \<Rightarrow> db \<Rightarrow> outcome \<times> db" where
  "HandleUpdateMultiplier idStr body = respond
     (then_step (path_id idStr ''Invalid multiplier ID'')
     (\<lambda>i. then_step (decoded body)
     (\<lambda>req. then_step (reject_if (case ux_multiplier req of None \<Rightarrow> False | Some m \<Rightarrow> m < 1)
         (json_error 400 ''multiplier must be >= 1.0''))
     (\<lambda>_. then_step (reject_if (tm_no_updates (multiplier_updates req)) (json_error 400 ''No fields to update''))
     (\<lambda>_. then_step (or_answer (UpdateMultiplierRule i (multiplier_updates req))
         (\<lambda>e. json_error 500 ''Failed to update multiplier''))
     (\<lambda>_. then_step (or_absent (GetMultiplierByID i))
     (\<lambda>r. case r of
        Some (Some rule) \<Rightarrow> go_on (writeJSON 200 (multiplier_json rule))
      | _ \<Rightarrow> go_on (writeJSON 200 (JObj [(''message'', JStr ''Updated'')])))))))))"

definition HandleDeleteMultiplier :: "string \<Rightarrow> db \<Rightarrow> outcome \<times> db" where
  "HandleDeleteMultiplier idStr = respond
     (then_step (path_id idStr ''Invalid multiplier ID'')
     (\<lambda>i. then_step (or_answer (DeleteMultiplierRule i) (\<lambda>e. json_error 500 ''Failed to delete multiplier''))
     (\<lambda>_. go_on no_content)))"

section \<open>audit.go, overview.go\<close>

text \<open>A parameter that does not parse or is out of range keeps the default.\<close>

definition positive_param :: "string \<Rightarrow> int \<Rightarrow> (int \<Rightarrow> bool) \<Rightarrow> int" where
  "positive_param p dflt ok =
     (if p = '''' then dflt else case parse_int64 p of None \<Rightarrow> dflt | Some v \<Rightarrow> if 0 < v \<and> ok v then v else dflt)"

definition HandleListAuditLogs :: "query \<Rightarrow> db \<Rightarrow> outcome \<times> db" where
  "HandleListAuditLogs q =
     (let page = positive_param (q_get q ''page'') 1 (\<lambda>_. True);
          limit = positive_param (q_get q ''limit'') 50 (\<lambda>v. v \<le> 100)
      in respond (then_step (or_answer (ListAuditLogs page limit) (\<lambda>e. json_error 500 ''Failed to list audit logs''))
         (\<lambda>(logs, total). go_on (writeJSON 200 (JObj [(''data'', JArr (map audit_json logs)),
            (''total'', JInt (int total)), (''page'', JInt page), (''limit'', JInt limit)])))))"

text \<open>The overview never reports an error.\<close>

definition GetOverview :: "moment \<Rightarrow> db \<Rightarrow> outcome \<times> db" where
  "GetOverview mo db = (case GetDashboardOverview (mo_now mo) db of
     (o1, db1) \<Rightarrow> (Answered (writeJSON 200 (overview_json o1)), db1))"

section \<open>calls\_stats.go\<close>

definition calls_filter :: "query \<Rightarrow> CallLogFilter" where
  "calls_filter q = \<lparr>f_user_id = parse_int_lax (q_get q ''user_id''), f_provider_id = q_get q ''provider_id'',
     f_model = q_get q ''model'', f_from = NormalizeToShanghaiRFC3339 (q_get q ''from''),
     f_to = NormalizeToShanghaiRFC3339 (q_get q ''to''), f_page = parse_int_lax (q_get q ''page''),
     f_limit = parse_int_lax (q_get q ''limit'')\<rparr>"

definition HandleListCalls :: "query \<Rightarrow> db \<Rightarrow> outcome \<times> db" where
  "HandleListCalls q = respond
     (then_step (or_answer (QueryCallLogsGlobal (calls_filter q)) (\<lambda>e. json_error 500 ''Failed to query calls''))
     (\<lambda>page. go_on (writeJSON 200 (page_json page))))"

definition HandleCallsStats :: "moment \<Rightarrow> query \<Rightarrow> db \<Rightarrow> outcome \<times> db" where
  "HandleCallsStats mo q = respond
     (then_step (or_answer (AggregateCallStats (mo_order mo) (mo_user_order mo)
          ((calls_filter q)\<lparr>f_page := 0, f_limit := 0\<rparr>)) (\<lambda>e. json_error 500 ''Failed to aggregate call stats''))
     (\<lambda>s. go_on (writeJSON 200 (stats_json s))))"

definition HandleListCallModels :: "db \<Rightarrow> outcome \<times> db" where
  "HandleListCallModels = respond
     (then_step (or_answer DistinctModels (\<lambda>e. json_error 500 ''Failed to query models''))
     (\<lambda>ms. go_on (data_answer 200 (JArr (map JStr ms)))))"

section \<open>provider\_usage.go\<close>

definition globalTokenLowRatio :: "panel \<Rightarrow> float64" where
  "globalTokenLowRatio pn = (case pn_ratios pn of
     Some (t, c) \<Rightarrow> if 0 < t then t else round64 (1 / 10) | None \<Rightarrow> round64 (1 / 10))"

definition globalCallLowRatio :: "panel \<Rightarrow> float64" where
  "globalCallLowRatio pn = (case pn_ratios pn of
     Some (t, c) \<Rightarrow> if 0 < c then c else round64 (1 / 10) | None \<Rightarrow> round64 (1 / 10))"

definition cycle_text :: "gotime \<Rightarrow> ProviderRecord \<Rightarrow> string" where
  "cycle_text now p = fst (CurrentCycleWindow now (p_cycle_start_date p)) @ ''T00:00:00+08:00''"

text \<open>The first load with the provider's slug; slugs are distinct in the result.\<close>

definition load_of :: "AutoAllocationResult option \<Rightarrow> string \<Rightarrow> AutoProviderLoad option" where
  "load_of res slug = (case res of None \<Rightarrow> None
     | Some r \<Rightarrow> find (\<lambda>l. ld_slug l = slug) (ar_by_provider r))"

definition with_auto :: "AutoProviderLoad option \<Rightarrow> ProviderUsageView \<Rightarrow> ProviderUsageView" where
  "with_auto l v = (case l of None \<Rightarrow> v
     | Some l \<Rightarrow> v\<lparr>pv_auto_tokens := ld_token_share l, pv_auto_calls := ld_call_share l,
         pv_auto_token_usage := ld_token_usage l, pv_auto_call_usage := ld_call_usage l\<rparr>)"

definition pool_members :: "AutoAllocationResult option \<Rightarrow> (string \<times> json) list" where
  "pool_members res = (case res of None \<Rightarrow> []
     | Some r \<Rightarrow> [(''auto_pool'', JObj [(''pool_token_total'', JInt (ar_pool_token r)),
         (''pool_call_total'', JInt (ar_pool_call r)), (''unlimited_user_count'', JInt (ar_unlimited r))])])"

text \<open>A failed query degrades to zero usage, no allocation or no attribution.\<close>

fun usage_views ::
  "panel \<Rightarrow> gotime \<Rightarrow> AutoAllocationResult option \<Rightarrow> ProviderRecord list \<Rightarrow> ProviderUsageView list step" where
  "usage_views pn now auto [] = go_on []"
| "usage_views pn now auto (p # ps) =
     then_step (or_absent (GetProviderUsage (p_slug p) (cycle_text now p)))
    (\<lambda>used. then_step (or_absent (GetProviderAllocation now (p_slug p)))
    (\<lambda>alloc. then_step (usage_views pn now auto ps)
    (\<lambda>vs. go_on (with_auto (load_of auto (p_slug p))
        (BuildProviderUsageView now p used alloc (globalTokenLowRatio pn) (globalCallLowRatio pn)) # vs))))"

definition HandleListProviderUsage :: "panel \<Rightarrow> moment \<Rightarrow> db \<Rightarrow> outcome \<times> db" where
  "HandleListProviderUsage pn mo = respond
     (then_step (or_answer ListProviders (\<lambda>e. json_error 500 ''Failed to list providers''))
     (\<lambda>ps. then_step (or_absent (GetAutoUserAllocationByProvider (mo_now mo) (RollingWindowStart (mo_now mo))))
     (\<lambda>auto. then_step (usage_views pn (mo_now mo) auto ps)
     (\<lambda>vs. go_on (writeJSON 200 (JObj ((''data'', JArr (map view_json vs)) # pool_members auto)))))))"

definition find_provider :: "string \<Rightarrow> ProviderRecord step" where
  "find_provider slug =
     then_step (reject_if (slug = '''') (json_error 400 ''Missing provider slug''))
    (\<lambda>_. then_step (or_answer (GetProvider slug) (\<lambda>e. json_error 500 ''Failed to get provider''))
    (\<lambda>p. case p of None \<Rightarrow> answer (json_error 404 ''Provider not found'') | Some p \<Rightarrow> go_on p))"

definition HandleGetProviderUsage :: "panel \<Rightarrow> moment \<Rightarrow> string \<Rightarrow> db \<Rightarrow> outcome \<times> db" where
  "HandleGetProviderUsage pn mo slug = (let now = mo_now mo in respond
     (then_step (find_provider slug)
     (\<lambda>p. then_step (or_answer (GetProviderUsage slug (cycle_text now p))
          (\<lambda>e. json_error 500 ''Failed to get provider usage''))
     (\<lambda>used. then_step (or_absent (GetProviderAllocation now slug))
     (\<lambda>alloc. then_step (or_absent (GetAutoUserAllocationByProvider now (RollingWindowStart now)))
     (\<lambda>auto. go_on (writeJSON 200 (JObj ((''data'', view_json (with_auto (load_of auto slug)
          (BuildProviderUsageView now p (Some used) alloc (globalTokenLowRatio pn) (globalCallLowRatio pn))))
          # pool_members auto))))))))) "

definition HandleGetProviderAllocation :: "moment \<Rightarrow> string \<Rightarrow> db \<Rightarrow> outcome \<times> db" where
  "HandleGetProviderAllocation mo slug = (let now = mo_now mo in respond
     (then_step (find_provider slug)
     (\<lambda>p. then_step (or_answer (GetProviderAllocationDetails now slug (cycle_text now p))
          (\<lambda>e. json_error 500 ''Failed to get allocation details''))
     (\<lambda>details. go_on (writeJSON 200 (JObj [(''data'', JArr (map allocation_json details)),
        (''cycle_start'', JStr (fst (CurrentCycleWindow now (p_cycle_start_date p)))),
        (''provider_name'', JStr (p_name p))]))))))"

end
