(* ===== verification/Requests.thy ===== *)
theory Requests
  imports AdminUsers AdminConsole
begin

text \<open>
  The request bodies of the admin panel: \<open>json.NewDecoder(r.Body).Decode(&req)\<close> into the request
  structs.  The decoder reads the first value of the body and ignores what follows it; a value that
  is no object, a member of the wrong type or a number out of range is an error (\<open>None\<close>).  \<open>null\<close>
  leaves a plain field alone and empties a pointer, a map or a slice.  A repeated map member is
  decoded into the map that is there.
\<close>

section \<open>Fields\<close>

definition body_members :: "string \<Rightarrow> (string \<times> rj) list option" where
  "body_members s = (case raw_val (Suc (length s)) s of Some (v, r) \<Rightarrow> struct_members v | None \<Rightarrow> None)"

fun plain_field :: "(rj \<Rightarrow> 'a option) \<Rightarrow> string \<Rightarrow> 'a \<Rightarrow> (string \<times> rj) list \<Rightarrow> 'a option" where
  "plain_field rd name cur [] = Some cur"
| "plain_field rd name cur ((k, v) # ms) =
     (if \<not> equal_fold (text_of k) name \<or> is_null v then plain_field rd name cur ms
      else case rd v of None \<Rightarrow> None | Some x \<Rightarrow> plain_field rd name x ms)"

fun nil_field :: "('a option \<Rightarrow> rj \<Rightarrow> 'a option) \<Rightarrow> string \<Rightarrow> 'a option \<Rightarrow> (string \<times> rj) list \<Rightarrow> 'a option option" where
  "nil_field rd name cur [] = Some cur"
| "nil_field rd name cur ((k, v) # ms) =
     (if \<not> equal_fold (text_of k) name then nil_field rd name cur ms
      else if is_null v then nil_field rd name None ms
      else case rd cur v of None \<Rightarrow> None | Some x \<Rightarrow> nil_field rd name (Some x) ms)"

definition rd_str :: "rj \<Rightarrow> string option" where
  "rd_str v = (case v of RText l \<Rightarrow> Some (text_of l) | _ \<Rightarrow> None)"

definition rd_int :: "rj \<Rightarrow> int option" where
  "rd_int v = (case v of RNum n \<Rightarrow> parse_int64 n | _ \<Rightarrow> None)"

definition rd_bool :: "rj \<Rightarrow> bool option" where
  "rd_bool v = (if v = RLit ''true'' then Some True else if v = RLit ''false'' then Some False else None)"

definition rd_float :: "rj \<Rightarrow> float64 option" where
  "rd_float v = (case v of
     RNum n \<Rightarrow> if float_range (round64 (num_value n)) then Some (round64 (num_value n)) else None
   | _ \<Rightarrow> None)"

fun rd_texts :: "(string, string) gomap \<Rightarrow> (string \<times> rj) list \<Rightarrow> (string, string) gomap option" where
  "rd_texts m [] = Some m"
| "rd_texts m ((k, v) # ms) =
     (if is_null v then rd_texts (gm_put (text_of k) '''' m) ms
      else case rd_str v of None \<Rightarrow> None | Some s \<Rightarrow> rd_texts (gm_put (text_of k) s m) ms)"

definition rd_map :: "(string, string) gomap option \<Rightarrow> rj \<Rightarrow> (string, string) gomap option" where
  "rd_map cur v = (case v of RObj ms \<Rightarrow> rd_texts (value_or [] cur) ms | _ \<Rightarrow> None)"

definition rd_ints :: "int list option \<Rightarrow> rj \<Rightarrow> int list option" where
  "rd_ints cur v = (case v of
     RArr vs \<Rightarrow> those (map (\<lambda>v. if is_null v then Some 0 else rd_int v) vs) | _ \<Rightarrow> None)"

abbreviation "str_of n ms \<equiv> plain_field rd_str n '''' ms"
abbreviation "int_of n ms \<equiv> plain_field rd_int n 0 ms"
abbreviation "bool_of n ms \<equiv> plain_field rd_bool n False ms"
abbreviation "float_of n ms \<equiv> plain_field rd_float n 0 ms"
abbreviation "str_ptr n ms \<equiv> nil_field (\<lambda>_. rd_str) n None ms"
abbreviation "int_ptr n ms \<equiv> nil_field (\<lambda>_. rd_int) n None ms"
abbreviation "bool_ptr n ms \<equiv> nil_field (\<lambda>_. rd_bool) n None ms"
abbreviation "float_ptr n ms \<equiv> nil_field (\<lambda>_. rd_float) n None ms"
abbreviation "map_ptr n ms \<equiv> nil_field rd_map n None ms"

abbreviation bound :: "'a option \<Rightarrow> ('a \<Rightarrow> 'b option) \<Rightarrow> 'b option" where
  "bound \<equiv> Option.bind"

section \<open>Accounts\<close>

definition decode_create_user :: "string \<Rightarrow> createUserRequest option" where
  "decode_create_user s = bound (body_members s) (\<lambda>ms.
     bound (str_of ''username'' ms) (\<lambda>a. bound (int_of ''quota_5h_limit'' ms) (\<lambda>b.
     bound (int_of ''quota_total_limit'' ms) (\<lambda>c. bound (int_of ''quota_token_total_limit'' ms) (\<lambda>d.
     bound (int_of ''quota_token_5h_limit'' ms) (\<lambda>e. bound (int_of ''quota_token_week_limit'' ms) (\<lambda>f.
     bound (str_of ''expires_at'' ms) (\<lambda>g. bound (str_of ''route_mode'' ms) (\<lambda>h.
     bound (str_of ''fixed_provider'' ms) (\<lambda>i. bound (float_ptr ''fixed_multiplier'' ms) (\<lambda>j.
     bound (int_of ''max_body_size'' ms) (\<lambda>k. bound (int_ptr ''max_concurrency'' ms) (\<lambda>l.
     Some \<lparr>cu_username = a, cu_5h_limit = b, cu_total_limit = c, cu_token_total_limit = d,
       cu_token_5h_limit = e, cu_token_week_limit = f, cu_expires_at = g, cu_route_mode = h,
       cu_fixed_provider = i, cu_fixed_multiplier = j, cu_max_body_size = k,
       cu_max_concurrency = l\<rparr>)))))))))))))"

definition decode_update_user :: "string \<Rightarrow> updateUserRequest option" where
  "decode_update_user s = bound (body_members s) (\<lambda>ms.
     bound (int_ptr ''quota_5h_limit'' ms) (\<lambda>a. bound (int_ptr ''quota_total_limit'' ms) (\<lambda>b.
     bound (int_ptr ''quota_token_total_limit'' ms) (\<lambda>c. bound (int_ptr ''quota_token_5h_limit'' ms) (\<lambda>d.
     bound (int_ptr ''quota_token_week_limit'' ms) (\<lambda>e. bound (str_ptr ''status'' ms) (\<lambda>f.
     bound (bool_ptr ''regenerate_key'' ms) (\<lambda>g. bound (str_ptr ''route_mode'' ms) (\<lambda>h.
     bound (str_ptr ''fixed_provider'' ms) (\<lambda>i. bound (float_ptr ''fixed_multiplier'' ms) (\<lambda>j.
     bound (bool_of ''fixed_multiplier_clear'' ms) (\<lambda>k. bound (int_ptr ''max_body_size'' ms) (\<lambda>l.
     bound (int_ptr ''max_concurrency'' ms) (\<lambda>m.
     Some \<lparr>up_5h_limit = a, up_total_limit = b, up_token_total_limit = c, up_token_5h_limit = d,
       up_token_week_limit = e, up_status = f, up_regenerate_key = g, up_route_mode = h,
       up_fixed_provider = i, up_fixed_multiplier = j, up_fixed_multiplier_clear = k,
       up_max_body_size = l, up_max_concurrency = m\<rparr>))))))))))))))"

definition decode_extend :: "string \<Rightarrow> extendUserRequest option" where
  "decode_extend s = bound (body_members s) (\<lambda>ms.
     bound (int_of ''days'' ms) (\<lambda>a. bound (str_of ''until'' ms) (\<lambda>b.
     bound (bool_of ''reset_token_stats'' ms) (\<lambda>c.
     Some \<lparr>eu_days = a, eu_until = b, eu_reset_token_stats = c\<rparr>))))"

definition decode_week_start :: "string \<Rightarrow> string option" where
  "decode_week_start s = bound (body_members s) (\<lambda>ms. str_of ''week_start'' ms)"

definition decode_batch :: "string \<Rightarrow> batchWeekStartRequest option" where
  "decode_batch s = bound (body_members s) (\<lambda>ms.
     bound (nil_field rd_ints ''user_ids'' None ms) (\<lambda>a. bound (str_of ''week_start'' ms) (\<lambda>b.
     Some \<lparr>bw_user_ids = value_or [] a, bw_week_start = b\<rparr>)))"

definition decode_login :: "string \<Rightarrow> loginRequest option" where
  "decode_login s = bound (body_members s) (\<lambda>ms.
     bound (str_of ''username'' ms) (\<lambda>a. bound (str_of ''password'' ms) (\<lambda>b.
     Some \<lparr>lr_username = a, lr_password = b\<rparr>)))"

section \<open>Providers, mappings, rules and multipliers\<close>

definition decode_create_provider :: "string \<Rightarrow> new_provider option" where
  "decode_create_provider s = bound (body_members s) (\<lambda>ms.
     bound (str_of ''name'' ms) (\<lambda>a. bound (str_of ''slug'' ms) (\<lambda>b.
     bound (str_of ''endpoint'' ms) (\<lambda>c. bound (str_of ''api_key'' ms) (\<lambda>d.
     bound (bool_of ''is_default'' ms) (\<lambda>e. bound (bool_of ''allow_passthrough'' ms) (\<lambda>f.
     bound (str_of ''auth_header'' ms) (\<lambda>g. bound (str_of ''auth_scheme'' ms) (\<lambda>h.
     bound (map_ptr ''extra_headers'' ms) (\<lambda>i. bound (int_of ''monthly_token_limit'' ms) (\<lambda>j.
     bound (int_of ''monthly_call_limit'' ms) (\<lambda>k. bound (float_of ''monthly_token_low_ratio'' ms) (\<lambda>l.
     bound (float_of ''monthly_call_low_ratio'' ms) (\<lambda>m. bound (str_of ''cycle_start_date'' ms) (\<lambda>n.
     Some \<lparr>np_name = a, np_slug = b, np_endpoint = c, np_api_key = d, np_is_default = e,
       np_allow_passthrough = f, np_auth_header = g, np_auth_scheme = h, np_extra_headers = i,
       np_monthly_token_limit = j, np_monthly_call_limit = k, np_monthly_token_low_ratio = l,
       np_monthly_call_low_ratio = m, np_cycle_start_date = n\<rparr>)))))))))))))))"

definition decode_update_provider :: "string \<Rightarrow> provider_updates option" where
  "decode_update_provider s = bound (body_members s) (\<lambda>ms.
     bound (str_ptr ''name'' ms) (\<lambda>a. bound (str_ptr ''endpoint'' ms) (\<lambda>b.
     bound (str_ptr ''api_key'' ms) (\<lambda>c. bound (bool_ptr ''is_default'' ms) (\<lambda>d.
     bound (bool_ptr ''enabled'' ms) (\<lambda>e. bound (bool_ptr ''allow_passthrough'' ms) (\<lambda>f.
     bound (str_ptr ''auth_header'' ms) (\<lambda>g. bound (str_ptr ''auth_scheme'' ms) (\<lambda>h.
     bound (map_ptr ''extra_headers'' ms) (\<lambda>i. bound (int_ptr ''monthly_token_limit'' ms) (\<lambda>j.
     bound (int_ptr ''monthly_call_limit'' ms) (\<lambda>k. bound (float_ptr ''monthly_token_low_ratio'' ms) (\<lambda>l.
     bound (float_ptr ''monthly_call_low_ratio'' ms) (\<lambda>m. bound (str_ptr ''cycle_start_date'' ms) (\<lambda>n.
     Some \<lparr>pu_name = a, pu_endpoint = b, pu_api_key = c, pu_is_default = d, pu_enabled = e,
       pu_allow_passthrough = f, pu_auth_header = g, pu_auth_scheme = h, pu_extra_headers = i,
       pu_monthly_token_limit = j, pu_monthly_call_limit = k, pu_monthly_token_low_ratio = l,
       pu_monthly_call_low_ratio = m, pu_cycle_start_date = n\<rparr>)))))))))))))))"

definition decode_create_mapping :: "string \<Rightarrow> createMappingRequest option" where
  "decode_create_mapping s = bound (body_members s) (\<lambda>ms.
     bound (str_of ''external'' ms) (\<lambda>a. bound (str_of ''provider_id'' ms) (\<lambda>b.
     bound (str_of ''real_model'' ms) (\<lambda>c.
     Some \<lparr>cm_external = a, cm_provider_id = b, cm_real_model = c\<rparr>))))"

definition decode_create_rule :: "string \<Rightarrow> createRoutingRuleRequest option" where
  "decode_create_rule s = bound (body_members s) (\<lambda>ms.
     bound (str_of ''provider_id'' ms) (\<lambda>a. bound (str_of ''start_time'' ms) (\<lambda>b.
     bound (str_of ''end_time'' ms) (\<lambda>c. bound (str_of ''days_of_week'' ms) (\<lambda>d.
     bound (str_of ''timezone'' ms) (\<lambda>e. bound (int_of ''priority'' ms) (\<lambda>f.
     bound (bool_of ''enabled'' ms) (\<lambda>g.
     Some \<lparr>cr_provider_id = a, cr_start_time = b, cr_end_time = c, cr_days_of_week = d,
       cr_timezone = e, cr_priority = f, cr_enabled = g\<rparr>))))))))"

definition decode_update_rule :: "string \<Rightarrow> rule_updates option" where
  "decode_update_rule s = bound (body_members s) (\<lambda>ms.
     bound (str_ptr ''provider_id'' ms) (\<lambda>a. bound (str_ptr ''start_time'' ms) (\<lambda>b.
     bound (str_ptr ''end_time'' ms) (\<lambda>c. bound (str_ptr ''days_of_week'' ms) (\<lambda>d.
     bound (int_ptr ''priority'' ms) (\<lambda>e. bound (bool_ptr ''enabled'' ms) (\<lambda>f.
     Some \<lparr>ru_provider_id = a, ru_start_time = b, ru_end_time = c, ru_days_of_week = d,
       ru_priority = e, ru_enabled = f\<rparr>)))))))"

definition decode_create_multiplier :: "string \<Rightarrow> createMultiplierRequest option" where
  "decode_create_multiplier s = bound (body_members s) (\<lambda>ms.
     bound (str_of ''start_time'' ms) (\<lambda>a. bound (str_of ''end_time'' ms) (\<lambda>b.
     bound (float_of ''multiplier'' ms) (\<lambda>c. bound (str_of ''days_of_week'' ms) (\<lambda>d.
     Some \<lparr>cx_start_time = a, cx_end_time = b, cx_multiplier = c, cx_days_of_week = d\<rparr>)))))"

definition decode_update_multiplier :: "string \<Rightarrow> updateMultiplierRequest option" where
  "decode_update_multiplier s = bound (body_members s) (\<lambda>ms.
     bound (str_ptr ''start_time'' ms) (\<lambda>a. bound (str_ptr ''end_time'' ms) (\<lambda>b.
     bound (float_ptr ''multiplier'' ms) (\<lambda>c. bound (str_ptr ''days_of_week'' ms) (\<lambda>d.
     bound (bool_ptr ''enabled'' ms) (\<lambda>e.
     Some \<lparr>ux_start_time = a, ux_end_time = b, ux_multiplier = c, ux_days_of_week = d,
       ux_enabled = e\<rparr>))))))"

end
