(* ===== verification/AdminApi.thy ===== *)
theory AdminApi
  imports Requests
begin

text \<open>
  \<open>internal/admin/handler.go\<close> and \<open>settings.go\<close>: the routes of the admin panel, the authentication in
  front of them, and the settings endpoint.  A request arrives with its path below \<open>/admin\<close> split at
  the slashes (clean and unescaped).  Where a method has no route of its own the catch-all route
  answers, as \<open>ServeMux\<close> does; a \<open>GET\<close> route answers \<open>HEAD\<close> as well.  The static files and the
  YAML library are arguments.
\<close>

section \<open>Settings\<close>

text \<open>A YAML document: \<open>YMap\<close> is a map with string keys.\<close>

datatype yaml = YNull | YText string | YMap "(string, yaml) gomap" | YOther nat

text \<open>\<open>yaml.v3\<close> decodes a file into a map, possibly the nil map \<open>Some None\<close>, or fails; it writes a map
  or fails.\<close>

record yaml_lib =
  yl_decode :: "string \<Rightarrow> (string, yaml) gomap option option"
  yl_encode :: "(string, yaml) gomap \<Rightarrow> string option"

text \<open>The configuration file is absent when it cannot be read; \<open>Inl\<close> is an outcome that is no
  success: a failed read, decoding or writing, or a panic.\<close>

datatype save_result = Saved string | SaveFailed | SavePanicked

definition persistToYAML :: "yaml_lib \<Rightarrow> string \<Rightarrow> string \<Rightarrow> string option \<Rightarrow> save_result" where
  "persistToYAML yl apiKey endpoint file = (case file of
     None \<Rightarrow> SaveFailed
   | Some data \<Rightarrow> (case yl_decode yl data of
       None \<Rightarrow> SaveFailed
     | Some None \<Rightarrow> SavePanicked
     | Some (Some cfg) \<Rightarrow>
         (case (case map_of cfg ''api'' of None \<Rightarrow> YMap [] | Some YNull \<Rightarrow> YMap [] | Some v \<Rightarrow> v) of
            YMap api \<Rightarrow>
              let api1 = (if apiKey \<noteq> '''' then gm_delete ''zhipu_api_key'' api else api);
                  api2 = (if endpoint \<noteq> '''' then gm_put ''zhipu_endpoint'' (YText endpoint) api1 else api1)
              in (case yl_encode yl (gm_put ''api'' (YMap api2) cfg) of
                    None \<Rightarrow> SaveFailed | Some out \<Rightarrow> Saved out)
          | _ \<Rightarrow> SavePanicked)))"

section \<open>The state of the panel\<close>

record admin =
  ad_db :: db
  ad_table :: ProviderTable
  ad_counters :: counters
  ad_creds :: "(string, string) gomap"
  ad_file :: "string option"

definition decode_settings :: "string \<Rightarrow> (string \<times> string) option" where
  "decode_settings s = bound (body_members s) (\<lambda>ms.
     bound (str_of ''zhipu_api_key'' ms) (\<lambda>a. bound (str_of ''zhipu_endpoint'' ms) (\<lambda>b. Some (a, b))))"

definition HandleGetSettings :: "string \<Rightarrow> admin \<Rightarrow> outcome \<times> admin" where
  "HandleGetSettings endpoint a =
     (Answered (writeJSON 200 (JObj
        [(''api_key_configured'', JBool (fst (CredentialStore_Get ''zhipu'' (ad_creds a)) \<noteq> '''')),
         (''endpoint'', JStr endpoint)])),
      a\<lparr>ad_creds := snd (CredentialStore_Get ''zhipu'' (ad_creds a))\<rparr>)"

definition HandleUpdateSettings :: "yaml_lib \<Rightarrow> (string \<times> string) option \<Rightarrow> admin \<Rightarrow> outcome \<times> admin" where
  "HandleUpdateSettings yl body a = (case body of
     None \<Rightarrow> (Answered (json_error 400 ''invalid request body''), a)
   | Some (apiKey, endpoint) \<Rightarrow>
       let a1 = (if apiKey \<noteq> '''' then a\<lparr>ad_creds := CredentialStore_Set ''zhipu'' apiKey (ad_creds a)\<rparr> else a)
       in (case persistToYAML yl apiKey endpoint (ad_file a1) of
             SaveFailed \<Rightarrow> (Answered (json_error 500 ''failed to save config: ''), a1)
           | SavePanicked \<Rightarrow> (Panicked, a1)
           | Saved out \<Rightarrow> (Answered (writeJSON 200 (JObj [(''message'',
               JStr (''API Key '' @ map char_of [229, 183, 178, 229, 141, 179, 230, 151, 182,
      231, 148, 159, 230, 149, 136, 239, 188, 136, 229, 134, 133, 229, 173, 152, 230, 128, 129, 239, 188, 140, 233, 135, 141, 229, 144, 175, 229, 176, 134, 229, 164, 177, 230, 149, 136, 239, 188, 155, 229, 187, 186, 232, 174, 174, 231, 148, 168, 231, 142, 175, 229, 162, 131, 229, 143, 152, 233, 135, 143 :: nat] @ '' ZHIPU_API_KEY '' @
                 map char_of [230, 140, 129, 228, 185, 133, 229, 140, 150, 239, 188, 137, 227,
      128, 130 :: nat] @ ''Endpoint '' @ map char_of [229, 183, 178, 228, 191, 157, 229, 173,
      152, 227, 128, 130 :: nat]))])), a1\<lparr>ad_file := Some out\<rparr>)))"

section \<open>Requests\<close>

record admin_request =
  rq_method :: string
  rq_path :: "string list"
  rq_query :: query
  rq_body :: string
  rq_cookie :: "string option"
  rq_secure :: bool

text \<open>What is around the panel: its configuration, the pages and static files, the YAML library.\<close>

record surroundings =
  su_panel :: panel
  su_login_page :: response
  su_dashboard :: response
  su_usage_page :: response
  su_static :: "string list \<Rightarrow> response"
  su_yaml :: yaml_lib
  su_endpoint :: string

definition not_found :: response where
  "not_found = \<lparr>rs_status = 404, rs_headers = [(''Content-Type'', ''text/plain; charset=utf-8'')],
     rs_cookies = [], rs_body = RawBody ''404 page not found''\<rparr>"

text \<open>\<open>strings.HasPrefix(path, "/api/")\<close> and \<open>"/static/"\<close>.\<close>

definition below :: "string \<Rightarrow> string list \<Rightarrow> bool" where
  "below seg path \<longleftrightarrow> length path \<ge> 2 \<and> hd path = seg"

text \<open>The lift of a handler on the database, and of one on the database and the snapshot.\<close>

definition on_db :: "(db \<Rightarrow> outcome \<times> db) \<Rightarrow> admin \<Rightarrow> outcome \<times> admin" where
  "on_db h a = (case h (ad_db a) of (r, db1) \<Rightarrow> (r, a\<lparr>ad_db := db1\<rparr>))"

definition on_console :: "(console \<Rightarrow> outcome \<times> console) \<Rightarrow> admin \<Rightarrow> outcome \<times> admin" where
  "on_console h a = (case h (ad_db a, ad_table a) of
     (r, (db1, t1)) \<Rightarrow> (r, a\<lparr>ad_db := db1, ad_table := t1\<rparr>))"

definition on_counters :: "(db \<Rightarrow> counters \<Rightarrow> (outcome \<times> db) \<times> counters) \<Rightarrow> admin \<Rightarrow> outcome \<times> admin" where
  "on_counters h a = (case h (ad_db a) (ad_counters a) of
     ((r, db1), cs1) \<Rightarrow> (r, a\<lparr>ad_db := db1, ad_counters := cs1\<rparr>))"

definition page :: "response \<Rightarrow> admin \<Rightarrow> outcome \<times> admin" where
  "page r a = (Answered r, a)"

text \<open>A wildcard takes one segment that is not empty.\<close>

definition segment :: "string \<Rightarrow> bool" where "segment s \<longleftrightarrow> s \<noteq> ''''"

definition is_get :: "string \<Rightarrow> bool" where "is_get m \<longleftrightarrow> m = ''GET'' \<or> m = ''HEAD''"

definition ServeDashboardPage :: "surroundings \<Rightarrow> admin_request \<Rightarrow> response" where
  "ServeDashboardPage su rq = (if below ''api'' (rq_path rq) then not_found else su_dashboard su)"

section \<open>Routes\<close>

datatype route = RUsers | RUser string | RUserCalls string | RCalls | RCallStats | RCallModels
  | RExtend string | RReset string | RWeekStart string | RBatchWeekStart | ROverview
  | RMultipliers | RMultiplier string | RSettings | RProviders | RProvider string
  | RMappings | RMapping string | RUsageList | RUsage string | RAllocation string | RUsagePage
  | RRules | RRule string | RAuditLogs | RStaticRoot | RStatic "string list" | ROther

text \<open>The path of a route; where a literal and a wildcard both fit, the literal is more specific.\<close>

fun route_of :: "string list \<Rightarrow> route" where
  "route_of [a, b] =
     (if a = ''api'' then
        (if b = ''users'' then RUsers else if b = ''calls'' then RCalls else if b = ''overview'' then ROverview
         else if b = ''multipliers'' then RMultipliers else if b = ''settings'' then RSettings
         else if b = ''providers'' then RProviders else if b = ''mappings'' then RMappings
         else if b = ''provider-usage'' then RUsageList else if b = ''routing-rules'' then RRules
         else if b = ''audit-logs'' then RAuditLogs else ROther)
      else if a = ''static'' then RStatic [b] else ROther)"
| "route_of [a, b, c] =
     (if a = ''static'' then RStatic [b, c]
      else if a \<noteq> ''api'' \<or> \<not> segment c then ROther
      else if b = ''calls'' \<and> c = ''stats'' then RCallStats
      else if b = ''calls'' \<and> c = ''models'' then RCallModels
      else if b = ''users'' then (if c = ''batch-week-start'' then RBatchWeekStart else RUser c)
      else if b = ''multipliers'' then RMultiplier c
      else if b = ''providers'' then RProvider c
      else if b = ''mappings'' then RMapping c
      else if b = ''routing-rules'' then RRule c else ROther)"
| "route_of [a, b, c, d] =
     (if a = ''static'' then RStatic [b, c, d]
      else if a \<noteq> ''api'' \<or> \<not> segment c then ROther
      else if b = ''users'' \<and> d = ''calls'' then RUserCalls c
      else if b = ''users'' \<and> d = ''extend'' then RExtend c
      else if b = ''users'' \<and> d = ''reset-usage'' then RReset c
      else if b = ''users'' \<and> d = ''week-start'' then RWeekStart c
      else if b = ''providers'' \<and> d = ''usage'' then RUsage c
      else if b = ''providers'' \<and> d = ''allocation'' then RAllocation c else ROther)"
| "route_of (a # b # rest) = (if a = ''static'' then RStatic (b # rest) else ROther)"
| "route_of [a] = (if a = ''provider-usage'' then RUsagePage else if a = ''static'' then RStaticRoot else ROther)"
| "route_of [] = ROther"

text \<open>The handler behind a route; a method without a handler falls to the catch-all page.\<close>

definition change_handler ::
  "surroundings \<Rightarrow> moment \<Rightarrow> admin_request \<Rightarrow> (admin \<Rightarrow> outcome \<times> admin) option" where
  "change_handler su mo rq =
     (let pn = su_panel su; m = rq_method rq; b = rq_body rq in
      case route_of (rq_path rq) of
        RUsers \<Rightarrow> if m = ''POST'' then Some (on_db (HandleCreateUser pn mo (decode_create_user b))) else None
      | RUser i \<Rightarrow>
          if m = ''PUT'' then Some (on_db (HandleUpdateUser pn mo i (decode_update_user b)))
          else if m = ''DELETE'' then Some (on_counters (HandleDeleteUser i)) else None
      | RBatchWeekStart \<Rightarrow>
          if m = ''POST'' then Some (on_db (HandleBatchSetWeekStart mo (decode_batch b)))
          else if m = ''PUT'' then Some (on_db (HandleUpdateUser pn mo ''batch-week-start'' (decode_update_user b)))
          else if m = ''DELETE'' then Some (on_counters (HandleDeleteUser ''batch-week-start'')) else None
      | RExtend i \<Rightarrow> if m = ''POST'' then Some (on_db (HandleExtendUser mo i (decode_extend b))) else None
      | RReset i \<Rightarrow> if m = ''POST'' then Some (on_db (HandleResetUsage mo i (rq_query rq))) else None
      | RWeekStart i \<Rightarrow>
          if m = ''POST'' then Some (on_db (HandleSetUserWeekStart mo i (decode_week_start b))) else None
      | RMultipliers \<Rightarrow>
          if m = ''POST'' then Some (on_db (HandleCreateMultiplier mo (decode_create_multiplier b))) else None
      | RMultiplier i \<Rightarrow>
          if m = ''PUT'' then Some (on_db (HandleUpdateMultiplier i (decode_update_multiplier b)))
          else if m = ''DELETE'' then Some (on_db (HandleDeleteMultiplier i)) else None
      | RSettings \<Rightarrow> if m = ''PUT'' then Some (HandleUpdateSettings (su_yaml su) (decode_settings b)) else None
      | RProviders \<Rightarrow>
          if m = ''POST'' then Some (on_console (HandleCreateProvider pn mo (decode_create_provider b))) else None
      | RProvider s \<Rightarrow>
          if m = ''PUT'' then Some (on_console (HandleUpdateProvider pn mo s (decode_update_provider b)))
          else if m = ''DELETE'' then Some (on_console (HandleDeleteProvider pn mo s)) else None
      | RMappings \<Rightarrow>
          if m = ''POST'' then Some (on_console (HandleCreateMapping pn mo (decode_create_mapping b))) else None
      | RMapping i \<Rightarrow> if m = ''DELETE'' then Some (on_console (HandleDeleteMapping pn mo i)) else None
      | RRules \<Rightarrow>
          if m = ''POST'' then Some (on_console (HandleCreateRoutingRule pn mo (decode_create_rule b))) else None
      | RRule i \<Rightarrow>
          if m = ''PUT'' then Some (on_console (HandleUpdateRoutingRule pn mo i (decode_update_rule b)))
          else if m = ''DELETE'' then Some (on_console (HandleDeleteRoutingRule pn mo i)) else None
      | _ \<Rightarrow> None)"

definition read_handler ::
  "surroundings \<Rightarrow> moment \<Rightarrow> admin_request \<Rightarrow> (admin \<Rightarrow> outcome \<times> admin) option" where
  "read_handler su mo rq =
     (let pn = su_panel su; q = rq_query rq in
      if \<not> is_get (rq_method rq) then None else
      case route_of (rq_path rq) of
        RUsers \<Rightarrow> Some (on_db HandleListUsers)
      | RUserCalls i \<Rightarrow> Some (on_db (HandleGetUserCalls i q))
      | RCalls \<Rightarrow> Some (on_db (HandleListCalls q))
      | RCallStats \<Rightarrow> Some (on_db (HandleCallsStats mo q))
      | RCallModels \<Rightarrow> Some (on_db HandleListCallModels)
      | ROverview \<Rightarrow> Some (on_db (GetOverview mo))
      | RMultipliers \<Rightarrow> Some (on_db HandleListMultipliers)
      | RSettings \<Rightarrow> Some (HandleGetSettings (su_endpoint su))
      | RProviders \<Rightarrow> Some (on_db (HandleListProviders pn))
      | RMappings \<Rightarrow> Some (on_db HandleListMappings)
      | RUsageList \<Rightarrow> Some (on_db (HandleListProviderUsage pn mo))
      | RUsage s \<Rightarrow> Some (on_db (HandleGetProviderUsage pn mo s))
      | RAllocation s \<Rightarrow> Some (on_db (HandleGetProviderAllocation mo s))
      | RUsagePage \<Rightarrow> Some (page (su_usage_page su))
      | RRules \<Rightarrow> Some (on_db HandleListRoutingRules)
      | RAuditLogs \<Rightarrow> Some (on_db (HandleListAuditLogs q))
      | RStaticRoot \<Rightarrow> Some (page (redirect ''/static/'' 301))
      | RStatic p \<Rightarrow> Some (page (su_static su p))
      | _ \<Rightarrow> None)"

definition admin_mux :: "surroundings \<Rightarrow> moment \<Rightarrow> admin_request \<Rightarrow> admin \<Rightarrow> outcome \<times> admin" where
  "admin_mux su mo rq =
     (case change_handler su mo rq of
        Some h \<Rightarrow> h
      | None \<Rightarrow> (case read_handler su mo rq of
          Some h \<Rightarrow> h | None \<Rightarrow> page (ServeDashboardPage su rq)))"

section \<open>Authentication\<close>

text \<open>Static files need no session, the API answers a missing one in JSON, pages with a redirection.\<close>

definition auth_handler :: "surroundings \<Rightarrow> moment \<Rightarrow> admin_request \<Rightarrow> admin \<Rightarrow> outcome \<times> admin" where
  "auth_handler su mo rq a =
     (if below ''static'' (rq_path rq) then admin_mux su mo rq a
      else case (if below ''api'' (rq_path rq) then check_api_session (mo_now mo) (rq_cookie rq) (ad_db a)
                 else check_page_session (mo_now mo) (rq_cookie rq) (rq_secure rq) (ad_db a)) of
        (Inl resp, db1) \<Rightarrow> (Answered resp, a\<lparr>ad_db := db1\<rparr>)
      | (Inr c, db1) \<Rightarrow> admin_mux su mo rq (a\<lparr>ad_db := db1\<rparr>))"

definition answered :: "(db \<Rightarrow> response \<times> db) \<Rightarrow> db \<Rightarrow> outcome \<times> db" where
  "answered h db = (case h db of (r, db1) \<Rightarrow> (Answered r, db1))"

text \<open>The routes outside the authentication, then the rest of \<open>/admin/\<close>.\<close>

definition is_login :: "admin_request \<Rightarrow> bool" where
  "is_login rq \<longleftrightarrow> rq_method rq = ''POST'' \<and> (rq_path rq = [''login''] \<or> rq_path rq = [''api'', ''login''])"

definition is_logout :: "admin_request \<Rightarrow> bool" where
  "is_logout rq \<longleftrightarrow> rq_method rq = ''POST'' \<and> rq_path rq = [''logout'']"

definition serve_admin :: "surroundings \<Rightarrow> moment \<Rightarrow> admin_request \<Rightarrow> admin \<Rightarrow> outcome \<times> admin" where
  "serve_admin su mo rq a =
     (if is_login rq then
        on_db (answered (HandleLogin (pn_crypto (su_panel su)) (mo_now mo) (mo_token_bytes mo)
          (pn_session_hours (su_panel su)) (rq_secure rq) (decode_login (rq_body rq)))) a
      else if is_logout rq then on_db (answered (HandleLogout (rq_cookie rq) (rq_secure rq))) a
      else if is_get (rq_method rq) \<and> rq_path rq = [''login''] then page (su_login_page su) a
      else if rq_path rq = [] then page (redirect ''/admin/'' 301) a
      else auth_handler su mo rq a)"

text \<open>Requests one after the other.\<close>

fun serve_all :: "surroundings \<Rightarrow> (moment \<times> admin_request) list \<Rightarrow> admin \<Rightarrow> admin" where
  "serve_all su [] a = a"
| "serve_all su ((mo, rq) # rqs) a = serve_all su rqs (snd (serve_admin su mo rq a))"

end
