(* ===== verification/PanelLaws.thy ===== *)
theory PanelLaws
  imports AdminApi AccountProperties StoreInvariant
begin

text \<open>
  What every handler of the admin panel keeps: the rules that carry an invariant of the tables through
  steps, and the invariant of the account tables with the administrators fixed.
\<close>

section \<open>Invariants through steps\<close>

definition keeps :: "(db \<Rightarrow> bool) \<Rightarrow> (db \<Rightarrow> 'r \<times> db) \<Rightarrow> bool" where
  "keeps I m \<longleftrightarrow> (\<forall>db. I db \<longrightarrow> I (snd (m db)))"

lemma keepsI: "(\<And>db. I db \<Longrightarrow> I (snd (m db))) \<Longrightarrow> keeps I m"
  by (simp add: keeps_def)

lemma keepsD: "keeps I m \<Longrightarrow> m db = (r, db') \<Longrightarrow> I db \<Longrightarrow> I db'"
  by (metis keeps_def snd_conv)

lemma keeps_op: "preserves I m \<Longrightarrow> keeps I m"
  by (simp add: preserves_def keeps_def)

lemma keeps_then: "keeps I m \<Longrightarrow> (\<And>x. keeps I (k x)) \<Longrightarrow> keeps I (then_step m k)"
  unfolding keeps_def then_step_def by (auto split: prod.split sum.split)

lemma keeps_or_answer: "preserves I m \<Longrightarrow> keeps I (or_answer m bad)"
  by (rule keepsI) (auto simp: or_answer_def split: prod.split sum.split dest: preservesD)

lemma keeps_or_absent: "preserves I m \<Longrightarrow> keeps I (or_absent m)"
  by (rule keepsI) (auto simp: or_absent_def split: prod.split sum.split dest: preservesD)

lemma keeps_note: "(\<And>db. I db \<Longrightarrow> I (f db)) \<Longrightarrow> keeps I (note_down f)"
  by (simp add: keeps_def note_down_def)

lemma keeps_pure [simp]:
  "keeps I (go_on x)" "keeps I (answer r)" "keeps I panic" "keeps I (reject_if b r)" "keeps I skip_step"
  "keeps I (path_id i msg)" "keeps I (decoded bd)"
  by (auto simp: keeps_def go_on_def answer_def panic_def reject_if_def skip_step_def path_id_def decoded_def
      split: option.split)

lemma keeps_respond: "keeps I m \<Longrightarrow> keeps I (respond m)"
  by (rule keepsI) (auto simp: respond_def split: prod.split sum.split dest: keepsD)

lemma keeps_if: "keeps I a \<Longrightarrow> keeps I b \<Longrightarrow> keeps I (if c then a else b)"
  by simp

lemma keeps_option: "keeps I a \<Longrightarrow> (\<And>x. keeps I (b x)) \<Longrightarrow> keeps I (case v of None \<Rightarrow> a | Some x \<Rightarrow> b x)"
  by (simp split: option.split)

lemma keeps_sum: "(\<And>x. keeps I (a x)) \<Longrightarrow> (\<And>x. keeps I (b x)) \<Longrightarrow> keeps I (case v of Inl x \<Rightarrow> a x | Inr x \<Rightarrow> b x)"
  by (simp split: sum.split)

lemma keeps_pair: "(\<And>x y. keeps I (a x y)) \<Longrightarrow> keeps I (case v of (x, y) \<Rightarrow> a x y)"
  by (simp split: prod.split)

lemma keeps_let: "(\<And>x. keeps I (a x)) \<Longrightarrow> keeps I (let x = v in a x)"
  by simp

lemmas keeps_rules = keeps_then keeps_respond keeps_option keeps_sum keeps_pair keeps_let keeps_if keeps_pure
  keeps_or_answer keeps_or_absent

section \<open>The account tables\<close>

text \<open>The administrators, the owners of calls, and the tables of accounts; none of it is touched by a
  change of any other column or table.\<close>

definition admins :: "db \<Rightarrow> (int \<times> string \<times> string) list" where
  "admins db = map (\<lambda>u. (u_id u, u_username u, u_password_hash u)) (filter (\<lambda>u. u_role u = ''admin'') (users db))"

definition panel_ok :: "(int \<times> string \<times> string) list \<Rightarrow> db \<Rightarrow> bool" where
  "panel_ok A db \<longleftrightarrow> accounts_ok db \<and> admins db = A \<and> cl_user_id ` set (call_logs db) \<subseteq> u_id ` set (users db)"

lemma panel_ok_others [simp]:
  "panel_ok A (db\<lparr>audit_logs := x1, audit_logs_seq := i\<rparr>) = panel_ok A db"
  "panel_ok A (db\<lparr>db_faults := x2\<rparr>) = panel_ok A db"
  "panel_ok A (db\<lparr>routing_rules := x3, routing_rules_seq := i\<rparr>) = panel_ok A db"
  "panel_ok A (db\<lparr>routing_rules := x3\<rparr>) = panel_ok A db"
  "panel_ok A (db\<lparr>providers := x4, providers_seq := i\<rparr>) = panel_ok A db"
  "panel_ok A (db\<lparr>providers := x4\<rparr>) = panel_ok A db"
  "panel_ok A (db\<lparr>model_mappings := x5, model_mappings_seq := i\<rparr>) = panel_ok A db"
  "panel_ok A (db\<lparr>model_mappings := x5\<rparr>) = panel_ok A db"
  "panel_ok A (db\<lparr>time_multipliers := x6, time_multipliers_seq := i\<rparr>) = panel_ok A db"
  "panel_ok A (db\<lparr>time_multipliers := x6\<rparr>) = panel_ok A db"
  "panel_ok A (db\<lparr>admin_sessions := x7, admin_sessions_seq := i\<rparr>) = panel_ok A db"
  "panel_ok A (db\<lparr>admin_sessions := x7\<rparr>) = panel_ok A db"
  by (simp_all add: panel_ok_def accounts_ok_def admins_def)

lemma panel_ok_table [simp]: "table_property (panel_ok A)"
proof -
  have *: "panel_ok A b" if "a\<lparr>db_faults := []\<rparr> = b\<lparr>db_faults := []\<rparr>" "panel_ok A a" for a b
  proof -
    have "panel_ok A b = panel_ok A (b\<lparr>db_faults := []\<rparr>)" by (rule panel_ok_others(2) [symmetric])
    also have "\<dots> = panel_ok A (a\<lparr>db_faults := []\<rparr>)" by (simp only: that(1))
    also have "\<dots> = panel_ok A a" by (rule panel_ok_others(2))
    finally show ?thesis using that(2) by simp
  qed
  show ?thesis unfolding table_property_def same_tables_def by (intro allI impI) (erule (1) *)
qed

lemma store_ok_rest [simp]:
  "store_ok od (db\<lparr>audit_logs := x1, audit_logs_seq := i\<rparr>) = store_ok od db"
  "store_ok od (db\<lparr>time_multipliers := x6, time_multipliers_seq := i\<rparr>) = store_ok od db"
  "store_ok od (db\<lparr>time_multipliers := x6\<rparr>) = store_ok od db"
  "store_ok od (db\<lparr>admin_sessions := x7, admin_sessions_seq := i\<rparr>) = store_ok od db"
  "store_ok od (db\<lparr>admin_sessions := x7\<rparr>) = store_ok od db"
  "store_ok od (db\<lparr>users := x8, quotas := x9, call_logs := x10\<rparr>) = store_ok od db"
  "store_ok od (set_users P f db) = store_ok od db" "store_ok od (set_quotas Q g db) = store_ok od db"
  by (simp_all add: store_ok_def set_users_def set_quotas_def)

lemma audit_preserves: "table_property I \<Longrightarrow> (\<And>db x i. I (db\<lparr>audit_logs := x, audit_logs_seq := i\<rparr>) = I db)
  \<Longrightarrow> I db \<Longrightarrow> I (WriteAudit now a t i d db)"
  unfolding WriteAudit_def by (rule preserves_log [OF preserves_exec]) auto

text \<open>Updates of a row that keep its identity.\<close>

lemma set_users_panel:
  assumes "\<And>u. u_id (f u) = u_id u" "\<And>u. u_username (f u) = u_username u"
    and "hashes_wf (update_where P f (users db)) = hashes_wf (users db)" "\<And>u. u_role (f u) = u_role u"
    and "\<And>u. u_password_hash (f u) = u_password_hash u"
  shows "panel_ok A (set_users P f db) = panel_ok A db"
proof -
  have s: "set (update_where P f (users db)) = (\<lambda>u. if P u then f u else u) ` set (users db)"
    by (rule set_update_where)
  have i: "u_id ` set (update_where P f (users db)) = u_id ` set (users db)"
    using user_tbl.keys_update [OF assms(1), of P "users db"] by (metis list.set_map)
  have b: "(\<forall>u \<in> set (update_where P f (users db)). u_id u \<le> n) = (\<forall>u \<in> set (users db). u_id u \<le> n)" for n
  proof -
    have b: "(\<forall>u \<in> S. u_id u \<le> n) = (\<forall>j \<in> u_id ` S. j \<le> n)" for S :: "User set" by blast
    show ?thesis unfolding b i ..
  qed
  have "map (\<lambda>u. (u_id u, u_username u, u_password_hash u)) (filter (\<lambda>u. u_role u = ''admin'') (update_where P f us))
      = map (\<lambda>u. (u_id u, u_username u, u_password_hash u)) (filter (\<lambda>u. u_role u = ''admin'') us)" for us
    by (induction us) (auto simp: assms)
  then show ?thesis
    using user_tbl.wf_update [of f P "users db", OF assms(1)] name_tbl.wf_update [of f P "users db", OF assms(2)]
      i b
    by (simp add: panel_ok_def accounts_ok_def admins_def set_users_def assms(3))
qed

lemma set_quotas_panel:
  assumes "\<And>r. q_user_id (f r) = q_user_id r"
  shows "panel_ok A (set_quotas P f db) = panel_ok A db"
proof -
  have "map q_user_id (update_where P f (quotas db)) = map q_user_id (quotas db)"
    by (rule quota_tbl.keys_update [OF assms])
  moreover from this have "q_user_id ` set (update_where P f (quotas db)) = q_user_id ` set (quotas db)"
    by (metis list.set_map)
  ultimately show ?thesis by (simp add: panel_ok_def accounts_ok_def admins_def set_quotas_def)
qed

section \<open>Invariants that only a few operations can break\<close>

text \<open>A property of the tables is kept by whatever only reads.\<close>

locale table_invariant =
  fixes I :: "db \<Rightarrow> bool"
  assumes table: "table_property I"
begin

lemma query: "preserves I (sql_query c q)"
  by (rule preserves_query [OF table])

lemma lookups:
  "preserves I (GetUserByID uid)" "preserves I (GetQuota uid)" "preserves I ListUsers"
  "preserves I (QueryCallLogs f)" "preserves I (GetUserByUsername n)" "preserves I (GetValidSession now v)"
  unfolding GetUserByID_def GetQuota_def QueryCallLogs_def GetUserByUsername_def GetValidSession_def Let_def
  by (auto intro!: query preserves_then preserves_result)
    (rule preservesI, auto simp: ListUsers_def split: prod.splits sum.splits option.splits dest: preservesD [OF query])

end

text \<open>
  An invariant that depends on the tables alone, not on the audit trail, and that no change to the rows of
  the accounts in \<open>which\<close> breaks unless it touches their identities.
\<close>

locale account_invariant = table_invariant I for I :: "db \<Rightarrow> bool" +
  fixes which :: "int \<Rightarrow> bool"
  assumes audit: "I (db\<lparr>audit_logs := x1, audit_logs_seq := i\<rparr>) = I db"
    and users: "(\<And>u. P u \<Longrightarrow> which (u_id u)) \<Longrightarrow>
      (\<And>u. u_id (f u) = u_id u) \<Longrightarrow> (\<And>u. u_username (f u) = u_username u) \<Longrightarrow>
      (\<And>u. u_sub_key_hash (f u) = u_sub_key_hash u) \<Longrightarrow> (\<And>u. u_role (f u) = u_role u) \<Longrightarrow>
      (\<And>u. u_password_hash (f u) = u_password_hash u) \<Longrightarrow> I (set_users P f db) = I db"
    and quotas: "(\<And>r. Q r \<Longrightarrow> which (q_user_id r)) \<Longrightarrow>
      (\<And>r. q_user_id (g r) = q_user_id r) \<Longrightarrow> I (set_quotas Q g db) = I db"
    and rekey: "which uid \<Longrightarrow> I db \<Longrightarrow> RegenerateUserKey now uid h p db = (r, db') \<Longrightarrow> I db'"
begin

lemma audited: "I db \<Longrightarrow> I (WriteAudit now a t j d db)"
  by (rule audit_preserves [OF table audit])

lemma exec_quota:
  "(\<And>r. Q r \<Longrightarrow> which (q_user_id r)) \<Longrightarrow> (\<And>r. q_user_id (g r) = q_user_id r) \<Longrightarrow>
    preserves I (exec_quotas c Q g)"
  unfolding exec_quotas_def by (rule preserves_exec [OF table]) (simp add: quotas)

lemma exec_users:
  "(\<And>u. P u \<Longrightarrow> which (u_id u)) \<Longrightarrow>
    (\<And>u. u_id (f u) = u_id u) \<Longrightarrow> (\<And>u. u_username (f u) = u_username u) \<Longrightarrow>
    (\<And>u. u_sub_key_hash (f u) = u_sub_key_hash u) \<Longrightarrow> (\<And>u. u_role (f u) = u_role u) \<Longrightarrow>
    (\<And>u. u_password_hash (f u) = u_password_hash u) \<Longrightarrow> preserves I (sql_exec c (set_users P f))"
  by (rule preserves_exec [OF table]) (simp add: users)

lemma account_ops:
  assumes "which uid"
  shows "preserves I (UpdateUserStatus now uid s)" "preserves I (ExtendUserExpiry now uid e)"
    "preserves I (UpdateUserRoute now uid rm fp)" "preserves I (UpdateUserMaxBodySize now uid n)"
    "preserves I (UpdateUserMaxConcurrency now uid n)" "preserves I (RegenerateUserKey now uid h p)"
  unfolding UpdateUserStatus_def ExtendUserExpiry_def UpdateUserRoute_def UpdateUserMaxBodySize_def
    UpdateUserMaxConcurrency_def
  using assms by (auto intro!: exec_users preserves_result intro: preservesI rekey)

lemma quota_ops:
  assumes "which uid"
  shows "preserves I (UpdateQuotaLimits now uid a b)" "preserves I (UpdateQuotaTokenTotalLimit now uid n)"
    "preserves I (UpdateQuotaTokenWindowLimits now uid k m)" "preserves I (UpdateFixedMultiplier now uid x)"
    "preserves I (ResetCallCount now uid s)" "preserves I (ResetTokenStats now uid s)"
    "preserves I (ResetQuotaUsage now uid s)"
  unfolding UpdateQuotaLimits_def UpdateQuotaTokenTotalLimit_def UpdateQuotaTokenWindowLimits_def
    UpdateFixedMultiplier_def ResetCallCount_def ResetTokenStats_def ResetQuotaUsage_def Let_def
  using assms by (auto intro!: exec_quota preserves_result preserves_then split: option.split)

lemma anchor_op:
  assumes "which uid"
  shows "preserves I (SetQuotaWeekStart now uid s)"
proof (rule preservesI)
  fix db r db'
  assume s: "SetQuotaWeekStart now uid s db = (r, db')" and I: "I db"
  have f: "preserves I (exec_quotas c (is_user uid) (set_anchor_cycle a n t))"
    "preserves I (exec_quotas c (is_user uid) (set_anchor a t))" for c a n t
    using assms by (auto intro!: exec_quota)
  obtain q db1 where q: "sql_query ''week start'' (\<lambda>db. select_one (is_user uid) (quotas db)) db = (q, db1)"
    by fastforce
  have "I db1" using preservesD [OF query q I] .
  note d = preservesD [OF f(1) _ this] preservesD [OF f(2) _ this]
  show "I db'"
    using s q \<open>I db1\<close> I unfolding SetQuotaWeekStart_def Let_def
    by (auto split: option.splits sum.splits if_splits dest: d)
qed

end

text \<open>
  An invariant of the account tables or of those of the store: it does not depend on the other trails
  (sessions, multipliers, routing rules) either, and the accounts may all change.  Only the operations that
  insert or delete accounts, providers and mappings are left to each.
\<close>

locale row_invariant = account_invariant I "\<lambda>_. True" for I :: "db \<Rightarrow> bool" +
  assumes multipliers: "I (db\<lparr>time_multipliers := x2\<rparr>) = I db"
      "I (db\<lparr>time_multipliers := x2, time_multipliers_seq := i\<rparr>) = I db"
    and sessions: "I (db\<lparr>admin_sessions := x3\<rparr>) = I db"
      "I (db\<lparr>admin_sessions := x3, admin_sessions_seq := i\<rparr>) = I db"
    and rules: "I (db\<lparr>routing_rules := x4\<rparr>) = I db"
      "I (db\<lparr>routing_rules := x4, routing_rules_seq := i\<rparr>) = I db"

section \<open>Handlers that keep them\<close>

definition keeps_console :: "(db \<Rightarrow> bool) \<Rightarrow> (console \<Rightarrow> outcome \<times> console) \<Rightarrow> bool" where
  "keeps_console I h \<longleftrightarrow> (\<forall>c. I (fst c) \<longrightarrow> I (fst (snd (h c))))"

definition keeps_admin :: "(db \<Rightarrow> bool) \<Rightarrow> (admin \<Rightarrow> outcome \<times> admin) \<Rightarrow> bool" where
  "keeps_admin I h \<longleftrightarrow> (\<forall>a. I (ad_db a) \<longrightarrow> I (ad_db (snd (h a))))"

lemma keeps_on_db: "keeps I h \<Longrightarrow> keeps_admin I (on_db h)"
  by (auto simp: keeps_def keeps_admin_def on_db_def split: prod.split)

lemma keeps_on_console: "keeps_console I h \<Longrightarrow> keeps_admin I (on_console h)"
  by (auto simp: keeps_console_def keeps_admin_def on_console_def split: prod.split) (metis fst_conv snd_conv)

lemma keeps_page: "keeps_admin I (page r)"
  by (simp add: keeps_admin_def page_def)

lemma keeps_settings:
  "keeps_admin I (HandleGetSettings e)" "keeps_admin I (HandleUpdateSettings yl b)"
  by (auto simp: keeps_admin_def HandleGetSettings_def HandleUpdateSettings_def Let_def
      split: option.split save_result.split prod.split)

context table_invariant
begin

lemma reload: "preserves I (BuildProviderTable cr kek order)"
proof -
  have "preserves I (\<lambda>db1. case load_providers cr kek rows [] '''' of
          Inl e \<Rightarrow> (Err e, db1)
        | Inr (ps, d) \<Rightarrow>
            let dflt = (if d = '''' \<and> ps \<noteq> [] then hd (order (map fst ps)) else d) in
            and_then (sql_query ''build table: query mappings'' (\<lambda>db. sort_key mm_id (model_mappings db)))
              (\<lambda>maps. and_then ListRoutingRules
                (\<lambda>rules db. (Ok \<lparr>pt_providers = ps, pt_mappings = load_mappings maps [],
                               pt_rules = rules, pt_default = dflt\<rparr>, db))) db1)" for rows
  proof (cases "load_providers cr kek rows [] ''''")
    case (Inl e)
    then show ?thesis by (simp add: preserves_result)
  next
    case (Inr p)
    obtain ps d where "p = (ps, d)" by fastforce
    then show ?thesis
      unfolding Inr Let_def ListRoutingRules_def
      by (auto intro!: preserves_then query preserves_result)
  qed
  then show ?thesis unfolding BuildProviderTable_def by (intro preserves_then query)
qed

lemma reloaded: "keeps I m \<Longrightarrow> keeps_console I (reload_after pn mo m resp)"
  unfolding keeps_console_def reload_after_def Reload_def
  by (auto split: prod.split sum.split dest: keepsD preservesD [OF reload])

lemma the_user_keeps: "keeps I (the_user uid)"
  by (rule keepsI) (auto simp: the_user_def split: prod.split sum.split option.split dest: preservesD [OF lookups(1)])

lemma reread_keeps: "keeps I (reread uid f)"
  unfolding reread_def by (intro keeps_rules lookups)

lemma read_users: "keeps I HandleListUsers" "keeps I (HandleGetUserCalls i q)"
  unfolding HandleListUsers_def HandleGetUserCalls_def by (intro keeps_rules lookups)+

lemma store_lists:
  "preserves I ListProviders" "preserves I FindAll" "preserves I (GetProvider s)" "preserves I ListMappings" "preserves I ListRoutingRules"
  "preserves I (ListAuditLogs p l)" "preserves I (BuildMaskedProviders cr kek)"
  unfolding ListProviders_def FindAll_def GetProvider_def ListMappings_def ListRoutingRules_def ListAuditLogs_def
    BuildMaskedProviders_def Let_def
  by (auto intro!: query preserves_then preserves_result)

lemma stats_queries:
  "preserves I (QueryCallLogsGlobal f)" "preserves I (AggregateCallStats o1 o2 f)" "preserves I DistinctModels"
  "preserves I (GetProviderUsage s w)" "preserves I (GetProviderAllocation now s)"
  "preserves I (GetProviderAllocationDetails now s w)" "preserves I (GetAutoUserAllocationByProvider now w)"
  unfolding QueryCallLogsGlobal_def AggregateCallStats_def DistinctModels_def GetProviderUsage_def
    GetProviderAllocation_def GetProviderAllocationDetails_def GetAutoUserAllocationByProvider_def Let_def
  by (intro query preserves_then preserves_result preserves_if)+

lemma overview: "keeps I (GetOverview mo)"
proof -
  have z: "I (snd (query_or_zero q db))" if "I db" for q db
    using that by (auto simp: query_or_zero_def split: prod.split sum.split dest: preservesD [OF query])
  have "I (snd (GetDashboardOverview now db))" if "I db" for now db
    using that by (simp add: GetDashboardOverview_def Let_def split_beta z)
  then show ?thesis by (simp add: keeps_def GetOverview_def split_beta)
qed

lemma usage_views_keeps: "keeps I (usage_views pn now auto ps)"
  by (induction ps) (auto intro!: keeps_then keeps_or_absent stats_queries)

lemma find_provider_keeps: "keeps I (find_provider slug)"
  unfolding find_provider_def by (intro keeps_rules store_lists)

lemma read_handlers:
  "keeps I (HandleListProviders pn)" "keeps I HandleListMultipliers" "keeps I HandleListMappings" "keeps I HandleListRoutingRules"
  "keeps I (HandleListAuditLogs q)" "keeps I (HandleListCalls q)" "keeps I (HandleCallsStats mo q)"
  "keeps I HandleListCallModels" "keeps I (HandleListProviderUsage pn mo)"
  "keeps I (HandleGetProviderUsage pn mo s)" "keeps I (HandleGetProviderAllocation mo s)"
  unfolding HandleListProviders_def HandleListMultipliers_def HandleListMappings_def HandleListRoutingRules_def HandleListAuditLogs_def
    HandleListCalls_def HandleCallsStats_def HandleListCallModels_def HandleListProviderUsage_def
    HandleGetProviderUsage_def HandleGetProviderAllocation_def
  by (intro keeps_rules store_lists stats_queries usage_views_keeps find_provider_keeps)+

lemma read_handler_keeps: "read_handler su mo rq = Some h \<Longrightarrow> keeps_admin I h"
  by (auto simp: read_handler_def Let_def split: if_splits route.splits
      intro: keeps_on_db keeps_page keeps_settings read_handlers read_users overview)

lemma session_checks: "keeps I (check_api_session now cookie)" "keeps I (check_page_session now cookie secure)"
  unfolding keeps_def check_api_session_def check_page_session_def
  by (auto split: option.split prod.split sum.split dest: preservesD [OF lookups(6)])

end

text \<open>The row a path names.\<close>

lemma keeps_path:
  "(\<And>uid. parse_int64 i = Some uid \<Longrightarrow> keeps I (k uid)) \<Longrightarrow> keeps I (then_step (path_id i msg) k)"
  by (cases "parse_int64 i") (simp_all add: path_id_def keeps_def)

text \<open>What a lookup hands on is the row of the account.\<close>

lemma the_user_Inr:
  "the_user uid db = (Inr u, db1) \<Longrightarrow> same_tables db db1 \<and> select_one (with_id uid) (users db1) = Some u"
  unfolding the_user_def GetUserByID_def
  by (auto elim!: sql_query_cases split: prod.splits sum.splits option.splits)

lemma keeps_then_if:
  "keeps I m \<Longrightarrow> (\<And>x db db'. m db = (Inr x, db') \<Longrightarrow> keeps I (k x)) \<Longrightarrow> keeps I (then_step m k)"
  unfolding keeps_def then_step_def by (auto split: prod.split sum.split; metis snd_conv)

lemma keeps_the_user:
  "keeps I (the_user uid) \<Longrightarrow> (\<And>u. u_id u = uid \<Longrightarrow> keeps I (k u)) \<Longrightarrow> keeps I (then_step (the_user uid) k)"
  by (rule keeps_then_if) (auto dest!: the_user_Inr select_one_SomeD)

context account_invariant
begin

lemma noted: "keeps I (note_down (WriteAudit now a t j d))"
  by (rule keeps_note) (rule audited)

lemma update_steps:
  assumes "which uid"
  shows "keeps I (limit_checks req)" "keeps I (update_counts now uid req)" "keeps I (update_token_cap now uid req)"
    "keeps I (update_window_caps now uid req)" "keeps I (update_status now uid req)"
    "u_id user = uid \<Longrightarrow> keeps I (update_route now user req)" "keeps I (update_body_cap now uid req)"
    "keeps I (update_concurrency now uid req)" "keeps I (update_multiplier now uid req)"
    "keeps I (regenerate_key pn mo uid req)"
  unfolding limit_checks_def update_counts_def update_token_cap_def update_window_caps_def update_status_def
    update_route_def update_body_cap_def update_concurrency_def update_multiplier_def set_multiplier_def
    regenerate_key_def
  by (use assms in \<open>intro keeps_rules lookups quota_ops account_ops reread_keeps noted; simp\<close>)+

lemma update_user:
  assumes "\<And>uid. parse_int64 i = Some uid \<Longrightarrow> which uid"
  shows "keeps I (HandleUpdateUser pn mo i b)"
  unfolding HandleUpdateUser_def
  by (intro keeps_path keeps_the_user keeps_rules update_steps the_user_keeps noted) (auto intro: assms)

lemma extend_user:
  assumes "\<And>uid. parse_int64 i = Some uid \<Longrightarrow> which uid"
  shows "keeps I (HandleExtendUser mo i b)"
proof -
  have "I (reset_on_extend now uid db)" if "I db" "which uid" for now uid db
    using that
    by (auto simp: reset_on_extend_def split: prod.split sum.split dest: preservesD [OF quota_ops(7)] intro: audited)
  then have r: "keeps I (note_down (reset_on_extend now uid))" if "which uid" for now uid
    using that by (auto intro: keeps_note)
  have e: "keeps I (new_expiry now old req)" for now old req
    unfolding new_expiry_def by (intro keeps_rules)
  show ?thesis
    unfolding HandleExtendUser_def
    by (intro keeps_path keeps_rules the_user_keeps noted account_ops r e) (auto intro: assms)
qed

lemma reset_usage:
  assumes "\<And>uid. parse_int64 i = Some uid \<Longrightarrow> which uid"
  shows "keeps I (HandleResetUsage mo i q)"
proof -
  have "preserves I (reset_scope mo uid s)" if "which uid" for uid s
    unfolding reset_scope_def Let_def using that by (simp add: quota_ops)
  then show ?thesis
    unfolding HandleResetUsage_def by (intro keeps_path keeps_rules the_user_keeps noted) (auto intro: assms)
qed

lemma week_start:
  assumes "\<And>uid. parse_int64 i = Some uid \<Longrightarrow> which uid"
  shows "keeps I (HandleSetUserWeekStart mo i b)"
proof -
  have "keeps I (week_start_text now ws)" for now ws
    unfolding week_start_text_def by (intro keeps_rules)
  then show ?thesis
    unfolding HandleSetUserWeekStart_def
    by (intro keeps_path keeps_rules lookups anchor_op noted) (auto intro: assms)
qed

end

context row_invariant
begin

lemma batch: "keeps I (HandleBatchSetWeekStart mo b)"
proof -
  have b: "I db \<Longrightarrow> I (snd (set_week_starts now ws uids db))" for now ws uids db
  proof (induction uids arbitrary: db)
    case (Cons uid uids)
    then show ?case
      using Cons.IH [of "snd (SetQuotaWeekStart now uid ws db)"] anchor_op [OF TrueI, of now uid ws]
      by (simp add: preserves_def split_beta)
  qed simp
  have "keeps I (\<lambda>db. case set_week_starts now ws uids db of (rs, db1) \<Rightarrow> (Inr rs, db1))" for now ws uids
    by (rule keepsI) (use b in \<open>simp add: split_beta\<close>)
  then show ?thesis unfolding HandleBatchSetWeekStart_def by (intro keeps_rules noted)
qed

lemma multiplier_handlers:
  "keeps I (HandleCreateMultiplier mo b1)"
  "keeps I (HandleUpdateMultiplier i b2)" "keeps I (HandleDeleteMultiplier i)"
proof -
  have m: "preserves I (CreateMultiplierRule now s e x d)"
    "preserves I (UpdateMultiplierRule j u)" "preserves I (DeleteMultiplierRule j)"
    "preserves I (GetMultiplierByID j)" for now s e x d j u
    unfolding CreateMultiplierRule_def UpdateMultiplierRule_def DeleteMultiplierRule_def
      GetMultiplierByID_def Let_def
    by (auto intro!: query preserves_stmt [OF table] preserves_exec [OF table] preserves_result simp: multipliers)
  have r: "keeps I (case r of Some (Some rule) \<Rightarrow> go_on (f rule) | _ \<Rightarrow> go_on g)" for r :: "TimeMultiplier option option" and f g
    by (simp split: option.split)
  show "keeps I (HandleCreateMultiplier mo b1)" "keeps I (HandleDeleteMultiplier i)"
    unfolding HandleCreateMultiplier_def HandleDeleteMultiplier_def
    by (intro keeps_rules m)+
  show "keeps I (HandleUpdateMultiplier i b2)"
    unfolding HandleUpdateMultiplier_def
    by (intro keeps_respond keeps_then keeps_pure keeps_or_answer keeps_or_absent m r)
qed

text \<open>The routing rules, through the reload.\<close>

lemma rule_handlers:
  "keeps_console I (HandleCreateRoutingRule pn mo b1)" "keeps_console I (HandleUpdateRoutingRule pn mo i b2)"
  "keeps_console I (HandleDeleteRoutingRule pn mo i)"
proof -
  have m: "preserves I (CreateRoutingRule now r)" "preserves I (UpdateRoutingRule now j u d)"
    "preserves I (DeleteRoutingRule now j)" for now r j u d
    unfolding CreateRoutingRule_def UpdateRoutingRule_def DeleteRoutingRule_def
    by (auto intro!: preserves_then preserves_stmt [OF table] preserves_exec [OF table] preserves_map
        preserves_result audited simp: rules)
  show "keeps_console I (HandleCreateRoutingRule pn mo b1)" "keeps_console I (HandleUpdateRoutingRule pn mo i b2)"
    "keeps_console I (HandleDeleteRoutingRule pn mo i)"
    unfolding HandleCreateRoutingRule_def HandleUpdateRoutingRule_def HandleDeleteRoutingRule_def
    by (intro reloaded keeps_rules m)+
qed

text \<open>Sessions.\<close>

lemma session_handlers:
  "keeps I (answered (HandleLogin cr now bs hours secure b))" "keeps I (answered (HandleLogout cookie secure))"
proof -
  have s: "preserves I (CreateSession now t n)" "preserves I (DeleteSession t)" for now t n
    unfolding CreateSession_def DeleteSession_def Let_def
    by (auto intro!: preserves_stmt [OF table] preserves_exec [OF table] simp: sessions)
  show "keeps I (answered (HandleLogin cr now bs hours secure b))"
    unfolding keeps_def answered_def HandleLogin_def
    by (auto split: option.split prod.split sum.split dest: preservesD [OF lookups(5)] preservesD [OF s(1)])
  show "keeps I (answered (HandleLogout cookie secure))"
    unfolding keeps_def answered_def HandleLogout_def Let_def
    by (auto split: option.split intro: preserves_log [OF s(2)])
qed

end

section \<open>The two invariants\<close>

lemma rekey_panel:
  assumes "panel_ok A db" "RegenerateUserKey now uid h p db = (r, db')"
  shows "panel_ok A db'"
  using assms(2) unfolding RegenerateUserKey_def
proof (cases rule: run_stmt_cases)
  case (ok db1)
  let ?f = "\<lambda>u. u\<lparr>u_sub_key_hash := h, u_sub_key_preview := p, u_updated_at := fmt_rfc3339 now\<rparr>"
  have p: "panel_ok A db1" using ok(2) assms(1) panel_ok_table [of A] by (auto simp: table_property_def)
  then have w: "hashes_wf (users db1)" "users_wf (users db1)" by (simp_all add: panel_ok_def accounts_ok_def)
  have "hashes_wf (update_where (with_id uid) ?f (users db1))"
  proof (cases "select_one (with_id uid) (users db1) = None")
    case True
    then have "update_where (with_id uid) ?f (users db1) = users db1"
      by (intro update_where_noop) (auto simp: select_one_None_iff)
    then show ?thesis by (simp only: w(1))
  next
    case False
    then have "select_one (\<lambda>u. u_sub_key_hash u = h \<and> u_id u \<noteq> uid) (users db1) = None"
      using ok(3) by (simp split: if_splits)
    then show ?thesis
      using w unfolding hashes_wf_def users_wf_def select_one_None_iff by (intro rekey_distinct) auto
  qed
  with w(1) have "panel_ok A (set_users (with_id uid) ?f db1) = panel_ok A db1"
    by (intro set_users_panel) simp_all
  then show ?thesis using p ok(4) by simp
qed (use assms(1) panel_ok_table [of A] in \<open>auto simp: table_property_def\<close>)

lemma rekey_store:
  assumes "store_ok od db" "RegenerateUserKey now uid h p db = (r, db')"
  shows "store_ok od db'"
  using assms(2) unfolding RegenerateUserKey_def
  by (cases rule: run_stmt_cases) (auto simp: assms(1) store_ok_same [OF same_storeI])

interpretation accounts: row_invariant "panel_ok A" for A
proof unfold_locales
  fix f :: "User \<Rightarrow> User" and P db
  assume f: "\<And>u. u_id (f u) = u_id u" "\<And>u. u_username (f u) = u_username u"
    "\<And>u. u_sub_key_hash (f u) = u_sub_key_hash u" "\<And>u. u_role (f u) = u_role u"
    "\<And>u. u_password_hash (f u) = u_password_hash u"
  show "panel_ok A (set_users P f db) = panel_ok A db"
    by (rule set_users_panel [OF f(1,2) hash_tbl.wf_update [OF f(3)] f(4,5)])
qed (auto simp: set_quotas_panel intro: rekey_panel)

interpretation store: row_invariant "store_ok od" for od
  by unfold_locales (auto intro: rekey_store)

end
