(* ===== verification/AdminLaws.thy ===== *)
theory AdminLaws
  imports PanelLaws
begin

text \<open>
  The operations that insert or delete accounts, providers and mappings keep the two invariants of
  \<open>PanelLaws\<close>, and with them so does every request to the admin panel.
\<close>

section \<open>Accounts come and go\<close>

lemma same_tablesE:
  assumes "same_tables a b"
  obtains f where "b = a\<lparr>db_faults := f\<rparr>"
proof
  have "b = (b\<lparr>db_faults := []\<rparr>)\<lparr>db_faults := db_faults b\<rparr>" by simp
  also have "\<dots> = (a\<lparr>db_faults := []\<rparr>)\<lparr>db_faults := db_faults b\<rparr>"
    using assms by (simp only: same_tables_def)
  finally show "b = a\<lparr>db_faults := db_faults b\<rparr>" by simp
qed

text \<open>A creation changes nothing, or adds one account with its quota row.\<close>

lemma create_user_cases [consumes 1, case_names err ok]:
  assumes "CreateUser now n db = (r, db')"
  obtains e where "r = Err e" "same_tables db db'"
    | x db1 where "r = Ok x" "same_tables db db1" "u_id x = users_seq db1 + 1"
      "user_conflict (user_row (user_defaults n) (fmt_rfc3339 now) (users_seq db1 + 1)) db1 = None"
      "same_tables (after_create now (user_defaults n) db1) db'"
  using assms unfolding CreateUser_def Let_def
proof (cases rule: transaction_cases)
  case (ok x db1 db2)
  let ?n = "user_defaults n"
  from ok(3) obtain uid d1 where i: "insert_user ?n (fmt_rfc3339 now) db1 = (Ok uid, d1)"
    and q: "insert_quota ?n now uid d1 = (Ok (), db2)" and x: "u_id x = uid"
    by (auto elim!: and_then_cases simp: User.extend_def user_row_def)
  from i obtain d0 where d0: "uid = users_seq d0 + 1" "same_tables db1 d0"
    "user_conflict (user_row ?n (fmt_rfc3339 now) (users_seq d0 + 1)) d0 = None"
    "d1 = d0\<lparr>users := insert_row (user_row ?n (fmt_rfc3339 now) (users_seq d0 + 1)) (users d0),
              users_seq := users_seq d0 + 1\<rparr>"
    unfolding insert_user_def by (cases rule: run_stmt_cases) auto
  from q obtain d2 where d2: "same_tables d1 d2"
    "db2 = d2\<lparr>quotas := insert_row (quota_row_new ?n now uid (quotas_seq d2 + 1)) (quotas d2),
              quotas_seq := quotas_seq d2 + 1\<rparr>"
    unfolding insert_quota_def by (cases rule: run_stmt_cases) auto
  have "same_tables (after_create now ?n d0) db2"
  proof -
    obtain f where "d2 = d1\<lparr>db_faults := f\<rparr>" by (rule same_tablesE [OF d2(1)])
    then show ?thesis using d2(2) d0 by (simp add: after_create_def Let_def same_tables_def)
  qed
  then show thesis
    using that(2) [OF ok(1) same_tables_trans [OF ok(2) d0(2)]] d0 x ok(4) same_tables_trans by blast
qed (use that in auto)

lemma after_create_panel:
  assumes "panel_ok A db" "nu_role n \<noteq> ''admin''"
    and "user_conflict (user_row n (fmt_rfc3339 now) (users_seq db + 1)) db = None"
  shows "panel_ok A (after_create now n db)"
  using assms after_create_ok [of db n now]
  by (auto simp: panel_ok_def admins_def after_create_def Let_def insert_row_def)

lemma user_defaults_role [simp]: "nu_role (user_defaults n) = nu_role n"
  by (simp add: user_defaults_def Let_def)

lemma create_user_panel: "nu_role n \<noteq> ''admin'' \<Longrightarrow> preserves (panel_ok A) (CreateUser now n)"
proof (rule preservesI)
  fix db r db'
  assume "CreateUser now n db = (r, db')" "panel_ok A db" "nu_role n \<noteq> ''admin''"
  then show "panel_ok A db'"
    using panel_ok_table [of A] after_create_panel [of A _ "user_defaults n" now]
    by (cases rule: create_user_cases) (auto simp: table_property_def)
qed

lemma create_user_store: "preserves (store_ok od) (CreateUser now n)"
proof (rule preservesI)
  fix db r db'
  assume "CreateUser now n db = (r, db')" "store_ok od db"
  moreover have "store_ok od (after_create now n db) = store_ok od db" for db n
    by (simp add: after_create_def store_ok_def Let_def)
  ultimately show "store_ok od db'"
    using store_ok_table by (cases rule: create_user_cases) (auto simp: table_property_def)
qed

text \<open>The rows of one account leave all tables at once.\<close>

definition without_user :: "int \<Rightarrow> db \<Rightarrow> db" where
  "without_user uid db = db\<lparr>users := delete_where (with_id uid) (users db),
     quotas := delete_where (is_user uid) (quotas db),
     call_logs := delete_where (\<lambda>l. cl_user_id l = uid) (call_logs db)\<rparr>"

lemma without_user_panel:
  assumes "panel_ok A db" "\<forall>u \<in> set (users db). u_id u = uid \<longrightarrow> u_role u \<noteq> ''admin''"
  shows "panel_ok A (without_user uid db)"
proof -
  have "filter (\<lambda>u. u_role u = ''admin'') (delete_where (with_id uid) us)
      = filter (\<lambda>u. u_role u = ''admin'') us" if "\<forall>u \<in> set us. u_id u = uid \<longrightarrow> u_role u \<noteq> ''admin''" for us
    using that by (induction us) (auto simp: delete_where_def)
  then have "admins (without_user uid db) = admins db"
    using assms(2) by (simp add: admins_def without_user_def)
  moreover have "q_user_id ` set (delete_where (is_user uid) (quotas db))
      = u_id ` set (delete_where (with_id uid) (users db))"
  proof -
    have "q_user_id ` set (delete_where (is_user uid) (quotas db)) = q_user_id ` set (quotas db) - {uid}"
      "u_id ` set (delete_where (with_id uid) (users db)) = u_id ` set (users db) - {uid}"
      by (auto simp: delete_where_def)
    then show ?thesis using assms(1) by (simp add: panel_ok_def accounts_ok_def)
  qed
  moreover have "\<forall>u \<in> set (delete_where (with_id uid) (users db)). u_id u \<le> users_seq db"
    using assms(1) by (auto simp: panel_ok_def accounts_ok_def delete_where_def)
  moreover have "cl_user_id ` set (delete_where (\<lambda>l. cl_user_id l = uid) (call_logs db))
      \<subseteq> u_id ` set (delete_where (with_id uid) (users db))"
    using assms(1) by (force simp: panel_ok_def delete_where_def)
  moreover have "distinct (map q_user_id (delete_where (is_user uid) (quotas db)))"
    using quota_tbl.wf_delete [of "quotas db" "is_user uid"] assms(1)
    by (simp add: quotas_wf_def panel_ok_def accounts_ok_def)
  ultimately show ?thesis
    using assms(1)
    by (simp add: panel_ok_def accounts_ok_def without_user_def user_tbl.wf_delete name_tbl.wf_delete
        hash_tbl.wf_delete)
qed

lemma the_user_state: "the_user uid db = (r, db1) \<Longrightarrow> same_tables db db1"
  unfolding the_user_def GetUserByID_def
  by (auto elim!: sql_query_cases split: prod.splits sum.splits option.splits)

lemma delete_user_eq: "delete_user uid = sql_exec ''delete user'' (without_user uid)"
  by (simp add: delete_user_def without_user_def [abs_def])

lemma delete_steps_panel: "keeps (panel_ok A) (delete_steps i)"
proof -
  have d: "keeps (panel_ok A) (then_step (the_user uid)
      (\<lambda>user. then_step (reject_if (u_role user = ''admin'') r)
      (\<lambda>_. then_step (or_answer (delete_user uid) bad) (\<lambda>_. go_on uid))))" (is "keeps _ ?m") for uid r bad
  proof (rule keepsI)
    fix db assume ok: "panel_ok A db"
    obtain x db1 where l: "the_user uid db = (x, db1)" by fastforce
    have ok1: "panel_ok A db1"
      using the_user_state [OF l] panel_ok_table [of A] ok by (auto simp: table_property_def)
    show "panel_ok A (snd (?m db))"
    proof (cases "\<exists>u. x = Inr u \<and> u_role u \<noteq> ''admin''")
      case False
      with l ok1 show ?thesis by (auto simp: then_step_def reject_if_def answer_def split: sum.split)
    next
      case True
      then obtain u where u: "x = Inr u" "u_role u \<noteq> ''admin''" by blast
      have s: "select_one (with_id uid) (users db1) = Some u" using the_user_Inr l u(1) by blast
      have "v = u" if "v \<in> set (users db1)" "u_id v = uid" for v
      proof -
        have "inj_on u_id (set (users db1))"
          using ok1 by (simp add: panel_ok_def accounts_ok_def users_wf_def distinct_map)
        then show ?thesis using select_one_SomeD [OF s] that by (auto dest: inj_onD)
      qed
      then have "\<forall>v \<in> set (users db1). u_id v = uid \<longrightarrow> u_role v \<noteq> ''admin''" using u(2) by blast
      moreover obtain y db2 where e: "delete_user uid db1 = (y, db2)" by fastforce
      ultimately have "panel_ok A db2"
        using e [unfolded delete_user_eq] panel_ok_table [of A] ok1 without_user_panel [of A _ uid]
        by (elim sql_exec_cases) (auto simp: table_property_def same_tables_select)
      with l u e show ?thesis
        by (auto simp: then_step_def or_answer_def reject_if_def go_on_def split: sum.split)
    qed
  qed
  show ?thesis unfolding delete_steps_def by (intro keeps_then keeps_pure d)
qed

lemma delete_steps_store: "keeps (store_ok od) (delete_steps i)"
proof -
  have "preserves (store_ok od) (delete_user uid)" for uid
    unfolding delete_user_def by (rule preserves_exec) simp_all
  then show ?thesis unfolding delete_steps_def by (intro keeps_rules store.the_user_keeps)
qed

text \<open>An invariant of accounts and calls says nothing about the tables of the store.\<close>

locale account_tables = row_invariant +
  assumes provider_rows: "I (db\<lparr>providers := x1\<rparr>) = I db" "I (db\<lparr>providers := x1, providers_seq := i\<rparr>) = I db"
    and mapping_rows: "I (db\<lparr>model_mappings := x2\<rparr>) = I db"
      "I (db\<lparr>model_mappings := x2, model_mappings_seq := i\<rparr>) = I db"
begin

lemma provider_ops:
  "preserves I (CreateProvider cr kek nonce now n)" "preserves I (UpdateProvider cr kek nonce now slug u detail)"
  "preserves I (DeleteProvider now slug)"
  "preserves I (CreateMapping now e p m)" "preserves I (DeleteMapping now j)"
proof -
  note t = table
  note r = provider_rows mapping_rows
  have c: "preserves I clear_defaults" "preserves I (insert_provider mk)" for mk
    unfolding clear_defaults_def insert_provider_def
    by (auto intro!: preserves_exec preserves_stmt t simp: r)
  have e: "preserves I (encrypt_update cr kek nonce u)"
    by (rule preservesI) (auto dest: encrypt_update_state)
  have create: "preserves I (transaction (and_then (if np_is_default n then clear_defaults
      else (\<lambda>db. (Ok (), db))) (\<lambda>_. insert_provider mk)))" for mk
    by (intro preserves_rules t c)
  have update: "preserves I (transaction
        (and_then (if pu_is_default u = Some True then clear_defaults else (\<lambda>db. (Ok (), db)))
          (\<lambda>_. and_then (encrypt_update cr kek nonce u)
            (\<lambda>encrypted. sql_exec ''update provider''
               (\<lambda>db. db\<lparr>providers := update_where (with_slug slug)
                   (provider_set (fmt_rfc3339 now) encrypted u) (providers db)\<rparr>)))))"
    by (intro preserves_rules t c e preserves_exec) (simp add: r)
  show "preserves I (CreateProvider cr kek nonce now n)"
    by (rule preservesI)
      (auto simp: CreateProvider_def Let_def split: sum.splits prod.splits
        intro: audited dest: preservesD [OF create])
  show "preserves I (UpdateProvider cr kek nonce now slug u detail)"
    by (rule preservesI)
      (auto simp: UpdateProvider_def split: sum.splits prod.splits
        dest: preservesD [OF update] preservesD [OF store_lists(3)] intro: audited)
  show "preserves I (DeleteProvider now slug)" "preserves I (CreateMapping now e p m)"
    "preserves I (DeleteMapping now j)"
    unfolding DeleteProvider_def GetUsersByFixedProvider_def CreateMapping_def DeleteMapping_def Let_def
    by (auto intro!: preserves_rules t preserves_exec preserves_stmt preserves_map audited simp: r)
qed

end

interpretation account_rows: account_tables "panel_ok A" for A
  by unfold_locales simp_all

section \<open>Requests\<close>

text \<open>An invariant of rows that the remaining operations keep too.\<close>

locale panel_invariant = row_invariant +
  assumes created: "nu_role n \<noteq> ''admin'' \<Longrightarrow> preserves I (CreateUser now n)"
    and deleted: "keeps I (delete_steps i)"
    and stored: "preserves I (CreateProvider cr kek nonce now p)"
      "preserves I (UpdateProvider cr kek nonce now slug u detail)" "preserves I (DeleteProvider now slug)"
      "preserves I (CreateMapping now e pid m)" "preserves I (DeleteMapping now j)"
begin

lemma create_user: "keeps I (HandleCreateUser pn mo b)"
proof -
  have role: "nu_role n = ''user''" if "create_checks b db = (Inr (req, n), db')" for db db' req n
    using that
    by (auto simp: create_checks_def checked_concurrency_def answer_def go_on_def reject_if_def Let_def
        split: option.splits if_splits sum.splits elim!: then_step_cases)
  have c: "keeps I (create_checks b)"
    unfolding create_checks_def checked_concurrency_def by (intro keeps_rules)
  have t: "keeps I (token_caps now req uid)" for now req uid
    unfolding token_caps_def by (intro keeps_rules quota_ops) simp_all
  have u: "preserves I (CreateUser (mo_now mo) n)" if "create_checks b db = (Inr (req, n), db')" for db db' req n
    by (rule created) (simp add: role [OF that])
  show ?thesis
    unfolding HandleCreateUser_def
    by (intro keeps_respond keeps_then_if [OF c])
      (auto intro!: keeps_then keeps_or_answer keeps_let keeps_pure u t account_ops noted)
qed

lemma delete_user_keeps: "keeps_admin I (on_counters (HandleDeleteUser i))"
  using deleted [of i]
  by (auto simp: keeps_admin_def on_counters_def HandleDeleteUser_def split: prod.split sum.split dest: keepsD)

lemma provider_handlers:
  "keeps_console I (HandleCreateProvider pn mo b1)" "keeps_console I (HandleUpdateProvider pn mo s b2)"
  "keeps_console I (HandleDeleteProvider pn mo s)" "keeps_console I (HandleCreateMapping pn mo b3)"
  "keeps_console I (HandleDeleteMapping pn mo i)"
  unfolding HandleCreateProvider_def create_provider_steps_def HandleUpdateProvider_def
    update_provider_steps_def collect_updates_def HandleDeleteProvider_def HandleCreateMapping_def
    HandleDeleteMapping_def
  by (intro reloaded keeps_rules stored)+

lemma change_handler_keeps: "change_handler su mo rq = Some h \<Longrightarrow> keeps_admin I h"
  unfolding change_handler_def Let_def
  by (cases "route_of (rq_path rq)")
    (auto split: if_splits intro: keeps_on_db keeps_on_console delete_user_keeps provider_handlers
      create_user update_user batch extend_user reset_usage week_start multiplier_handlers rule_handlers
      keeps_settings)

lemma mux_keeps: "keeps_admin I (admin_mux su mo rq)"
  unfolding admin_mux_def
  by (auto split: option.split dest: change_handler_keeps read_handler_keeps intro: keeps_page)

lemma auth_keeps: "keeps_admin I (auth_handler su mo rq)"
  unfolding keeps_admin_def
proof (intro allI impI)
  fix a :: admin assume I: "I (ad_db a)"
  let ?check = "if below ''api'' (admin_request.rq_path rq) then check_api_session (mo_now mo) (rq_cookie rq)
    else check_page_session (mo_now mo) (rq_cookie rq) (rq_secure rq)"
  obtain x db1 where c: "?check (ad_db a) = (x, db1)" by fastforce
  moreover have "keeps I ?check" by (simp add: session_checks)
  ultimately have "I db1" using I by (blast dest: keepsD)
  then show "I (ad_db (snd (auth_handler su mo rq a)))"
    using mux_keeps [of su mo rq] c I
    by (simp add: auth_handler_def keeps_admin_def split: sum.split if_splits)
qed

lemma serve_keeps: "keeps_admin I (serve_admin su mo rq)"
  using auth_keeps [of su mo rq] keeps_on_db [OF session_handlers(1)] keeps_on_db [OF session_handlers(2)]
  by (simp add: keeps_admin_def serve_admin_def page_def)

lemma serve_all_keeps: "I (ad_db a) \<Longrightarrow> I (ad_db (serve_all su rqs a))"
proof (induction su rqs a rule: serve_all.induct)
  case (2 su mo rq rqs a)
  then show ?case using serve_keeps [of su mo rq] by (simp add: keeps_admin_def)
qed simp

end

interpretation account_panel: panel_invariant "panel_ok A" for A
  by unfold_locales (auto intro: create_user_panel delete_steps_panel account_rows.provider_ops)

interpretation store_panel: panel_invariant "store_ok od" for od
  by unfold_locales
    (auto intro: create_user_store delete_steps_store delete_keeps map_new_keeps map_del_keeps
      preservesI create_keeps update_keeps)

end
