(* ===== verification/AdminProperties.thy ===== *)
theory AdminProperties
  imports AdminLaws
begin

text \<open>
  Properties of the admin panel as a whole: who may change anything, which requests change nothing,
  and what every sequence of requests keeps.
\<close>

section \<open>A panel to look at\<close>

definition sample_panel :: panel where
  "sample_panel = \<lparr>pn_crypto = toy_crypto, pn_kek = [], pn_salt = ''salt'', pn_has_db = True,
     pn_ratios = None, pn_session_hours = 24\<rparr>"

definition blank_page :: response where
  "blank_page = \<lparr>rs_status = 200, rs_headers = [], rs_cookies = [], rs_body = RawBody ''''\<rparr>"

definition sample_surroundings :: surroundings where
  "sample_surroundings = \<lparr>su_panel = sample_panel, su_login_page = blank_page, su_dashboard = blank_page,
     su_usage_page = blank_page, su_static = (\<lambda>_. blank_page),
     su_yaml = \<lparr>yl_decode = (\<lambda>_. Some None), yl_encode = (\<lambda>_. None)\<rparr>, su_endpoint = ''''\<rparr>"

definition sample_moment :: moment where
  "sample_moment = \<lparr>mo_now = noon 2, mo_key_bytes = [1, 2], mo_nonce = None, mo_token_bytes = [3, 4],
     mo_order = (\<lambda>ks. ks), mo_user_order = (\<lambda>ks. ks)\<rparr>"

definition sample_admin :: "db \<Rightarrow> admin" where
  "sample_admin db = \<lparr>ad_db = db, ad_table = \<lparr>pt_providers = [], pt_mappings = [], pt_rules = [],
     pt_default = ''''\<rparr>, ad_counters = [], ad_creds = [], ad_file = None\<rparr>"

definition sample_request :: "string \<Rightarrow> string list \<Rightarrow> string \<Rightarrow> admin_request" where
  "sample_request m path body = \<lparr>rq_method = m, rq_path = path, rq_query = [], rq_body = body,
     rq_cookie = None, rq_secure = False\<rparr>"

section \<open>Every sequence of requests\<close>

text \<open>
  Property C7.  Whatever requests reach the admin panel, in whatever order, signed in or not, with
  whatever statements failing: ids, names and key hashes of accounts stay unique, every account keeps its
  one quota row, every call in the log belongs to an account, the administrators stay the same with the
  same passwords, provider slugs stay unique and mappings refer to providers, and where at most one
  provider was the default (\<open>od\<close>) that stays so.
\<close>

theorem admin_requests_keep_tables:
  assumes "panel_ok A (ad_db a)" "store_ok od (ad_db a)"
  shows "panel_ok A (ad_db (serve_all su rqs a)) \<and> store_ok od (ad_db (serve_all su rqs a))"
  by (intro conjI account_panel.serve_all_keeps store_panel.serve_all_keeps assms)

section \<open>Who changes what\<close>

definition session_open :: "gotime \<Rightarrow> string option \<Rightarrow> db \<Rightarrow> bool" where
  "session_open now cookie db \<longleftrightarrow> (\<exists>v. cookie = Some v \<and>
     (\<exists>s \<in> set (admin_sessions db). s_token s = v \<and> fmt_rfc3339 now < s_expires_at s))"

definition same_rest :: "admin \<Rightarrow> admin \<Rightarrow> bool" where
  "same_rest a b \<longleftrightarrow> ad_table b = ad_table a \<and> ad_counters b = ad_counters a \<and> ad_file b = ad_file a"

lemma closed_session:
  assumes "\<not> session_open now cookie db"
  shows "\<exists>resp db1. check_api_session now cookie db = (Inl resp, db1) \<and> same_tables db db1 \<and>
      rs_status resp \<in> {401, 500} \<and> (healthy db \<longrightarrow> rs_status resp = 401)"
    and "\<exists>resp db1. check_page_session now cookie secure db = (Inl resp, db1) \<and> same_tables db db1 \<and>
      resp \<in> {redirect ''/admin/login'' 303, with_cookie (clear_cookie secure) (redirect ''/admin/login'' 303)}"
proof -
  have n: "select_one (\<lambda>s. s_token s = v \<and> fmt_rfc3339 now < s_expires_at s) (admin_sessions db1) = None"
    if "cookie = Some v" "same_tables db db1" for v db1
    using that assms by (auto simp: session_open_def select_one_None_iff same_tables_select)
  have g: "\<exists>r db1. GetValidSession now v db = (r, db1) \<and> same_tables db db1 \<and> (\<forall>s. r \<noteq> Inr (Some s)) \<and>
      (healthy db \<longrightarrow> r = Inr None)"
    if "cookie = Some v" for v
  proof -
    obtain r db1 where r: "GetValidSession now v db = (r, db1)" by fastforce
    then show ?thesis
      unfolding GetValidSession_def
      by (cases rule: sql_query_cases) (use n [OF that] r in \<open>auto simp: GetValidSession_def sql_query_healthy\<close>)
  qed
  show "\<exists>resp db1. check_api_session now cookie db = (Inl resp, db1) \<and> same_tables db db1 \<and>
      rs_status resp \<in> {401, 500} \<and> (healthy db \<longrightarrow> rs_status resp = 401)"
    using g by (cases cookie) (fastforce simp: check_api_session_def writeAuthError_def split: sum.split option.split)+
  show "\<exists>resp db1. check_page_session now cookie secure db = (Inl resp, db1) \<and> same_tables db db1 \<and>
      resp \<in> {redirect ''/admin/login'' 303, with_cookie (clear_cookie secure) (redirect ''/admin/login'' 303)}"
    using g by (cases cookie) (fastforce simp: check_page_session_def split: sum.split option.split)+
qed

lemma static_mux:
  assumes "below ''static'' (admin_request.rq_path rq)"
  shows "admin_mux su mo rq a = (Answered (if is_get (admin_request.rq_method rq)
    then su_static su (tl (admin_request.rq_path rq)) else su_dashboard su), a)"
proof -
  obtain b rest where p: "admin_request.rq_path rq = ''static'' # b # rest"
    using assms by (cases "admin_request.rq_path rq" rule: remdups_adj.cases) (auto simp: below_def)
  have "route_of (''static'' # b # rest) = RStatic (b # rest)"
    by (cases rest rule: route_of.cases) auto
  then show ?thesis
    by (simp add: p admin_mux_def change_handler_def read_handler_def page_def ServeDashboardPage_def below_def Let_def)
qed

text \<open>
  Property C21.  A request to the panel without a valid session that is neither a login nor a logout
  changes no table, no counter, no credential, nor the configuration file or the router's snapshot, and
  what it is answered is settled for every path.  Without a session are served only the redirection of
  the bare \<open>/admin\<close>, the login page, and what lies below \<open>static/\<close>: the file for GET and HEAD, the
  (static) dashboard page for other methods, which fall through to the catch-all.  A request to the API
  is answered 401, or 500 when the session cannot be looked up; every other page request is sent to the
  login page with 303.
\<close>

theorem outsiders_change_nothing:
  assumes "serve_admin su mo rq a = (r, a')"
    and "\<not> is_login rq" "\<not> is_logout rq" "\<not> session_open (mo_now mo) (rq_cookie rq) (ad_db a)"
  defines "path \<equiv> admin_request.rq_path rq" and "get \<equiv> is_get (admin_request.rq_method rq)"
  shows "same_tables (ad_db a) (ad_db a') \<and> same_rest a a' \<and> ad_creds a' = ad_creds a \<and>
    (\<exists>resp. r = Answered resp \<and>
      (if path = [] then resp = redirect ''/admin/'' 301
       else if get \<and> path = [''login''] then resp = su_login_page su
       else if 2 \<le> length path \<and> hd path = ''static''
       then resp = (if get then su_static su (tl path) else su_dashboard su)
       else if 2 \<le> length path \<and> hd path = ''api''
       then rs_status resp \<in> {401, 500} \<and> (healthy (ad_db a) \<longrightarrow> rs_status resp = 401)
       else resp \<in> {redirect ''/admin/login'' 303,
         with_cookie (clear_cookie (rq_secure rq)) (redirect ''/admin/login'' 303)}))"
proof -
  note c = closed_session [OF assms(4)]
  consider "path = []" | "get" "path = [''login'']" | "below ''static'' path" | "below ''api'' path"
    | "path \<noteq> []" "\<not> (get \<and> path = [''login''])" "\<not> below ''static'' path" "\<not> below ''api'' path" by blast
  then show ?thesis
  proof cases
    case 1
    then show ?thesis using assms(1-3) by (auto simp: serve_admin_def page_def same_rest_def path_def)
  next
    case 2
    then show ?thesis
      using assms(1-3) by (auto simp: serve_admin_def page_def same_rest_def path_def get_def)
  next
    case 3
    then have "serve_admin su mo rq a = admin_mux su mo rq a"
      using assms(2,3) by (auto simp: serve_admin_def auth_handler_def below_def path_def)
    then show ?thesis
      using assms(1) 3 static_mux [of rq su mo a]
      by (auto simp: below_def same_rest_def path_def get_def)
  next
    case 4
    then have "serve_admin su mo rq a = (case check_api_session (mo_now mo) (rq_cookie rq) (ad_db a) of
        (Inl resp, db1) \<Rightarrow> (Answered resp, a\<lparr>ad_db := db1\<rparr>)
      | (Inr c, db1) \<Rightarrow> admin_mux su mo rq (a\<lparr>ad_db := db1\<rparr>))"
      using assms(2,3) by (auto simp: serve_admin_def auth_handler_def below_def path_def)
    then show ?thesis using assms(1) c(1) 4 by (auto simp: below_def same_rest_def path_def)
  next
    case 5
    then have "serve_admin su mo rq a = (case check_page_session (mo_now mo) (rq_cookie rq) (rq_secure rq) (ad_db a) of
        (Inl resp, db1) \<Rightarrow> (Answered resp, a\<lparr>ad_db := db1\<rparr>)
      | (Inr c, db1) \<Rightarrow> admin_mux su mo rq (a\<lparr>ad_db := db1\<rparr>))"
      using assms(2,3) by (auto simp: serve_admin_def auth_handler_def path_def get_def)
    then show ?thesis using assms(1) c(2) [of "rq_secure rq"] 5 by (auto simp: below_def same_rest_def)
  qed
qed

text \<open>What only reads keeps every property of the tables, in particular being the tables they were.\<close>

interpretation unchanged: table_invariant "same_tables db0" for db0
  by unfold_locales (auto simp: table_property_def intro: same_tables_trans)

lemma get_changes_nothing: "is_get (admin_request.rq_method rq) \<Longrightarrow> change_handler su mo rq = None"
  by (auto simp: change_handler_def is_get_def Let_def split: route.split)

definition keeps_rest :: "(admin \<Rightarrow> outcome \<times> admin) \<Rightarrow> bool" where
  "keeps_rest h \<longleftrightarrow> (\<forall>a. same_rest a (snd (h a)))"

lemma read_rest: "read_handler su mo rq = Some h \<Longrightarrow> keeps_rest h"
  by (auto simp: read_handler_def keeps_rest_def on_db_def page_def HandleGetSettings_def same_rest_def Let_def
      split: if_splits route.splits prod.split)

lemma read_mux:
  assumes "is_get (admin_request.rq_method rq)" "admin_mux su mo rq a = (r, a')"
  shows "same_tables (ad_db a) (ad_db a') \<and> same_rest a a'"
proof (cases "read_handler su mo rq")
  case None
  then show ?thesis
    using assms get_changes_nothing [OF assms(1)] by (simp add: admin_mux_def page_def same_rest_def)
next
  case (Some h)
  then have "h a = (r, a')" using assms get_changes_nothing [OF assms(1)] by (simp add: admin_mux_def)
  then show ?thesis
    using unchanged.read_handler_keeps [OF Some, of "ad_db a"] read_rest [OF Some]
    by (metis keeps_admin_def keeps_rest_def same_tables_refl snd_conv)
qed

lemma read_auth:
  assumes g: "is_get (admin_request.rq_method rq)" and h: "auth_handler su mo rq a = (r, a')"
  shows "same_tables (ad_db a) (ad_db a') \<and> same_rest a a'"
proof (cases "below ''static'' (admin_request.rq_path rq)")
  case True
  then show ?thesis using h read_mux [OF g] by (simp add: auth_handler_def)
next
  case False
  let ?check = "if below ''api'' (admin_request.rq_path rq) then check_api_session (mo_now mo) (rq_cookie rq)
    else check_page_session (mo_now mo) (rq_cookie rq) (rq_secure rq)"
  obtain x db1 where c: "?check (ad_db a) = (x, db1)" by fastforce
  have "keeps (same_tables (ad_db a)) ?check" by (simp add: unchanged.session_checks)
  from keepsD [OF this c] have s: "same_tables (ad_db a) db1" by simp
  have "auth_handler su mo rq a = (case x of
      Inl resp \<Rightarrow> (Answered resp, a\<lparr>ad_db := db1\<rparr>) | Inr c \<Rightarrow> admin_mux su mo rq (a\<lparr>ad_db := db1\<rparr>))"
    using False c by (simp add: auth_handler_def split: if_splits)
  then consider "a' = a\<lparr>ad_db := db1\<rparr>" | "admin_mux su mo rq (a\<lparr>ad_db := db1\<rparr>) = (r, a')"
    using h by (cases x) simp_all
  then show ?thesis
  proof cases
    case 1
    then show ?thesis using s by (simp add: same_rest_def)
  next
    case 2
    then have "same_tables db1 (ad_db a')" "same_rest a a'"
      using read_mux [OF g 2] by (simp_all add: same_rest_def)
    then show ?thesis using same_tables_trans [OF s] by blast
  qed
qed

text \<open>
  Property C32.  A \<open>GET\<close> or \<open>HEAD\<close> request to the panel changes no table, whoever sends it and whatever
  fails: it leaves the counters of requests in flight, the router's snapshot and the configuration file as
  they are.
\<close>

theorem panel_reads_change_nothing:
  assumes "is_get (admin_request.rq_method rq)" "serve_admin su mo rq a = (r, a')"
  shows "same_tables (ad_db a) (ad_db a') \<and> same_rest a a'"
proof -
  have n: "\<not> is_login rq" "\<not> is_logout rq" using assms(1) by (auto simp: is_login_def is_logout_def is_get_def)
  have p: "same_tables (ad_db a) (ad_db b) \<and> same_rest a b" if "page resp a = (r, b)" for resp b
    using that by (auto simp: page_def same_rest_def)
  show ?thesis
    using assms(2) n p read_auth [OF assms(1)] by (simp add: serve_admin_def split: if_splits)
qed

section \<open>A rejected creation\<close>

lemma create_checks_new:
  assumes "create_checks (Some req) db = (Inr (req', n), db')"
  shows "nu_sub_key_hash n = ''''" "nu_role n = ''user''" "nu_username n = cu_username req"
    "cu_token_total_limit req' = cu_token_total_limit req"
  using assms
  by (auto simp: create_checks_def checked_concurrency_def answer_def go_on_def reject_if_def Let_def
      split: option.splits if_splits sum.splits elim!: then_step_cases)

lemma create_checks_state: "create_checks b db = (r, db') \<Longrightarrow> db' = db"
  by (auto simp: create_checks_def checked_concurrency_def answer_def go_on_def reject_if_def Let_def
      split: option.splits if_splits sum.splits elim!: then_step_cases)

text \<open>While an account without a key exists, no creation gets past the unique column.\<close>

lemma keyless_blocks:
  assumes "healthy db" "u \<in> set (users db)" "u_sub_key_hash u = ''''"
    and "create_checks (Some req) db = (Inr (req', n), db1)"
  shows "HandleCreateUser pn mo (Some req) db = (Answered (json_error 409 ''username already exists''), db)"
proof -
  have db1: "db1 = db" using create_checks_state [OF assms(4)] .
  have "nu_sub_key_hash (user_defaults n) = ''''"
    using create_checks_new(1) [OF assms(4)] by (simp add: user_defaults_def Let_def)
  then have c: "user_conflict (user_row (user_defaults n) t i) db = Some (UniqueErr ''insert user'')" for t i
    using assms(2,3) by (auto simp: user_conflict_def select_one_None_iff)
  have "insert_user (user_defaults n) t db = (Err (UniqueErr ''insert user''), db)" for t
    by (simp add: insert_user_healthy assms(1) c)
  then have "CreateUser (mo_now mo) n db = (Err (UniqueErr ''insert user''), db)"
    unfolding CreateUser_def Let_def by (intro transaction_healthy_err [OF assms(1) _ assms(1)] and_then_Inl)
  then show ?thesis
    using assms(4) db1
    by (simp add: HandleCreateUser_def respond_def then_step_def [of "create_checks (Some req)"]
        then_step_def [of "or_answer m e" for m e] or_answer_def create_failed_def isUniqueConstraintError_def)
qed

lemma rejected_caps:
  "cu_token_total_limit req < 0 \<Longrightarrow>
    token_caps now req uid db = (Inl (Answered (json_error 400 ''quota_token_total_limit must be >= 0'')), db)"
  by (simp add: token_caps_def)

text \<open>
  Property C33.  A creation with a negative cap on monthly tokens is answered 400, yet its account exists,
  without a key; from then on every creation that passes the checks is answered 409 for its name, whatever
  the name is, until the keyless account is gone.
\<close>

theorem rejected_creation_blocks_all_names:
  assumes "healthy db" "accounts_ok db" "create_checks (Some req) db = (Inr (req', n), db)"
    and "user_conflict (user_row (user_defaults n) (fmt_rfc3339 (mo_now mo)) (users_seq db + 1)) db = None"
    and "cu_token_total_limit req < 0"
    and "db' = after_create (mo_now mo) (user_defaults n) db"
    and "create_checks (Some req2) db' = (Inr (req2', n2), db')"
  shows "HandleCreateUser pn mo (Some req) db
      = (Answered (json_error 400 ''quota_token_total_limit must be >= 0''), db') \<and>
    HandleCreateUser pn mo2 (Some req2) db' = (Answered (json_error 409 ''username already exists''), db')"
proof -
  obtain x where x: "CreateUser (mo_now mo) n db = (Ok x, db')"
    using create_run [OF assms(1,2,4)] assms(6) by blast
  have h: "healthy db'" using assms(1,6) by (simp add: after_create_def Let_def)
  have "nu_sub_key_hash (user_defaults n) = ''''"
    using create_checks_new(1) [OF assms(3)] by (simp add: user_defaults_def Let_def)
  then have "\<exists>u \<in> set (users db'). u_sub_key_hash u = ''''"
    using assms(6) by (simp add: after_create_def insert_row_def Let_def)
  then have "HandleCreateUser pn mo2 (Some req2) db' = (Answered (json_error 409 ''username already exists''), db')"
    using keyless_blocks [OF h _ _ assms(7)] by blast
  moreover have "HandleCreateUser pn mo (Some req) db
      = (Answered (json_error 400 ''quota_token_total_limit must be >= 0''), db')"
    using x assms(3) rejected_caps [of req'] create_checks_new(4) [OF assms(3)] assms(5)
    by (simp add: HandleCreateUser_def respond_def then_step_def [of "create_checks (Some req)"]
        then_step_def [of "or_answer m e" for m e] then_step_def [of "token_caps a b c" for a b c]
        or_answer_def)
  ultimately show ?thesis by blast
qed

section \<open>Witnesses\<close>

definition root_user :: User where
  "root_user = user_row (sample_new\<lparr>nu_username := ''root'', nu_role := ''admin'', nu_password_hash := ''h''\<rparr>)
     ''2026-07-01T12:00:00+08:00'' 1"

definition staffed_db :: db where
  "staffed_db = empty_db\<lparr>users := [root_user], users_seq := 1,
     quotas := [quota_row_new sample_new (noon 1) 1 1], quotas_seq := 1\<rparr>"

lemma staffed_ok: "panel_ok [(1, ''root'', ''h'')] staffed_db" "store_ok od staffed_db"
  by (simp_all add: panel_ok_def accounts_ok_def admins_def staffed_db_def root_user_def empty_db_def
      users_wf_def names_wf_def hashes_wf_def store_ok_def providers_wf_def one_default_def mappings_wf_def
      user_row_def)

lemma admin_requests_keep_tables_witness:
  "panel_ok [(1, ''root'', ''h'')] (ad_db (serve_all sample_surroundings
     [(sample_moment, sample_request ''DELETE'' [''api'', ''users'', ''1''] ''''),
      (sample_moment, sample_request ''POST'' [''api'', ''users''] ''{}'')] (sample_admin staffed_db)))"
proof -
  have "panel_ok [(1, ''root'', ''h'')] (ad_db (sample_admin staffed_db))" "store_ok True (ad_db (sample_admin staffed_db))"
    using staffed_ok by (simp_all add: sample_admin_def)
  from admin_requests_keep_tables [OF this] show ?thesis by blast
qed

text \<open>Three requests without a session: a deletion, a page, and the dashboard by way of a static path.\<close>

lemma outsiders_change_nothing_witness:
  "(\<exists>resp a'. serve_admin sample_surroundings sample_moment
      (sample_request ''DELETE'' [''api'', ''users'', ''1''] '''') (sample_admin staffed_db) = (Answered resp, a') \<and>
      rs_status resp = 401 \<and> users (ad_db a') = [root_user]) \<and>
   (\<exists>a'. serve_admin sample_surroundings sample_moment (sample_request ''GET'' [''provider-usage''] '''')
      (sample_admin staffed_db) \<in> {(Answered (redirect ''/admin/login'' 303), a'),
        (Answered (with_cookie (clear_cookie False) (redirect ''/admin/login'' 303)), a')}) \<and>
   (\<exists>a'. serve_admin sample_surroundings sample_moment (sample_request ''POST'' [''static'', ''x''] '''')
      (sample_admin staffed_db) = (Answered (su_dashboard sample_surroundings), a'))"
proof -
  let ?a = "sample_admin staffed_db"
  have h: "healthy (ad_db ?a)" by (simp add: sample_admin_def staffed_db_def empty_db_def)
  have s: "\<not> session_open (mo_now sample_moment) (rq_cookie (sample_request m p '''')) (ad_db ?a)" for m p
    by (simp add: sample_request_def session_open_def)
  note o = outsiders_change_nothing [OF prod.collapse [symmetric] _ _ s]
  have "\<not> is_login (sample_request ''DELETE'' [''api'', ''users'', ''1''] '''')"
    "\<not> is_logout (sample_request ''DELETE'' [''api'', ''users'', ''1''] '''')" by code_simp+
  from o [OF this, of sample_surroundings] h
  have 1: "\<exists>resp a'. serve_admin sample_surroundings sample_moment
      (sample_request ''DELETE'' [''api'', ''users'', ''1''] '''') ?a = (Answered resp, a') \<and>
      rs_status resp = 401 \<and> users (ad_db a') = [root_user]"
    by (auto simp: sample_request_def same_tables_select sample_admin_def staffed_db_def prod_eq_iff)
  have "\<not> is_login (sample_request ''GET'' [''provider-usage''] '''')"
    "\<not> is_logout (sample_request ''GET'' [''provider-usage''] '''')" by code_simp+
  from o [OF this, of sample_surroundings]
  have 2: "\<exists>a'. serve_admin sample_surroundings sample_moment (sample_request ''GET'' [''provider-usage''] '''') ?a
      \<in> {(Answered (redirect ''/admin/login'' 303), a'),
        (Answered (with_cookie (clear_cookie False) (redirect ''/admin/login'' 303)), a')}"
    by (auto simp: sample_request_def prod_eq_iff)
  have "\<not> is_login (sample_request ''POST'' [''static'', ''x''] '''')"
    "\<not> is_logout (sample_request ''POST'' [''static'', ''x''] '''')" by code_simp+
  from o [OF this, of sample_surroundings]
  have 3: "\<exists>a'. serve_admin sample_surroundings sample_moment (sample_request ''POST'' [''static'', ''x''] '''') ?a
      = (Answered (su_dashboard sample_surroundings), a')"
    by (auto simp: sample_request_def is_get_def prod_eq_iff)
  from 1 2 3 show ?thesis by blast
qed

lemma panel_reads_change_nothing_witness:
  "\<exists>r a'. serve_admin sample_surroundings sample_moment (sample_request ''GET'' [''api'', ''users''] '''')
      (sample_admin staffed_db) = (r, a') \<and> users (ad_db a') = [root_user]"
proof -
  let ?rq = "sample_request ''GET'' [''api'', ''users''] ''''"
  obtain r a' where s: "serve_admin sample_surroundings sample_moment ?rq (sample_admin staffed_db) = (r, a')"
    by fastforce
  have "is_get (admin_request.rq_method ?rq)" by (simp add: sample_request_def is_get_def)
  from panel_reads_change_nothing [OF this s] s show ?thesis
    by (auto simp: same_tables_select sample_admin_def staffed_db_def)
qed

definition sample_create :: "string \<Rightarrow> int \<Rightarrow> createUserRequest" where
  "sample_create name cap = \<lparr>cu_username = name, cu_5h_limit = 3, cu_total_limit = 0,
     cu_token_total_limit = cap, cu_token_5h_limit = 0, cu_token_week_limit = 0, cu_expires_at = '''',
     cu_route_mode = '''', cu_fixed_provider = '''', cu_fixed_multiplier = None, cu_max_body_size = 0,
     cu_max_concurrency = None\<rparr>"

lemma sample_create_checks:
  assumes "name \<noteq> ''''"
  shows "\<exists>req n. create_checks (Some (sample_create name cap)) db = (Inr (req, n), db) \<and>
    nu_username (user_defaults n) = name \<and> nu_sub_key_hash (user_defaults n) = ''''"
proof -
  have "NormalizeExpiry '''' = Inr ''''" by code_simp
  then show ?thesis
    using assms
    by (simp add: create_checks_def checked_concurrency_def sample_create_def go_on_def Let_def user_defaults_def)
qed

lemma rejected_creation_blocks_all_names_witness:
  "\<exists>db'. HandleCreateUser sample_panel sample_moment (Some (sample_create ''amy'' (- 1))) staffed_db
      = (Answered (json_error 400 ''quota_token_total_limit must be >= 0''), db') \<and>
    HandleCreateUser sample_panel sample_moment (Some (sample_create ''bob'' 5)) db'
      = (Answered (json_error 409 ''username already exists''), db')"
proof -
  obtain req n where c: "create_checks (Some (sample_create ''amy'' (- 1))) staffed_db = (Inr (req, n), staffed_db)"
    "nu_username (user_defaults n) = ''amy''" "nu_sub_key_hash (user_defaults n) = ''''"
    using sample_create_checks [of "''amy''"] by blast
  define db' where "db' = after_create (mo_now sample_moment) (user_defaults n) staffed_db"
  obtain req2 n2 where c2: "create_checks (Some (sample_create ''bob'' 5)) db' = (Inr (req2, n2), db')"
    using sample_create_checks [of "''bob''"] by blast
  have "u_sub_key_hash root_user \<noteq> ''''" by code_simp
  then have "user_conflict (user_row (user_defaults n) (fmt_rfc3339 (mo_now sample_moment)) (users_seq staffed_db + 1))
      staffed_db = None"
    using c(2,3) by (simp add: user_conflict_def staffed_db_def root_user_def sample_new_def)
  moreover have "healthy staffed_db" by (simp add: staffed_db_def empty_db_def)
  moreover have "accounts_ok staffed_db" using staffed_ok by (simp add: panel_ok_def)
  moreover have "cu_token_total_limit (sample_create ''amy'' (- 1)) < 0" by (simp add: sample_create_def)
  ultimately show ?thesis
    using rejected_creation_blocks_all_names [OF _ _ c(1) _ _ db'_def c2] by blast
qed

end
