(* ===== verification/SelfService.thy ===== *)
theory SelfService
  imports Panel
begin

text \<open>
  \<open>internal/handler/quota.go\<close> and \<open>calls.go\<close>: the endpoints a key holder reads its own quota and calls
  with.  They run behind \<open>SubKeyAuth\<close>, which puts the account into the context.
\<close>

section \<open>Calls\<close>

definition ServeCalls :: "ctx \<Rightarrow> query \<Rightarrow> db \<Rightarrow> response \<times> db" where
  "ServeCalls c q db =
     (let userID = GetUserID c;
          pageNo = parse_int_lax (q_get q ''page'');
          limit = parse_int_lax (q_get q ''limit'');
          pageNo = (if pageNo \<le> 0 then 1 else pageNo);
          limit = (if limit \<le> 0 \<or> 50 < limit then 20 else limit)
      in if userID = 0 then (json_error 401 ''Not authenticated'', db)
         else (case QueryCallLogs \<lparr>f_user_id = userID, f_provider_id = '''', f_model = '''', f_from = '''',
                   f_to = '''', f_page = pageNo, f_limit = limit\<rparr> db of
             (Inl e, db1) \<Rightarrow> (json_error 500 ''Failed to query call logs'', db1)
           | (Inr p, db1) \<Rightarrow> (writeJSON 200 (page_json p), db1)))"

section \<open>Quota\<close>

record QuotaStatus =
  qs_5h_limit :: int
  qs_5h_used :: int
  qs_5h_remaining :: int
  qs_total_limit :: int
  qs_total_used :: int
  qs_total_remaining :: int
  qs_token_total_limit :: int
  qs_token_total_used :: int
  qs_token_total_remaining :: int
  qs_token_5h_limit :: int
  qs_token_5h_used :: int
  qs_token_5h_remaining :: int
  qs_token_week_limit :: int
  qs_token_week_used :: int
  qs_token_week_remaining :: int
  qs_total_tokens :: int
  qs_total_tokens_today :: int
  qs_window_reset_at :: string
  qs_month_reset_at :: string
  qs_week_reset_at :: string
  qs_week_start :: string
  qs_status :: string
  qs_expires_at :: string

definition status_json :: "QuotaStatus \<Rightarrow> json" where
  "status_json s = JObj
     [(''quota_5h_limit'', JInt (qs_5h_limit s)), (''quota_5h_used'', JInt (qs_5h_used s)),
      (''quota_5h_remaining'', JInt (qs_5h_remaining s)),
      (''quota_total_limit'', JInt (qs_total_limit s)), (''quota_total_used'', JInt (qs_total_used s)),
      (''quota_total_remaining'', JInt (qs_total_remaining s)),
      (''quota_token_total_limit'', JInt (qs_token_total_limit s)),
      (''quota_token_total_used'', JInt (qs_token_total_used s)),
      (''quota_token_total_remaining'', JInt (qs_token_total_remaining s)),
      (''quota_token_5h_limit'', JInt (qs_token_5h_limit s)),
      (''quota_token_5h_used'', JInt (qs_token_5h_used s)),
      (''quota_token_5h_remaining'', JInt (qs_token_5h_remaining s)),
      (''quota_token_week_limit'', JInt (qs_token_week_limit s)),
      (''quota_token_week_used'', JInt (qs_token_week_used s)),
      (''quota_token_week_remaining'', JInt (qs_token_week_remaining s)),
      (''total_tokens'', JInt (qs_total_tokens s)), (''total_tokens_today'', JInt (qs_total_tokens_today s)),
      (''window_reset_at'', JStr (qs_window_reset_at s)), (''month_reset_at'', JStr (qs_month_reset_at s)),
      (''week_reset_at'', JStr (qs_week_reset_at s)), (''week_start'', JStr (qs_week_start s)),
      (''status'', JStr (qs_status s)), (''expires_at'', JStr (qs_expires_at s))]"

text \<open>Thirty calendar days after the anchor.\<close>

definition computeMonthResetAt :: "string \<Rightarrow> string" where
  "computeMonthResetAt monthStart =
     (if monthStart = '''' then '''' else case parse_rfc3339 monthStart of
        None \<Rightarrow> '''' | Some t \<Rightarrow> fmt_rfc3339 (t_add_days t 30))"

definition computeWeekResetAt :: "gotime \<Rightarrow> string \<Rightarrow> string" where
  "computeWeekResetAt now weekStart =
     (if weekStart = '''' then '''' else case parse_rfc3339 weekStart of
        None \<Rightarrow> ''''
      | Some t \<Rightarrow> fmt_rfc3339 (t_add (AlignedCycleStartUTC t (t_utc now)) (7 * 24 * hour_ns)))"

text \<open>The billed tokens of the user's calls since a text, compared as texts.\<close>

definition call_billed :: "CallLog \<Rightarrow> int" where
  "call_billed l = f_ceil_int (f_mul (f_of_int (cl_prompt_tokens l + cl_completion_tokens l)) (cl_multiplier_used l))"

definition sumMultipliedTokens :: "int \<Rightarrow> string \<Rightarrow> int op" where
  "sumMultipliedTokens userID since = sql_query ''''
     (\<lambda>db. sum_list (map call_billed (filter
        (\<lambda>l. cl_user_id l = userID \<and> (since = '''' \<or> since \<le> cl_created_at l)) (call_logs db))))"

text \<open>The end of the five-hour window: its start and the interval, or the next boundary of the day when
  the start does not parse.\<close>

definition window_reset_at :: "int \<Rightarrow> gotime \<Rightarrow> string \<Rightarrow> string" where
  "window_reset_at resetInterval now windowStart =
     (case parse_rfc3339 windowStart of
        Some t \<Rightarrow> fmt_rfc3339 (t_add t (resetInterval * hour_ns))
      | None \<Rightarrow>
          (let windowIndex = go_div (t_hour now) resetInterval;
               windowHour = (windowIndex + 1) * resetInterval;
               (windowHour, day) = (if 24 \<le> windowHour then (0, t_add_days now 1) else (windowHour, now))
           in fmt_rfc3339 (go_date (t_year day) (t_month day) (t_day day) windowHour 0 0 0 (zone day))))"

definition left_over :: "int \<Rightarrow> int \<Rightarrow> int" where
  "left_over limit used = (if 0 < limit then max 0 (limit - used) else 0)"

definition quota_status :: "int \<Rightarrow> gotime \<Rightarrow> User \<Rightarrow> Quota \<Rightarrow> QuotaStatus" where
  "quota_status resetInterval now user q =
     \<lparr>qs_5h_limit = q_5h_limit q, qs_5h_used = q_5h_used q,
      qs_5h_remaining = max 0 (q_5h_limit q - q_5h_used q),
      qs_total_limit = q_total_limit q, qs_total_used = q_total_used q,
      qs_total_remaining = max 0 (q_total_limit q - q_total_used q),
      qs_token_total_limit = q_token_total_limit q, qs_token_total_used = q_token_total_used q,
      qs_token_total_remaining = left_over (q_token_total_limit q) (q_token_total_used q),
      qs_token_5h_limit = q_token_5h_limit q, qs_token_5h_used = q_token_5h_used q,
      qs_token_5h_remaining = left_over (q_token_5h_limit q) (q_token_5h_used q),
      qs_token_week_limit = q_token_week_limit q, qs_token_week_used = q_token_week_used q,
      qs_token_week_remaining = left_over (q_token_week_limit q) (q_token_week_used q),
      qs_total_tokens = 0, qs_total_tokens_today = 0,
      qs_window_reset_at = window_reset_at resetInterval now (q_window_start q),
      qs_month_reset_at = computeMonthResetAt (q_month_start q),
      qs_week_reset_at = computeWeekResetAt now (q_week_start q),
      qs_week_start = q_week_start q, qs_status = u_status user, qs_expires_at = u_expires_at user\<rparr>"

text \<open>A failed sum is logged and shows as zero.\<close>

definition sum_or_zero :: "int \<Rightarrow> string \<Rightarrow> db \<Rightarrow> int \<times> db" where
  "sum_or_zero userID since db = (case sumMultipliedTokens userID since db of
     (Inl e, db1) \<Rightarrow> (0, db1) | (Inr n, db1) \<Rightarrow> (n, db1))"

definition writeQuotaError :: "int \<Rightarrow> string \<Rightarrow> string \<Rightarrow> response" where
  "writeQuotaError statusCode message errType = writeJSON statusCode
     (JObj [(''error'', JObj [(''message'', JStr message), (''type'', JStr errType),
        (''code'', JStr errType)])])"

definition ServeQuota :: "int \<Rightarrow> gotime \<Rightarrow> string \<Rightarrow> ctx \<Rightarrow> db \<Rightarrow> response \<times> db" where
  "ServeQuota resetInterval now rqMethod c db =
     (if rqMethod \<noteq> ''GET'' then (writeQuotaError 405 ''Method not allowed'' ''method_not_allowed'', db)
      else let userID = GetUserID c in
      if userID = 0 then (writeQuotaError 401 ''Not authenticated'' ''not_authenticated'', db)
      else case GetUserByID userID db of
        (Inr (Some user), db1) \<Rightarrow>
          (case GetQuota userID db1 of
             (Inr (Some q), db2) \<Rightarrow>
               (let (total, db3) = sum_or_zero userID '''' db2;
                    (totalToday, db4) = sum_or_zero userID (fmt_date now) db3
                in (writeJSON 200 (status_json ((quota_status resetInterval now user q)
                      \<lparr>qs_total_tokens := total, qs_total_tokens_today := totalToday\<rparr>)), db4))
           | (_, db2) \<Rightarrow> (writeQuotaError 500 ''Failed to get quota info'' ''internal_error'', db2))
      | (_, db1) \<Rightarrow> (writeQuotaError 500 ''Failed to get user info'' ''internal_error'', db1))"

end
