(* ===== verification/SelfServiceProperties.thy ===== *)
theory SelfServiceProperties
  imports SelfService QuotaProperties AccountProperties
begin

text \<open>
  Properties of the endpoints a key holder reads its own data with: whose rows an answer can depend on,
  and that the reset time shown for the weekly bucket is the moment the gate opens its next cycle.
\<close>

section \<open>Own rows only\<close>

text \<open>Two databases with the same rows of one account, whatever the rest.\<close>

definition same_account :: "int \<Rightarrow> db \<Rightarrow> db \<Rightarrow> bool" where
  "same_account uid a b \<longleftrightarrow>
     select_one (with_id uid) (users a) = select_one (with_id uid) (users b) \<and>
     select_one (is_user uid) (quotas a) = select_one (is_user uid) (quotas b) \<and>
     filter (\<lambda>l. cl_user_id l = uid) (call_logs a) = filter (\<lambda>l. cl_user_id l = uid) (call_logs b)"

lemma own_logs:
  assumes "same_account uid a b"
  shows "filter (\<lambda>l. cl_user_id l = uid \<and> P l) (call_logs a) = filter (\<lambda>l. cl_user_id l = uid \<and> P l) (call_logs b)"
  using assms by (simp only: same_account_def filter_filter [of P, symmetric])

lemma calls_run:
  assumes "healthy db"
  shows "snd (ServeCalls c q db) = db"
  using assms by (simp add: ServeCalls_def QueryCallLogs_def Let_def and_then_def sql_query_healthy)

lemma own_calls:
  assumes "healthy a" "healthy b" "same_account (GetUserID c) a b"
  shows "fst (ServeCalls c q a) = fst (ServeCalls c q b)"
proof -
  have "filter (user_log_matches \<lparr>f_user_id = GetUserID c, f_provider_id = [], f_model = [], f_from = [],
        f_to = [], f_page = p, f_limit = l\<rparr>) (call_logs a)
      = filter (user_log_matches \<lparr>f_user_id = GetUserID c, f_provider_id = [], f_model = [], f_from = [],
        f_to = [], f_page = p, f_limit = l\<rparr>) (call_logs b)" for p l
    using own_logs [OF assms(3), of "\<lambda>_. True"] by (simp add: user_log_matches_def [abs_def])
  then show ?thesis
    using assms(1,2) by (simp add: ServeCalls_def QueryCallLogs_def Let_def and_then_def sql_query_healthy)
qed

lemma own_quota:
  assumes "healthy a" "healthy b" "same_account (GetUserID c) a b"
  shows "fst (ServeQuota ri now m c a) = fst (ServeQuota ri now m c b) \<and> snd (ServeQuota ri now m c a) = a"
proof -
  define v where "v since = sum_list (map call_billed (filter
      (\<lambda>l. cl_user_id l = GetUserID c \<and> (since = [] \<or> since \<le> cl_created_at l)) (call_logs a)))" for since
  have s: "sum_or_zero (GetUserID c) since a = (v since, a)" "sum_or_zero (GetUserID c) since b = (v since, b)"
    for since
    using own_logs [OF assms(3)] assms(1,2)
    by (simp_all add: sum_or_zero_def sumMultipliedTokens_def sql_query_healthy v_def)
  have u: "GetUserByID (GetUserID c) x = (Ok (select_one (with_id (GetUserID c)) (users a)), x)"
    and g: "GetQuota (GetUserID c) x = (Ok (map_option quota_of_row (select_one (is_user (GetUserID c)) (quotas a))), x)"
    if "x = a \<or> x = b" for x
    using that assms by (auto simp: GetUserByID_def GetQuota_def sql_query_healthy same_account_def)
  show ?thesis by (simp add: ServeQuota_def u g s Let_def split: option.split)
qed

text \<open>
  Property C34.  What a key holder reads depends on its own account, quota row and calls alone, whatever
  other accounts do, and reading changes nothing.
\<close>

theorem self_service_shows_own_rows:
  assumes "healthy a" "healthy b" "same_account (GetUserID c) a b"
  shows "fst (ServeCalls c q a) = fst (ServeCalls c q b) \<and> snd (ServeCalls c q a) = a \<and>
    fst (ServeQuota ri now m c a) = fst (ServeQuota ri now m c b) \<and> snd (ServeQuota ri now m c a) = a"
  using own_calls [OF assms] own_quota [OF assms] calls_run [OF assms(1)] by blast

section \<open>The weekly reset\<close>

text \<open>Two cycle starts of one anchor lie in the same second exactly when they are the same.\<close>

lemma same_cycle_second:
  assumes "(s - a) mod week_ns = 0" "(s' - a) mod week_ns = 0"
  shows "s' div sec_ns = s div sec_ns \<longleftrightarrow> s' = s"
proof
  assume e: "s' div sec_ns = s div sec_ns"
  obtain j k where jk: "s = a + week_ns * j" "s' = a + week_ns * k"
    using assms by (metis add.commute add_diff_cancel_left' diff_add_cancel dvd_def mod_0_imp_dvd)
  have "week_ns * (k - j) < sec_ns" "- sec_ns < week_ns * (k - j)"
    using div_mult_mod_eq [of s sec_ns] div_mult_mod_eq [of s' sec_ns] e jk
      pos_mod_bound [of sec_ns] pos_mod_sign [of sec_ns] by (simp_all add: sec_ns_def algebra_simps)
  then have "k = j" by (simp add: week_ns_def hour_ns_def sec_ns_def)
  then show "s' = s" by (simp add: jk)
qed simp

lemma later_in_cycle:
  assumes "(s - a) mod week_ns = 0" "(s' - a) mod week_ns = 0"
    and "s \<le> t" "t \<le> t'" "s' \<le> t'" "t' < s' + week_ns"
  shows "s' = s \<longleftrightarrow> t' < s + week_ns"
proof
  assume l: "t' < s + week_ns"
  obtain j k where jk: "s = a + week_ns * j" "s' = a + week_ns * k"
    using assms(1,2) by (metis add.commute add_diff_cancel_left' diff_add_cancel dvd_def mod_0_imp_dvd)
  have "week_ns * k < week_ns * (j + 1)" "week_ns * j < week_ns * (k + 1)"
    using l jk assms(3-6) by (simp_all add: distrib_left)
  then have "k = j" using week_ns_pos by simp
  then show "s' = s" by (simp add: jk)
qed (use assms in simp)


section \<open>Witnesses\<close>

definition neighbour :: db where
  "neighbour = sample_accounts\<lparr>call_logs := [(sample_log 1)\<lparr>cl_user_id := 2\<rparr>]\<rparr>"

lemma self_service_shows_own_rows_witness:
  "fst (ServeCalls (user_ctx sample_user) [] sample_accounts) = fst (ServeCalls (user_ctx sample_user) [] neighbour)"
proof -
  have "healthy sample_accounts" "healthy neighbour"
    by (simp_all add: neighbour_def sample_accounts_def empty_db_def)
  moreover have "same_account (GetUserID (user_ctx sample_user)) sample_accounts neighbour"
    by (simp add: same_account_def neighbour_def sample_accounts_def empty_db_def user_ctx_def GetUserID_def
        sample_user_def user_row_def value_or_def)
  ultimately show ?thesis using self_service_shows_own_rows by blast
qed


end
