(* ===== verification/Migrations.thy ===== *)
theory Migrations
  imports ProviderUsage
begin

text \<open>
  \<open>internal/db/migrations.go\<close> and the opening of the file in \<open>db.go\<close>: the schema of the database
  file, the statements of the migration script as data, and their execution.  The rows are those of
  \<open>Schema\<close>; a column that the file does not have yet has no meaning in them until it is added, and then
  holds its default in every row.  SQLite's \<open>DATE\<close> function is an argument.
\<close>

section \<open>The database file\<close>

datatype sql_type = SqlInteger | SqlText | SqlReal | SqlBlob

datatype sql_default = NoDefault | DefaultInt int | DefaultReal float64 | DefaultText string | DefaultNow

record sql_column =
  sc_name :: string
  sc_type :: sql_type
  sc_not_null :: bool
  sc_unique :: bool
  sc_default :: sql_default

record dbfile =
  fl_schema :: "(string, sql_column list) gomap"
  fl_indexes :: "string list"
  fl_db :: db

definition has_table :: "dbfile \<Rightarrow> string \<Rightarrow> bool" where
  "has_table fi t \<longleftrightarrow> map_of (fl_schema fi) t \<noteq> None"

definition table_columns :: "dbfile \<Rightarrow> string \<Rightarrow> string list" where
  "table_columns fi t = (case map_of (fl_schema fi) t of None \<Rightarrow> [] | Some cs \<Rightarrow> map sc_name cs)"

definition has_column :: "dbfile \<Rightarrow> string \<times> string \<Rightarrow> bool" where
  "has_column fi tc \<longleftrightarrow> snd tc \<in> set (table_columns fi (fst tc))"

text \<open>A file that does not exist yet: SQLite creates it without tables.\<close>

definition new_file :: dbfile where
  "new_file = \<lparr>fl_schema = [], fl_indexes = [], fl_db = empty_db\<rparr>"

section \<open>Statements\<close>

text \<open>
  \<open>CREATE TABLE IF NOT EXISTS\<close> comes with the emptying of the table's rows, \<open>CREATE INDEX IF NOT EXISTS\<close>
  with the uniqueness it enforces, \<open>ALTER TABLE ... ADD COLUMN\<close> with the filling of its column, an
  \<open>UPDATE\<close> with the columns it names and the constraint it must not violate.
\<close>

datatype sql =
    CreateTable string "sql_column list" "db \<Rightarrow> db"
  | CreateIndex string string "string list" "db \<Rightarrow> bool"
  | AddColumn string sql_column "db \<Rightarrow> db"
  | Update "(string \<times> string) list" "db \<Rightarrow> bool" "db \<Rightarrow> db"

text \<open>SQLite adds a column only with a constant default, and with one when it is \<open>NOT NULL\<close>.\<close>

definition addable :: "sql_column \<Rightarrow> bool" where
  "addable c \<longleftrightarrow> sc_default c \<noteq> DefaultNow \<and> (sc_not_null c \<longrightarrow> sc_default c \<noteq> NoDefault) \<and> \<not> sc_unique c"

text \<open>Whether SQLite accepts a statement.\<close>

fun sql_accepts :: "sql \<Rightarrow> dbfile \<Rightarrow> bool" where
  "sql_accepts (CreateTable t cs wipe) fi \<longleftrightarrow> True"
| "sql_accepts (CreateIndex i t cs holds) fi \<longleftrightarrow>
     i \<in> set (fl_indexes fi) \<or> (\<forall>c \<in> set cs. has_column fi (t, c)) \<and> holds (fl_db fi)"
| "sql_accepts (AddColumn t c fill) fi \<longleftrightarrow> has_table fi t \<and> \<not> has_column fi (t, sc_name c) \<and> addable c"
| "sql_accepts (Update cs holds f) fi \<longleftrightarrow> (\<forall>tc \<in> set cs. has_column fi tc) \<and> holds (fl_db fi)"

fun sql_effect :: "sql \<Rightarrow> dbfile \<Rightarrow> dbfile" where
  "sql_effect (CreateTable t cs wipe) fi =
     (if has_table fi t then fi
      else fi\<lparr>fl_schema := gm_put t cs (fl_schema fi), fl_db := wipe (fl_db fi)\<rparr>)"
| "sql_effect (CreateIndex i t cs holds) fi =
     (if i \<in> set (fl_indexes fi) then fi else fi\<lparr>fl_indexes := i # fl_indexes fi\<rparr>)"
| "sql_effect (AddColumn t c fill) fi =
     fi\<lparr>fl_schema := map (\<lambda>(t', cs). if t' = t then (t', cs @ [c]) else (t', cs)) (fl_schema fi),
        fl_db := fill (fl_db fi)\<rparr>"
| "sql_effect (Update cs holds f) fi = fi\<lparr>fl_db := f (fl_db fi)\<rparr>"

type_synonym 'a on_file = "dbfile \<Rightarrow> (goerr + 'a) \<times> dbfile"

text \<open>\<open>conn.Exec\<close>: the statement may fail for reasons of its own, or be refused.\<close>

definition exec_sql :: "sql \<Rightarrow> unit on_file" where
  "exec_sql s fi =
     (let (bad, db1) = next_fault (fl_db fi); fi1 = fi\<lparr>fl_db := db1\<rparr> in
      if bad \<or> \<not> sql_accepts s fi1 then (Err (DbErr ''migration failed''), fi1)
      else (Ok (), sql_effect s fi1))"

text \<open>\<open>PRAGMA table_info\<close>; an error of the query counts as a missing column.\<close>

definition columnExists :: "string \<Rightarrow> string \<Rightarrow> dbfile \<Rightarrow> bool \<times> dbfile" where
  "columnExists t c fi =
     (let (bad, db1) = next_fault (fl_db fi) in
      (\<not> bad \<and> has_column fi (t, c), fi\<lparr>fl_db := db1\<rparr>))"

text \<open>A statement that is always run, or a column that is added when it is missing, with the statements
  that follow in that case.\<close>

datatype migration = Always sql | EnsureColumn string sql_column "db \<Rightarrow> db" "sql list"

fun exec_all :: "sql list \<Rightarrow> unit on_file" where
  "exec_all [] fi = (Ok (), fi)"
| "exec_all (s # ss) fi = (case exec_sql s fi of
     (Inl e, fi1) \<Rightarrow> (Err e, fi1) | (Inr _, fi1) \<Rightarrow> exec_all ss fi1)"

fun run_migration :: "migration \<Rightarrow> unit on_file" where
  "run_migration (Always s) fi = exec_sql s fi"
| "run_migration (EnsureColumn t c fill backfill) fi =
     (case columnExists t (sc_name c) fi of
        (True, fi1) \<Rightarrow> (Ok (), fi1)
      | (False, fi1) \<Rightarrow> exec_all (AddColumn t c fill # backfill) fi1)"

fun run_migrations :: "migration list \<Rightarrow> unit on_file" where
  "run_migrations [] fi = (Ok (), fi)"
| "run_migrations (m # ms) fi = (case run_migration m fi of
     (Inl e, fi1) \<Rightarrow> (Err e, fi1) | (Inr _, fi1) \<Rightarrow> run_migrations ms fi1)"

section \<open>The tables\<close>

definition id_column :: sql_column where
  "id_column = \<lparr>sc_name = ''id'', sc_type = SqlInteger, sc_not_null = False, sc_unique = True,
     sc_default = NoDefault\<rparr>"

definition needed :: "sql_type \<Rightarrow> string \<Rightarrow> sql_column" where
  "needed ty n = \<lparr>sc_name = n, sc_type = ty, sc_not_null = True, sc_unique = False, sc_default = NoDefault\<rparr>"

definition key_column :: "sql_type \<Rightarrow> string \<Rightarrow> sql_column" where
  "key_column ty n = (needed ty n)\<lparr>sc_unique := True\<rparr>"

definition nullable_column :: "sql_type \<Rightarrow> string \<Rightarrow> sql_column" where
  "nullable_column ty n = (needed ty n)\<lparr>sc_not_null := False\<rparr>"

definition int_column :: "string \<Rightarrow> int \<Rightarrow> sql_column" where
  "int_column n d = (needed SqlInteger n)\<lparr>sc_default := DefaultInt d\<rparr>"

definition real_column :: "string \<Rightarrow> float64 \<Rightarrow> sql_column" where
  "real_column n d = (needed SqlReal n)\<lparr>sc_default := DefaultReal d\<rparr>"

definition text_column :: "string \<Rightarrow> string \<Rightarrow> sql_column" where
  "text_column n d = (needed SqlText n)\<lparr>sc_default := DefaultText d\<rparr>"

definition time_column :: "string \<Rightarrow> sql_column" where
  "time_column n = (needed SqlText n)\<lparr>sc_default := DefaultNow\<rparr>"

definition plain_index :: "string \<Rightarrow> string \<Rightarrow> string list \<Rightarrow> migration" where
  "plain_index i t cs = Always (CreateIndex i t cs (\<lambda>_. True))"

definition users_table :: "migration list" where
  "users_table =
     [Always (CreateTable ''users''
        [id_column, key_column SqlText ''username'', needed SqlText ''password_hash'',
         key_column SqlText ''sub_key_hash'', needed SqlText ''sub_key_preview'',
         text_column ''role'' ''user'', text_column ''status'' ''active'',
         time_column ''created_at'', time_column ''updated_at'']
        (\<lambda>db. db\<lparr>users := [], users_seq := 0\<rparr>)),
      plain_index ''idx_users_sub_key_hash'' ''users'' [''sub_key_hash''],
      plain_index ''idx_users_status'' ''users'' [''status'']]"

definition quotas_table :: "migration list" where
  "quotas_table =
     [Always (CreateTable ''quotas''
        [id_column, key_column SqlInteger ''user_id'', int_column ''quota_5h_limit'' 100,
         int_column ''quota_5h_used'' 0, int_column ''quota_total_limit'' 10000,
         int_column ''quota_total_used'' 0, needed SqlText ''window_start'', time_column ''updated_at'']
        (\<lambda>db. db\<lparr>quotas := [], quotas_seq := 0\<rparr>)),
      plain_index ''idx_quotas_window_start'' ''quotas'' [''window_start'']]"

definition call_logs_table :: "migration list" where
  "call_logs_table =
     [Always (CreateTable ''call_logs''
        [id_column, needed SqlInteger ''user_id'', text_column ''model'' ''glm-5.2'',
         int_column ''prompt_tokens'' 0, int_column ''completion_tokens'' 0, int_column ''total_tokens'' 0,
         int_column ''effective_calls'' 1, real_column ''multiplier_used'' 1,
         needed SqlInteger ''status_code'', int_column ''latency_ms'' 0,
         nullable_column SqlText ''error_msg'', time_column ''created_at'']
        (\<lambda>db. db\<lparr>call_logs := [], call_logs_seq := 0\<rparr>)),
      plain_index ''idx_call_logs_user_id'' ''call_logs'' [''user_id''],
      plain_index ''idx_call_logs_created_at'' ''call_logs'' [''created_at''],
      plain_index ''idx_call_logs_user_created'' ''call_logs'' [''user_id'', ''created_at'']]"

definition sessions_table :: "migration list" where
  "sessions_table =
     [Always (CreateTable ''admin_sessions''
        [id_column, key_column SqlText ''session_token'', time_column ''created_at'',
         needed SqlText ''expires_at'']
        (\<lambda>db. db\<lparr>admin_sessions := [], admin_sessions_seq := 0\<rparr>)),
      plain_index ''idx_admin_sessions_token'' ''admin_sessions'' [''session_token'']]"

definition multipliers_table :: "migration list" where
  "multipliers_table =
     [Always (CreateTable ''time_multipliers''
        [id_column, needed SqlText ''start_time'', needed SqlText ''end_time'',
         real_column ''multiplier'' 1, text_column ''days_of_week'' ''*'', int_column ''enabled'' 1,
         time_column ''created_at'']
        (\<lambda>db. db\<lparr>time_multipliers := [], time_multipliers_seq := 0\<rparr>)),
      plain_index ''idx_time_multipliers_enabled'' ''time_multipliers'' [''enabled'']]"

definition rules_table :: "migration list" where
  "rules_table =
     [Always (CreateTable ''provider_routing_rules''
        [id_column, needed SqlText ''provider_id'', needed SqlText ''start_time'',
         needed SqlText ''end_time'', text_column ''days_of_week'' ''*'',
         text_column ''timezone'' ''Asia/Shanghai'', int_column ''enabled'' 1,
         nullable_column SqlText ''default_provider_id'']
        (\<lambda>db. db\<lparr>routing_rules := [], routing_rules_seq := 0\<rparr>)),
      plain_index ''idx_provider_routing_rules_enabled'' ''provider_routing_rules'' [''enabled'']]"

definition slugs_distinct :: "db \<Rightarrow> bool" where
  "slugs_distinct db \<longleftrightarrow> distinct (map p_slug (providers db))"

definition providers_table :: "migration list" where
  "providers_table =
     [Always (CreateTable ''providers''
        [id_column, needed SqlText ''name'', key_column SqlText ''slug'', needed SqlText ''endpoint'',
         needed SqlBlob ''encrypted_key'', int_column ''is_default'' 0, int_column ''enabled'' 1,
         time_column ''created_at'', time_column ''updated_at'']
        (\<lambda>db. db\<lparr>providers := [], providers_seq := 0\<rparr>)),
      Always (CreateIndex ''idx_providers_slug'' ''providers'' [''slug''] slugs_distinct),
      plain_index ''idx_providers_enabled'' ''providers'' [''enabled'']]"

definition mappings_distinct :: "db \<Rightarrow> bool" where
  "mappings_distinct db \<longleftrightarrow> distinct (map (\<lambda>m. (mm_external m, mm_provider_id m)) (model_mappings db))"

definition mappings_table :: "migration list" where
  "mappings_table =
     [Always (CreateTable ''model_mappings''
        [id_column, needed SqlText ''external'', needed SqlText ''provider_id'',
         needed SqlText ''real_model'', time_column ''created_at'']
        (\<lambda>db. db\<lparr>model_mappings := [], model_mappings_seq := 0\<rparr>)),
      Always (CreateIndex ''idx_model_mappings_ext_prov'' ''model_mappings''
        [''external'', ''provider_id''] mappings_distinct)]"

definition audit_table :: "migration list" where
  "audit_table =
     [Always (CreateTable ''audit_logs''
        [id_column, needed SqlText ''action'', needed SqlText ''target_type'',
         needed SqlText ''target_id'', text_column ''detail'' '''', time_column ''created_at'']
        (\<lambda>db. db\<lparr>audit_logs := [], audit_logs_seq := 0\<rparr>)),
      plain_index ''idx_audit_logs_created_at'' ''audit_logs'' [''created_at''],
      plain_index ''idx_audit_logs_action'' ''audit_logs'' [''action'']]"

definition base_tables :: "migration list" where
  "base_tables = users_table @ quotas_table @ call_logs_table @ sessions_table @ multipliers_table @
     rules_table @ providers_table @ mappings_table @ audit_table"

section \<open>The columns added since\<close>

definition on_users :: "(User \<Rightarrow> User) \<Rightarrow> db \<Rightarrow> db" where
  "on_users f db = db\<lparr>users := map f (users db)\<rparr>"

definition on_quotas :: "(quota_row \<Rightarrow> quota_row) \<Rightarrow> db \<Rightarrow> db" where
  "on_quotas f db = db\<lparr>quotas := map f (quotas db)\<rparr>"

definition on_calls :: "(CallLog \<Rightarrow> CallLog) \<Rightarrow> db \<Rightarrow> db" where
  "on_calls f db = db\<lparr>call_logs := map f (call_logs db)\<rparr>"

definition on_rules :: "(RoutingRule \<Rightarrow> RoutingRule) \<Rightarrow> db \<Rightarrow> db" where
  "on_rules f db = db\<lparr>routing_rules := map f (routing_rules db)\<rparr>"

definition on_providers :: "(ProviderRecord \<Rightarrow> ProviderRecord) \<Rightarrow> db \<Rightarrow> db" where
  "on_providers f db = db\<lparr>providers := map f (providers db)\<rparr>"

text \<open>\<open>ADD COLUMN ... INTEGER NOT NULL DEFAULT d\<close> and \<open>TEXT\<close>, with the setter of the column.\<close>

definition ensure_int :: "string \<Rightarrow> string \<Rightarrow> int \<Rightarrow> (int \<Rightarrow> db \<Rightarrow> db) \<Rightarrow> sql list \<Rightarrow> migration" where
  "ensure_int t n d set_to backfill = EnsureColumn t (int_column n d) (set_to d) backfill"

definition ensure_text :: "string \<Rightarrow> string \<Rightarrow> string \<Rightarrow> (string \<Rightarrow> db \<Rightarrow> db) \<Rightarrow> sql list \<Rightarrow> migration" where
  "ensure_text t n d set_to backfill = EnsureColumn t (text_column n d) (set_to d) backfill"

text \<open>\<open>backfillRawTotalTokensSQL\<close>.\<close>

definition raw_missing :: "CallLog \<Rightarrow> bool" where
  "raw_missing l \<longleftrightarrow> cl_raw_total_tokens l = 0 \<and> 0 < cl_prompt_tokens l + cl_completion_tokens l"

definition backfill_raw :: sql where
  "backfill_raw = Update
     [(''call_logs'', ''raw_total_tokens''), (''call_logs'', ''prompt_tokens''), (''call_logs'', ''completion_tokens'')]
     (\<lambda>_. True)
     (on_calls (\<lambda>l. if raw_missing l
        then l\<lparr>cl_raw_total_tokens := cl_prompt_tokens l + cl_completion_tokens l\<rparr> else l))"

definition call_columns :: "migration list" where
  "call_columns =
     [ensure_text ''call_logs'' ''provider_id'' ''zhipu'' (\<lambda>d. on_calls (\<lambda>l. l\<lparr>cl_provider_id := d\<rparr>)) [],
      ensure_int ''call_logs'' ''raw_total_tokens'' 0 (\<lambda>d. on_calls (\<lambda>l. l\<lparr>cl_raw_total_tokens := d\<rparr>)) []]"

definition after_calls :: "migration list" where
  "after_calls =
     [plain_index ''idx_call_logs_provider_created'' ''call_logs'' [''provider_id'', ''created_at'']]"

definition user_columns :: "migration list" where
  "user_columns =
     [ensure_text ''users'' ''expires_at'' '''' (\<lambda>d. on_users (\<lambda>u. u\<lparr>u_expires_at := d\<rparr>)) [],
      ensure_text ''users'' ''route_mode'' ''auto'' (\<lambda>d. on_users (\<lambda>u. u\<lparr>u_route_mode := d\<rparr>)) [],
      ensure_text ''users'' ''fixed_provider'' '''' (\<lambda>d. on_users (\<lambda>u. u\<lparr>u_fixed_provider := d\<rparr>)) [],
      ensure_int ''users'' ''max_body_size'' 1048576 (\<lambda>d. on_users (\<lambda>u. u\<lparr>u_max_body_size := d\<rparr>)) [],
      ensure_int ''users'' ''max_concurrency'' 10 (\<lambda>d. on_users (\<lambda>u. u\<lparr>u_max_concurrency := d\<rparr>)) []]"

text \<open>\<open>backfillQuotaTokenTotalUsed\<close>: every call at its multiplier, rounded up by SQL.\<close>

definition billed_by_calls :: "CallLog list \<Rightarrow> int \<Rightarrow> int" where
  "billed_by_calls ls uid = sum_list (map sql_billed (filter (\<lambda>l. cl_user_id l = uid) ls))"

definition backfillQuotaTokenTotalUsed :: sql where
  "backfillQuotaTokenTotalUsed = Update
     [(''quotas'', ''quota_token_total_used''), (''quotas'', ''user_id''), (''call_logs'', ''user_id''),
      (''call_logs'', ''prompt_tokens''), (''call_logs'', ''completion_tokens''), (''call_logs'', ''multiplier_used'')]
     (\<lambda>_. True)
     (\<lambda>db. on_quotas (\<lambda>r. r\<lparr>q_token_total_used := billed_by_calls (call_logs db) (q_user_id r)\<rparr>) db)"

text \<open>The last column is only a marker that the recomputation has run.\<close>

definition total_columns :: "migration list" where
  "total_columns =
     [EnsureColumn ''quotas'' (nullable_column SqlReal ''fixed_multiplier'')
        (on_quotas (\<lambda>r. r\<lparr>q_fixed_multiplier := None\<rparr>)) [],
      ensure_int ''quotas'' ''quota_token_total_used'' 0 (\<lambda>d. on_quotas (\<lambda>r. r\<lparr>q_token_total_used := d\<rparr>)) [],
      ensure_int ''provider_routing_rules'' ''priority'' 0 (\<lambda>d. on_rules (\<lambda>r. r\<lparr>rr_priority := d\<rparr>)) [],
      ensure_int ''quotas'' ''quota_token_total_limit'' 0 (\<lambda>d. on_quotas (\<lambda>r. r\<lparr>q_token_total_limit := d\<rparr>))
        [backfillQuotaTokenTotalUsed],
      ensure_int ''quotas'' ''quota_token_total_mult_v1'' 0 (\<lambda>_ db. db) [backfillQuotaTokenTotalUsed]]"

text \<open>The anchors of the windows, filled with the moment of the migration.\<close>

definition fill_week_start :: "gotime \<Rightarrow> sql" where
  "fill_week_start now = Update [(''quotas'', ''week_start'')] (\<lambda>_. True)
     (on_quotas (\<lambda>r. if q_week_start r = '''' then r\<lparr>q_week_start := sqlite_datetime now\<rparr> else r))"

definition fill_week_cycle :: sql where
  "fill_week_cycle = Update [(''quotas'', ''week_cycle_start''), (''quotas'', ''week_start'')] (\<lambda>_. True)
     (on_quotas (\<lambda>r. if q_week_cycle_start r = '''' then r\<lparr>q_week_cycle_start := q_week_start r\<rparr> else r))"

definition fill_month_start :: "gotime \<Rightarrow> sql" where
  "fill_month_start now = Update [(''quotas'', ''month_start'')] (\<lambda>_. True)
     (on_quotas (\<lambda>r. if q_month_start r = '''' then r\<lparr>q_month_start := sqlite_datetime now\<rparr> else r))"

definition window_columns :: "gotime \<Rightarrow> migration list" where
  "window_columns now =
     [ensure_int ''quotas'' ''quota_token_5h_limit'' 0 (\<lambda>d. on_quotas (\<lambda>r. r\<lparr>q_token_5h_limit := d\<rparr>)) [],
      ensure_int ''quotas'' ''quota_token_5h_used'' 0 (\<lambda>d. on_quotas (\<lambda>r. r\<lparr>q_token_5h_used := d\<rparr>)) [],
      ensure_int ''quotas'' ''quota_token_week_limit'' 0 (\<lambda>d. on_quotas (\<lambda>r. r\<lparr>q_token_week_limit := d\<rparr>)) [],
      ensure_int ''quotas'' ''quota_token_week_used'' 0 (\<lambda>d. on_quotas (\<lambda>r. r\<lparr>q_token_week_used := d\<rparr>)) [],
      ensure_text ''quotas'' ''week_start'' '''' (\<lambda>d. on_quotas (\<lambda>r. r\<lparr>q_week_start := d\<rparr>)) [fill_week_start now],
      ensure_text ''quotas'' ''week_cycle_start'' '''' (\<lambda>d. on_quotas (\<lambda>r. r\<lparr>q_week_cycle_start := d\<rparr>)) [fill_week_cycle],
      ensure_text ''quotas'' ''month_start'' '''' (\<lambda>d. on_quotas (\<lambda>r. r\<lparr>q_month_start := d\<rparr>)) [fill_month_start now]]"

text \<open>\<open>date_of\<close> is SQLite's \<open>DATE\<close>; where it is \<open>NULL\<close> the update violates the column's \<open>NOT NULL\<close>.\<close>

definition dates_known :: "(string \<Rightarrow> string option) \<Rightarrow> db \<Rightarrow> bool" where
  "dates_known date_of db \<longleftrightarrow>
     (\<forall>p \<in> set (providers db). p_cycle_start_date p = '''' \<longrightarrow> date_of (p_created_at p) \<noteq> None)"

definition fill_cycle_start :: "(string \<Rightarrow> string option) \<Rightarrow> sql" where
  "fill_cycle_start date_of = Update [(''providers'', ''cycle_start_date''), (''providers'', ''created_at'')]
     (dates_known date_of)
     (on_providers (\<lambda>p. if p_cycle_start_date p = ''''
        then p\<lparr>p_cycle_start_date := (case date_of (p_created_at p) of None \<Rightarrow> '''' | Some d \<Rightarrow> d)\<rparr> else p))"

definition provider_columns :: "(string \<Rightarrow> string option) \<Rightarrow> migration list" where
  "provider_columns date_of =
     [EnsureColumn ''providers'' (int_column ''allow_passthrough'' 0)
        (on_providers (\<lambda>p. p\<lparr>p_allow_passthrough := False\<rparr>)) [],
      ensure_text ''providers'' ''auth_header'' ''Authorization'' (\<lambda>d. on_providers (\<lambda>p. p\<lparr>p_auth_header := d\<rparr>)) [],
      ensure_text ''providers'' ''auth_scheme'' ''bearer'' (\<lambda>d. on_providers (\<lambda>p. p\<lparr>p_auth_scheme := d\<rparr>)) [],
      ensure_text ''providers'' ''extra_headers'' ''{}'' (\<lambda>d. on_providers (\<lambda>p. p\<lparr>p_extra_headers := d\<rparr>)) [],
      ensure_int ''providers'' ''monthly_token_limit'' 0 (\<lambda>d. on_providers (\<lambda>p. p\<lparr>p_monthly_token_limit := d\<rparr>)) [],
      ensure_int ''providers'' ''monthly_call_limit'' 0 (\<lambda>d. on_providers (\<lambda>p. p\<lparr>p_monthly_call_limit := d\<rparr>)) [],
      EnsureColumn ''providers'' (real_column ''monthly_token_low_ratio'' 0)
        (on_providers (\<lambda>p. p\<lparr>p_monthly_token_low_ratio := 0\<rparr>)) [],
      EnsureColumn ''providers'' (real_column ''monthly_call_low_ratio'' 0)
        (on_providers (\<lambda>p. p\<lparr>p_monthly_call_low_ratio := 0\<rparr>)) [],
      ensure_text ''providers'' ''cycle_start_date'' '''' (\<lambda>d. on_providers (\<lambda>p. p\<lparr>p_cycle_start_date := d\<rparr>))
        [fill_cycle_start date_of]]"

definition later_migrations :: "gotime \<Rightarrow> (string \<Rightarrow> string option) \<Rightarrow> migration list" where
  "later_migrations now date_of =
     after_calls @ user_columns @ total_columns @ window_columns now @ provider_columns date_of"

definition migrations :: "gotime \<Rightarrow> (string \<Rightarrow> string option) \<Rightarrow> migration list" where
  "migrations now date_of =
     base_tables @ call_columns @ Always backfill_raw # later_migrations now date_of"

definition RunMigrations :: "gotime \<Rightarrow> (string \<Rightarrow> string option) \<Rightarrow> unit on_file" where
  "RunMigrations now date_of = run_migrations (migrations now date_of)"

section \<open>Opening the file\<close>

text \<open>
  \<open>Open\<close>: the file connects and answers a ping, or start-up fails; the pragmas after it are warnings
  at most.  Nothing of it changes a table.
\<close>

definition Open_db :: "bool \<Rightarrow> dbfile \<Rightarrow> goerr + dbfile" where
  "Open_db pings fi = (if pings then Ok fi else Err (DbErr ''failed to ping database''))"

text \<open>\<open>db.Now\<close>.\<close>

definition Now :: "gotime \<Rightarrow> string" where
  "Now now = fmt_rfc3339 now"

end
