(* ===== verification/MigrationLaws.thy ===== *)
theory MigrationLaws
  imports Migrations StoreInvariant
begin

text \<open>
  Laws of scripts of migrations: what a completed step leaves in the schema, when a step has nothing
  left to do, which properties of the rows a run keeps, and a static check that every statement of a script
  finds its columns, with its soundness.
\<close>

section \<open>Statements\<close>

fun statements :: "migration \<Rightarrow> sql list" where
  "statements (Always s) = [s]"
| "statements (EnsureColumn t c fill backfill) = AddColumn t c fill # backfill"

fun db_effect :: "sql \<Rightarrow> db \<Rightarrow> db" where
  "db_effect (CreateTable t cs wipe) = wipe"
| "db_effect (CreateIndex i t cs holds) = (\<lambda>db. db)"
| "db_effect (AddColumn t c fill) = fill"
| "db_effect (Update cs holds f) = f"

fun holds_of :: "sql \<Rightarrow> db \<Rightarrow> bool" where
  "holds_of (CreateIndex i t cs holds) = holds"
| "holds_of (Update cs holds f) = holds"
| "holds_of s = (\<lambda>_. True)"

lemma effect_db: "fl_db (sql_effect s fi) = fl_db fi \<or> fl_db (sql_effect s fi) = db_effect s (fl_db fi)"
  by (cases s) auto

definition grows :: "dbfile \<Rightarrow> dbfile \<Rightarrow> bool" where
  "grows a b \<longleftrightarrow> (\<forall>tc. has_column a tc \<longrightarrow> has_column b tc) \<and> (\<forall>t. has_table a t \<longrightarrow> has_table b t) \<and>
     set (fl_indexes a) \<subseteq> set (fl_indexes b)"

lemma grows_refl [simp]: "grows a a" "grows a (a\<lparr>fl_db := d\<rparr>)"
  by (simp_all add: grows_def has_column_def table_columns_def has_table_def)

lemma grows_trans: "grows a b \<Longrightarrow> grows b c \<Longrightarrow> grows a c"
  unfolding grows_def by blast

lemma grows_column: "grows a b \<Longrightarrow> has_column a tc \<Longrightarrow> has_column b tc"
  unfolding grows_def by blast

lemma grows_table: "grows a b \<Longrightarrow> has_table a t \<Longrightarrow> has_table b t"
  unfolding grows_def by blast

lemma grows_index: "grows a b \<Longrightarrow> i \<in> set (fl_indexes a) \<Longrightarrow> i \<in> set (fl_indexes b)"
  unfolding grows_def by blast

lemma schema_db [simp]:
  "has_column (fi\<lparr>fl_db := d\<rparr>) tc = has_column fi tc" "has_table (fi\<lparr>fl_db := d\<rparr>) t = has_table fi t"
  "table_columns (fi\<lparr>fl_db := d\<rparr>) t = table_columns fi t"
  by (simp_all add: has_column_def table_columns_def has_table_def)

lemma column_table: "has_column fi (t, c) \<Longrightarrow> has_table fi t"
  by (cases "map_of (fl_schema fi) t") (simp_all add: has_column_def table_columns_def has_table_def)

lemma map_of_add: "map_of (map (\<lambda>(t', cs). if t' = t then (t', cs @ [c]) else (t', cs)) m) t1 =
    (if t1 = t then map_option (\<lambda>cs. cs @ [c]) (map_of m t1) else map_of m t1)"
  by (induction m) auto

lemma column_added:
  "has_column (sql_effect (AddColumn t c fill) fi) (t1, c1) \<longleftrightarrow>
     has_column fi (t1, c1) \<or> t1 = t \<and> c1 = sc_name c \<and> has_table fi t"
  "has_table (sql_effect (AddColumn t c fill) fi) t1 = has_table fi t1"
  by (cases "map_of (fl_schema fi) t1";
      auto simp: has_column_def table_columns_def has_table_def map_of_add)+

lemma table_created:
  "has_table (sql_effect (CreateTable t cs wipe) fi) t1 \<longleftrightarrow> has_table fi t1 \<or> t1 = t"
  "has_column fi (t1, c1) \<Longrightarrow> has_column (sql_effect (CreateTable t cs wipe) fi) (t1, c1)"
  "\<not> has_table fi t \<Longrightarrow> c \<in> set cs \<Longrightarrow> has_column (sql_effect (CreateTable t cs wipe) fi) (t, sc_name c)"
  by (auto simp: has_column_def table_columns_def has_table_def split: if_splits option.splits)

lemma effect_grows: "grows fi (sql_effect s fi)"
proof (cases s)
  case (CreateTable t cs wipe)
  then show ?thesis unfolding grows_def CreateTable
    by (auto simp: table_created simp del: sql_effect.simps(1)) simp
next
  case (AddColumn t c fill)
  then show ?thesis unfolding grows_def AddColumn
    by (auto simp: column_added simp del: sql_effect.simps(3)) simp
qed (auto simp: grows_def has_column_def table_columns_def has_table_def)

section \<open>Runs\<close>

lemma exec_sql_cases:
  assumes "exec_sql s fi = (r, fi')"
  obtains e db1 where "r = Err e" "fi' = fi\<lparr>fl_db := db1\<rparr>" "same_tables (fl_db fi) db1"
    | db1 where "r = Ok ()" "fi' = sql_effect s (fi\<lparr>fl_db := db1\<rparr>)" "same_tables (fl_db fi) db1"
        "sql_accepts s (fi\<lparr>fl_db := db1\<rparr>)"
  using assms next_fault_tables [of "fl_db fi"]
  by (auto simp: exec_sql_def Let_def split: prod.splits if_splits)

lemma exec_all_Cons:
  "exec_all (s # ss) fi = (r, fi') \<Longrightarrow>
    (\<exists>e. exec_sql s fi = (Inl e, fi') \<and> r = Err e) \<or> (\<exists>fi1. exec_sql s fi = (Ok (), fi1) \<and> exec_all ss fi1 = (r, fi'))"
  by (auto split: prod.splits sum.splits)

lemma exec_grows: "exec_sql s fi = (r, fi') \<Longrightarrow> grows fi fi'"
  by (erule exec_sql_cases) (auto intro: grows_trans [OF _ effect_grows])

lemma exec_all_grows: "exec_all ss fi = (r, fi') \<Longrightarrow> grows fi fi'"
proof (induction ss arbitrary: fi)
  case (Cons s ss)
  from exec_all_Cons [OF Cons.prems] show ?case
    by (auto intro: grows_trans [OF exec_grows Cons.IH] exec_grows)
qed simp

lemma columnExists_cases:
  assumes "columnExists t c fi = (b, fi')"
  shows "\<exists>db1. fi' = fi\<lparr>fl_db := db1\<rparr> \<and> same_tables (fl_db fi) db1 \<and> (b \<longrightarrow> has_column fi (t, c))"
  using assms next_fault_tables [of "fl_db fi"] by (auto simp: columnExists_def Let_def split: prod.splits)

lemma run_migration_grows: "run_migration m fi = (r, fi') \<Longrightarrow> grows fi fi'"
proof (cases m)
  case (EnsureColumn t c fill backfill)
  assume r: "run_migration m fi = (r, fi')"
  obtain b fi1 where c: "columnExists t (sc_name c) fi = (b, fi1)" by fastforce
  then have "grows fi fi1" using columnExists_cases [OF c] by auto
  moreover have "grows fi1 fi'"
    using r c by (cases b) (auto simp: EnsureColumn simp del: exec_all.simps dest: exec_all_grows)
  ultimately show ?thesis by (rule grows_trans)
qed (auto dest: exec_grows)

lemma run_migrations_Cons:
  "run_migrations (m # ms) fi = (r, fi') \<Longrightarrow>
    (\<exists>e. run_migration m fi = (Inl e, fi') \<and> r = Err e) \<or>
    (\<exists>fi1. run_migration m fi = (Ok (), fi1) \<and> run_migrations ms fi1 = (r, fi'))"
  by (auto split: prod.splits sum.splits)

lemma run_migrations_grows: "run_migrations ms fi = (r, fi') \<Longrightarrow> grows fi fi'"
proof (induction ms arbitrary: fi)
  case (Cons m ms)
  from run_migrations_Cons [OF Cons.prems] show ?case
    by (auto intro: grows_trans [OF run_migration_grows Cons.IH] run_migration_grows)
qed simp

lemma run_migrations_append:
  "run_migrations (xs @ ys) fi = (case run_migrations xs fi of
     (Inl e, fi1) \<Rightarrow> (Err e, fi1) | (Inr _, fi1) \<Rightarrow> run_migrations ys fi1)"
  by (induction xs arbitrary: fi) (auto split: prod.splits sum.splits)

lemma run_migrations_split:
  assumes "run_migrations (xs @ ys) fi = (Inr u, fi')"
  obtains fi1 where "run_migrations xs fi = (Ok (), fi1)" "run_migrations ys fi1 = (Ok (), fi')"
  using assms by (auto simp: run_migrations_append split: prod.splits sum.splits)

text \<open>What a completed migration leaves in the schema, and when it has nothing left to do.\<close>

fun present :: "migration \<Rightarrow> dbfile \<Rightarrow> bool" where
  "present (Always (CreateTable t cs wipe)) fi = has_table fi t"
| "present (Always (CreateIndex i t cs holds)) fi = (i \<in> set (fl_indexes fi))"
| "present (Always (AddColumn t c fill)) fi = has_column fi (t, sc_name c)"
| "present (Always (Update cs holds f)) fi = (\<forall>tc \<in> set cs. has_column fi tc)"
| "present (EnsureColumn t c fill backfill) fi = has_column fi (t, sc_name c)"

lemma present_grows: "present m a \<Longrightarrow> grows a b \<Longrightarrow> present m b"
  by (cases "(m, a)" rule: present.cases)
    (auto intro: grows_column grows_table grows_index)

lemma effect_present: "sql_accepts s fi \<Longrightarrow> present (Always s) (sql_effect s fi)"
proof (cases s)
  case (CreateTable t cs wipe)
  then show ?thesis unfolding CreateTable present.simps table_created by simp
next
  case (AddColumn t c fill)
  assume "sql_accepts s fi"
  then show ?thesis unfolding AddColumn present.simps column_added by simp
qed simp_all

lemma exec_present: "exec_sql s fi = (Inr u, fi') \<Longrightarrow> present (Always s) fi'"
  by (erule exec_sql_cases) (simp_all only: effect_present sum.distinct)

lemma run_present: "run_migration m fi = (Inr u, fi') \<Longrightarrow> present m fi'"
proof (cases m)
  case (EnsureColumn t c fill backfill)
  assume r: "run_migration m fi = (Inr u, fi')"
  obtain b fi1 where c: "columnExists t (sc_name c) fi = (b, fi1)" by fastforce
  note x = columnExists_cases [OF c]
  show ?thesis
  proof (cases b)
    case True
    then show ?thesis using r c x by (auto simp: EnsureColumn)
  next
    case False
    then have "exec_all (AddColumn t c fill # backfill) fi1 = (Inr u, fi')"
      using r c by (simp add: EnsureColumn del: exec_all.simps)
    then obtain fi2 where a: "exec_sql (AddColumn t c fill) fi1 = (Ok (), fi2)" and g: "exec_all backfill fi2 = (Inr u, fi')"
      using exec_all_Cons by fastforce
    from exec_present [OF a] show ?thesis
      using exec_all_grows [OF g] by (simp add: EnsureColumn grows_column)
  qed
qed (simp add: exec_present)

lemma run_migrations_present:
  "run_migrations ms fi = (Inr u, fi') \<Longrightarrow> m \<in> set ms \<Longrightarrow> present m fi'"
proof (induction ms arbitrary: fi)
  case (Cons m' ms)
  from run_migrations_Cons [OF Cons.prems(1)] obtain fi1
    where 1: "run_migration m' fi = (Ok (), fi1)" "run_migrations ms fi1 = (Inr u, fi')" by auto
  then show ?case
    using Cons.prems(2) Cons.IH [OF 1(2)] present_grows [OF run_present [OF 1(1)] run_migrations_grows [OF 1(2)]]
    by auto
qed simp

section \<open>A run with nothing left to do\<close>

fun done_already :: "migration \<Rightarrow> dbfile \<Rightarrow> bool" where
  "done_already (Always (AddColumn t c fill)) fi = False"
| "done_already (Always (Update cs holds f)) fi \<longleftrightarrow>
     present (Always (Update cs holds f)) fi \<and> holds (fl_db fi) \<and> f (fl_db fi) = fl_db fi"
| "done_already m fi = present m fi"

lemma run_done:
  assumes "healthy (fl_db fi)" "done_already m fi"
  shows "run_migration m fi = (Ok (), fi)"
proof (cases m)
  case (Always s)
  then show ?thesis using assms by (cases s) (auto simp: exec_sql_def sql_simps Let_def)
next
  case (EnsureColumn t c fill backfill)
  then show ?thesis using assms by (simp add: columnExists_def sql_simps Let_def)
qed

lemma run_all_done:
  "healthy (fl_db fi) \<Longrightarrow> \<forall>m \<in> set ms. done_already m fi \<Longrightarrow> run_migrations ms fi = (Ok (), fi)"
  by (induction ms) (simp_all add: run_done)

section \<open>Invariants of the rows\<close>

text \<open>What a statement does not touch because its table or column is there already, whatever fails.\<close>

fun idle :: "migration \<Rightarrow> dbfile \<Rightarrow> bool" where
  "idle (Always (CreateTable t cs wipe)) fi = has_table fi t"
| "idle (Always s) fi = False"
| "idle (EnsureColumn t c fill backfill) fi = has_column fi (t, sc_name c)"

lemma idle_grows: "idle m a \<Longrightarrow> grows a b \<Longrightarrow> idle m b"
  by (cases "(m, a)" rule: idle.cases) (auto intro: grows_column grows_table)

lemma idle_run: "idle m fi \<Longrightarrow> run_migration m fi = (r, fi') \<Longrightarrow> same_tables (fl_db fi) (fl_db fi')"
proof (cases m)
  case (Always s)
  assume "idle m fi" "run_migration m fi = (r, fi')"
  then show ?thesis by (cases s) (auto simp: Always elim!: exec_sql_cases)
next
  case (EnsureColumn t c fill backfill)
  assume i: "idle m fi" and r: "run_migration m fi = (r, fi')"
  obtain b fi1 where c: "columnExists t (sc_name c) fi = (b, fi1)" by fastforce
  then obtain db1 where x: "fi1 = fi\<lparr>fl_db := db1\<rparr>" "same_tables (fl_db fi) db1"
    using columnExists_cases by blast
  have "\<not> sql_accepts (AddColumn t c fill) (fi1\<lparr>fl_db := d\<rparr>)" for d
    using i by (simp add: EnsureColumn x)
  then have f: "exec_sql (AddColumn t c fill) fi1 = (q, fi2) \<Longrightarrow>
      (\<exists>e. q = Inl e) \<and> same_tables (fl_db fi1) (fl_db fi2)" for q fi2
    by (erule_tac exec_sql_cases) auto
  show ?thesis
    using r c x f by (cases b) (auto simp: EnsureColumn split: prod.splits sum.splits intro: same_tables_trans)
qed

definition stable :: "(db \<Rightarrow> bool) \<Rightarrow> migration \<Rightarrow> bool" where
  "stable I m \<longleftrightarrow> (\<forall>s \<in> set (statements m). \<forall>db. I db \<longrightarrow> I (db_effect s db))"

lemma exec_stable:
  assumes "table_property I" "\<And>db. I db \<Longrightarrow> I (db_effect s db)" "exec_sql s fi = (r, fi')" "I (fl_db fi)"
  shows "I (fl_db fi')"
  using assms(3)
proof (cases rule: exec_sql_cases)
  case (1 e db1)
  then show ?thesis using assms(1,4) by (auto simp: table_property_def)
next
  case (2 db1)
  then have "I db1" using assms(1,4) by (auto simp: table_property_def)
  then show ?thesis using effect_db [of s "fi\<lparr>fl_db := db1\<rparr>"] assms(2) by (auto simp: 2)
qed

lemma exec_all_stable:
  "table_property I \<Longrightarrow> \<forall>s \<in> set ss. \<forall>db. I db \<longrightarrow> I (db_effect s db) \<Longrightarrow>
    exec_all ss fi = (r, fi') \<Longrightarrow> I (fl_db fi) \<Longrightarrow> I (fl_db fi')"
proof (induction ss arbitrary: fi)
  case (Cons s ss)
  from exec_all_Cons [OF Cons.prems(3)] show ?case
    using exec_stable [of I s fi] Cons by auto
qed simp

lemma migration_stable:
  assumes "table_property I" "stable I m" "run_migration m fi = (r, fi')" "I (fl_db fi)"
  shows "I (fl_db fi')"
proof (cases m)
  case (Always s)
  then show ?thesis using assms exec_stable [of I s fi r fi'] by (simp add: stable_def)
next
  case (EnsureColumn t c fill backfill)
  obtain b fi1 where c: "columnExists t (sc_name c) fi = (b, fi1)" by fastforce
  then have "I (fl_db fi1)" using columnExists_cases [OF c] assms(1,4) by (auto simp: table_property_def)
  then show ?thesis
    using assms(2,3) c exec_all_stable [OF assms(1), of "AddColumn t c fill # backfill" fi1 r fi']
    by (cases b) (auto simp: EnsureColumn stable_def simp del: exec_all.simps)
qed

lemma run_stable:
  "table_property I \<Longrightarrow> \<forall>m \<in> set ms. idle m fi \<or> stable I m \<Longrightarrow>
    run_migrations ms fi = (r, fi') \<Longrightarrow> I (fl_db fi) \<Longrightarrow> I (fl_db fi')"
proof (induction ms arbitrary: fi)
  case (Cons m ms)
  have step: "I (fl_db fi1)" if "run_migration m fi = (q, fi1)" for q fi1
    using that Cons.prems migration_stable [of I m fi q fi1] idle_run [of m fi q fi1]
    by (auto simp: table_property_def)
  from run_migrations_Cons [OF Cons.prems(3)] show ?case
  proof (elim disjE exE conjE)
    fix fi1 assume 1: "run_migration m fi = (Ok (), fi1)" "run_migrations ms fi1 = (r, fi')"
    have "\<forall>m \<in> set ms. idle m fi1 \<or> stable I m"
      using Cons.prems(2) idle_grows [OF _ run_migration_grows [OF 1(1)]] by auto
    then show ?thesis using Cons.IH [OF Cons.prems(1) _ 1(2) step [OF 1(1)]] by blast
  qed (use step in auto)
qed simp

section \<open>A static check of the script\<close>

fun asks :: "sql \<Rightarrow> (string \<times> string) list" where
  "asks (CreateIndex i t cs holds) = map (Pair t) cs"
| "asks (Update cs holds f) = cs"
| "asks s = []"

fun gives :: "migration \<Rightarrow> (string \<times> string) list" where
  "gives (Always (CreateTable t cs wipe)) = map (\<lambda>c. (t, sc_name c)) cs"
| "gives (EnsureColumn t c fill backfill) = [(t, sc_name c)]"
| "gives m = []"

definition known_all :: "(string \<times> string) list \<Rightarrow> (string \<times> string) list \<Rightarrow> bool" where
  "known_all known cs \<longleftrightarrow> list_all (\<lambda>tc. List.member known tc) cs"

fun is_update :: "sql \<Rightarrow> bool" where
  "is_update (Update cs holds f) = True" | "is_update s = False"

text \<open>Every statement finds its columns among those of earlier statements.\<close>

fun well_placed :: "(string \<times> string) list \<Rightarrow> migration \<Rightarrow> bool" where
  "well_placed known (Always (CreateTable t cs wipe)) \<longleftrightarrow> cs \<noteq> [] \<and> \<not> List.member (map fst known) t"
| "well_placed known (Always (AddColumn t c fill)) \<longleftrightarrow> False"
| "well_placed known (Always s) \<longleftrightarrow> known_all known (asks s)"
| "well_placed known (EnsureColumn t c fill backfill) \<longleftrightarrow> List.member (map fst known) t \<and> addable c \<and>
     list_all (\<lambda>s. is_update s \<and> known_all ((t, sc_name c) # known) (asks s)) backfill"

fun ready :: "(string \<times> string) list \<Rightarrow> migration list \<Rightarrow> bool" where
  "ready known [] \<longleftrightarrow> True"
| "ready known (m # ms) \<longleftrightarrow> well_placed known m \<and> ready (gives m @ known) ms"

lemma script_ready: "ready [] (migrations now date_of)"
  by code_simp

section \<open>Soundness of the check\<close>

definition lawful :: "(db \<Rightarrow> bool) \<Rightarrow> migration \<Rightarrow> bool" where
  "lawful I m \<longleftrightarrow> (\<forall>s \<in> set (statements m). \<forall>db. I db \<longrightarrow> holds_of s db \<and> I (db_effect s db))"

definition keeps_tables :: "migration list \<Rightarrow> dbfile \<Rightarrow> bool" where
  "keeps_tables ms fi \<longleftrightarrow> (\<forall>t cs wipe. Always (CreateTable t cs wipe) \<in> set ms \<longrightarrow> has_table fi t \<longrightarrow>
     (\<forall>c \<in> set cs. has_column fi (t, sc_name c)))"

lemma exec_accepted:
  "healthy (fl_db fi) \<Longrightarrow> sql_accepts s fi \<Longrightarrow> exec_sql s fi = (Ok (), sql_effect s fi)"
  by (simp add: exec_sql_def sql_simps Let_def)

lemma known_allD: "known_all known cs \<Longrightarrow> tc \<in> set cs \<Longrightarrow> tc \<in> set known"
  by (auto simp: known_all_def list_all_iff List.member_iff)

lemma updates_run:
  assumes "\<forall>db. I db \<longrightarrow> healthy db"
  shows "\<forall>s \<in> set ss. is_update s \<and> (\<forall>tc \<in> set (asks s). has_column fi tc) \<and>
      (\<forall>db. I db \<longrightarrow> holds_of s db \<and> I (db_effect s db)) \<Longrightarrow> I (fl_db fi) \<Longrightarrow>
    \<exists>fi'. exec_all ss fi = (Ok (), fi') \<and> I (fl_db fi') \<and> (\<forall>t. has_table fi' t = has_table fi t)"
proof (induction ss arbitrary: fi)
  case (Cons s ss)
  then obtain cs holds f where s: "s = Update cs holds f" by (cases s) auto
  let ?fi = "fi\<lparr>fl_db := f (fl_db fi)\<rparr>"
  have "exec_sql s fi = (Ok (), ?fi)"
    using Cons.prems assms by (subst exec_accepted) (auto simp: s)
  moreover have "\<exists>fi'. exec_all ss ?fi = (Ok (), fi') \<and> I (fl_db fi') \<and> (\<forall>t. has_table fi' t = has_table ?fi t)"
    using Cons.prems by (intro Cons.IH) (auto simp: s)
  ultimately show ?case by auto
qed simp

lemma placed_column_runs:
  assumes ok: "well_placed known (EnsureColumn t c fill backfill)" "\<forall>tc \<in> set known. has_column fi tc"
      "lawful I (EnsureColumn t c fill backfill)" "I (fl_db fi)"
    and h: "\<forall>db. I db \<longrightarrow> healthy db" and new: "\<not> has_column fi (t, sc_name c)"
  shows "\<exists>fi'. run_migration (EnsureColumn t c fill backfill) fi = (Ok (), fi') \<and> I (fl_db fi') \<and>
    has_column fi' (t, sc_name c) \<and> (\<forall>t. has_table fi' t \<longrightarrow> has_table fi t)"
proof -
  have hf: "healthy (fl_db fi)" using ok(4) h by blast
  have t: "has_table fi t" using ok(1,2) column_table [of fi t] by (auto simp: List.member_iff)
  let ?fi = "sql_effect (AddColumn t c fill) fi"
  have a: "exec_sql (AddColumn t c fill) fi = (Ok (), ?fi)"
    by (rule exec_accepted) (use hf t new ok(1) in auto)
  have b: "is_update s" "known_all ((t, sc_name c) # known) (asks s)" if "s \<in> set backfill" for s
    using ok(1) that by (auto simp: list_all_iff)
  have k: "has_column ?fi tc" if "tc \<in> set ((t, sc_name c) # known)" for tc
    using that ok(2) t column_added(1) [of t c fill fi "fst tc" "snd tc"] by (auto simp del: sql_effect.simps)
  have l: "holds_of s db \<and> I (db_effect s db)" if "s = AddColumn t c fill \<or> s \<in> set backfill" "I db" for s db
    using ok(3) that by (auto simp: lawful_def simp del: db_effect.simps holds_of.simps)
  have "\<forall>s \<in> set backfill. is_update s \<and> (\<forall>tc \<in> set (asks s). has_column ?fi tc) \<and>
      (\<forall>db. I db \<longrightarrow> holds_of s db \<and> I (db_effect s db))"
    using b(1) known_allD [OF b(2)] k l by blast
  moreover have "I (fl_db ?fi)" using l [of "AddColumn t c fill" "fl_db fi"] ok(4) by simp
  ultimately have "\<exists>fi'. exec_all backfill ?fi = (Ok (), fi') \<and> I (fl_db fi') \<and> (\<forall>t. has_table fi' t = has_table ?fi t)"
    by (rule updates_run [OF h])
  then obtain fi' where e: "exec_all backfill ?fi = (Ok (), fi')" "I (fl_db fi')"
    "\<forall>t. has_table fi' t = has_table ?fi t" by blast
  have "run_migration (EnsureColumn t c fill backfill) fi = (Ok (), fi')"
    using a e(1) new hf by (simp add: columnExists_def sql_simps Let_def del: sql_effect.simps)
  moreover have "has_column fi' (t, sc_name c)"
    using exec_all_grows [OF e(1)] k by (auto intro: grows_column)
  ultimately show ?thesis using e by (auto simp: column_added(2) simp del: sql_effect.simps)
qed

lemma placed_runs:
  assumes ok: "well_placed known m" "\<forall>tc \<in> set known. has_column fi tc" "lawful I m" "I (fl_db fi)"
    and h: "\<forall>db. I db \<longrightarrow> healthy db" and old: "keeps_tables [m] fi"
  shows "\<exists>fi'. run_migration m fi = (Ok (), fi') \<and> I (fl_db fi') \<and> (\<forall>tc \<in> set (gives m). has_column fi' tc) \<and>
    (\<forall>t. has_table fi' t \<longrightarrow> has_table fi t \<or> (\<exists>cs wipe. m = Always (CreateTable t cs wipe)))"
proof (cases m)
  case (Always s)
  have a: "sql_accepts s fi"
    using ok by (cases s) (auto simp: Always lawful_def known_all_def list_all_iff List.member_iff)
  then have r: "run_migration m fi = (Ok (), sql_effect s fi)" using ok(4) h by (simp add: Always exec_accepted)
  have "I (fl_db (sql_effect s fi))"
    using effect_db [of s fi] ok(3,4) by (auto simp: Always lawful_def)
  moreover have "(\<forall>tc \<in> set (gives m). has_column (sql_effect s fi) tc) \<and>
    (\<forall>t. has_table (sql_effect s fi) t \<longrightarrow> has_table fi t \<or> (\<exists>cs wipe. m = Always (CreateTable t cs wipe)))"
  proof (cases s)
    case (CreateTable t cs wipe)
    then have "has_column (sql_effect s fi) (t, sc_name c)" if "c \<in> set cs" for c
      using that old by (cases "has_table fi t") (auto simp: Always keeps_tables_def simp del: sql_effect.simps intro: table_created(2,3))
    then show ?thesis using table_created(1) [of t cs wipe fi] by (auto simp: Always CreateTable simp del: sql_effect.simps)
  qed (use ok(1) in \<open>auto simp: Always has_table_def\<close>)
  ultimately show ?thesis using r by blast
next
  case (EnsureColumn t c fill backfill)
  show ?thesis
  proof (cases "has_column fi (t, sc_name c)")
    case True
    moreover have "healthy (fl_db fi)" using ok(4) h by blast
    ultimately show ?thesis using ok(4) by (auto simp: EnsureColumn columnExists_def sql_simps Let_def)
  next
    case False
    from placed_column_runs [OF ok(1) [unfolded EnsureColumn] ok(2) ok(3) [unfolded EnsureColumn] ok(4) h False]
    show ?thesis by (auto simp: EnsureColumn simp del: run_migration.simps)
  qed
qed

lemma ready_fresh:
  "ready known ms \<Longrightarrow> Always (CreateTable t cs wipe) \<in> set ms \<Longrightarrow> t \<notin> fst ` set known"
proof (induction ms arbitrary: known)
  case (Cons m ms)
  then show ?case by (cases "m = Always (CreateTable t cs wipe)") (auto simp: List.member_iff, force)
qed simp

lemma ready_runs:
  assumes h: "\<forall>db. I db \<longrightarrow> healthy db"
  shows "ready known ms \<Longrightarrow> \<forall>tc \<in> set known. has_column fi tc \<Longrightarrow> keeps_tables ms fi \<Longrightarrow>
    \<forall>m \<in> set ms. lawful I m \<Longrightarrow> I (fl_db fi) \<Longrightarrow>
    \<exists>fi'. run_migrations ms fi = (Ok (), fi') \<and> I (fl_db fi') \<and>
      (\<forall>tc \<in> set (concat (map gives ms)). has_column fi' tc)"
proof (induction ms arbitrary: known fi)
  case (Cons m ms)
  obtain fi1 where r: "run_migration m fi = (Ok (), fi1)" "I (fl_db fi1)" "\<forall>tc \<in> set (gives m). has_column fi1 tc"
    and t: "\<And>t. has_table fi1 t \<Longrightarrow> has_table fi t \<or> (\<exists>cs wipe. m = Always (CreateTable t cs wipe))"
  proof -
    have "keeps_tables [m] fi" using Cons.prems(3) unfolding keeps_tables_def by auto
    with Cons.prems h that show thesis using placed_runs [of known m fi I] by auto
  qed
  note g = run_migration_grows [OF r(1)]
  have new: "\<not> (\<exists>cs wipe. m = Always (CreateTable t cs wipe))" if "Always (CreateTable t cs' wipe') \<in> set ms" for t cs' wipe'
  proof
    assume "\<exists>cs wipe. m = Always (CreateTable t cs wipe)"
    then obtain cs wipe where m: "m = Always (CreateTable t cs wipe)" by blast
    with Cons.prems(1) have "cs \<noteq> []" by simp
    then show False using ready_fresh [OF _ that, of "gives m @ known"] Cons.prems(1)
      by (cases cs) (auto simp: m)
  qed
  have "\<exists>fi'. run_migrations ms fi1 = (Ok (), fi') \<and> I (fl_db fi') \<and>
      (\<forall>tc \<in> set (concat (map gives ms)). has_column fi' tc)"
  proof (rule Cons.IH [of "gives m @ known"])
    show "keeps_tables ms fi1"
      unfolding keeps_tables_def
    proof (intro allI impI ballI)
      fix t cs wipe c assume c: "Always (CreateTable t cs wipe) \<in> set ms" "has_table fi1 t" "c \<in> set cs"
      then have "has_table fi t" using t [of t] new [OF c(1)] by blast
      then have "has_column fi (t, sc_name c)" using Cons.prems(3) c by (auto simp: keeps_tables_def)
      then show "has_column fi1 (t, sc_name c)" by (rule grows_column [OF g])
    qed
  qed (use Cons.prems r g in \<open>auto intro: grows_column\<close>)
  then obtain fi' where f: "run_migrations ms fi1 = (Ok (), fi')" "I (fl_db fi')"
    "\<forall>tc \<in> set (concat (map gives ms)). has_column fi' tc" by blast
  then show ?case
    using r(1,3) run_migrations_grows [OF f(1)] by (auto intro: grows_column)
qed simp

end
