(* ===== verification/MigrationProperties.thy ===== *)
theory MigrationProperties
  imports MigrationLaws QuotaProperties StatsProperties
begin

text \<open>
  Properties of the migration script: what it makes of every older file, what a second run does, and what
  an interrupted one leaves behind.
\<close>

section \<open>What the script needs and leaves alone\<close>

definition upgradable :: "(string \<Rightarrow> string option) \<Rightarrow> db \<Rightarrow> bool" where
  "upgradable date_of db \<longleftrightarrow> healthy db \<and> slugs_distinct db \<and> mappings_distinct db \<and>
     (\<forall>p \<in> set (providers db). date_of (p_created_at p) \<noteq> None)"

definition older_file :: "dbfile \<Rightarrow> bool" where
  "older_file fi \<longleftrightarrow> list_all (\<lambda>m. case m of Always (CreateTable t cs wipe) \<Rightarrow>
     has_table fi t \<longrightarrow> list_all (\<lambda>c. has_column fi (t, sc_name c)) cs | _ \<Rightarrow> True) base_tables"

lemmas on_defs = on_users_def on_quotas_def on_calls_def on_rules_def on_providers_def
lemmas ensure_defs = ensure_int_def ensure_text_def plain_index_def
lemmas table_defs = base_tables_def users_table_def quotas_table_def call_logs_table_def sessions_table_def
  multipliers_table_def rules_table_def providers_table_def mappings_table_def audit_table_def
lemmas added_defs = call_columns_def later_migrations_def after_calls_def user_columns_def total_columns_def
  window_columns_def provider_columns_def
lemmas fill_defs = backfill_raw_def backfillQuotaTokenTotalUsed_def fill_week_start_def fill_week_cycle_def
  fill_month_start_def fill_cycle_start_def

lemma no_tables_later:
  "Always (CreateTable t cs wipe) \<in> set (migrations now date_of) \<longleftrightarrow> Always (CreateTable t cs wipe) \<in> set base_tables"
  unfolding migrations_def added_defs ensure_defs backfill_raw_def by simp

lemma older_file_keeps: "older_file fi \<Longrightarrow> keeps_tables (migrations now date_of) fi"
  unfolding older_file_def keeps_tables_def no_tables_later by (fastforce simp: list_all_iff)

lemma tables_lawful: "m \<in> set base_tables \<Longrightarrow> lawful (upgradable date_of) m"
  unfolding table_defs ensure_defs
  by (auto simp: lawful_def upgradable_def slugs_distinct_def mappings_distinct_def)

lemma added_lawful: "m \<in> set (call_columns @ Always backfill_raw # later_migrations now date_of) \<Longrightarrow> lawful (upgradable date_of) m"
  unfolding added_defs ensure_defs fill_defs
  by (auto simp: lawful_def upgradable_def slugs_distinct_def mappings_distinct_def on_defs dates_known_def o_def if_distrib cong: if_cong)

lemma script_lawful: "\<forall>m \<in> set (migrations now date_of). lawful (upgradable date_of) m"
  unfolding migrations_def using tables_lawful [of _ date_of] added_lawful [of _ now date_of] by auto

lemma upgrade_runs:
  assumes "older_file fi" "upgradable date_of (fl_db fi)"
  obtains fi' where "RunMigrations now date_of fi = (Ok (), fi')" "upgradable date_of (fl_db fi')"
    "\<forall>tc \<in> set (concat (map gives (migrations now date_of))). has_column fi' tc"
  using ready_runs [OF _ script_ready [of now date_of] _ older_file_keeps [OF assms(1)] script_lawful assms(2)]
  unfolding RunMigrations_def by (auto simp: upgradable_def)


section \<open>What the queries need\<close>

text \<open>The columns the statements of \<open>internal/models\<close>, \<open>internal/provider\<close> and \<open>internal/router\<close> name.\<close>

definition queried_columns :: "(string \<times> string list) list" where
  "queried_columns =
     [(''users'', [''id'', ''username'', ''password_hash'', ''sub_key_hash'', ''sub_key_preview'', ''role'',
        ''status'', ''created_at'', ''updated_at'', ''expires_at'', ''route_mode'', ''fixed_provider'',
        ''max_body_size'', ''max_concurrency'']),
      (''quotas'', [''id'', ''user_id'', ''quota_5h_limit'', ''quota_5h_used'', ''quota_total_limit'',
        ''quota_total_used'', ''quota_token_total_limit'', ''quota_token_total_used'', ''quota_token_5h_limit'',
        ''quota_token_5h_used'', ''quota_token_week_limit'', ''quota_token_week_used'', ''week_start'',
        ''week_cycle_start'', ''month_start'', ''window_start'', ''updated_at'', ''fixed_multiplier'']),
      (''call_logs'', [''id'', ''user_id'', ''model'', ''provider_id'', ''prompt_tokens'', ''completion_tokens'',
        ''total_tokens'', ''raw_total_tokens'', ''effective_calls'', ''multiplier_used'', ''status_code'',
        ''latency_ms'', ''error_msg'', ''created_at'']),
      (''admin_sessions'', [''id'', ''session_token'', ''created_at'', ''expires_at'']),
      (''time_multipliers'', [''id'', ''start_time'', ''end_time'', ''multiplier'', ''days_of_week'',
        ''enabled'', ''created_at'']),
      (''provider_routing_rules'', [''id'', ''provider_id'', ''start_time'', ''end_time'', ''days_of_week'',
        ''timezone'', ''enabled'', ''priority'', ''default_provider_id'']),
      (''providers'', [''id'', ''name'', ''slug'', ''endpoint'', ''encrypted_key'', ''is_default'', ''enabled'',
        ''allow_passthrough'', ''auth_header'', ''auth_scheme'', ''extra_headers'', ''monthly_token_limit'',
        ''monthly_call_limit'', ''monthly_token_low_ratio'', ''monthly_call_low_ratio'', ''cycle_start_date'',
        ''created_at'', ''updated_at'']),
      (''model_mappings'', [''id'', ''external'', ''provider_id'', ''real_model'', ''created_at'']),
      (''audit_logs'', [''id'', ''action'', ''target_type'', ''target_id'', ''detail'', ''created_at''])]"

definition complete_schema :: "dbfile \<Rightarrow> bool" where
  "complete_schema fi \<longleftrightarrow> list_all (\<lambda>(t, cs). list_all (\<lambda>c. has_column fi (t, c)) cs) queried_columns"

lemma queried_given: "list_all (\<lambda>(t, cs). list_all (\<lambda>c. List.member (concat (map gives (migrations now date_of))) (t, c)) cs)
    queried_columns"
  by code_simp

text \<open>
  Property C18.  Whatever older version of the file start-up finds, or none at all, the migrations succeed
  when no statement fails: afterwards every table has every column that the queries of the gateway name.
  An older version has at least the columns of the first version in each table it has; slugs and mappings
  must be unique and the creation dates of providers readable.
\<close>

theorem upgrade_completes_the_schema:
  assumes "older_file fi" "upgradable date_of (fl_db fi)"
  shows "\<exists>fi'. RunMigrations now date_of fi = (Ok (), fi') \<and> complete_schema fi'"
proof -
  obtain fi' where "RunMigrations now date_of fi = (Ok (), fi')"
    and c: "\<forall>tc \<in> set (concat (map gives (migrations now date_of))). has_column fi' tc"
    using upgrade_runs [OF assms] by metis
  moreover have "complete_schema fi'"
    using queried_given [of now date_of] c unfolding complete_schema_def list_all_iff List.member_iff by blast
  ultimately show ?thesis by blast
qed

section \<open>A second run\<close>

definition raw_settled :: "db \<Rightarrow> bool" where
  "raw_settled db \<longleftrightarrow> (\<forall>l \<in> set (call_logs db). \<not> raw_missing l)"

lemma raw_settled_table: "table_property raw_settled"
  by (auto simp: table_property_def raw_settled_def same_tables_select)

lemma raw_settled_later: "m \<in> set (later_migrations now date_of) \<Longrightarrow> stable raw_settled m"
  unfolding added_defs ensure_defs fill_defs
  by (auto simp: stable_def raw_settled_def on_defs)

lemma raw_settled_effect: "raw_settled (db_effect backfill_raw db)"
  by (auto simp: raw_settled_def backfill_raw_def on_calls_def raw_missing_def)

lemma raw_settled_noop: "raw_settled db \<Longrightarrow> db_effect backfill_raw db = db"
  by (simp add: raw_settled_def backfill_raw_def on_calls_def map_idI)

lemma run_settles:
  assumes "RunMigrations now date_of fi = (Inr u, fi')"
  shows "raw_settled (fl_db fi')"
proof -
  have "run_migrations ((base_tables @ call_columns) @ Always backfill_raw # later_migrations now date_of) fi = (Inr u, fi')"
    using assms by (simp add: RunMigrations_def migrations_def)
  then obtain fi1 where "run_migrations (Always backfill_raw # later_migrations now date_of) fi1 = (Ok (), fi')"
    by (rule run_migrations_split)
  then obtain fi2 where e: "exec_sql backfill_raw fi1 = (Ok (), fi2)"
    and l: "run_migrations (later_migrations now date_of) fi2 = (Ok (), fi')"
    using run_migrations_Cons by fastforce
  from e have "raw_settled (fl_db fi2)"
  proof (cases rule: exec_sql_cases)
    case (2 db1)
    then show ?thesis using raw_settled_effect [of db1] by (simp add: backfill_raw_def)
  qed simp
  then show ?thesis using run_stable [OF raw_settled_table _ l] raw_settled_later by blast
qed

lemma all_done:
  assumes p: "\<forall>m \<in> set (migrations now1 date1). present m fi" and r: "raw_settled (fl_db fi)"
    and m: "m \<in> set (migrations now date_of)"
  shows "done_already m fi"
proof (cases "m = Always backfill_raw")
  case True
  have "present (Always backfill_raw) fi" using p by (simp add: migrations_def)
  then show ?thesis using raw_settled_noop [OF r] by (simp add: True backfill_raw_def)
next
  case False
  then have "m \<in> set base_tables \<or> m \<in> set call_columns \<or> m \<in> set (later_migrations now date_of)"
    using m by (auto simp: migrations_def)
  moreover have "done_already m fi" if "m \<in> set base_tables" "present m fi"
    using that unfolding table_defs ensure_defs by auto
  moreover have "done_already m fi" if "m \<in> set call_columns" "present m fi"
    using that unfolding added_defs ensure_defs by auto
  moreover have "done_already m fi" if "m \<in> set (later_migrations now date_of)"
  proof -
    have "\<forall>m \<in> set (later_migrations now1 date1). present m fi" using p by (simp add: migrations_def)
    then show ?thesis using that unfolding added_defs ensure_defs by (auto simp del: fun_upd_apply)
  qed
  ultimately show ?thesis using p by (auto simp: migrations_def)
qed

text \<open>
  Running the migrations again on a file they have completed changes nothing at all, at
  whatever later moment: no column is added twice, no backfill runs again.
\<close>

theorem second_migration_changes_nothing:
  assumes "RunMigrations now1 date_of fi = (Ok (), fi')" "healthy (fl_db fi')"
  shows "RunMigrations now2 date_of2 fi' = (Ok (), fi')"
  unfolding RunMigrations_def
proof (rule run_all_done [OF assms(2)], rule ballI, rule all_done)
  show "\<forall>m \<in> set (migrations now1 date_of). present m fi'"
    using assms(1) run_migrations_present unfolding RunMigrations_def by blast
  show "raw_settled (fl_db fi')" by (rule run_settles [OF assms(1)])
qed

section \<open>What an upgrade makes of the rows\<close>

text \<open>The columns of the first version.\<close>

definition base_user :: "User \<Rightarrow> int \<times> string list" where
  "base_user u = (u_id u, [u_username u, u_password_hash u, u_sub_key_hash u, u_sub_key_preview u, u_role u,
     u_status u, u_created_at u, u_updated_at u])"

definition base_quota :: "quota_row \<Rightarrow> int list \<times> string list" where
  "base_quota r = ([q_id r, q_user_id r, q_5h_limit r, q_5h_used r, q_total_limit r, q_total_used r],
     [q_window_start r, q_updated_at r])"

definition base_call :: "CallLog \<Rightarrow> int list \<times> string list \<times> float64" where
  "base_call l = ([cl_id l, cl_user_id l, cl_prompt_tokens l, cl_completion_tokens l, cl_total_tokens l,
     cl_effective_calls l, cl_status_code l, cl_latency_ms l],
     [cl_model l, cl_error_msg l, cl_created_at l], cl_multiplier_used l)"

definition base_rows :: "db \<Rightarrow> (int \<times> string list) list \<times> (int list \<times> string list) list \<times>
    (int list \<times> string list \<times> float64) list" where
  "base_rows db = (map base_user (users db), map base_quota (quotas db), map base_call (call_logs db))"

lemma base_rows_table: "table_property (\<lambda>db. base_rows db = X)"
  by (auto simp: table_property_def base_rows_def same_tables_select)

lemma base_rows_stable:
  assumes "has_table fi ''users''" "has_table fi ''quotas''" "has_table fi ''call_logs''"
  shows "\<forall>m \<in> set (migrations now date_of). idle m fi \<or> stable (\<lambda>db. base_rows db = X) m"
proof -
  have "idle m fi \<or> stable (\<lambda>db. base_rows db = X) m" if "m \<in> set base_tables" for m
    using that assms unfolding table_defs ensure_defs by (auto simp: stable_def base_rows_def)
  moreover have "stable (\<lambda>db. base_rows db = X) m"
    if "m \<in> set (call_columns @ Always backfill_raw # later_migrations now date_of)" for m
    using that unfolding added_defs ensure_defs fill_defs
    by (auto simp: stable_def base_rows_def on_defs base_user_def base_quota_def base_call_def)
  ultimately show ?thesis unfolding migrations_def by auto
qed

text \<open>The tokens of a user's calls depend on the first columns only.\<close>

lemma billed_base:
  "map base_call ls = map base_call ls' \<Longrightarrow> billed_by_calls ls uid = billed_by_calls ls' uid"
proof (induction ls arbitrary: ls')
  case (Cons l ls)
  then obtain l' ls'' where l: "ls' = l' # ls''" "base_call l = base_call l'" "map base_call ls = map base_call ls''"
    by auto
  have "billed_by_calls ls uid = billed_by_calls ls'' uid" by (rule Cons.IH [OF l(3)])
  then show ?case using l(1,2) by (simp add: billed_by_calls_def sql_billed_def base_call_def)
qed (simp add: billed_by_calls_def)

definition totals_billed :: "db \<Rightarrow> bool" where
  "totals_billed db \<longleftrightarrow> (\<forall>r \<in> set (quotas db). q_token_total_used r = billed_by_calls (call_logs db) (q_user_id r))"

lemma totals_billed_table: "table_property totals_billed"
  by (auto simp: table_property_def totals_billed_def same_tables_select)

lemma totals_billed_effect: "totals_billed (db_effect backfillQuotaTokenTotalUsed db)"
  by (auto simp: totals_billed_def backfillQuotaTokenTotalUsed_def on_quotas_def)

lemma totals_billed_later:
  "m \<in> set (window_columns now @ provider_columns date_of) \<Longrightarrow> stable totals_billed m"
  unfolding added_defs ensure_defs fill_defs
  by (auto simp: stable_def totals_billed_def on_defs)

definition marker :: migration where
  "marker = ensure_int ''quotas'' ''quota_token_total_mult_v1'' 0 (\<lambda>_ db. db) [backfillQuotaTokenTotalUsed]"

definition before_marker :: "migration list" where
  "before_marker = base_tables @ call_columns @ Always backfill_raw # after_calls @ user_columns @ butlast total_columns"

lemma script_at_marker:
  "migrations now date_of = before_marker @ marker # window_columns now @ provider_columns date_of"
  by (simp add: migrations_def before_marker_def marker_def later_migrations_def total_columns_def)

text \<open>A column that no statement adds does not appear.\<close>

fun adds :: "sql \<Rightarrow> (string \<times> string) list" where
  "adds (CreateTable t cs wipe) = map (\<lambda>c. (t, sc_name c)) cs"
| "adds (AddColumn t c fill) = [(t, sc_name c)]"
| "adds s = []"

lemma effect_adds: "has_column (sql_effect s fi) tc \<Longrightarrow> has_column fi tc \<or> tc \<in> set (adds s)"
proof (cases s)
  case (CreateTable t cs wipe)
  assume "has_column (sql_effect s fi) tc"
  then show ?thesis
    by (cases tc; cases "has_table fi t")
      (auto simp: CreateTable has_column_def table_columns_def has_table_def split: option.splits if_splits)
next
  case (AddColumn t c fill)
  assume "has_column (sql_effect s fi) tc"
  then show ?thesis by (cases tc) (auto simp: AddColumn column_added simp del: sql_effect.simps)
qed (auto simp: has_column_def table_columns_def split: if_splits)

lemma exec_adds: "exec_sql s fi = (r, fi') \<Longrightarrow> has_column fi' tc \<Longrightarrow> has_column fi tc \<or> tc \<in> set (adds s)"
  by (erule exec_sql_cases) (auto dest: effect_adds)

lemma exec_all_adds:
  "exec_all ss fi = (r, fi') \<Longrightarrow> has_column fi' tc \<Longrightarrow> has_column fi tc \<or> (\<exists>s \<in> set ss. tc \<in> set (adds s))"
proof (induction ss arbitrary: fi)
  case (Cons s ss)
  from exec_all_Cons [OF Cons.prems(1)] show ?case
    using Cons exec_adds [of s fi] by (auto; blast)
qed simp

lemma migration_adds:
  assumes "run_migration m fi = (r, fi')" "has_column fi' tc"
  shows "has_column fi tc \<or> (\<exists>s \<in> set (statements m). tc \<in> set (adds s))"
proof (cases m)
  case (EnsureColumn t c fill backfill)
  obtain b fi1 where c: "columnExists t (sc_name c) fi = (b, fi1)" by fastforce
  then have "has_column fi1 tc = has_column fi tc" using columnExists_cases [OF c] by auto
  then show ?thesis
    using assms c exec_all_adds [of "AddColumn t c fill # backfill" fi1 r fi' tc]
    by (cases b) (auto simp: EnsureColumn simp del: exec_all.simps)
qed (use assms exec_adds in auto)

lemma run_adds:
  "run_migrations ms fi = (r, fi') \<Longrightarrow> has_column fi' tc \<Longrightarrow>
    has_column fi tc \<or> (\<exists>m \<in> set ms. \<exists>s \<in> set (statements m). tc \<in> set (adds s))"
proof (induction ms arbitrary: fi)
  case (Cons m ms)
  from run_migrations_Cons [OF Cons.prems(1)] show ?case
    using Cons migration_adds [of m fi] by (auto; blast)
qed simp

lemma marker_new: "list_all (\<lambda>m. list_all (\<lambda>s. \<not> List.member (adds s) (''quotas'', ''quota_token_total_mult_v1''))
    (statements m)) before_marker"
  by code_simp

lemma marker_bills:
  assumes "\<not> has_column fi (''quotas'', ''quota_token_total_mult_v1'')" "run_migration marker fi = (Ok (), fi')"
  shows "totals_billed (fl_db fi')"
proof -
  obtain b fi1 where c: "columnExists ''quotas'' ''quota_token_total_mult_v1'' fi = (b, fi1)" by fastforce
  then have "b = False" using columnExists_cases [OF c] assms(1) by auto
  then obtain fi2 where "exec_sql backfillQuotaTokenTotalUsed fi2 = (Ok (), fi')"
    using assms(2) c by (auto simp: marker_def ensure_int_def int_column_def needed_def split: prod.splits sum.splits)
  then show ?thesis
  proof (cases rule: exec_sql_cases)
    case (2 db1)
    then show ?thesis using totals_billed_effect [of db1] by (simp add: backfillQuotaTokenTotalUsed_def)
  qed simp
qed

text \<open>What an account's calls cost by the gateway's own rule: the float64 product of a call's tokens and its
  multiplier, rounded up.  The calls whose product lies less than \<open>2\<^sup>-\<^sup>1\<^sup>8\<close> above a whole number are those for
  which the upgrade's SQL may come out one short.\<close>

definition cost_product :: "CallLog \<Rightarrow> rat" where
  "cost_product l = round64 (of_int (cl_prompt_tokens l + cl_completion_tokens l) * cl_multiplier_used l)"

definition moderate :: "CallLog \<Rightarrow> bool" where
  "moderate l \<longleftrightarrow> \<bar>cl_prompt_tokens l + cl_completion_tokens l\<bar> \<le> 2 ^ 53 \<and> 0 \<le> cost_product l \<and> cost_product l \<le> 2 ^ 32"

definition barely_above :: "CallLog \<Rightarrow> bool" where
  "barely_above l \<longleftrightarrow> of_int \<lfloor>cost_product l\<rfloor> < cost_product l \<and> cost_product l < of_int \<lfloor>cost_product l\<rfloor> + 1 / 2 ^ 18"

definition calls_cost :: "CallLog list \<Rightarrow> int" where
  "calls_cost ls = sum_list (map (\<lambda>l. \<lceil>cost_product l\<rceil>) ls)"

lemma sql_billed_cost:
  assumes "moderate l"
  shows "sql_billed l \<le> \<lceil>cost_product l\<rceil>" "\<lceil>cost_product l\<rceil> - of_bool (barely_above l) \<le> sql_billed l"
proof -
  have x: "cost_product l = f_mul (f_of_int (cl_prompt_tokens l + cl_completion_tokens l)) (cl_multiplier_used l)"
    using assms by (simp add: cost_product_def moderate_def f_mul_def f_of_int_exact)
  note w = sql_ceiling_within_one [OF x, unfolded f_ceil_int_def]
  show "sql_billed l \<le> \<lceil>cost_product l\<rceil>" using w assms by (simp add: moderate_def)
  have "of_int \<lfloor>cost_product l\<rfloor> = cost_product l \<or> of_int \<lfloor>cost_product l\<rfloor> + 1 / 2 ^ 18 \<le> cost_product l"
    if "\<not> barely_above l"
    using that of_int_floor_le [of "cost_product l"] unfolding barely_above_def by linarith
  then show "\<lceil>cost_product l\<rceil> - of_bool (barely_above l) \<le> sql_billed l"
    using w assms by (cases "barely_above l") (simp_all add: moderate_def)
qed

lemma sum_billed_cost:
  "\<forall>l \<in> set ls. moderate l \<Longrightarrow> sum_list (map sql_billed ls) \<le> calls_cost ls \<and>
    calls_cost ls - int (length (filter barely_above ls)) \<le> sum_list (map sql_billed ls)"
proof (induction ls)
  case (Cons l ls)
  then show ?case using sql_billed_cost [of l] by (auto simp: calls_cost_def split: if_splits)
qed (simp add: calls_cost_def)

text \<open>
  Property C5.  An upgrade from a version before the multiplier-aware token totals gives every account as
  its total what its logged calls cost at their multipliers by the gateway's own rule (each product of tokens
  and multiplier rounded up), less at most one token for each call whose product lies less than \<open>2\<^sup>-\<^sup>1\<^sup>8\<close> above
  a whole number, where the SQL of the upgrade rounds down: exactly that cost, if there is no such call.  It is
  claimed of accounts whose calls have products from 0 to \<open>2\<^sup>3\<^sup>2\<close>.  The columns of the first version stay as
  they were in every row, and no call with tokens is left without its raw token sum.
\<close>

theorem upgrade_bills_history:
  assumes "older_file fi" "upgradable date_of (fl_db fi)"
    and t: "has_table fi ''users''" "has_table fi ''quotas''" "has_table fi ''call_logs''"
    and new: "\<not> has_column fi (''quotas'', ''quota_token_total_mult_v1'')"
    and run: "RunMigrations now date_of fi = (r, fi')"
  shows "base_rows (fl_db fi') = base_rows (fl_db fi) \<and>
    (\<forall>q \<in> set (quotas (fl_db fi')).
       let calls = filter (\<lambda>l. cl_user_id l = q_user_id q) (call_logs (fl_db fi)) in
       (\<forall>l \<in> set calls. moderate l) \<longrightarrow>
       calls_cost calls - int (length (filter barely_above calls)) \<le> q_token_total_used q \<and>
       q_token_total_used q \<le> calls_cost calls) \<and>
    (\<forall>l \<in> set (call_logs (fl_db fi')).
       cl_raw_total_tokens l \<noteq> 0 \<or> cl_prompt_tokens l + cl_completion_tokens l \<le> 0)"
proof -
  have r: "r = Ok ()" using upgrade_runs [OF assms(1,2)] run by (metis prod.inject)
  have base: "base_rows (fl_db fi') = base_rows (fl_db fi)"
    using run_stable [OF base_rows_table base_rows_stable [OF t]] run unfolding RunMigrations_def by blast
  obtain fi1 where p: "run_migrations before_marker fi = (Ok (), fi1)"
    and l: "run_migrations (marker # window_columns now @ provider_columns date_of) fi1 = (Ok (), fi')"
    using run run_migrations_split unfolding RunMigrations_def script_at_marker r by metis
  obtain fi2 where m: "run_migration marker fi1 = (Ok (), fi2)"
    and l: "run_migrations (window_columns now @ provider_columns date_of) fi2 = (Ok (), fi')"
    using run_migrations_Cons [OF l] by auto
  have "\<not> has_column fi1 (''quotas'', ''quota_token_total_mult_v1'')"
    using run_adds [OF p] marker_new new unfolding list_all_iff List.member_iff by blast
  then have "totals_billed (fl_db fi2)" using m by (rule marker_bills)
  then have "totals_billed (fl_db fi')"
    using run_stable [OF totals_billed_table _ l] totals_billed_later by blast
  moreover have "billed_by_calls (call_logs (fl_db fi')) = billed_by_calls (call_logs (fl_db fi))"
    by (rule ext, rule billed_base) (use base in \<open>simp add: base_rows_def\<close>)
  ultimately have "\<forall>q \<in> set (quotas (fl_db fi')). q_token_total_used q
      = sum_list (map sql_billed (filter (\<lambda>l. cl_user_id l = q_user_id q) (call_logs (fl_db fi))))"
    by (simp add: totals_billed_def billed_by_calls_def)
  then have "let calls = filter (\<lambda>l. cl_user_id l = q_user_id q) (call_logs (fl_db fi)) in
      (\<forall>l \<in> set calls. moderate l) \<longrightarrow>
       calls_cost calls - int (length (filter barely_above calls)) \<le> q_token_total_used q \<and>
       q_token_total_used q \<le> calls_cost calls" if "q \<in> set (quotas (fl_db fi'))" for q
    using that sum_billed_cost by (simp add: Let_def del: filter_filter set_filter)
  moreover have "\<forall>l \<in> set (call_logs (fl_db fi')).
      cl_raw_total_tokens l \<noteq> 0 \<or> cl_prompt_tokens l + cl_completion_tokens l \<le> 0"
    using run_settles [OF run [unfolded r]] by (auto simp: raw_settled_def raw_missing_def)
  ultimately show ?thesis using base by blast
qed

section \<open>An interrupted run\<close>

definition month_migration :: "gotime \<Rightarrow> migration" where
  "month_migration now = last (window_columns now)"

definition no_month_anchor :: "db \<Rightarrow> bool" where
  "no_month_anchor db \<longleftrightarrow> (\<forall>r \<in> set (quotas db). q_month_start r = '''')"

lemma no_month_anchor_table: "table_property no_month_anchor"
  by (auto simp: table_property_def no_month_anchor_def same_tables_select)

lemma no_month_anchor_script:
  assumes "has_column fi (''quotas'', ''month_start'')"
  shows "\<forall>m \<in> set (migrations now date_of). idle m fi \<or> stable no_month_anchor m"
proof -
  have "stable no_month_anchor m" if "m \<in> set base_tables" for m
    using that unfolding table_defs ensure_defs by (auto simp: stable_def no_month_anchor_def)
  moreover have "idle m fi \<or> stable no_month_anchor m"
    if "m \<in> set (call_columns @ Always backfill_raw # later_migrations now date_of)" for m
    using that assms unfolding added_defs ensure_defs fill_defs
    by (auto simp: stable_def no_month_anchor_def on_defs text_column_def needed_def)
  ultimately show ?thesis unfolding migrations_def by auto
qed

lemma month_interrupted:
  assumes "has_table fi ''quotas''" "\<not> has_column fi (''quotas'', ''month_start'')"
    and "db_faults (fl_db fi) = [False, False, True]"
    and "run_migration (month_migration now) fi = (r, fi1)"
  shows "r = Err (DbErr ''migration failed'')" "has_column fi1 (''quotas'', ''month_start'')"
    "no_month_anchor (fl_db fi1)"
proof -
  let ?add = "AddColumn ''quotas'' (text_column ''month_start'' '''') (on_quotas (q_month_start_update (\<lambda>_. '''')))"
  let ?fi = "fi\<lparr>fl_db := (fl_db fi)\<lparr>db_faults := [True]\<rparr>\<rparr>"
  have e: "exec_sql ?add (fi\<lparr>fl_db := (fl_db fi)\<lparr>db_faults := [False, True]\<rparr>\<rparr>) = (Ok (), sql_effect ?add ?fi)"
    using assms(1,2) by (simp add: exec_sql_def next_fault_def addable_def text_column_def needed_def Let_def del: sql_effect.simps)
  have f: "db_faults (fl_db (sql_effect ?add ?fi)) = [True]" "no_month_anchor (fl_db (sql_effect ?add ?fi))"
    by (simp_all add: on_quotas_def no_month_anchor_def)
  have c: "has_column (sql_effect ?add ?fi) (''quotas'', ''month_start'')"
    using assms(1) unfolding column_added by (simp add: text_column_def needed_def)
  have u: "exec_sql (fill_month_start now) (sql_effect ?add ?fi) =
      (Err (DbErr ''migration failed''), sql_effect ?add ?fi\<lparr>fl_db := (fl_db (sql_effect ?add ?fi))\<lparr>db_faults := []\<rparr>\<rparr>)"
    using f(1) by (simp add: exec_sql_def next_fault_def Let_def del: sql_effect.simps)
  have m: "month_migration now = EnsureColumn ''quotas'' (text_column ''month_start'' '''')
      (on_quotas (q_month_start_update (\<lambda>_. ''''))) [fill_month_start now]"
    by (simp add: month_migration_def window_columns_def ensure_text_def)
  have n: "sc_name (text_column ''month_start'' '''') = ''month_start''" by (simp add: text_column_def needed_def)
  have "columnExists ''quotas'' ''month_start'' fi = (False, fi\<lparr>fl_db := (fl_db fi)\<lparr>db_faults := [False, True]\<rparr>\<rparr>)"
    using assms(2,3) by (simp add: columnExists_def next_fault_def)
  then have "(r, fi1) = (Err (DbErr ''migration failed''), sql_effect ?add ?fi\<lparr>fl_db := (fl_db (sql_effect ?add ?fi))\<lparr>db_faults := []\<rparr>\<rparr>)"
    using assms(4) e u by (simp add: m n del: sql_effect.simps)
  then show "r = Err (DbErr ''migration failed'')" "has_column fi1 (''quotas'', ''month_start'')"
    "no_month_anchor (fl_db fi1)"
    using c f(2) by (simp_all add: no_month_anchor_def del: sql_effect.simps)
qed

text \<open>
  Property C36.  The migrations are not atomic.  When the statement that fills the anchors of the monthly
  window fails after its column was added, start-up fails; but at every later start the column exists, so
  the anchors stay empty whatever happens then, and to the gate an account without an anchor has used no
  tokens: its accumulated total, which the upgrade promises to preserve, is lost at its next request.
\<close>

theorem interrupted_backfill_is_never_retried:
  assumes "has_table fi ''quotas''" "\<not> has_column fi (''quotas'', ''month_start'')"
    and "db_faults (fl_db fi) = [False, False, True]"
    and first: "run_migration (month_migration now) fi = (r, fi1)"
    and again: "RunMigrations now2 date_of (fi1\<lparr>fl_db := (fl_db fi1)\<lparr>db_faults := fs\<rparr>\<rparr>) = (r2, fi2)"
  shows "(\<exists>e. r = Err e) \<and> (\<forall>q \<in> set (quotas (fl_db fi2)). q_month_start q = '''' \<and> month_used_at (month_cutoff now3) q = 0)"
proof -
  note i = month_interrupted [OF assms(1-3) first]
  have "no_month_anchor (fl_db fi2)"
    by (rule run_stable [OF no_month_anchor_table _ again [unfolded RunMigrations_def]])
      (use i no_month_anchor_script in \<open>simp_all add: no_month_anchor_def\<close>)
  moreover have "month_cutoff now3 \<noteq> ''''"
    by (simp add: month_cutoff_def fmt_rfc3339_def fmt_date_def)
  then have "'''' < month_cutoff now3" by (cases "month_cutoff now3") simp_all
  ultimately show ?thesis using i(1) by (simp add: no_month_anchor_def month_used_at_def)
qed

section \<open>A file of the first version\<close>

definition legacy_call :: CallLog where
  "legacy_call = \<lparr>cl_id = 1, cl_user_id = 7, cl_username = '''', cl_model = ''glm-5.2'', cl_provider_id = '''',
     cl_prompt_tokens = 10, cl_completion_tokens = 5, cl_total_tokens = 15, cl_raw_total_tokens = 0,
     cl_effective_calls = 3, cl_multiplier_used = 3, cl_status_code = 200, cl_latency_ms = 1,
     cl_error_msg = '''', cl_created_at = ''2026-01-01T00:00:00+08:00''\<rparr>"

definition legacy_file :: dbfile where
  "legacy_file = (snd (run_migrations base_tables new_file))
     \<lparr>fl_db := empty_db\<lparr>quotas := [sample_row], call_logs := [legacy_call]\<rparr>\<rparr>"

definition day_of :: "string \<Rightarrow> string option" where
  "day_of s = Some (take 10 s)"

lemma legacy_older: "older_file legacy_file" "has_table legacy_file ''users''" "has_table legacy_file ''quotas''"
  "has_table legacy_file ''call_logs''" "\<not> has_column legacy_file (''quotas'', ''quota_token_total_mult_v1'')"
  "\<not> has_column legacy_file (''quotas'', ''month_start'')"
  by code_simp+

lemma legacy_rows [simp]: "quotas (fl_db legacy_file) = [sample_row]" "call_logs (fl_db legacy_file) = [legacy_call]"
  "providers (fl_db legacy_file) = []" "model_mappings (fl_db legacy_file) = []" "healthy (fl_db legacy_file)"
  by (simp_all add: legacy_file_def empty_db_def)

lemma legacy_upgradable: "upgradable day_of (fl_db legacy_file)"
  by (simp add: upgradable_def slugs_distinct_def mappings_distinct_def)

theorem upgrade_completes_the_schema_witness:
  "\<exists>fi'. RunMigrations (day 2) day_of legacy_file = (Ok (), fi') \<and> complete_schema fi'"
  by (rule upgrade_completes_the_schema [OF legacy_older(1) legacy_upgradable])

theorem second_migration_changes_nothing_witness:
  "\<exists>fi'. RunMigrations (day 2) day_of legacy_file = (Ok (), fi') \<and>
    RunMigrations (day 3) day_of fi' = (Ok (), fi')"
  using upgrade_runs [OF legacy_older(1) legacy_upgradable, of "day 2"]
    second_migration_changes_nothing [of "day 2" day_of legacy_file _ "day 3" day_of]
  unfolding upgradable_def by metis

lemma legacy_cost: "moderate legacy_call" "\<not> barely_above legacy_call" "calls_cost [legacy_call] = 45"
  "cl_user_id legacy_call = 7"
  by code_simp+

theorem upgrade_bills_history_witness:
  "\<exists>fi'. RunMigrations (day 2) day_of legacy_file = (Ok (), fi') \<and>
    map (\<lambda>q. (q_user_id q, q_token_total_used q)) (quotas (fl_db fi')) = [(7, 45)] \<and>
    map base_quota (quotas (fl_db fi')) = [base_quota sample_row]"
proof -
  obtain fi' where r: "RunMigrations (day 2) day_of legacy_file = (Ok (), fi')"
    using upgrade_runs [OF legacy_older(1) legacy_upgradable] by metis
  have b: "map base_quota (quotas (fl_db fi')) = [base_quota sample_row]"
    and t: "\<forall>q \<in> set (quotas (fl_db fi')). q_user_id q = 7 \<longrightarrow> q_token_total_used q = 45"
    using upgrade_bills_history [OF legacy_older(1) legacy_upgradable legacy_older(2-5) r]
    by (auto simp: base_rows_def legacy_cost)
  from b obtain q where q: "quotas (fl_db fi') = [q]" "base_quota q = base_quota sample_row" by auto
  then have "q_user_id q = 7" by (simp add: base_quota_def sample_row_def)
  with r q t show ?thesis by auto
qed

theorem interrupted_backfill_is_never_retried_witness:
  "\<exists>r fi1 r2 fi2. run_migration (month_migration (day 2))
      (legacy_file\<lparr>fl_db := (fl_db legacy_file)\<lparr>db_faults := [False, False, True]\<rparr>\<rparr>) = (r, fi1) \<and>
    RunMigrations (day 3) day_of (fi1\<lparr>fl_db := (fl_db fi1)\<lparr>db_faults := []\<rparr>\<rparr>) = (r2, fi2) \<and>
    (\<exists>e. r = Err e) \<and> (\<forall>q \<in> set (quotas (fl_db fi2)). q_month_start q = '''' \<and> month_used_at (month_cutoff (day 4)) q = 0)"
proof -
  let ?fi = "legacy_file\<lparr>fl_db := (fl_db legacy_file)\<lparr>db_faults := [False, False, True]\<rparr>\<rparr>"
  obtain r fi1 where 1: "run_migration (month_migration (day 2)) ?fi = (r, fi1)" by fastforce
  obtain r2 fi2 where 2: "RunMigrations (day 3) day_of (fi1\<lparr>fl_db := (fl_db fi1)\<lparr>db_faults := []\<rparr>\<rparr>) = (r2, fi2)"
    by fastforce
  have "has_table ?fi ''quotas''" "\<not> has_column ?fi (''quotas'', ''month_start'')"
    using legacy_older by simp_all
  from interrupted_backfill_is_never_retried [OF this _ 1 2] show ?thesis using 1 2 by auto
qed

end
