(* ===== verification/UpdateProperties.thy ===== *)
theory UpdateProperties
  imports AdminProperties
begin

text \<open>
  What a change of an account writes: the handler \<open>UpdateUser\<close> of \<open>internal/admin/users.go\<close> as a function from
  the fields of the request to the rows of the account.
\<close>

section \<open>The rows a request asks for\<close>

text \<open>The stamp \<open>updated_at\<close> apart.\<close>

definition unstamped :: "User \<Rightarrow> User" where
  "unstamped u = u\<lparr>u_updated_at := ''''\<rparr>"

definition unstamped_quota :: "quota_row \<Rightarrow> quota_row" where
  "unstamped_quota r = r\<lparr>q_updated_at := ''''\<rparr>"

text \<open>An administrator keeps its route; a multiplier that is not positive clears the stored one.\<close>

definition rerouted :: "updateUserRequest \<Rightarrow> User \<Rightarrow> User" where
  "rerouted req u = (if u_role u = ''admin'' then u
     else u\<lparr>u_route_mode := value_or (u_route_mode u) (up_route_mode req),
            u_fixed_provider := value_or (u_fixed_provider u) (up_fixed_provider req)\<rparr>)"

definition rekeyed :: "panel \<Rightarrow> moment \<Rightarrow> updateUserRequest \<Rightarrow> User \<Rightarrow> User" where
  "rekeyed pn mo req u = (if up_regenerate_key req = Some True
     then let k = GenerateSubKey (pn_crypto pn) (mo_key_bytes mo) (pn_salt pn) (u_id u)
          in u\<lparr>u_sub_key_hash := HashSubKey (pn_crypto pn) k, u_sub_key_preview := SubKeyPreview k\<rparr>
     else u)"

definition user_asked :: "panel \<Rightarrow> moment \<Rightarrow> updateUserRequest \<Rightarrow> User \<Rightarrow> User" where
  "user_asked pn mo req u = rekeyed pn mo req
     ((rerouted req (u\<lparr>u_status := value_or (u_status u) (up_status req)\<rparr>))
        \<lparr>u_max_body_size := (case up_max_body_size req of None \<Rightarrow> u_max_body_size u | Some v \<Rightarrow> clamp_body v),
         u_max_concurrency := value_or (u_max_concurrency u) (up_max_concurrency req)\<rparr>)"

definition multiplier_asked :: "updateUserRequest \<Rightarrow> float64 option \<Rightarrow> float64 option" where
  "multiplier_asked req old = (if up_fixed_multiplier_clear req then None
     else case up_fixed_multiplier req of None \<Rightarrow> old | Some m \<Rightarrow> if m \<le> 0 then None else Some m)"

definition quota_asked :: "updateUserRequest \<Rightarrow> quota_row \<Rightarrow> quota_row" where
  "quota_asked req r = r\<lparr>q_5h_limit := value_or (q_5h_limit r) (up_5h_limit req),
     q_total_limit := value_or (q_total_limit r) (up_total_limit req),
     q_token_total_limit := value_or (q_token_total_limit r) (up_token_total_limit req),
     q_token_5h_limit := value_or (q_token_5h_limit r) (up_token_5h_limit req),
     q_token_week_limit := value_or (q_token_week_limit r) (up_token_week_limit req),
     q_fixed_multiplier := multiplier_asked req (q_fixed_multiplier r)\<rparr>"

text \<open>The requests without a value out of range.\<close>

definition in_range :: "updateUserRequest \<Rightarrow> bool" where
  "in_range req \<longleftrightarrow> \<not> is_negative (up_5h_limit req) \<and> \<not> is_negative (up_total_limit req) \<and>
     \<not> is_negative (up_token_total_limit req) \<and> \<not> is_negative (up_token_5h_limit req) \<and>
     \<not> is_negative (up_token_week_limit req) \<and>
     (case up_status req of None \<Rightarrow> True | Some s \<Rightarrow> s = ''active'' \<or> s = ''disabled'') \<and>
     (case up_max_concurrency req of None \<Rightarrow> True | Some v \<Rightarrow> 0 \<le> v \<and> v \<le> MaxConcurrencyHardLimit) \<and>
     (up_fixed_multiplier_clear req \<or> (case up_fixed_multiplier req of None \<Rightarrow> True
        | Some m \<Rightarrow> m \<le> 0 \<or> (round64 (1 / 10) \<le> m \<and> m \<le> 100)))"

section \<open>One account and the rest\<close>

text \<open>The rows of account \<open>uid\<close> are \<open>u\<close> and \<open>q\<close> up to their stamps, those of the others \<open>us\<close> and \<open>qs\<close>.\<close>

record split_rows =
  own_user :: User
  own_quota :: quota_row
  other_users :: "User list"
  other_quotas :: "quota_row list"

definition shows_rows :: "int \<Rightarrow> split_rows \<Rightarrow> db \<Rightarrow> bool" where
  "shows_rows uid v db \<longleftrightarrow> healthy db \<and>
     map_option unstamped (select_one (with_id uid) (users db)) = Some (unstamped (own_user v)) \<and>
     map_option unstamped_quota (quota_of db uid) = Some (unstamped_quota (own_quota v)) \<and>
     filter (\<lambda>u. u_id u \<noteq> uid) (users db) = other_users v \<and>
     filter (\<lambda>r. q_user_id r \<noteq> uid) (quotas db) = other_quotas v"

lemma shows_ids:
  assumes "shows_rows uid v db"
  shows "u_id (own_user v) = uid" "q_user_id (own_quota v) = uid"
proof -
  obtain u r where u: "select_one (with_id uid) (users db) = Some u" "unstamped u = unstamped (own_user v)"
    and r: "quota_of db uid = Some r" "unstamped_quota r = unstamped_quota (own_quota v)"
    using assms by (auto simp: shows_rows_def)
  have "u_id u = u_id (own_user v)" using arg_cong [OF u(2), of u_id] by (simp add: unstamped_def)
  moreover have "q_user_id r = q_user_id (own_quota v)"
    using arg_cong [OF r(2), of q_user_id] by (simp add: unstamped_quota_def)
  ultimately show "u_id (own_user v) = uid" "q_user_id (own_quota v) = uid"
    using select_one_SomeD [OF u(1)] select_one_SomeD [OF r(1) [unfolded quota_of_def]] by auto
qed

text \<open>A step that goes on from every state with rows \<open>v\<close>, to one with rows \<open>w\<close>.\<close>

definition leads :: "int \<Rightarrow> split_rows \<Rightarrow> 'a step \<Rightarrow> ('a \<Rightarrow> bool) \<Rightarrow> split_rows \<Rightarrow> bool" where
  "leads uid v m R w \<longleftrightarrow> (\<forall>db. shows_rows uid v db \<longrightarrow>
     (\<exists>x db'. m db = (Inr x, db') \<and> R x \<and> shows_rows uid w db'))"

lemma leads_then:
  assumes "leads uid v m R w" "\<And>x. R x \<Longrightarrow> leads uid w (k x) S z"
  shows "leads uid v (then_step m k) S z"
  using assms unfolding leads_def then_step_def by fastforce

lemma leads_go_on [intro!]: "R x \<Longrightarrow> leads uid v (go_on x) R v"
  by (simp add: leads_def go_on_def)

lemma leads_reject: "\<not> b \<Longrightarrow> leads uid v (reject_if b r) (\<lambda>_. True) v"
  by (simp add: leads_def reject_if_def go_on_def)

lemma update_keeps_select:
  assumes "\<And>r. P r \<Longrightarrow> P (f r)"
  shows "select_one P (update_where P f rows) = map_option f (select_one P rows)"
  using assms by (induction rows) (auto split: if_splits)

lemma update_keeps_others: "(\<And>r. P r \<Longrightarrow> P (f r)) \<Longrightarrow> filter (\<lambda>r. \<not> P r) (update_where P f rows) = filter (\<lambda>r. \<not> P r) rows"
  by (induction rows) auto

lemma unstampedD: "unstamped u = unstamped u' \<Longrightarrow> u\<lparr>u_updated_at := u_updated_at u'\<rparr> = u'"
  by (cases u; cases u') (simp add: unstamped_def)

lemma unstamped_quotaD: "unstamped_quota r = unstamped_quota r' \<Longrightarrow> r\<lparr>q_updated_at := q_updated_at r'\<rparr> = r'"
  by (cases r; cases r') (simp add: unstamped_quota_def)

lemma leads_user:
  assumes run: "\<And>db. healthy db \<Longrightarrow> m db = (Ok (), set_users (with_id uid) f db)"
    and fg: "\<And>u t. unstamped (f u) = unstamped (g (u\<lparr>u_updated_at := t\<rparr>))" and i: "\<And>u. u_id (f u) = u_id u"
  shows "leads uid v (or_answer m bad) (\<lambda>_. True) (v\<lparr>own_user := g (own_user v)\<rparr>)"
  unfolding leads_def
proof (intro allI impI)
  fix db assume s: "shows_rows uid v db"
  obtain u where u: "select_one (with_id uid) (users db) = Some u" "unstamped u = unstamped (own_user v)"
    using s by (auto simp: shows_rows_def)
  have "select_one (with_id uid) (users (set_users (with_id uid) f db)) = Some (f u)"
    using u(1) by (simp add: set_users_def update_keeps_select i)
  moreover have "filter (\<lambda>u. u_id u \<noteq> uid) (users (set_users (with_id uid) f db)) = filter (\<lambda>u. u_id u \<noteq> uid) (users db)"
    using update_keeps_others [of "with_id uid" f] by (simp add: set_users_def i)
  ultimately have "shows_rows uid (v\<lparr>own_user := g (own_user v)\<rparr>) (set_users (with_id uid) f db)"
    using s fg [of u "u_updated_at (own_user v)"] unstampedD [OF u(2)] by (simp add: shows_rows_def quota_of_def set_users_def)
  then show "\<exists>x db'. or_answer m bad db = (Inr x, db') \<and> True \<and> shows_rows uid (v\<lparr>own_user := g (own_user v)\<rparr>) db'"
    using run s by (simp add: or_answer_def shows_rows_def)
qed

lemma leads_quota:
  assumes run: "\<And>db. healthy db \<Longrightarrow> m db = (Ok (), set_quotas (is_user uid) f db)"
    and fg: "\<And>r t. unstamped_quota (f r) = unstamped_quota (g (r\<lparr>q_updated_at := t\<rparr>))"
    and i: "\<And>r. q_user_id (f r) = q_user_id r"
  shows "leads uid v (or_answer m bad) (\<lambda>_. True) (v\<lparr>own_quota := g (own_quota v)\<rparr>)"
  unfolding leads_def
proof (intro allI impI)
  fix db assume s: "shows_rows uid v db"
  obtain r where r: "select_one (is_user uid) (quotas db) = Some r" "unstamped_quota r = unstamped_quota (own_quota v)"
    using s by (auto simp: shows_rows_def quota_of_def)
  have "select_one (is_user uid) (quotas (set_quotas (is_user uid) f db)) = Some (f r)"
    using r(1) by (simp add: update_keeps_select i)
  moreover have "filter (\<lambda>r. q_user_id r \<noteq> uid) (quotas (set_quotas (is_user uid) f db)) = filter (\<lambda>r. q_user_id r \<noteq> uid) (quotas db)"
    using update_keeps_others [of "is_user uid" f] by (simp add: i)
  ultimately have "shows_rows uid (v\<lparr>own_quota := g (own_quota v)\<rparr>) (set_quotas (is_user uid) f db)"
    using s fg [of r "q_updated_at (own_quota v)"] unstamped_quotaD [OF r(2)] by (simp add: shows_rows_def quota_of_def)
  then show "\<exists>x db'. or_answer m bad db = (Inr x, db') \<and> True \<and> shows_rows uid (v\<lparr>own_quota := g (own_quota v)\<rparr>) db'"
    using run s by (simp add: or_answer_def shows_rows_def)
qed

lemma leads_note: "leads uid v (note_down (WriteAudit now a t j d)) (\<lambda>_. True) v"
  by (simp add: leads_def note_down_def shows_rows_def WriteAudit_def log_err_def sql_exec_healthy quota_of_def)

lemma leads_weaken: "leads uid v m R w \<Longrightarrow> (\<And>x. R x \<Longrightarrow> S x) \<Longrightarrow> leads uid v m S w"
  unfolding leads_def by meson

section \<open>The steps\<close>

text \<open>A reread quota row is there.\<close>

lemma leads_reread: "leads uid v (reread uid f) (\<lambda>_. True) v"
  unfolding leads_def
proof (intro allI impI)
  fix db assume s: "shows_rows uid v db"
  then show "\<exists>x db'. reread uid f db = (Inr x, db') \<and> True \<and> shows_rows uid v db'"
    by (auto simp: reread_def then_step_def or_absent_def GetQuota_def sql_query_healthy shows_rows_def
        quota_of_def go_on_def)
qed

lemmas quota_statements = UpdateQuotaLimits_def UpdateQuotaTokenTotalLimit_def UpdateQuotaTokenWindowLimits_def
  UpdateFixedMultiplier_def exec_quotas_def sql_exec_healthy

lemmas user_statements = UpdateUserStatus_def UpdateUserRoute_def UpdateUserMaxBodySize_def
  UpdateUserMaxConcurrency_def sql_exec_healthy

lemma leads_counts: "leads uid v (update_counts now uid req) (\<lambda>_. True)
  (v\<lparr>own_quota := (own_quota v)\<lparr>q_5h_limit := value_or (q_5h_limit (own_quota v)) (up_5h_limit req),
     q_total_limit := value_or (q_total_limit (own_quota v)) (up_total_limit req)\<rparr>\<rparr>)"
proof (cases "up_5h_limit req = None \<and> up_total_limit req = None")
  case True
  then show ?thesis by (auto simp: update_counts_def value_or_def)
next
  case False
  let ?g = "\<lambda>r. r\<lparr>q_5h_limit := value_or (q_5h_limit r) (up_5h_limit req),
    q_total_limit := value_or (q_total_limit r) (up_total_limit req)\<rparr>"
  let ?f = "\<lambda>r. (?g r)\<lparr>q_updated_at := fmt_rfc3339 now\<rparr>"
  have "leads uid v (or_answer (UpdateQuotaLimits now uid (up_5h_limit req) (up_total_limit req)) bad) (\<lambda>_. True)
      (v\<lparr>own_quota := ?g (own_quota v)\<rparr>)" for bad
    by (rule leads_quota [where f = ?f])
      (use False in \<open>auto simp: quota_statements Let_def value_or_def unstamped_quota_def split: option.splits\<close>)
  then show ?thesis using False by (auto simp: update_counts_def intro!: leads_then)
qed

lemma leads_token_cap: "leads uid v (update_token_cap now uid req) (\<lambda>_. True)
  (v\<lparr>own_quota := (own_quota v)\<lparr>q_token_total_limit := value_or (q_token_total_limit (own_quota v)) (up_token_total_limit req)\<rparr>\<rparr>)"
proof (cases "up_token_total_limit req")
  case None
  then show ?thesis by (auto simp: update_token_cap_def value_or_def)
next
  case (Some n)
  have "leads uid v (or_answer (UpdateQuotaTokenTotalLimit now uid n) bad) (\<lambda>_. True)
      (v\<lparr>own_quota := (own_quota v)\<lparr>q_token_total_limit := n\<rparr>\<rparr>)" for bad
    by (rule leads_quota [where f = "\<lambda>r. r\<lparr>q_token_total_limit := n, q_updated_at := fmt_rfc3339 now\<rparr>"])
      (simp_all add: quota_statements unstamped_quota_def)
  then show ?thesis using Some by (auto simp: update_token_cap_def value_or_def intro!: leads_then leads_reread)
qed

lemma leads_stored_caps: "leads uid v (or_absent (GetQuota uid))
  (\<lambda>cur. \<exists>q. cur = Some (Some q) \<and> q_token_5h_limit q = q_token_5h_limit (own_quota v) \<and>
     q_token_week_limit q = q_token_week_limit (own_quota v)) v"
  unfolding leads_def
proof (intro allI impI)
  fix db assume s: "shows_rows uid v db"
  then obtain r where r: "select_one (is_user uid) (quotas db) = Some r" "unstamped_quota r = unstamped_quota (own_quota v)"
    by (auto simp: shows_rows_def quota_of_def)
  have "q_token_5h_limit r = q_token_5h_limit (own_quota v)" "q_token_week_limit r = q_token_week_limit (own_quota v)"
    using arg_cong [OF unstamped_quotaD [OF r(2)], of q_token_5h_limit]
      arg_cong [OF unstamped_quotaD [OF r(2)], of q_token_week_limit] by simp_all
  then show "\<exists>x db'. or_absent (GetQuota uid) db = (Inr x, db') \<and> (\<exists>q. x = Some (Some q) \<and>
      q_token_5h_limit q = q_token_5h_limit (own_quota v) \<and>
      q_token_week_limit q = q_token_week_limit (own_quota v)) \<and> shows_rows uid v db'"
    using s r(1) by (auto simp: or_absent_def GetQuota_def sql_query_healthy shows_rows_def quota_of_row_def Quota.defs)
qed

lemma leads_window_caps: "leads uid v (update_window_caps now uid req) (\<lambda>_. True)
  (v\<lparr>own_quota := (own_quota v)\<lparr>q_token_5h_limit := value_or (q_token_5h_limit (own_quota v)) (up_token_5h_limit req),
     q_token_week_limit := value_or (q_token_week_limit (own_quota v)) (up_token_week_limit req)\<rparr>\<rparr>)"
proof (cases "up_token_5h_limit req = None \<and> up_token_week_limit req = None")
  case True
  then show ?thesis by (auto simp: update_window_caps_def value_or_def)
next
  case False
  have "leads uid v (or_answer (UpdateQuotaTokenWindowLimits now uid a b) bad) (\<lambda>_. True)
      (v\<lparr>own_quota := (own_quota v)\<lparr>q_token_5h_limit := a, q_token_week_limit := b\<rparr>\<rparr>)" for a b bad
    by (rule leads_quota [where f = "\<lambda>r. r\<lparr>q_token_5h_limit := a, q_token_week_limit := b, q_updated_at := fmt_rfc3339 now\<rparr>"])
      (simp_all add: quota_statements unstamped_quota_def)
  note w = leads_then [OF this leads_reread]
  have c: "\<not> (up_token_5h_limit req = None \<and> up_token_week_limit req = None)" using False .
  show ?thesis
    unfolding update_window_caps_def if_not_P [OF c]
    by (rule leads_then [OF leads_stored_caps]) (auto simp: Let_def intro!: w)
qed

lemma leads_status:
  assumes "in_range req"
  shows "leads uid v (update_status now uid req) (\<lambda>_. True)
    (v\<lparr>own_user := (own_user v)\<lparr>u_status := value_or (u_status (own_user v)) (up_status req)\<rparr>\<rparr>)"
proof (cases "up_status req")
  case None
  then show ?thesis by (auto simp: update_status_def value_or_def)
next
  case (Some s)
  have "leads uid v (or_answer (UpdateUserStatus now uid s) bad) (\<lambda>_. True) (v\<lparr>own_user := (own_user v)\<lparr>u_status := s\<rparr>\<rparr>)" for bad
    by (rule leads_user [where f = "\<lambda>u. u\<lparr>u_status := s, u_updated_at := fmt_rfc3339 now\<rparr>"])
      (simp_all add: user_statements unstamped_def)
  moreover have "s = ''active'' \<or> s = ''disabled''" using assms Some by (simp add: in_range_def)
  ultimately show ?thesis
    using Some by (auto simp: update_status_def value_or_def reject_if_def intro!: leads_then)
qed

text \<open>The route of the account as it was looked up.\<close>

lemma leads_route:
  assumes "unstamped user = unstamped u0" "u_role (own_user v) = u_role u0" "u_id u0 = uid"
    "u_route_mode (own_user v) = u_route_mode u0" "u_fixed_provider (own_user v) = u_fixed_provider u0"
  shows "leads uid v (update_route now user req) (\<lambda>_. True) (v\<lparr>own_user := rerouted req (own_user v)\<rparr>)"
proof -
  have u: "u_role user = u_role (own_user v)" "u_id user = uid" "u_route_mode user = u_route_mode (own_user v)"
    "u_fixed_provider user = u_fixed_provider (own_user v)"
    using unstampedD [OF assms(1)] assms(2-) by (metis User.select_convs User.update_convs(9) User.surjective)+
  have w: "leads uid v (or_answer (UpdateUserRoute now uid rm fp) bad) (\<lambda>_. True)
      (v\<lparr>own_user := (own_user v)\<lparr>u_route_mode := rm, u_fixed_provider := fp\<rparr>\<rparr>)" for rm fp bad
    by (rule leads_user [where f = "\<lambda>u. u\<lparr>u_route_mode := rm, u_fixed_provider := fp, u_updated_at := fmt_rfc3339 now\<rparr>"])
      (simp_all add: user_statements unstamped_def)
  show ?thesis
    by (auto simp: update_route_def rerouted_def u value_or_def Let_def intro!: leads_then [OF w] split: option.splits)
qed

lemma leads_body_cap: "leads uid v (update_body_cap now uid req) (\<lambda>_. True)
  (v\<lparr>own_user := (own_user v)\<lparr>u_max_body_size :=
     (case up_max_body_size req of None \<Rightarrow> u_max_body_size (own_user v) | Some n \<Rightarrow> clamp_body n)\<rparr>\<rparr>)"
proof (cases "up_max_body_size req")
  case None
  then show ?thesis by (auto simp: update_body_cap_def)
next
  case (Some n)
  have "leads uid v (or_answer (UpdateUserMaxBodySize now uid (clamp_body n)) bad) (\<lambda>_. True)
      (v\<lparr>own_user := (own_user v)\<lparr>u_max_body_size := clamp_body n\<rparr>\<rparr>)" for bad
    by (rule leads_user [where f = "\<lambda>u. u\<lparr>u_max_body_size := clamp_body n, u_updated_at := fmt_rfc3339 now\<rparr>"])
      (simp_all add: user_statements unstamped_def)
  then show ?thesis using Some by (auto simp: update_body_cap_def intro!: leads_then)
qed

lemma leads_concurrency:
  assumes "in_range req"
  shows "leads uid v (update_concurrency now uid req) (\<lambda>_. True)
    (v\<lparr>own_user := (own_user v)\<lparr>u_max_concurrency := value_or (u_max_concurrency (own_user v)) (up_max_concurrency req)\<rparr>\<rparr>)"
proof (cases "up_max_concurrency req")
  case None
  then show ?thesis by (auto simp: update_concurrency_def value_or_def)
next
  case (Some n)
  have n: "\<not> n < 0" "\<not> MaxConcurrencyHardLimit < n" using assms Some by (simp_all add: in_range_def)
  have "leads uid v (or_answer (UpdateUserMaxConcurrency now uid n) bad) (\<lambda>_. True)
      (v\<lparr>own_user := (own_user v)\<lparr>u_max_concurrency := n\<rparr>\<rparr>)" for bad
    by (rule leads_user [where f = "\<lambda>u. u\<lparr>u_max_concurrency := n, u_updated_at := fmt_rfc3339 now\<rparr>"])
      (use n in \<open>simp_all add: user_statements unstamped_def\<close>)
  note w = leads_then [OF this leads_then [OF leads_note]]
  show ?thesis
    unfolding update_concurrency_def Some option.case
    by (rule leads_then [OF leads_reject [OF n(1)]], rule leads_then [OF leads_reject [OF n(2)]],
        unfold value_or_def option.case, rule w) auto
qed

lemma leads_multiplier:
  assumes "in_range req"
  shows "leads uid v (update_multiplier now uid req) (\<lambda>_. True)
    (v\<lparr>own_quota := (own_quota v)\<lparr>q_fixed_multiplier := multiplier_asked req (q_fixed_multiplier (own_quota v))\<rparr>\<rparr>)"
proof -
  have "leads uid v (or_answer (UpdateFixedMultiplier now uid m) bad) (\<lambda>_. True)
      (v\<lparr>own_quota := (own_quota v)\<lparr>q_fixed_multiplier := m\<rparr>\<rparr>)" for m bad
    by (rule leads_quota [where f = "\<lambda>r. r\<lparr>q_fixed_multiplier := m, q_updated_at := fmt_rfc3339 now\<rparr>"])
      (simp_all add: quota_statements unstamped_quota_def)
  then have w: "leads uid v (set_multiplier now uid m msg) (\<lambda>_. True)
      (v\<lparr>own_quota := (own_quota v)\<lparr>q_fixed_multiplier := m\<rparr>\<rparr>)" for m msg
    unfolding set_multiplier_def by (rule leads_then) (auto intro!: leads_go_on)
  show ?thesis
    using assms w by (auto simp: update_multiplier_def multiplier_asked_def in_range_def split: option.splits)
qed

lemma leads_rekey:
  assumes "up_regenerate_key req = Some True \<Longrightarrow> \<forall>u \<in> set (other_users v). u_sub_key_hash u \<noteq>
      HashSubKey (pn_crypto pn) (GenerateSubKey (pn_crypto pn) (mo_key_bytes mo) (pn_salt pn) uid)"
    and "u_id (own_user v) = uid"
  shows "leads uid v (regenerate_key pn mo uid req) (\<lambda>_. True) (v\<lparr>own_user := rekeyed pn mo req (own_user v)\<rparr>)"
proof (cases "up_regenerate_key req = Some True")
  case False
  then show ?thesis by (auto simp: regenerate_key_def rekeyed_def)
next
  case True
  let ?k = "GenerateSubKey (pn_crypto pn) (mo_key_bytes mo) (pn_salt pn) uid"
  let ?f = "\<lambda>u. u\<lparr>u_sub_key_hash := HashSubKey (pn_crypto pn) ?k, u_sub_key_preview := SubKeyPreview ?k,
    u_updated_at := fmt_rfc3339 (mo_now mo)\<rparr>"
  have run: "RegenerateUserKey (mo_now mo) uid (HashSubKey (pn_crypto pn) ?k) (SubKeyPreview ?k) db
      = (Ok (), set_users (with_id uid) ?f db)" if "shows_rows uid v db" for db
  proof -
    have "\<forall>u \<in> set (users db). u_id u \<noteq> uid \<longrightarrow> u_sub_key_hash u \<noteq> HashSubKey (pn_crypto pn) ?k"
    proof -
      have "other_users v = filter (\<lambda>u. u_id u \<noteq> uid) (users db)" using that by (simp add: shows_rows_def)
      then show ?thesis using assms(1) [OF True] by auto
    qed
    then have "select_one (\<lambda>u. u_sub_key_hash u = HashSubKey (pn_crypto pn) ?k \<and> u_id u \<noteq> uid) (users db) = None"
      by (auto simp: select_one_None_iff)
    then show ?thesis using that by (simp add: RegenerateUserKey_def run_stmt_healthy shows_rows_def)
  qed
  have "leads uid v (or_answer (\<lambda>db. (Ok (), set_users (with_id uid) ?f db)) bad) (\<lambda>_. True)
      (v\<lparr>own_user := rekeyed pn mo req (own_user v)\<rparr>)" for bad
    using assms(2) True leads_user [where f = ?f and v = v and uid = uid and
        g = "\<lambda>u. u\<lparr>u_sub_key_hash := HashSubKey (pn_crypto pn) ?k, u_sub_key_preview := SubKeyPreview ?k\<rparr>"]
    by (simp add: rekeyed_def Let_def unstamped_def)
  then have "leads uid v (or_answer (RegenerateUserKey (mo_now mo) uid (HashSubKey (pn_crypto pn) ?k) (SubKeyPreview ?k)) bad)
      (\<lambda>_. True) (v\<lparr>own_user := rekeyed pn mo req (own_user v)\<rparr>)" for bad
    unfolding leads_def using run by (simp add: or_answer_def)
  note w = leads_then [OF this]
  show ?thesis
    using True unfolding regenerate_key_def Let_def by (auto intro!: w)
qed

lemma leads_the_user: "leads uid v (the_user uid) (\<lambda>u. unstamped u = unstamped (own_user v)) v"
  by (auto simp: leads_def the_user_def GetUserByID_def sql_query_healthy shows_rows_def)

lemma leads_limits: "in_range req \<Longrightarrow> leads uid v (limit_checks req) (\<lambda>_. True) v"
  unfolding limit_checks_def by (auto simp: in_range_def intro!: leads_then leads_reject)

section \<open>The handler\<close>

lemma rerouted_fields [simp]:
  "u_id (rerouted req u) = u_id u" "u_role (rerouted req u) = u_role u"
  "u_status (rerouted req u) = u_status u" "u_max_body_size (rerouted req u) = u_max_body_size u"
  "u_max_concurrency (rerouted req u) = u_max_concurrency u"
  by (simp_all add: rerouted_def)

lemma leads_at: "R x \<Longrightarrow> v = w \<Longrightarrow> leads uid v (go_on x) R w"
  by auto

lemma leads_noted_if: "leads uid v (if b then note_down (WriteAudit now a t j d) else skip_step) (\<lambda>_. True) v"
  using leads_note by (auto simp: skip_step_def)

text \<open>The steps one after the other, each from the rows the one before leaves.\<close>

lemma leads_update:
  assumes id: "parse_int64 idStr = Some uid" and ok: "in_range req" and uid: "u_id (own_user v) = uid"
    and fresh: "up_regenerate_key req = Some True \<Longrightarrow> \<forall>u \<in> set (other_users v). u_sub_key_hash u \<noteq>
      HashSubKey (pn_crypto pn) (GenerateSubKey (pn_crypto pn) (mo_key_bytes mo) (pn_salt pn) uid)"
    and s: "shows_rows uid v db"
  shows "\<exists>r db'. HandleUpdateUser pn mo idStr (Some req) db = (Answered r, db') \<and> rs_status r = 200 \<and>
    shows_rows uid (v\<lparr>own_user := user_asked pn mo req (own_user v), own_quota := quota_asked req (own_quota v)\<rparr>) db'"
proof -
  let ?w = "v\<lparr>own_user := user_asked pn mo req (own_user v), own_quota := quota_asked req (own_quota v)\<rparr>"
  have "leads uid v m (\<lambda>r. rs_status r = 200) ?w \<Longrightarrow> \<exists>r db'. respond m db = (Answered r, db') \<and> rs_status r = 200 \<and>
      shows_rows uid ?w db'" for m
    using s by (fastforce simp: leads_def respond_def)
  note run = this
  show ?thesis
    unfolding HandleUpdateUser_def Let_def path_id_def id decoded_def option.case then_step_simps
    apply (rule run)
    apply (rule leads_then [OF leads_the_user])
    apply (rule leads_then [OF leads_limits [OF ok]])
    apply (rule leads_then [OF leads_counts])
    apply (rule leads_then [OF leads_token_cap])
    apply (rule leads_then [OF leads_window_caps])
    apply (rule leads_then [OF leads_status [OF ok]])
    apply (rule leads_then [OF leads_route [where ?u0.0 = "own_user v"]])
         apply (simp_all add: uid)
    apply (simp only: case_prod_beta)
    apply (rule leads_then [OF leads_body_cap])
    apply (rule leads_then [OF leads_concurrency [OF ok]])
    apply (rule leads_then [OF leads_multiplier [OF ok]])
    apply (simp only: case_prod_beta)
    apply (rule leads_then [OF leads_noted_if])
    apply (rule leads_then [OF leads_rekey])
      apply (simp add: fresh)
     apply (simp add: uid)
    apply (rule leads_at)
     apply (simp add: writeJSON_def)
    apply (cases v, simp add: user_asked_def quota_asked_def cong: option.case_cong)
    done
qed

lemma shows_given:
  assumes "healthy db" "select_one (with_id uid) (users db) = Some u" "quota_of db uid = Some q"
  shows "shows_rows uid \<lparr>own_user = u, own_quota = q, other_users = filter (\<lambda>u. u_id u \<noteq> uid) (users db),
    other_quotas = filter (\<lambda>r. q_user_id r \<noteq> uid) (quotas db)\<rparr> db"
  using assms by (simp add: shows_rows_def)

lemma stamped:
  "map_option unstamped o1 = Some (unstamped u) \<Longrightarrow> \<exists>t. o1 = Some (u\<lparr>u_updated_at := t\<rparr>)"
  "map_option unstamped_quota o2 = Some (unstamped_quota q) \<Longrightarrow> \<exists>t. o2 = Some (q\<lparr>q_updated_at := t\<rparr>)"
  using unstampedD [of u] unstamped_quotaD [of q] by auto (metis unstampedD, metis unstamped_quotaD)

text \<open>
  Property C20.  A change of an account with no value out of range is answered 200 and writes exactly the
  fields it names: status, route (unless the account is an administrator), body cap cut to its bounds,
  concurrency cap, and a new key if asked for, in the account's row; the limits and the multiplier in its
  quota row, whose counters stay; nothing else in either but the stamps, and nothing in the rows of others.
\<close>

theorem update_writes_what_is_asked:
  assumes "healthy db" "parse_int64 idStr = Some uid" "in_range req"
    and "select_one (with_id uid) (users db) = Some u" "quota_of db uid = Some q"
    and fresh: "up_regenerate_key req = Some True \<Longrightarrow> \<forall>u' \<in> set (users db). u_id u' \<noteq> uid \<longrightarrow> u_sub_key_hash u' \<noteq>
      HashSubKey (pn_crypto pn) (GenerateSubKey (pn_crypto pn) (mo_key_bytes mo) (pn_salt pn) uid)"
  shows "\<exists>r db' t t'. HandleUpdateUser pn mo idStr (Some req) db = (Answered r, db') \<and> rs_status r = 200 \<and>
    select_one (with_id uid) (users db') = Some ((user_asked pn mo req u)\<lparr>u_updated_at := t\<rparr>) \<and>
    quota_of db' uid = Some ((quota_asked req q)\<lparr>q_updated_at := t'\<rparr>) \<and>
    filter (\<lambda>u. u_id u \<noteq> uid) (users db') = filter (\<lambda>u. u_id u \<noteq> uid) (users db) \<and>
    filter (\<lambda>r. q_user_id r \<noteq> uid) (quotas db') = filter (\<lambda>r. q_user_id r \<noteq> uid) (quotas db)"
proof -
  note s = shows_given [OF assms(1,4,5)]
  let ?v = "\<lparr>own_user = user_asked pn mo req u, own_quota = quota_asked req q,
    other_users = filter (\<lambda>u. u_id u \<noteq> uid) (users db), other_quotas = filter (\<lambda>r. q_user_id r \<noteq> uid) (quotas db)\<rparr>"
  have "u_id u = uid" using shows_ids(1) [OF s] by simp
  then have "\<exists>r db'. HandleUpdateUser pn mo idStr (Some req) db = (Answered r, db') \<and> rs_status r = 200 \<and> shows_rows uid ?v db'"
    using leads_update [OF assms(2,3) _ _ s, where pn = pn and mo = mo] fresh by simp
  then obtain r db' where a: "HandleUpdateUser pn mo idStr (Some req) db = (Answered r, db')" "rs_status r = 200"
    and v: "shows_rows uid ?v db'" by blast
  have "map_option unstamped (select_one (with_id uid) (users db')) = Some (unstamped (user_asked pn mo req u))"
    "map_option unstamped_quota (quota_of db' uid) = Some (unstamped_quota (quota_asked req q))"
    and o: "filter (\<lambda>u. u_id u \<noteq> uid) (users db') = filter (\<lambda>u. u_id u \<noteq> uid) (users db)"
    "filter (\<lambda>r. q_user_id r \<noteq> uid) (quotas db') = filter (\<lambda>r. q_user_id r \<noteq> uid) (quotas db)"
    using v by (simp_all only: shows_rows_def split_rows.select_convs simp_thms)
  from stamped(1) [OF this(1)] stamped(2) [OF this(2)] a o show ?thesis by blast
qed

text \<open>One account with its quota row; the request disables it and sets its five-hour limit.\<close>

definition one_account :: db where
  "one_account = sample_accounts\<lparr>quotas := [quota_row_new sample_new (noon 1) 1 1], quotas_seq := 1\<rparr>"

definition sample_update :: updateUserRequest where
  "sample_update = \<lparr>up_5h_limit = Some 7, up_total_limit = None, up_token_total_limit = None,
     up_token_5h_limit = None, up_token_week_limit = None, up_status = Some ''disabled'',
     up_regenerate_key = None, up_route_mode = None, up_fixed_provider = None, up_fixed_multiplier = None,
     up_fixed_multiplier_clear = False, up_max_body_size = None, up_max_concurrency = None\<rparr>"

lemma one_account_rows:
  "healthy one_account" "select_one (with_id 1) (users one_account) = Some sample_user"
  "quota_of one_account 1 = Some (quota_row_new sample_new (noon 1) 1 1)" "in_range sample_update"
  "parse_int64 ''1'' = Some 1"
proof -
  show "in_range sample_update" by (simp add: in_range_def sample_update_def is_negative_def)
  show "parse_int64 ''1'' = Some 1" by code_simp
qed (simp_all add: one_account_def quota_of_def quota_row_new_def Let_def)

lemma update_writes_what_is_asked_witness:
  "\<exists>r db' u q. HandleUpdateUser sample_panel sample_moment ''1'' (Some sample_update) one_account = (Answered r, db') \<and>
    rs_status r = 200 \<and> select_one (with_id 1) (users db') = Some u \<and> u_status u = ''disabled'' \<and>
    quota_of db' 1 = Some q \<and> q_5h_limit q = 7 \<and> q_5h_used q = 0"
proof -
  have n: "up_regenerate_key sample_update \<noteq> Some True" by (simp add: sample_update_def)
  have f: "u_status (user_asked sample_panel sample_moment sample_update sample_user) = ''disabled''"
    "q_5h_limit (quota_asked sample_update (quota_row_new sample_new (noon 1) 1 1)) = 7"
    "q_5h_used (quota_asked sample_update (quota_row_new sample_new (noon 1) 1 1)) = 0"
    by (simp_all add: user_asked_def rekeyed_def quota_asked_def sample_update_def value_or_def quota_row_new_def Let_def)
  obtain r db' t t' where h: "HandleUpdateUser sample_panel sample_moment ''1'' (Some sample_update) one_account = (Answered r, db')"
    "rs_status r = 200"
    "select_one (with_id 1) (users db') = Some ((user_asked sample_panel sample_moment sample_update sample_user)\<lparr>u_updated_at := t\<rparr>)"
    "quota_of db' 1 = Some ((quota_asked sample_update (quota_row_new sample_new (noon 1) 1 1))\<lparr>q_updated_at := t'\<rparr>)"
    using update_writes_what_is_asked [OF one_account_rows(1,5,4,2,3), of sample_panel sample_moment] n by blast
  then show ?thesis using f by (intro exI conjI) (rule h, rule h, rule h, simp, rule h, simp_all)
qed

section \<open>Changes refused half way\<close>

text \<open>A step that answers from every state with rows \<open>v\<close>, leaving rows \<open>w\<close>.\<close>

definition stops :: "int \<Rightarrow> split_rows \<Rightarrow> 'a step \<Rightarrow> int \<Rightarrow> split_rows \<Rightarrow> bool" where
  "stops uid v m code w \<longleftrightarrow> (\<forall>db. shows_rows uid v db \<longrightarrow>
     (\<exists>r db'. m db = (Inl (Answered r), db') \<and> rs_status r = code \<and> shows_rows uid w db'))"

lemma stops_then:
  assumes "leads uid v m R w" "\<And>x. R x \<Longrightarrow> stops uid w (k x) code z"
  shows "stops uid v (then_step m k) code z"
  using assms unfolding leads_def stops_def then_step_def by fastforce

lemma stops_early: "stops uid v m code w \<Longrightarrow> stops uid v (then_step m k) code w"
  unfolding stops_def then_step_def by fastforce

lemma stops_status:
  assumes "up_status req = Some s" "s \<noteq> ''active''" "s \<noteq> ''disabled''"
  shows "stops uid v (update_status now uid req) 400 v"
  using assms by (simp add: stops_def update_status_def json_error_def writeJSON_def)

text \<open>
  The limits are written before the status is looked at: a request with limits and a status that does not
  exist is answered 400, and the limits are the new ones all the same.
\<close>

theorem refused_update_keeps_its_limits:
  assumes "healthy db" "parse_int64 idStr = Some uid" "in_range (req\<lparr>up_status := None\<rparr>)"
    and "up_status req = Some s" "s \<noteq> ''active''" "s \<noteq> ''disabled''"
    and "select_one (with_id uid) (users db) = Some u" "quota_of db uid = Some q"
  shows "\<exists>r db' t t'. HandleUpdateUser pn mo idStr (Some req) db = (Answered r, db') \<and> rs_status r = 400 \<and>
    select_one (with_id uid) (users db') = Some (u\<lparr>u_updated_at := t\<rparr>) \<and>
    quota_of db' uid = Some ((quota_asked req q)\<lparr>q_fixed_multiplier := q_fixed_multiplier q, q_updated_at := t'\<rparr>)"
proof -
  let ?v = "\<lparr>own_user = u, own_quota = q, other_users = filter (\<lambda>u. u_id u \<noteq> uid) (users db),
    other_quotas = filter (\<lambda>r. q_user_id r \<noteq> uid) (quotas db)\<rparr>"
  let ?q = "(quota_asked req q)\<lparr>q_fixed_multiplier := q_fixed_multiplier q\<rparr>"
  have l: "leads uid v (limit_checks req) (\<lambda>_. True) v" for v
    using leads_limits [OF assms(3), of uid v] by (simp add: limit_checks_def)
  have run: "stops uid ?v m 400 w \<Longrightarrow> \<exists>r db'. respond m db = (Answered r, db') \<and> rs_status r = 400 \<and> shows_rows uid w db'" for m w
    using shows_given [OF assms(1,7,8)] by (fastforce simp: stops_def respond_def)
  have "\<exists>r db'. HandleUpdateUser pn mo idStr (Some req) db = (Answered r, db') \<and> rs_status r = 400 \<and>
      shows_rows uid (?v\<lparr>own_quota := ?q\<rparr>) db'"
    unfolding HandleUpdateUser_def Let_def path_id_def assms(2) decoded_def option.case then_step_simps
    apply (rule run)
    apply (rule stops_then [OF leads_the_user])
    apply (rule stops_then [OF l])
    apply (rule stops_then [OF leads_counts])
    apply (rule stops_then [OF leads_token_cap])
    apply (rule stops_then [OF leads_window_caps])
    apply (simp add: quota_asked_def)
    apply (rule stops_early [OF stops_status [OF assms(4-6)]])
    done
  then obtain r db' where a: "HandleUpdateUser pn mo idStr (Some req) db = (Answered r, db')" "rs_status r = 400"
    and v: "shows_rows uid (?v\<lparr>own_quota := ?q\<rparr>) db'" by blast
  have "map_option unstamped (select_one (with_id uid) (users db')) = Some (unstamped u)"
    "map_option unstamped_quota (quota_of db' uid) = Some (unstamped_quota ?q)"
    using v by (simp_all add: shows_rows_def)
  from stamped(1) [OF this(1)] stamped(2) [OF this(2)] a show ?thesis by blast
qed

end
