(* ===== verification/Config.thy ===== *)
theory Config
  imports ProviderStore
begin

text \<open>
  \<open>internal/config/config.go\<close>: the configuration records and their loading.  The YAML library is an
  argument: it decodes a text into a configuration, keeping the fields the text does not mention.
  Durations are in nanoseconds.
\<close>

record ServerConfig =
  sv_listen_addr :: string
  sv_read_timeout :: int
  sv_write_timeout :: int

record DatabaseConfig =
  dc_path :: string

record APIConfig =
  ac_zhipu_endpoint :: string
  ac_zhipu_api_key :: string

record AuthConfig =
  au_sub_key_salt :: string
  au_session_expire_hours :: int

record QuotaConfig =
  qc_default_5h_limit :: int
  qc_default_total_limit :: int
  qc_reset_interval_hours :: int

record ProxyConfig =
  px_passthrough_enabled :: bool

record ProviderQuotaConfig =
  pq_default_token_low_ratio :: float64
  pq_default_call_low_ratio :: float64

record ModelMapping =
  mg_external :: string
  mg_per_provider :: "(string, string) gomap"

record Config =
  cf_server :: ServerConfig
  cf_database :: DatabaseConfig
  cf_api :: APIConfig
  cf_auth :: AuthConfig
  cf_quota :: QuotaConfig
  cf_providers :: "cfg_provider list"
  cf_model_mappings :: "ModelMapping list"
  cf_compaction :: string
  cf_debug :: bool
  cf_proxy :: ProxyConfig
  cf_provider_quota :: ProviderQuotaConfig

text \<open>The configuration before the file is decoded into it.\<close>

definition default_config :: Config where
  "default_config =
     \<lparr>cf_server = \<lparr>sv_listen_addr = ''127.0.0.1:8080'', sv_read_timeout = 120 * sec_ns,
        sv_write_timeout = 300 * sec_ns\<rparr>,
      cf_database = \<lparr>dc_path = ''./llm_gateway.db''\<rparr>,
      cf_api = \<lparr>ac_zhipu_endpoint = ''https://api.zhipuai.cn/api/paas/v4/chat/completions'',
        ac_zhipu_api_key = ''''\<rparr>,
      cf_auth = \<lparr>au_sub_key_salt = '''', au_session_expire_hours = 24\<rparr>,
      cf_quota = \<lparr>qc_default_5h_limit = 100, qc_default_total_limit = 10000, qc_reset_interval_hours = 5\<rparr>,
      cf_providers = [], cf_model_mappings = [], cf_compaction = ''trim'', cf_debug = False,
      cf_proxy = \<lparr>px_passthrough_enabled = False\<rparr>,
      cf_provider_quota = \<lparr>pq_default_token_low_ratio = round64 (1 / 10), pq_default_call_low_ratio = round64 (1 / 10)\<rparr>\<rparr>"

type_synonym yaml_decoder = "string \<Rightarrow> Config \<Rightarrow> Config option"

text \<open>\<open>file\<close> is \<open>None\<close> when it cannot be read.\<close>

definition Load :: "yaml_decoder \<Rightarrow> (string \<Rightarrow> string) \<Rightarrow> string option \<Rightarrow> goerr + Config" where
  "Load decode getenv file = (case file of
     None \<Rightarrow> Err (GoErr ''read config'')
   | Some data \<Rightarrow> (case decode data default_config of
       None \<Rightarrow> Err (GoErr ''parse config'')
     | Some cfg \<Rightarrow>
         (let envKey = getenv ''ZHIPU_API_KEY'' in
          Ok (if envKey \<noteq> '''' then cfg\<lparr>cf_api := (cf_api cfg)\<lparr>ac_zhipu_api_key := envKey\<rparr>\<rparr> else cfg))))"

end
