(* ===== verification/Gateway.thy ===== *)
theory Gateway
  imports AdminApi ChatProxy SelfService QuotaEngine Config
begin

text \<open>
  The routes of \<open>main.go\<close> and the middleware around them: which handler a request reaches, what stands
  in front of it, and what the process does with requests and the ticks of the scheduler, one after the
  other.  Paths are clean; the query is as \<open>r.URL.Query()\<close> decodes it.  The logging of requests is not
  modelled.
\<close>

section \<open>Requests\<close>

record http_request =
  hr_method :: string
  hr_path :: string
  hr_raw_query :: string
  hr_query :: query
  hr_headers :: headers
  hr_content_length :: int
  hr_body :: "string option"
  hr_cookie :: "string option"
  hr_secure :: bool

text \<open>What a request meets: the moment, and what is around its call to the upstream.\<close>

record arrival =
  ar_moment :: moment
  ar_chat :: chat_env

text \<open>What the components were made with.\<close>

record serving =
  sg_surroundings :: surroundings
  sg_reset_interval :: int
  sg_passthrough_enabled :: bool
  sg_compaction :: string
  sg_user_files :: "string \<Rightarrow> response"

definition arrival_env :: "arrival \<Rightarrow> env" where
  "arrival_env ar = (ce_env (ar_chat ar))\<lparr>en_now := mo_now (ar_moment ar), en_order := mo_order (ar_moment ar)\<rparr>"

definition proxy_request :: "http_request \<Rightarrow> request" where
  "proxy_request rq = \<lparr>request.rq_method = hr_method rq, rq_path = hr_path rq, rq_raw_query = hr_raw_query rq,
     rq_headers = hr_headers rq, rq_content_length = hr_content_length rq, rq_body = hr_body rq\<rparr>"

text \<open>The path below \<open>/admin\<close>, split at its slashes.\<close>

definition below_admin :: "string \<Rightarrow> string list" where
  "below_admin path = (let rest = trim_prefix path ''/admin'' in
     if rest = '''' then [] else tl (split_char (CHR ''/'') rest))"

definition panel_request :: "http_request \<Rightarrow> admin_request" where
  "panel_request rq = \<lparr>admin_request.rq_method = hr_method rq, rq_path = below_admin (hr_path rq),
     rq_query = hr_query rq, rq_body = (case hr_body rq of None \<Rightarrow> '''' | Some b \<Rightarrow> b),
     rq_cookie = hr_cookie rq, rq_secure = hr_secure rq\<rparr>"

section \<open>Handlers on the state of the process\<close>

definition proxy_view :: "admin \<Rightarrow> gateway" where
  "proxy_view a = \<lparr>gw_db = ad_db a, gw_counters = ad_counters a, gw_table = ad_table a\<rparr>"

definition on_proxy :: "(gateway \<Rightarrow> outcome \<times> gateway) \<Rightarrow> admin \<Rightarrow> outcome \<times> admin" where
  "on_proxy h a = (case h (proxy_view a) of
     (r, g) \<Rightarrow> (r, a\<lparr>ad_db := gw_db g, ad_counters := gw_counters g, ad_table := gw_table g\<rparr>))"

text \<open>The handlers as they are configured: the fallback key is the present one of the credential store
  (a holder that the lookup creates is empty).\<close>

definition chat_handler :: "serving \<Rightarrow> admin \<Rightarrow> chat_config" where
  "chat_handler sg a = \<lparr>cc_has_router = True, cc_endpoint = Some (su_endpoint (sg_surroundings sg)),
     cc_api_key = Some (fst (CredentialStore_Get ''zhipu'' (ad_creds a))), cc_has_multiplier = True,
     cc_has_checker = True, cc_compaction_off = (sg_compaction sg = ''off'')\<rparr>"

definition passthrough_handler :: "serving \<Rightarrow> passthrough_config" where
  "passthrough_handler sg = \<lparr>pc_enabled = Some (sg_passthrough_enabled sg), pc_has_router = True,
     pc_has_engines = True\<rparr>"

definition serve_chat :: "serving \<Rightarrow> arrival \<Rightarrow> http_request \<Rightarrow> ctx \<Rightarrow> admin \<Rightarrow> outcome \<times> admin" where
  "serve_chat sg ar rq c a = on_proxy (ServeChat (chat_handler sg a)
     ((ar_chat ar)\<lparr>ce_env := arrival_env ar\<rparr>) c (proxy_request rq)) a"

definition serve_passthrough :: "serving \<Rightarrow> arrival \<Rightarrow> http_request \<Rightarrow> ctx \<Rightarrow> admin \<Rightarrow> outcome \<times> admin" where
  "serve_passthrough sg ar rq c = on_proxy (ServePassthrough (passthrough_handler sg) (arrival_env ar) c (proxy_request rq))"

definition serve_quota :: "serving \<Rightarrow> arrival \<Rightarrow> http_request \<Rightarrow> ctx \<Rightarrow> admin \<Rightarrow> outcome \<times> admin" where
  "serve_quota sg ar rq c =
     on_db (answered (ServeQuota (sg_reset_interval sg) (mo_now (ar_moment ar)) (hr_method rq) c))"

definition serve_calls :: "http_request \<Rightarrow> ctx \<Rightarrow> admin \<Rightarrow> outcome \<times> admin" where
  "serve_calls rq c = on_db (answered (ServeCalls c (hr_query rq)))"

text \<open>\<open>authMW.SubKeyAuth\<close>.\<close>

definition with_key ::
  "serving \<Rightarrow> arrival \<Rightarrow> http_request \<Rightarrow> (ctx \<Rightarrow> admin \<Rightarrow> outcome \<times> admin) \<Rightarrow> admin \<Rightarrow> outcome \<times> admin" where
  "with_key sg ar rq h a =
     (case check_sub_key (pn_crypto (su_panel (sg_surroundings sg))) (mo_now (ar_moment ar))
         (h_get ''Authorization'' (hr_headers rq)) (ad_db a) of
        (Inl resp, db1) \<Rightarrow> (Answered resp, a\<lparr>ad_db := db1\<rparr>)
      | (Inr c, db1) \<Rightarrow> h c (a\<lparr>ad_db := db1\<rparr>))"

section \<open>Routes\<close>

definition method_not_allowed :: "string \<Rightarrow> response" where
  "method_not_allowed allow = \<lparr>rs_status = 405, rs_headers = [(''Allow'', allow),
     (''Content-Type'', ''text/plain; charset=utf-8'')], rs_cookies = [], rs_body = RawBody ''Method Not Allowed''\<rparr>"

datatype endpoint = EModels | EChat | EQuota | ECalls | EPassthrough | EPassthroughRoot | EAdmin
  | EUserFile string | EUser | ENone

definition endpoint_of :: "string \<Rightarrow> endpoint" where
  "endpoint_of path =
     (if path = ''/v1/models'' then EModels
      else if path = ''/v1/chat/completions'' then EChat
      else if path = ''/v1/quota'' then EQuota
      else if path = ''/v1/calls'' then ECalls
      else if has_prefix path ''/v1/passthrough/'' then EPassthrough
      else if path = ''/v1/passthrough'' then EPassthroughRoot
      else if path = ''/admin'' \<or> has_prefix path ''/admin/'' then EAdmin
      else if has_prefix path ''/user/'' then EUserFile (trim_prefix path ''/user/'')
      else if path = ''/user'' then EUser
      else ENone)"

text \<open>The mux: a \<open>GET\<close> pattern takes \<open>HEAD\<close> as well; a path whose patterns all have another method is
  answered 405; a subtree pattern without its slash is redirected.\<close>

definition gateway_mux :: "serving \<Rightarrow> arrival \<Rightarrow> http_request \<Rightarrow> admin \<Rightarrow> outcome \<times> admin" where
  "gateway_mux sg ar rq =
     (let m = hr_method rq; get = is_get m in
      case endpoint_of (hr_path rq) of
        EModels \<Rightarrow> page (if get then ServeModels m (h_get ''Origin'' (hr_headers rq)) else method_not_allowed ''GET, HEAD'')
      | EChat \<Rightarrow> if m = ''POST'' then with_key sg ar rq (serve_chat sg ar rq) else page (method_not_allowed ''POST'')
      | EQuota \<Rightarrow> if get then with_key sg ar rq (serve_quota sg ar rq) else page (method_not_allowed ''GET, HEAD'')
      | ECalls \<Rightarrow> if get then with_key sg ar rq (serve_calls rq) else page (method_not_allowed ''GET, HEAD'')
      | EPassthrough \<Rightarrow> with_key sg ar rq (serve_passthrough sg ar rq)
      | EPassthroughRoot \<Rightarrow> page (redirect ''/v1/passthrough/'' 301)
      | EAdmin \<Rightarrow> serve_admin (sg_surroundings sg) (ar_moment ar) (panel_request rq)
      | EUserFile f \<Rightarrow> page (if get then sg_user_files sg f else method_not_allowed ''GET, HEAD'')
      | EUser \<Rightarrow> page (if get then redirect ''/user/'' 301 else method_not_allowed ''GET, HEAD'')
      | ENone \<Rightarrow> page not_found)"

definition writeFatalError :: response where
  "writeFatalError = writeJSON 500 (JObj [(''error'', JObj
     [(''message'', JStr ''Internal server error''), (''type'', JStr ''internal_error''),
      (''code'', JStr ''internal_error'')])])"

text \<open>A panic becomes an answer; what the handler did until then stays.\<close>

definition recoverMiddleware :: "(admin \<Rightarrow> outcome \<times> admin) \<Rightarrow> admin \<Rightarrow> outcome \<times> admin" where
  "recoverMiddleware h a = (case h a of
     (Panicked, a1) \<Rightarrow> (Answered writeFatalError, a1) | (r, a1) \<Rightarrow> (r, a1))"

definition serve_gateway :: "serving \<Rightarrow> arrival \<Rightarrow> http_request \<Rightarrow> admin \<Rightarrow> outcome \<times> admin" where
  "serve_gateway sg ar rq = recoverMiddleware (gateway_mux sg ar rq)"

section \<open>The life of the process\<close>

datatype event = Arrives arrival http_request | Ticks gotime

fun handle_event :: "serving \<Rightarrow> event \<Rightarrow> admin \<Rightarrow> admin" where
  "handle_event sg (Arrives ar rq) a = snd (serve_gateway sg ar rq a)"
| "handle_event sg (Ticks now) a = a\<lparr>ad_db := tryReset (sg_reset_interval sg) now (ad_db a)\<rparr>"

fun run_events :: "serving \<Rightarrow> event list \<Rightarrow> admin \<Rightarrow> admin" where
  "run_events sg [] a = a"
| "run_events sg (e # es) a = run_events sg es (handle_event sg e a)"

end
