(* ===== verification/Startup.thy ===== *)
theory Startup
  imports Gateway Migrations
begin

text \<open>
  \<open>main.go\<close>: from the environment and the files to a running gateway, or to the end of the process.
  \<open>log.Fatalf\<close> ends it with a message; the messages are recorded by their first words.  The listener, the
  graceful shutdown and the embedded static files are not modelled.
\<close>

section \<open>The administrator's password\<close>

text \<open>\<open>hash\<close> is what \<open>bcrypt.GenerateFromPassword\<close> makes of the password, \<open>None\<close> when it refuses it.\<close>

definition admin_account :: "crypto \<Rightarrow> bytes \<Rightarrow> string \<Rightarrow> new_user" where
  "admin_account cr randomBytes hash =
     (let placeholderSubKey = GenerateSubKey cr randomBytes ''admin-init'' 0 in
      \<lparr>nu_username = ''admin'', nu_password_hash = hash, nu_sub_key_hash = HashSubKey cr placeholderSubKey,
       nu_sub_key_preview = SubKeyPreview placeholderSubKey, nu_role = ''admin'', nu_status = ''active'',
       nu_expires_at = '''', nu_route_mode = ''auto'', nu_fixed_provider = '''', nu_5h_limit = 1000000,
       nu_total_limit = 100000000, nu_fixed_multiplier = None, nu_max_body_size = 0, nu_max_concurrency = 0\<rparr>)"

definition set_admin_password :: "gotime \<Rightarrow> string \<Rightarrow> unit op" where
  "set_admin_password now hash = sql_exec ''update admin password''
     (set_users (\<lambda>u. u_username u = ''admin'')
        (\<lambda>u. u\<lparr>u_password_hash := hash, u_updated_at := Now now\<rparr>))"

definition initAdminPassword ::
  "crypto \<Rightarrow> gotime \<Rightarrow> bytes \<Rightarrow> (string \<Rightarrow> string option) \<Rightarrow> string \<Rightarrow> unit op" where
  "initAdminPassword cr now randomBytes hash_of password =
     (if password = '''' then (\<lambda>db. (Err (GoErr ''Password cannot be empty''), db))
      else case hash_of password of
        None \<Rightarrow> (\<lambda>db. (Err (GoErr ''Failed to hash password''), db))
      | Some hash \<Rightarrow>
          and_then (GetUserByUsername ''admin'')
            (\<lambda>existing. case existing of
               Some _ \<Rightarrow> set_admin_password now hash
             | None \<Rightarrow> and_then (CreateUser now (admin_account cr randomBytes hash)) (\<lambda>_ db. (Ok (), db))))"

section \<open>Legacy settings\<close>

text \<open>The credential store as the configured providers fill it, and the endpoint of the fallback path: the
  last provider marked as default wins.\<close>

definition initial_credentials :: "(string \<Rightarrow> string) \<Rightarrow> Config \<Rightarrow> (string, string) gomap" where
  "initial_credentials getenv cfg = fold (\<lambda>p. CredentialStore_Set (cp_id p)
     (if cp_api_key_env p \<noteq> '''' then getenv (cp_api_key_env p) else '''')) (cf_providers cfg) []"

definition default_endpoint :: "Config \<Rightarrow> string" where
  "default_endpoint cfg = fold (\<lambda>p e. if cp_is_default p then cp_endpoint p else e) (cf_providers cfg)
     (ac_zhipu_endpoint (cf_api cfg))"

definition compaction_mode :: "Config \<Rightarrow> string" where
  "compaction_mode cfg = (if cf_compaction cfg \<noteq> '''' then cf_compaction cfg else ''trim'')"

section \<open>Start\<close>

text \<open>What the process is started with.  \<open>bo_order\<close> is the order of ranges over maps while seeding and
  loading, \<open>bo_nonce i\<close> the nonce that encrypts the key of the provider at position \<open>i\<close>.\<close>

record boot =
  bo_crypto :: crypto
  bo_getenv :: "string \<Rightarrow> string"
  bo_decode :: yaml_decoder
  bo_config_file :: "string option"
  bo_pings :: bool
  bo_now :: gotime
  bo_date_of :: "string \<Rightarrow> string option"
  bo_nonce :: "nat \<Rightarrow> bytes option"
  bo_order :: "string list \<Rightarrow> string list"
  bo_random :: bytes
  bo_hash :: "string \<Rightarrow> string option"
  bo_password :: string
  bo_pages :: "response \<times> response \<times> response"
  bo_static :: "string list \<Rightarrow> response"
  bo_user_files :: "string \<Rightarrow> response"
  bo_yaml :: yaml_lib

datatype started = Fatal string dbfile | Initialised dbfile | Running serving admin dbfile

text \<open>The providers of the configuration with their nonces, and its model mappings one by one.\<close>

definition seed_input :: "boot \<Rightarrow> Config \<Rightarrow> (cfg_provider \<times> bytes option) list" where
  "seed_input bo cfg = zip (cf_providers cfg) (map (bo_nonce bo) [0..<length (cf_providers cfg)])"

definition seed_triples :: "boot \<Rightarrow> Config \<Rightarrow> (string \<times> string \<times> string) list" where
  "seed_triples bo cfg = concat (map (\<lambda>mg. map (\<lambda>k. (mg_external mg, k, the (map_of (mg_per_provider mg) k)))
     (bo_order bo (map fst (mg_per_provider mg)))) (cf_model_mappings cfg))"

text \<open>The file with the rows an operation left.\<close>

definition with_rows :: "dbfile \<Rightarrow> db \<Rightarrow> dbfile" where
  "with_rows fi db = fi\<lparr>fl_db := db\<rparr>"

definition panel_settings :: "boot \<Rightarrow> bytes \<Rightarrow> Config \<Rightarrow> panel" where
  "panel_settings bo kek cfg = \<lparr>pn_crypto = bo_crypto bo, pn_kek = kek,
     pn_salt = au_sub_key_salt (cf_auth cfg), pn_has_db = True,
     pn_ratios = Some (pq_default_token_low_ratio (cf_provider_quota cfg),
       pq_default_call_low_ratio (cf_provider_quota cfg)),
     pn_session_hours = au_session_expire_hours (cf_auth cfg)\<rparr>"

definition serving_of :: "boot \<Rightarrow> bytes \<Rightarrow> Config \<Rightarrow> serving" where
  "serving_of bo kek cfg = (case bo_pages bo of (login, dashboard, usage) \<Rightarrow>
     \<lparr>sg_surroundings = \<lparr>su_panel = panel_settings bo kek cfg, su_login_page = login, su_dashboard = dashboard,
        su_usage_page = usage, su_static = bo_static bo, su_yaml = bo_yaml bo, su_endpoint = default_endpoint cfg\<rparr>,
      sg_reset_interval = qc_reset_interval_hours (cf_quota cfg),
      sg_passthrough_enabled = px_passthrough_enabled (cf_proxy cfg),
      sg_compaction = compaction_mode cfg, sg_user_files = bo_user_files bo\<rparr>)"

text \<open>After the store is ready: the password, or the components and the scheduler's compensation, which
  divides by the reset interval.\<close>

definition start_serving :: "boot \<Rightarrow> bytes \<Rightarrow> Config \<Rightarrow> ProviderTable \<Rightarrow> dbfile \<Rightarrow> started" where
  "start_serving bo kek cfg table fi =
     (if bo_password bo \<noteq> '''' then
        (case initAdminPassword (bo_crypto bo) (bo_now bo) (bo_random bo) (bo_hash bo) (bo_password bo) (fl_db fi) of
           (Inl _, db1) \<Rightarrow> Fatal ''Failed to set admin password'' (with_rows fi db1)
         | (Inr _, db1) \<Rightarrow> Initialised (with_rows fi db1))
      else let hours = qc_reset_interval_hours (cf_quota cfg) in
      if hours = 0 then Fatal ''runtime error: integer divide by zero'' fi
      else let db1 = compensate hours (bo_now bo) (fl_db fi) in
        Running (serving_of bo kek cfg)
          \<lparr>ad_db = db1, ad_table = table, ad_counters = [], ad_creds = initial_credentials (bo_getenv bo) cfg,
           ad_file = bo_config_file bo\<rparr> (with_rows fi db1))"

definition main :: "boot \<Rightarrow> dbfile \<Rightarrow> started" where
  "main bo fi =
     (case DeriveKEK (bo_crypto bo) (bo_getenv bo ''GATEWAY_KEK_ENV'') of
        Inl _ \<Rightarrow> Fatal ''FATAL: GATEWAY_KEK_ENV is not set'' fi
      | Inr kek \<Rightarrow>
     (case Load (bo_decode bo) (bo_getenv bo) (bo_config_file bo) of
        Inl _ \<Rightarrow> Fatal ''Failed to load config'' fi
      | Inr cfg \<Rightarrow>
     (case Open_db (bo_pings bo) fi of
        Inl _ \<Rightarrow> Fatal ''Failed to open database'' fi
      | Inr fi0 \<Rightarrow>
     (case RunMigrations (bo_now bo) (bo_date_of bo) fi0 of
        (Inl _, fi1) \<Rightarrow> Fatal ''Failed to run migrations'' fi1
      | (Inr _, fi1) \<Rightarrow>
     (case NewProviderStore kek of
        None \<Rightarrow> Fatal ''KEK must be 32 bytes'' fi1
      | Some kek \<Rightarrow>
     (case SeedFromConfig (bo_crypto bo) kek (bo_getenv bo) (bo_now bo)
         (seed_input bo cfg) (seed_triples bo cfg) (fl_db fi1) of
        (Inl _, db2) \<Rightarrow> Fatal ''Failed to seed providers from config'' (with_rows fi1 db2)
      | (Inr _, db2) \<Rightarrow>
     (case NewRouter (bo_crypto bo) kek (bo_order bo) True db2 of
        (table, db3) \<Rightarrow> start_serving bo kek cfg table (with_rows fi1 db3))))))))"

end
