(* ===== verification/GatewayLaws.thy ===== *)
theory GatewayLaws
  imports Startup AdminProperties MigrationProperties
begin

text \<open>
  What the requests of key holders keep: invariants of the account tables through the proxies, the
  self-service endpoints, the middleware and the scheduler, and their composition with those of the panel
  over the whole gateway.
\<close>

section \<open>The proxies\<close>

text \<open>An invariant that logging a call of one of the accounts keeps as well.\<close>

locale served_invariant = account_invariant +
  assumes logged: "which (cl_user_id l) \<Longrightarrow> preserves I (InsertCallLog now l)"
begin

lemma log_call_keeps: "which (cl_user_id l) \<Longrightarrow> I db \<Longrightarrow> I (log_call now l db)"
  using logged [of l now] by (simp add: log_call_def preserves_def)

lemma usage_ops:
  assumes "which uid"
  shows "preserves I (CheckAndDeduct now uid n)" "preserves I (RefundQuotaUsage now uid n)"
    "preserves I (AddTokenUsage uid n)"
proof -
  have f: "I (set_quotas (\<lambda>r. q_user_id r = uid \<and> Q r) (deduct_set a b c d) db)" if "I db" for Q a b c d db
    using that assms by (subst quotas) (auto simp: deduct_set_def)
  have d: "preserves I (run_stmt e (\<lambda>_. None) res (set_quotas (\<lambda>r. q_user_id r = uid \<and> Q r) (deduct_set a b c d)))"
    for e res Q a b c d
    using table f by (intro preserves_stmt)
  show "preserves I (CheckAndDeduct now uid n)"
    unfolding CheckAndDeduct_def AtomicDeductQuota_def Let_def
    by (intro preserves_then query) (auto intro: preserves_result d split: option.split)
  show "preserves I (RefundQuotaUsage now uid n)" "preserves I (AddTokenUsage uid n)"
    unfolding RefundQuotaUsage_def AddTokenUsage_def
    using assms by (auto intro!: preserves_result exec_quota simp: refund_set_def token_set_def)
qed

lemma request_cost_keeps:
  assumes "request_cost now uid db = (x, db')" "I db"
  shows "I db'"
proof -
  have f: "preserves I (GetFixedMultiplier uid)" "preserves I FindAllEnabled"
    unfolding GetFixedMultiplier_def FindAllEnabled_def by (auto intro!: query)
  show ?thesis
    using assms preservesD [OF f(1)] preservesD [OF f(2)]
    by (auto simp: request_cost_def GetEffectiveMultiplier_def Let_def split: prod.splits sum.splits option.splits)
qed

lemma call_log_user [simp]: "cl_user_id (call_log uid m p n x s t e) = uid"
  by (simp add: call_log_def)

lemma with_tokens_user [simp]: "cl_user_id (with_tokens u l) = cl_user_id l"
  by (simp add: with_tokens_def split: prod.split)

lemma reject_keeps:
  assumes "which uid" "I db"
  shows "I (snd (reject_quota en uid m p n x db))" "I (snd (chat_reject en uid m p n x db))"
  unfolding reject_quota_def chat_reject_def Let_def
  using assms
  by (auto split: prod.splits sum.splits option.splits dest: preservesD [OF lookups(2)] intro!: log_call_keeps)

lemma refund_keeps: "which uid \<Longrightarrow> I db \<Longrightarrow> I (log_err (RefundQuotaUsage now uid n) db)"
  by (rule preserves_log [OF usage_ops(2)])

lemma account_keeps: "which uid \<Longrightarrow> which (cl_user_id l) \<Longrightarrow> I db \<Longrightarrow> I (account en uid u x l db)"
  unfolding account_def by (auto split: prod.split intro!: preserves_log [OF usage_ops(3)] log_call_keeps)

lemma forward_keeps: "which uid \<Longrightarrow> I db \<Longrightarrow> I (snd (forward en uid r sp b pr n x db))"
  unfolding forward_def Let_def
  by (auto split: option.split sum.split prod.split intro!: log_call_keeps refund_keeps)

lemma sync_keeps: "which uid \<Longrightarrow> I db \<Longrightarrow> I (snd (handleSync en re uid b m rm p e k n x db))"
  unfolding handleSync_def Let_def
  by (auto split: option.split sum.split intro!: log_call_keeps refund_keeps account_keeps)

lemma stream_keeps: "which uid \<Longrightarrow> I db \<Longrightarrow> I (snd (handleStream en f g uid b m rm p e k n x db))"
  unfolding handleStream_def Let_def
  by (auto split: option.split sum.split prod.split intro!: log_call_keeps refund_keeps account_keeps)

lemma passthrough_admitted_keeps:
  assumes "which (GetUserID c)" "I db"
  shows "I (snd (serve_admitted pc en t c r db))"
  using assms
  by (auto simp: serve_admitted_def Let_def split: sum.split prod.split bool.split
      intro!: reject_keeps forward_keeps dest: request_cost_keeps preservesD [OF usage_ops(1)])

lemma chat_forward_keeps:
  assumes "which (GetUserID c)" "I db"
  shows "I (snd (chat_forward cc ce t c b q db))"
  using assms
  by (auto simp: chat_forward_def Let_def split: sum.split prod.split bool.split option.split
      intro!: reject_keeps sync_keeps stream_keeps dest: request_cost_keeps preservesD [OF usage_ops(1)])

lemma passthrough_keeps:
  "which (GetUserID c) \<Longrightarrow> I (gw_db g) \<Longrightarrow> I (gw_db (snd (ServePassthrough pc en c r g)))"
  using passthrough_admitted_keeps [of c "gw_db g" pc en "gw_table g" r]
  by (auto simp: ServePassthrough_def Let_def split: prod.split bool.split)

lemma chat_keeps:
  assumes "which (GetUserID c)" "I (gw_db g)"
  shows "I (gw_db (snd (ServeChat cc ce c r g)))"
proof -
  have "I (snd (chat_admitted cc ce (gw_table g) c r (gw_db g)))"
    using assms by (auto simp: chat_admitted_def split: sum.split option.split intro: chat_forward_keeps)
  then show ?thesis
    using assms by (auto simp: ServeChat_def Let_def split: prod.split bool.split intro!: log_call_keeps)
qed

end

section \<open>The other endpoints\<close>

context table_invariant
begin

lemma key_check: "keeps I (check_sub_key cr now h)"
proof -
  have "preserves I (GetUserBySubKeyHash x)" for x unfolding GetUserBySubKeyHash_def by (rule query)
  then show ?thesis
    by (auto simp: keeps_def check_sub_key_def Let_def split: prod.split sum.split option.split dest: preservesD)
qed

lemma quota_endpoint: "keeps I (ServeQuota h now m c)"
proof -
  have "I (snd (sum_or_zero uid since db))" if "I db" for uid since db
    using that by (auto simp: sum_or_zero_def sumMultipliedTokens_def split: prod.split sum.split dest: preservesD [OF query])
  moreover have "I (snd (GetUserByID uid db))" "I (snd (GetQuota uid db))" if "I db" for uid db
    using that lookups(1,2) by (simp_all add: preserves_def)
  ultimately show ?thesis
    by (simp add: keeps_def ServeQuota_def Let_def split_beta split: sum.split option.split)
qed

lemma calls_endpoint: "keeps I (ServeCalls c q)"
  by (auto simp: keeps_def ServeCalls_def Let_def split: prod.split sum.split dest: preservesD [OF lookups(4)])

end

section \<open>The whole gateway\<close>

locale process_invariant = panel_invariant +
  assumes logs: "preserves I (InsertCallLog now l)"

sublocale process_invariant \<subseteq> served_invariant I "\<lambda>_. True"
  by unfold_locales (rule logs)

lemma keeps_admin_page [simp]: "keeps_admin I (page r)"
  by (simp add: keeps_admin_def page_def)

lemma keeps_admin_if: "keeps_admin I a \<Longrightarrow> keeps_admin I b \<Longrightarrow> keeps_admin I (if c then a else b)"
  by simp

lemma keeps_answered: "keeps I h \<Longrightarrow> keeps I (answered h)"
  by (simp add: keeps_def answered_def split_beta)

lemma keeps_recover: "keeps_admin I h \<Longrightarrow> keeps_admin I (recoverMiddleware h)"
  by (simp add: keeps_admin_def recoverMiddleware_def split_beta split: outcome.split)

context process_invariant
begin

lemma with_key_keeps: "(\<And>c. keeps_admin I (h c)) \<Longrightarrow> keeps_admin I (with_key sg ar rq h)"
  unfolding keeps_admin_def with_key_def
  by (auto split: prod.split sum.split dest: keepsD [OF key_check])

lemma proxy_keeps: "keeps_admin I (serve_chat sg ar rq c)" "keeps_admin I (serve_passthrough sg ar rq c)"
proof -
  have v: "gw_db (proxy_view a) = ad_db a" for a by (simp add: proxy_view_def)
  show "keeps_admin I (serve_chat sg ar rq c)" "keeps_admin I (serve_passthrough sg ar rq c)"
    using chat_keeps [OF TrueI, of "proxy_view _"] passthrough_keeps [OF TrueI, of "proxy_view _"]
    by (simp_all add: keeps_admin_def serve_chat_def serve_passthrough_def on_proxy_def v split_beta)
qed

lemma mux_of_gateway_keeps: "keeps_admin I (gateway_mux sg ar rq)"
  unfolding gateway_mux_def Let_def serve_quota_def serve_calls_def
  by (cases "endpoint_of (hr_path rq)")
    (auto intro!: keeps_admin_if with_key_keeps proxy_keeps keeps_on_db keeps_answered quota_endpoint calls_endpoint serve_keeps)

lemma gateway_keeps: "keeps_admin I (serve_gateway sg ar rq)"
  unfolding serve_gateway_def by (rule keeps_recover [OF mux_of_gateway_keeps])

lemma tick_keeps: "I db \<Longrightarrow> I (tryReset h now db)"
  unfolding tryReset_def Reset5hQuota_def
  by (simp, intro impI preserves_log [OF exec_quota]) (simp_all add: reset5h_set_def)

lemma compensate_keeps: "I db \<Longrightarrow> I (compensate h now db)"
  unfolding compensate_def CompensateQuotaReset_def
  by (rule preserves_log [OF exec_quota]) (simp_all add: reset5h_set_def)

lemma event_keeps: "I (ad_db a) \<Longrightarrow> I (ad_db (handle_event sg e a))"
  using gateway_keeps by (cases e) (auto simp: keeps_admin_def tick_keeps)

lemma events_keep: "I (ad_db a) \<Longrightarrow> I (ad_db (run_events sg es a))"
  by (induction es arbitrary: a) (simp_all add: event_keeps)

end

section \<open>The invariants of the gateway\<close>

text \<open>The raw token sums depend on the call log alone, which only gains rows with their sum and loses the
  rows of deleted accounts.\<close>

lemma raw_settled_others [simp]:
  "raw_settled (db\<lparr>audit_logs := x1, audit_logs_seq := i\<rparr>) = raw_settled db"
  "raw_settled (db\<lparr>time_multipliers := x2\<rparr>) = raw_settled db"
  "raw_settled (db\<lparr>time_multipliers := x2, time_multipliers_seq := i\<rparr>) = raw_settled db"
  "raw_settled (db\<lparr>admin_sessions := x3\<rparr>) = raw_settled db"
  "raw_settled (db\<lparr>admin_sessions := x3, admin_sessions_seq := i\<rparr>) = raw_settled db"
  "raw_settled (db\<lparr>routing_rules := x4\<rparr>) = raw_settled db"
  "raw_settled (db\<lparr>routing_rules := x4, routing_rules_seq := i\<rparr>) = raw_settled db"
  "raw_settled (db\<lparr>providers := x5\<rparr>) = raw_settled db"
  "raw_settled (db\<lparr>providers := x5, providers_seq := i\<rparr>) = raw_settled db"
  "raw_settled (db\<lparr>model_mappings := x6\<rparr>) = raw_settled db"
  "raw_settled (db\<lparr>model_mappings := x6, model_mappings_seq := i\<rparr>) = raw_settled db"
  "raw_settled (set_users P f db) = raw_settled db" "raw_settled (set_quotas Q g db) = raw_settled db"
  by (simp_all add: raw_settled_def set_users_def set_quotas_def)

interpretation raw_rows: account_tables raw_settled
  by unfold_locales
    (auto intro: raw_settled_table simp: RegenerateUserKey_def elim!: run_stmt_cases
      dest: same_tables_select(3) simp: raw_settled_def set_users_def)

lemma create_user_raw: "preserves raw_settled (CreateUser now n)"
proof (rule preservesI)
  fix db r db'
  assume "CreateUser now n db = (r, db')" "raw_settled db"
  moreover have "raw_settled (after_create now n db) = raw_settled db" for db n
    by (simp add: after_create_def raw_settled_def Let_def)
  ultimately show "raw_settled db'"
    using raw_settled_table by (cases rule: create_user_cases) (auto simp: table_property_def)
qed

lemma delete_steps_raw: "keeps raw_settled (delete_steps i)"
proof -
  have "raw_settled db \<Longrightarrow> raw_settled (without_user uid db)" for uid db
    by (auto simp: raw_settled_def without_user_def delete_where_def)
  then have "preserves raw_settled (delete_user uid)" for uid
    unfolding delete_user_eq by (intro preserves_exec raw_settled_table)
  then show ?thesis unfolding delete_steps_def by (intro keeps_rules raw_rows.the_user_keeps)
qed

lemma logged_rows:
  "preserves (panel_ok A) (InsertCallLog now l)" "preserves (store_ok od) (InsertCallLog now l)"
  "preserves raw_settled (InsertCallLog now l)"
proof -
  note t = panel_ok_table store_ok_table raw_settled_table
  show "preserves (panel_ok A) (InsertCallLog now l)"
    unfolding InsertCallLog_def Let_def
    by (rule preserves_stmt [OF t(1)])
      (auto simp: panel_ok_def accounts_ok_def admins_def insert_row_def split: if_splits dest!: select_one_SomeD; metis image_eqI)
  show "preserves (store_ok od) (InsertCallLog now l)"
    unfolding InsertCallLog_def Let_def by (rule preserves_stmt [OF t(2)]) (simp add: store_ok_def)
  show "preserves raw_settled (InsertCallLog now l)"
    unfolding InsertCallLog_def Let_def
    by (rule preserves_stmt [OF t(3)]) (auto simp: raw_settled_def raw_missing_def insert_row_def)
qed

interpretation account_process: process_invariant "panel_ok A" for A
  by unfold_locales (rule logged_rows)

interpretation store_process: process_invariant "store_ok od" for od
  by unfold_locales (rule logged_rows)

interpretation raw_process: process_invariant raw_settled
  by unfold_locales (auto intro: create_user_raw delete_steps_raw raw_rows.provider_ops logged_rows)

definition process_ok :: "bool \<Rightarrow> (int \<times> string \<times> string) list \<Rightarrow> db \<Rightarrow> bool" where
  "process_ok od A db \<longleftrightarrow> panel_ok A db \<and> store_ok od db \<and> raw_settled db"

lemma events_keep_process: "process_ok od A (ad_db a) \<Longrightarrow> process_ok od A (ad_db (run_events sg es a))"
  by (simp add: process_ok_def account_process.events_keep store_process.events_keep raw_process.events_keep)

end
