(* ===== verification/GatewayProperties.thy ===== *)
theory GatewayProperties
  imports GatewayLaws ConcurrencyProperties AdminProperties ChatProperties
begin

text \<open>
  Properties of the gateway as a whole: what a request without a key can do, what a request of one key
  holder can touch, what becomes of a panic, and what every life of the process keeps.
\<close>

section \<open>Requests without a key\<close>

definition needs_key :: "http_request \<Rightarrow> bool" where
  "needs_key rq \<longleftrightarrow> endpoint_of (hr_path rq) \<in> {EChat, EQuota, ECalls, EPassthrough}"

text \<open>Outside the panel and behind no valid key.\<close>

definition lets_in :: "serving \<Rightarrow> arrival \<Rightarrow> http_request \<Rightarrow> db \<Rightarrow> bool" where
  "lets_in sg ar rq db \<longleftrightarrow> \<not> isl (fst (check_sub_key (pn_crypto (su_panel (sg_surroundings sg)))
     (mo_now (ar_moment ar)) (h_get ''Authorization'' (hr_headers rq)) db))"

lemma refused_status:
  "check_sub_key cr now h db = (Inl resp, db') \<Longrightarrow> rs_status resp \<in> {401, 403, 500}"
  by (auto simp: check_sub_key_def writeAuthError_def Let_def split: if_splits sum.splits option.splits prod.splits)

lemma refused_keeps: "check_sub_key cr now h db = (x, db') \<Longrightarrow> same_tables db db'"
  using unchanged.key_check [of db cr now h] by (auto dest: keepsD)

text \<open>
  Property C17.  A request to the API whose key does not pass the middleware reaches no handler: it changes
  no table and nothing else of the process, and is answered 401, 403, 405 or 500.
\<close>

theorem keyless_requests_have_no_effect:
  assumes "needs_key rq" "\<not> lets_in sg ar rq (ad_db a)" "serve_gateway sg ar rq a = (r, a')"
  shows "same_tables (ad_db a) (ad_db a') \<and> same_rest a a' \<and> ad_creds a' = ad_creds a \<and>
    (\<exists>resp. r = Answered resp \<and> rs_status resp \<in> {401, 403, 405, 500})"
proof -
  obtain resp db1 where k: "check_sub_key (pn_crypto (su_panel (sg_surroundings sg))) (mo_now (ar_moment ar))
      (h_get ''Authorization'' (hr_headers rq)) (ad_db a) = (Inl resp, db1)"
    using assms(2) unfolding lets_in_def isl_def
    by (metis obj_sumE prod.collapse)
  have w: "with_key sg ar rq h a = (Answered resp, a\<lparr>ad_db := db1\<rparr>)" for h
    by (simp add: with_key_def k)
  have "gateway_mux sg ar rq a = (Answered resp, a\<lparr>ad_db := db1\<rparr>) \<or>
      (\<exists>allow. gateway_mux sg ar rq a = (Answered (method_not_allowed allow), a))"
    using assms(1) w by (auto simp: needs_key_def gateway_mux_def page_def Let_def)
  then show ?thesis
    using assms(3) refused_status [OF k] refused_keeps [OF k]
    by (auto simp: serve_gateway_def recoverMiddleware_def same_rest_def method_not_allowed_def)
qed

section \<open>Requests of one account\<close>

text \<open>What belongs to other accounts, and the tables that belong to none.\<close>

definition others :: "int \<Rightarrow> db \<Rightarrow> User list \<times> quota_row list \<times> CallLog list \<times> ProviderRecord list \<times>
    ModelMappingRecord list \<times> RoutingRule list \<times> TimeMultiplier list \<times> AdminSession list" where
  "others uid db = (filter (\<lambda>u. u_id u \<noteq> uid) (users db), filter (\<lambda>q. q_user_id q \<noteq> uid) (quotas db),
     filter (\<lambda>l. cl_user_id l \<noteq> uid) (call_logs db), providers db, model_mappings db, routing_rules db,
     time_multipliers db, admin_sessions db)"

lemma filter_update:
  "(\<And>r. P r \<Longrightarrow> k r = i) \<Longrightarrow> (\<And>r. k (f r) = k r) \<Longrightarrow>
    filter (\<lambda>r. k r \<noteq> i) (update_where P f rs) = filter (\<lambda>r. k r \<noteq> i) rs"
  by (induction rs) auto

lemma others_table: "table_property (\<lambda>db. others uid db = X)"
  by (auto simp: table_property_def others_def same_tables_select)

lemma others_users: "(\<And>u. P u \<Longrightarrow> uid = u_id u) \<Longrightarrow> (\<And>u. u_id (f u) = u_id u) \<Longrightarrow> others uid (set_users P f db) = others uid db"
  by (simp add: others_def set_users_def filter_update [where k = u_id])

lemma others_quotas: "(\<And>r. P r \<Longrightarrow> uid = q_user_id r) \<Longrightarrow> (\<And>r. q_user_id (f r) = q_user_id r) \<Longrightarrow>
    others uid (set_quotas P f db) = others uid db"
  by (simp add: others_def set_quotas_def filter_update [where k = q_user_id])

interpretation elsewhere: served_invariant "\<lambda>db. others uid db = X" "(=) uid" for uid X
proof unfold_locales
  show "table_property (\<lambda>db. others uid db = X)" by (rule others_table)
next
  fix u db now h p r db'
  assume "uid = u" "others uid db = X" "RegenerateUserKey now u h p db = (r, db')"
  then show "others uid db' = X"
    using others_table [of uid X] others_users [of "with_id u" uid] unfolding RegenerateUserKey_def
    by (elim run_stmt_cases) (auto simp: table_property_def)
next
  fix l :: CallLog and now
  assume "uid = cl_user_id l"
  then show "preserves (\<lambda>db. others uid db = X) (InsertCallLog now l)"
    unfolding InsertCallLog_def Let_def
    by (intro preserves_stmt others_table) (auto simp: others_def insert_row_def)
qed (auto simp: others_users others_quotas, simp_all add: others_def)


lemma counters_elsewhere:
  "v \<noteq> uid \<Longrightarrow> map_of (snd (tryAcquireConcurrency uid n cs)) v = map_of cs v"
  "v \<noteq> uid \<Longrightarrow> map_of (releaseConcurrency uid cs) v = map_of cs v"
  by (auto simp: tryAcquireConcurrency_def releaseConcurrency_def Let_def split: option.split)

lemma proxy_counters:
  assumes "v \<noteq> GetUserID c"
  shows "map_of (gw_counters (snd (ServeChat cc ce c r g))) v = map_of (gw_counters g) v"
    "map_of (gw_counters (snd (ServePassthrough pc en c r g))) v = map_of (gw_counters g) v"
  using counters_elsewhere(1) [OF assms, of "GetMaxConcurrency c" "gw_counters g"] counters_elsewhere(2) [OF assms]
  by (auto simp: ServeChat_def ServePassthrough_def Let_def split: prod.splits bool.splits)

lemma proxy_table:
  "gw_table (snd (ServeChat cc ce c r g)) = gw_table g" "gw_table (snd (ServePassthrough pc en c r g)) = gw_table g"
  by (auto simp: ServeChat_def ServePassthrough_def Let_def split: prod.splits bool.splits)

definition apart_from :: "int \<Rightarrow> admin \<Rightarrow> admin \<Rightarrow> bool" where
  "apart_from uid a b \<longleftrightarrow> others uid (ad_db b) = others uid (ad_db a) \<and> ad_table b = ad_table a \<and>
     ad_creds b = ad_creds a \<and> ad_file b = ad_file a \<and>
     (\<forall>v. v \<noteq> uid \<longrightarrow> map_of (ad_counters b) v = map_of (ad_counters a) v)"

lemma apart_proxy:
  "apart_from (GetUserID c) a (snd (serve_chat sg ar rq c a))"
  "apart_from (GetUserID c) a (snd (serve_passthrough sg ar rq c a))"
  using elsewhere.chat_keeps [OF refl, where g = "proxy_view a" and c = c] elsewhere.passthrough_keeps [OF refl, where g = "proxy_view a" and c = c]
  by (auto simp: apart_from_def serve_chat_def serve_passthrough_def on_proxy_def proxy_counters proxy_table split_beta)
    (auto simp: proxy_view_def)

lemma apart_reads:
  "apart_from uid a (snd (serve_quota sg ar rq c a))" "apart_from uid a (snd (serve_calls rq c a))"
proof -
  have d: "apart_from uid a (snd (on_db h a))" if "\<And>X. keeps (\<lambda>db. others uid db = X) h" for h
    using that [of "others uid (ad_db a)"] by (auto simp: apart_from_def on_db_def keeps_def split_beta)
  show "apart_from uid a (snd (serve_quota sg ar rq c a))" "apart_from uid a (snd (serve_calls rq c a))"
    unfolding serve_quota_def serve_calls_def
    by (intro d keeps_answered elsewhere.quota_endpoint elsewhere.calls_endpoint)+
qed

text \<open>
  Property C6.  A request to the API changes, beside the log of its own calls, only rows of the account its
  key belongs to: the accounts, quota rows and logged calls of all others, the providers, mappings, rules,
  multipliers and sessions, the router's snapshot and the counters of the others stay as they are, whatever
  the upstream does and whatever fails.
\<close>

theorem key_holders_touch_one_account:
  assumes "needs_key rq"
    and k: "check_sub_key (pn_crypto (su_panel (sg_surroundings sg))) (mo_now (ar_moment ar))
      (h_get ''Authorization'' (hr_headers rq)) (ad_db a) = (Inr c, db1)"
    and "serve_gateway sg ar rq a = (r, a')"
  shows "apart_from (GetUserID c) a a'"
proof -
  let ?a = "a\<lparr>ad_db := db1\<rparr>"
  have s: "apart_from (GetUserID c) a ?a" if "same_tables (ad_db a) db1"
    using that same_tables_select [OF that] by (simp add: apart_from_def others_def)
  have t: "apart_from uid x z" if "apart_from uid x y" "apart_from uid y z" for uid x y z
    using that by (simp add: apart_from_def)
  have w: "with_key sg ar rq h a = h c ?a" for h by (simp add: with_key_def k)
  have "apart_from (GetUserID c) a (snd (gateway_mux sg ar rq a))"
    using assms(1) t [OF s [OF refused_keeps [OF k]] apart_proxy(1)] t [OF s [OF refused_keeps [OF k]] apart_proxy(2)]
      t [OF s [OF refused_keeps [OF k]] apart_reads(1)] t [OF s [OF refused_keeps [OF k]] apart_reads(2)]
    by (auto simp: needs_key_def gateway_mux_def page_def w Let_def apart_from_def)
  moreover have "a' = snd (gateway_mux sg ar rq a)"
    using assms(3) by (auto simp: serve_gateway_def recoverMiddleware_def split: prod.splits outcome.splits)
  ultimately show ?thesis by simp
qed

section \<open>Requests about one account\<close>

definition about_account :: "admin_request \<Rightarrow> string \<Rightarrow> bool" where
  "about_account rq i \<longleftrightarrow> route_of (admin_request.rq_path rq) \<in> {RUser i, RUserCalls i, RExtend i, RReset i, RWeekStart i}"

lemma delete_elsewhere:
  assumes "parse_int64 i = Some uid"
  shows "keeps (\<lambda>db. others uid db = X) (delete_steps i)"
proof -
  have "others uid (without_user uid db) = others uid db" for db
    by (simp add: others_def without_user_def delete_where_def)
  then have "preserves (\<lambda>db. others uid db = X) (delete_user uid)"
    unfolding delete_user_eq by (intro preserves_exec others_table) simp
  then show ?thesis
    unfolding delete_steps_def
    by (intro keeps_path keeps_rules elsewhere.the_user_keeps) (use assms in auto)
qed

lemma delete_handler_elsewhere:
  assumes "parse_int64 i = Some uid"
  shows "keeps_admin (\<lambda>db. others uid db = X) (on_counters (HandleDeleteUser i))"
  using delete_elsewhere [OF assms, of X]
  by (auto simp: keeps_admin_def on_counters_def HandleDeleteUser_def split: prod.split sum.split dest: keepsD)

lemma account_mux:
  assumes "about_account rq i" "parse_int64 i = Some uid"
  shows "keeps_admin (\<lambda>db. others uid db = X) (admin_mux su mo rq)"
proof -
  have u: "\<And>uid'. parse_int64 i = Some uid' \<Longrightarrow> uid = uid'" using assms(2) by simp
  let ?I = "\<lambda>db. others uid db = X"
  have f: "keeps_admin ?I (on_db (HandleUpdateUser pn mo i b1))" "keeps_admin ?I (on_db (HandleExtendUser mo i b2))"
    "keeps_admin ?I (on_db (HandleResetUsage mo i q))" "keeps_admin ?I (on_db (HandleSetUserWeekStart mo i b3))"
    for pn mo b1 b2 b3 q
    by (intro keeps_on_db elsewhere.update_user elsewhere.extend_user elsewhere.reset_usage elsewhere.week_start u; simp)+
  have "keeps_admin ?I h" if "change_handler su mo rq = Some h" for h
    using that assms(1) f delete_handler_elsewhere [OF assms(2)]
    unfolding about_account_def change_handler_def Let_def
    by (elim insertE emptyE) (simp_all split: if_splits, blast+)
  then show ?thesis
    unfolding admin_mux_def
    by (auto split: option.split intro: elsewhere.read_handler_keeps keeps_page)
qed

text \<open>
  Property C37.  A panel request about one account (changing, extending, resetting or deleting it, moving its
  weekly anchor, or reading its calls) leaves the accounts, quota rows and logged calls of all others, the
  providers, mappings, rules, multipliers and sessions as they are, whatever its body and whatever fails.
\<close>

theorem panel_requests_touch_one_account:
  assumes "about_account rq i" "parse_int64 i = Some uid" "serve_admin su mo rq a = (r, a')"
  shows "others uid (ad_db a') = others uid (ad_db a)"
proof -
  let ?I = "\<lambda>db. others uid db = others uid (ad_db a)"
  have p: "admin_request.rq_path rq \<noteq> []" "admin_request.rq_path rq \<noteq> [''login'']"
    "admin_request.rq_path rq \<noteq> [''api'', ''login'']" "admin_request.rq_path rq \<noteq> [''logout'']"
    using assms(1) by (auto simp: about_account_def)
  then have "serve_admin su mo rq a = auth_handler su mo rq a"
    by (simp add: serve_admin_def is_login_def is_logout_def)
  moreover have "?I (ad_db (snd (auth_handler su mo rq a)))"
  proof -
    let ?check = "if below ''api'' (admin_request.rq_path rq) then check_api_session (mo_now mo) (rq_cookie rq)
      else check_page_session (mo_now mo) (rq_cookie rq) (rq_secure rq)"
    obtain x db1 where c: "?check (ad_db a) = (x, db1)" by fastforce
    have "keeps ?I ?check" by (simp add: elsewhere.session_checks)
    from keepsD [OF this c] have "?I db1" by simp
    then show ?thesis
      using account_mux [OF assms(1,2), of "others uid (ad_db a)" su mo] c
      by (simp add: auth_handler_def keeps_admin_def split: sum.split if_splits)
  qed
  ultimately show ?thesis using assms(3) by (metis snd_conv)
qed

section \<open>Panics\<close>

text \<open>
  Property C38.  The body \<open>null\<close> panics in the chat handler once a target is found, and the gateway turns the
  panic into a 500: nothing is charged or logged, no table changes, and a capped account has its slot back.
\<close>

theorem null_request_is_answered_500:
  assumes rq: "endpoint_of (hr_path rq) = EChat" "hr_method rq = ''POST''"
    and k: "check_sub_key (pn_crypto (su_panel (sg_surroundings sg))) (mo_now (ar_moment ar))
      (h_get ''Authorization'' (hr_headers rq)) (ad_db a) = (Inr c, db1)"
    and "GetUserID c \<noteq> 0" "fst (tryAcquireConcurrency (GetUserID c) (GetMaxConcurrency c) (ad_counters a))"
    and "chat_read (chat_handler sg a) c (proxy_request rq) = Inr ''null''"
    and "chat_target (chat_handler sg a) (arrival_env ar) (ad_table a) c = Inr tgt"
    and g: "serve_gateway sg ar rq a = (r, a')"
  shows "r = Answered writeFatalError \<and> same_tables (ad_db a) (ad_db a') \<and> ad_table a' = ad_table a \<and>
    (0 < GetMaxConcurrency c \<longrightarrow> (\<forall>v. in_flight v (ad_counters a') = in_flight v (ad_counters a)))"
proof -
  let ?a = "a\<lparr>ad_db := db1\<rparr>" and ?ce = "(ar_chat ar)\<lparr>ce_env := arrival_env ar\<rparr>"
  have v: "gw_counters (proxy_view ?a) = ad_counters a" "gw_table (proxy_view ?a) = ad_table a"
    "gw_db (proxy_view ?a) = db1" "chat_handler sg ?a = chat_handler sg a"
    by (simp_all add: proxy_view_def chat_handler_def)
  obtain st where s: "ServeChat (chat_handler sg a) ?ce c (proxy_request rq) (proxy_view ?a)
        = (Panicked, (proxy_view ?a)\<lparr>gw_counters := st\<rparr>)"
      "0 < GetMaxConcurrency c \<longrightarrow> (\<forall>v. in_flight v st = in_flight v (ad_counters a))"
    using null_body_panics [of c "proxy_view ?a" "chat_handler sg a" "proxy_request rq" ?ce tgt] assms(4-7) v
    by auto
  have "gateway_mux sg ar rq a = (Panicked, ?a\<lparr>ad_counters := st\<rparr>)"
    using rq s(1) by (simp add: gateway_mux_def with_key_def k serve_chat_def on_proxy_def v proxy_view_def)
  then show ?thesis
    using g s(2) refused_keeps [OF k] by (auto simp: serve_gateway_def recoverMiddleware_def)
qed

section \<open>Witnesses\<close>

definition sample_serving :: serving where
  "sample_serving = \<lparr>sg_surroundings = sample_surroundings, sg_reset_interval = 5, sg_passthrough_enabled = True,
     sg_compaction = ''trim'', sg_user_files = (\<lambda>_. blank_page)\<rparr>"

definition sample_arrival :: arrival where
  "sample_arrival = \<lparr>ar_moment = sample_moment, ar_chat = toy_ce (\<lambda>_. Inl ''refused'')\<rparr>"

definition sample_http :: "string \<Rightarrow> string \<Rightarrow> string \<Rightarrow> string \<Rightarrow> http_request" where
  "sample_http m path key b = \<lparr>hr_method = m, hr_path = path, hr_raw_query = '''', hr_query = [],
     hr_headers = h_set ''Authorization'' (''Bearer '' @ key) [], hr_content_length = int (length b), hr_body = Some b,
     hr_cookie = None, hr_secure = False\<rparr>"

text \<open>An account with the key \<open>sk-1\<close>, its quota row, and one provider in the snapshot.\<close>

definition keyed_admin :: admin where
  "keyed_admin = (sample_admin (sample_accounts\<lparr>quotas := [quota_row_new sample_new (noon 1) 1 1], quotas_seq := 1\<rparr>))
     \<lparr>ad_table := gw_table toy_gateway\<rparr>"

lemma sample_key:
  "check_sub_key (pn_crypto (su_panel (sg_surroundings sample_serving))) (mo_now (ar_moment sample_arrival))
     (h_get ''Authorization'' (hr_headers (sample_http m p ''sk-1'' b))) (ad_db keyed_admin)
   = (Inr (user_ctx sample_user), ad_db keyed_admin)"
proof -
  let ?db = "ad_db keyed_admin"
  have d: "healthy ?db" "users ?db = [sample_user]" "hashes_wf (users ?db)"
    by (simp_all add: keyed_admin_def sample_admin_def)
  have h: "h_get ''Authorization'' (hr_headers (sample_http m p ''sk-1'' b)) = ''Bearer sk-1''"
    by (simp add: sample_http_def) code_simp
  have e: "pn_crypto (su_panel (sg_surroundings sample_serving)) = toy_crypto" "mo_now (ar_moment sample_arrival) = noon 2"
    by (simp_all add: sample_serving_def sample_surroundings_def sample_panel_def sample_arrival_def sample_moment_def)
  show ?thesis unfolding h e
    by (rule iffD2 [OF check_sub_key_iff [OF d(1,3)]], rule conjI [OF refl], intro exI [of _ "''sk-1''"] exI [of _ sample_user])
      (simp add: d sample_user_usable)
qed

lemma keyless_requests_have_no_effect_witness:
  "\<exists>resp a'. serve_gateway sample_serving sample_arrival (sample_http ''POST'' ''/v1/chat/completions'' ''nothing'' ''{}'')
      keyed_admin = (Answered resp, a') \<and> users (ad_db a') = [sample_user] \<and> rs_status resp \<in> {401, 403, 405, 500}"
proof -
  let ?rq = "sample_http ''POST'' ''/v1/chat/completions'' ''nothing'' ''{}''"
  have "needs_key ?rq" by (simp add: needs_key_def endpoint_of_def sample_http_def)
  moreover have "\<not> lets_in sample_serving sample_arrival ?rq (ad_db keyed_admin)" by code_simp
  ultimately show ?thesis
    using keyless_requests_have_no_effect [of ?rq sample_serving sample_arrival keyed_admin]
    by (cases "serve_gateway sample_serving sample_arrival ?rq keyed_admin")
      (auto simp: same_tables_select keyed_admin_def sample_admin_def)
qed

lemma key_holders_touch_one_account_witness:
  "others 1 (ad_db (snd (serve_gateway sample_serving sample_arrival
      (sample_http ''POST'' ''/v1/passthrough/mcp'' ''sk-1'' ''{}'') keyed_admin))) = others 1 (ad_db keyed_admin)"
proof -
  let ?rq = "sample_http ''POST'' ''/v1/passthrough/mcp'' ''sk-1'' ''{}''"
  have "needs_key ?rq" by (simp add: needs_key_def endpoint_of_def sample_http_def has_prefix_def)
  from key_holders_touch_one_account [OF this sample_key prod.collapse [symmetric]]
  show ?thesis by (simp add: apart_from_def user_ctx_def GetUserID_def value_or_def)
qed

lemma panel_requests_touch_one_account_witness:
  "others 2 (ad_db (snd (serve_admin sample_surroundings sample_moment
      (sample_request ''DELETE'' [''api'', ''users'', ''2''] '''') keyed_admin))) = others 2 (ad_db keyed_admin)"
proof -
  have "about_account (sample_request ''DELETE'' [''api'', ''users'', ''2''] '''') ''2''"
    by (simp add: about_account_def sample_request_def segment_def)
  moreover have "parse_int64 ''2'' = Some 2" by code_simp
  ultimately show ?thesis by (rule panel_requests_touch_one_account) (rule prod.collapse [symmetric])
qed

lemma null_request_is_answered_500_witness:
  "fst (serve_gateway sample_serving sample_arrival (sample_http ''POST'' ''/v1/chat/completions'' ''sk-1'' ''null'')
      keyed_admin) = Answered writeFatalError"
proof -
  let ?rq = "sample_http ''POST'' ''/v1/chat/completions'' ''sk-1'' ''null''" and ?c = "user_ctx sample_user"
  have rq: "endpoint_of (hr_path ?rq) = EChat" "hr_method ?rq = ''POST''"
    by (simp_all add: sample_http_def endpoint_of_def)
  have u: "GetUserID ?c = 1" "GetMaxConcurrency ?c = 2" "GetRouteMode ?c = ''auto''"
    by (simp_all add: user_ctx_def GetUserID_def GetMaxConcurrency_def GetRouteMode_def value_or_def)
      (simp_all add: sample_user_def user_row_def sample_new_def)
  then have c: "GetUserID ?c \<noteq> 0" "fst (tryAcquireConcurrency (GetUserID ?c) (GetMaxConcurrency ?c) (ad_counters keyed_admin))"
    "chat_read (chat_handler sample_serving keyed_admin) ?c (proxy_request ?rq) = Inr ''null''"
    by (simp_all add: tryAcquireConcurrency_def keyed_admin_def sample_admin_def chat_read_def chat_handler_def
        sample_serving_def proxy_request_def sample_http_def MaxBodySizeCeiling_def)
  have "\<not> isl (chat_target (chat_handler sample_serving keyed_admin) (arrival_env sample_arrival) (ad_table keyed_admin) ?c)"
    by (simp add: chat_target_def chat_handler_def u(3) split: sum.split)
  then obtain tgt where "chat_target (chat_handler sample_serving keyed_admin) (arrival_env sample_arrival) (ad_table keyed_admin) ?c = Inr tgt"
    by (cases "chat_target (chat_handler sample_serving keyed_admin) (arrival_env sample_arrival) (ad_table keyed_admin) ?c") auto
  from null_request_is_answered_500 [OF rq sample_key c this prod.collapse [symmetric]] show ?thesis by simp
qed

end
