(* ===== verification/StartupProperties.thy ===== *)
theory StartupProperties
  imports GatewayProperties
begin

text \<open>
  Properties of the life of the process: what start-up makes of the files it finds, what holds after any
  events, what a restart finds, and what the password switch does.
\<close>

section \<open>From the first start\<close>

definition no_rows :: "string \<Rightarrow> db \<Rightarrow> bool" where
  "no_rows t db \<longleftrightarrow> (t = ''users'' \<longrightarrow> users db = []) \<and> (t = ''quotas'' \<longrightarrow> quotas db = []) \<and>
     (t = ''call_logs'' \<longrightarrow> call_logs db = []) \<and> (t = ''providers'' \<longrightarrow> providers db = []) \<and>
     (t = ''model_mappings'' \<longrightarrow> model_mappings db = [])"

definition tidy_file :: "dbfile \<Rightarrow> bool" where
  "tidy_file fi \<longleftrightarrow> (\<forall>t. \<not> has_table fi t \<longrightarrow> no_rows t (fl_db fi))"

definition sound_rows :: "bool \<Rightarrow> string set \<Rightarrow> (int \<times> string \<times> string) list \<Rightarrow> db \<Rightarrow> bool" where
  "sound_rows od T A db \<longleftrightarrow> panel_ok A db \<and> store_ok od db \<and> (\<forall>t \<in> T. no_rows t db)"

lemma sound_rows_table: "table_property (sound_rows od T A)"
  using panel_ok_table [of A] store_ok_table
  by (simp add: table_property_def sound_rows_def no_rows_def same_tables_select)

lemma on_users_set: "on_users f = set_users (\<lambda>_. True) f" and on_quotas_set: "on_quotas g = set_quotas (\<lambda>_. True) g"
  by (simp_all add: fun_eq_iff on_users_def set_users_def on_quotas_def set_quotas_def update_where_def)

lemma no_rows_on [simp]:
  "no_rows t (on_users f db) = no_rows t db" "no_rows t (on_quotas g db) = no_rows t db"
  "no_rows t (on_calls h db) = no_rows t db" "no_rows t (on_rules r db) = no_rows t db"
  "no_rows t (on_providers p db) = no_rows t db"
  by (simp_all add: no_rows_def on_defs)

lemma sound_on_users:
  "(\<And>u. u_id (f u) = u_id u \<and> u_username (f u) = u_username u \<and> u_sub_key_hash (f u) = u_sub_key_hash u \<and>
      u_role (f u) = u_role u \<and> u_password_hash (f u) = u_password_hash u) \<Longrightarrow>
    sound_rows od T A (on_users f db) = sound_rows od T A db"
  using accounts.users [where P = "\<lambda>_. True" and f = f and A = A] store.users [where P = "\<lambda>_. True" and f = f]
  by (simp add: sound_rows_def) (simp add: on_users_set)

lemma sound_on_quotas:
  "(\<And>r. q_user_id (f r) = q_user_id r) \<Longrightarrow> sound_rows od T A (on_quotas f db) = sound_rows od T A db"
  using accounts.quotas [where Q = "\<lambda>_. True" and g = f and A = A] store.quotas [where Q = "\<lambda>_. True" and g = f]
  by (simp add: sound_rows_def) (simp add: on_quotas_set)

lemma sound_on_calls:
  "(\<And>l. cl_user_id (f l) = cl_user_id l) \<Longrightarrow> sound_rows od T A (on_calls f db) = sound_rows od T A db"
  by (simp add: sound_rows_def) (simp add: on_calls_def panel_ok_def accounts_ok_def admins_def store_ok_def image_image)

lemma sound_on_rules: "sound_rows od T A (on_rules f db) = sound_rows od T A db"
  by (simp add: sound_rows_def) (simp add: on_rules_def store_ok_def)

lemma sound_on_providers:
  "(\<And>p. p_slug (f p) = p_slug p \<and> p_is_default (f p) = p_is_default p) \<Longrightarrow>
    sound_rows od T A (on_providers f db) = sound_rows od T A db"
  by (simp add: sound_rows_def) (simp add: on_providers_def store_ok_def providers_wf_def one_default_def image_image filter_map o_def)

lemmas sound_on = sound_on_users sound_on_quotas sound_on_calls sound_on_rules sound_on_providers

lemma no_rows_wiped:
  "no_rows t db \<Longrightarrow> no_rows t (db\<lparr>users := [], users_seq := 0\<rparr>)"
  "no_rows t db \<Longrightarrow> no_rows t (db\<lparr>quotas := [], quotas_seq := 0\<rparr>)"
  "no_rows t db \<Longrightarrow> no_rows t (db\<lparr>call_logs := [], call_logs_seq := 0\<rparr>)"
  "no_rows t db \<Longrightarrow> no_rows t (db\<lparr>providers := [], providers_seq := 0\<rparr>)"
  "no_rows t db \<Longrightarrow> no_rows t (db\<lparr>model_mappings := [], model_mappings_seq := 0\<rparr>)"
  "no_rows t db \<Longrightarrow> no_rows t (db\<lparr>admin_sessions := [], admin_sessions_seq := 0\<rparr>)"
  "no_rows t db \<Longrightarrow> no_rows t (db\<lparr>time_multipliers := [], time_multipliers_seq := 0\<rparr>)"
  "no_rows t db \<Longrightarrow> no_rows t (db\<lparr>routing_rules := [], routing_rules_seq := 0\<rparr>)"
  "no_rows t db \<Longrightarrow> no_rows t (db\<lparr>audit_logs := [], audit_logs_seq := 0\<rparr>)"
  by (simp_all add: no_rows_def)

lemma panel_wiped:
  "panel_ok A db \<Longrightarrow> no_rows ''users'' db \<Longrightarrow> panel_ok A (db\<lparr>users := [], users_seq := 0\<rparr>)"
  "panel_ok A db \<Longrightarrow> no_rows ''quotas'' db \<Longrightarrow> panel_ok A (db\<lparr>quotas := [], quotas_seq := 0\<rparr>)"
  "panel_ok A db \<Longrightarrow> no_rows ''call_logs'' db \<Longrightarrow> panel_ok A (db\<lparr>call_logs := [], call_logs_seq := 0\<rparr>)"
  by (auto simp: no_rows_def panel_ok_def accounts_ok_def admins_def users_wf_def names_wf_def hashes_wf_def)

lemma store_wiped:
  "store_ok od db \<Longrightarrow> no_rows ''providers'' db \<Longrightarrow> store_ok od (db\<lparr>providers := [], providers_seq := 0\<rparr>)"
  "store_ok od db \<Longrightarrow> no_rows ''model_mappings'' db \<Longrightarrow> store_ok od (db\<lparr>model_mappings := [], model_mappings_seq := 0\<rparr>)"
  "store_ok od db \<Longrightarrow> store_ok od (db\<lparr>users := [], users_seq := 0\<rparr>)"
  "store_ok od db \<Longrightarrow> store_ok od (db\<lparr>quotas := [], quotas_seq := 0\<rparr>)"
  "store_ok od db \<Longrightarrow> store_ok od (db\<lparr>call_logs := [], call_logs_seq := 0\<rparr>)"
  "store_ok od db \<Longrightarrow> store_ok od (db\<lparr>routing_rules := [], routing_rules_seq := 0\<rparr>)"
  by (auto simp: no_rows_def store_ok_def mappings_wf_def)

lemma sound_wipes:
  "sound_rows od T A db \<Longrightarrow> ''users'' \<in> T \<Longrightarrow> sound_rows od T A (db\<lparr>users := [], users_seq := 0\<rparr>)"
  "sound_rows od T A db \<Longrightarrow> ''quotas'' \<in> T \<Longrightarrow> sound_rows od T A (db\<lparr>quotas := [], quotas_seq := 0\<rparr>)"
  "sound_rows od T A db \<Longrightarrow> ''call_logs'' \<in> T \<Longrightarrow> sound_rows od T A (db\<lparr>call_logs := [], call_logs_seq := 0\<rparr>)"
  "sound_rows od T A db \<Longrightarrow> ''providers'' \<in> T \<Longrightarrow> sound_rows od T A (db\<lparr>providers := [], providers_seq := 0\<rparr>)"
  "sound_rows od T A db \<Longrightarrow> ''model_mappings'' \<in> T \<Longrightarrow> sound_rows od T A (db\<lparr>model_mappings := [], model_mappings_seq := 0\<rparr>)"
  "sound_rows od T A db \<Longrightarrow> sound_rows od T A (db\<lparr>admin_sessions := [], admin_sessions_seq := 0\<rparr>)"
  "sound_rows od T A db \<Longrightarrow> sound_rows od T A (db\<lparr>time_multipliers := [], time_multipliers_seq := 0\<rparr>)"
  "sound_rows od T A db \<Longrightarrow> sound_rows od T A (db\<lparr>routing_rules := [], routing_rules_seq := 0\<rparr>)"
  "sound_rows od T A db \<Longrightarrow> sound_rows od T A (db\<lparr>audit_logs := [], audit_logs_seq := 0\<rparr>)"
  by (simp_all add: sound_rows_def no_rows_wiped panel_wiped store_wiped)

lemma sound_script:
  "\<forall>m \<in> set (migrations now date_of). idle m fi \<or> stable (sound_rows od {t. \<not> has_table fi t} A) m"
proof -
  have "idle m fi \<or> stable (sound_rows od {t. \<not> has_table fi t} A) m" if "m \<in> set base_tables" for m
    using that unfolding table_defs ensure_defs
    by (auto simp: stable_def sound_wipes)
  moreover have "stable (sound_rows od T A) m"
    if "m \<in> set (call_columns @ Always backfill_raw # later_migrations now date_of)" for m T
    using that unfolding added_defs ensure_defs fill_defs
    by (auto simp: stable_def sound_on)
  ultimately show ?thesis unfolding migrations_def by auto
qed

lemma migrated_sound:
  assumes "RunMigrations now date_of fi = (r, fi')" "tidy_file fi" "panel_ok A (fl_db fi)" "store_ok od (fl_db fi)"
  shows "panel_ok A (fl_db fi')" "store_ok od (fl_db fi')"
proof -
  have "sound_rows od {t. \<not> has_table fi t} A (fl_db fi)" using assms by (simp add: sound_rows_def tidy_file_def)
  then have "sound_rows od {t. \<not> has_table fi t} A (fl_db fi')"
    using run_stable [OF sound_rows_table sound_script] assms(1) unfolding RunMigrations_def by blast
  then show "panel_ok A (fl_db fi')" "store_ok od (fl_db fi')" by (simp_all add: sound_rows_def)
qed

section \<open>Start-up\<close>

lemma seed_input_fst: "map fst (seed_input bo cfg) = cf_providers cfg"
  by (simp add: seed_input_def)

lemma seed_defaults:
  "length (filter (cp_is_default \<circ> fst) (seed_input bo cfg)) = length (filter cp_is_default (cf_providers cfg))"
proof -
  have "filter cp_is_default (map fst (seed_input bo cfg)) = map fst (filter (cp_is_default \<circ> fst) (seed_input bo cfg))"
    by (simp add: filter_map)
  then show ?thesis unfolding seed_input_fst by (metis length_map)
qed

text \<open>What a start that ends in a running gateway has done.\<close>

lemma main_running:
  assumes "main bo fi = Running sg a fi'"
  obtains kek cfg fi1 db2 db3 where "Load (bo_decode bo) (bo_getenv bo) (bo_config_file bo) = Ok cfg"
    "RunMigrations (bo_now bo) (bo_date_of bo) fi = (Ok (), fi1)"
    "SeedFromConfig (bo_crypto bo) kek (bo_getenv bo) (bo_now bo) (seed_input bo cfg) (seed_triples bo cfg)
       (fl_db fi1) = (Ok (), db2)"
    "NewRouter (bo_crypto bo) kek (bo_order bo) True db2 = (ad_table a, db3)"
    "ad_db a = compensate (qc_reset_interval_hours (cf_quota cfg)) (bo_now bo) db3"
    "sg = serving_of bo kek cfg" "fi' = with_rows fi1 (ad_db a)" "ad_counters a = []"
  using assms
  by (auto simp: main_def start_serving_def Open_db_def with_rows_def Let_def
      split: sum.splits prod.splits option.splits if_splits)

context table_invariant
begin

lemma router: "NewRouter cr kek order True db = (t, db') \<Longrightarrow> I db \<Longrightarrow> I db'"
  by (auto simp: NewRouter_def Reload_def split: prod.splits sum.splits dest: preservesD [OF reload])

end

context account_tables
begin

lemma seed: "preserves I (SeedFromConfig cr kek getenv now ps maps)"
proof -
  have i: "preserves I (insert_provider mk)" for mk
    unfolding insert_provider_def by (intro preserves_stmt table) (simp add: provider_rows)
  have p: "I db'" if "seed_providers cr kek getenv now ps db = (r, db')" "I db" for ps db r db'
    using that
  proof (induction ps arbitrary: db)
    case (Cons a ps)
    then show ?case
      by (cases a) (auto simp: Let_def split: sum.splits prod.splits dest: preservesD [OF i])
  qed simp
  have "preserves I (run_stmt c chk res (\<lambda>db. db\<lparr>model_mappings := f db, model_mappings_seq := n db\<rparr>))" for c chk and res :: "db \<Rightarrow> unit" and f n
    by (intro preserves_stmt table) (simp add: mapping_rows)
  then have m: "I (seed_mapping now t db)" if "I db" for t db
    using that unfolding seed_mapping_def preserves_def by (simp split: prod.split)
  have f: "I (fold (seed_mapping now) maps db)" if "I db" for maps db
    using that by (induction maps arbitrary: db) (simp_all add: m)
  have "preserves I (seed_providers cr kek getenv now ps)" by (rule preservesI) (rule p)
  then show ?thesis
    unfolding SeedFromConfig_def by (auto intro!: preserves_then query preserves_result preserves_map f)
qed

end

text \<open>A file the gateway may be started on: rows belong to tables it has, and the accounts, calls,
  providers and mappings in it are consistent; with \<open>od\<close>, it has at most one default provider.\<close>

definition startable :: "bool \<Rightarrow> (int \<times> string \<times> string) list \<Rightarrow> dbfile \<Rightarrow> bool" where
  "startable od A fi \<longleftrightarrow> tidy_file fi \<and> panel_ok A (fl_db fi) \<and> store_ok od (fl_db fi)"

lemma started_sound:
  assumes "main bo fi = Running sg a fi'" "startable od A fi"
    and "\<And>cfg. od \<Longrightarrow> Load (bo_decode bo) (bo_getenv bo) (bo_config_file bo) = Ok cfg \<Longrightarrow>
      length (filter cp_is_default (cf_providers cfg)) \<le> 1"
  shows "process_ok od A (ad_db a)"
proof (rule main_running [OF assms(1)])
  fix kek cfg' fi1 db2 db3
  assume m: "Load (bo_decode bo) (bo_getenv bo) (bo_config_file bo) = Ok cfg'"
    "RunMigrations (bo_now bo) (bo_date_of bo) fi = (Ok (), fi1)"
    "SeedFromConfig (bo_crypto bo) kek (bo_getenv bo) (bo_now bo) (seed_input bo cfg') (seed_triples bo cfg')
       (fl_db fi1) = (Ok (), db2)"
    "NewRouter (bo_crypto bo) kek (bo_order bo) True db2 = (ad_table a, db3)"
    "ad_db a = compensate (qc_reset_interval_hours (cf_quota cfg')) (bo_now bo) db3"
  have 1: "panel_ok A (fl_db fi1)" "store_ok od (fl_db fi1)" "raw_settled (fl_db fi1)"
    using migrated_sound [OF m(2), of A od] assms(2) run_settles [OF m(2)] by (simp_all add: startable_def)
  have 2: "panel_ok A db2" "store_ok od db2" "raw_settled db2"
    using preservesD [OF account_rows.seed m(3) 1(1)] preservesD [OF raw_rows.seed m(3) 1(3)]
      seed_keeps [OF m(3) 1(2)] assms(3) [OF _ m(1)] by (simp_all add: seed_defaults)
  have 3: "panel_ok A db3" "store_ok od db3" "raw_settled db3"
    using accounts.router [OF m(4)] store.router [OF m(4)] raw_rows.router [OF m(4)] 2 by simp_all
  show ?thesis
    using 3 by (simp add: process_ok_def m(5) account_process.compensate_keeps store_process.compensate_keeps raw_process.compensate_keeps)
qed

text \<open>
  Property C2.  From its start on a consistent file, or on none, and with any configuration it starts on,
  the gateway keeps its tables consistent through every sequence of requests and scheduler ticks, whatever
  arrives, whatever the upstream does and whichever statements fail: accounts have unique ids, names and key
  hashes and one quota row each, every logged call belongs to an account and carries its raw token sum, the
  administrators are those of the file, provider slugs are unique, and mappings refer to providers.  At most
  one provider is the default provided that the file has at most one and that the configuration marks at
  most one; nothing in the program checks the latter.
\<close>

theorem every_life_keeps_the_tables_consistent:
  assumes "main bo fi = Running sg a fi'" "startable False A fi"
  shows "process_ok False A (ad_db (run_events sg es a)) \<and>
    (one_default (providers (fl_db fi)) \<and>
     (\<forall>cfg. Load (bo_decode bo) (bo_getenv bo) (bo_config_file bo) = Ok cfg \<longrightarrow>
        length (filter cp_is_default (cf_providers cfg)) \<le> 1)
     \<longrightarrow> one_default (providers (ad_db (run_events sg es a))))"
proof (intro conjI impI)
  show "process_ok False A (ad_db (run_events sg es a))"
    by (rule events_keep_process [OF started_sound [OF assms]]) simp
next
  assume one: "one_default (providers (fl_db fi)) \<and>
     (\<forall>cfg. Load (bo_decode bo) (bo_getenv bo) (bo_config_file bo) = Ok cfg \<longrightarrow>
        length (filter cp_is_default (cf_providers cfg)) \<le> 1)"
  then have "startable True A fi" using assms(2) by (simp add: startable_def store_ok_default)
  from events_keep_process [OF started_sound [OF assms(1) this]] one
  show "one_default (providers (ad_db (run_events sg es a)))"
    by (simp add: process_ok_def store_ok_default)
qed

text \<open>
  Property C19.  A restart finds everything in place: after any events, the migrations of the next start run
  through and change neither a row nor the schema.
\<close>

theorem restart_changes_nothing:
  assumes "main bo fi = Running sg a fi'" "startable False A fi"
    and "fi2 = with_rows fi' (ad_db (run_events sg es a))" "healthy (fl_db fi2)"
  shows "RunMigrations now date_of fi2 = (Ok (), fi2)"
proof (rule main_running [OF assms(1)])
  fix kek cfg' fi1 db2 db3
  assume m: "RunMigrations (bo_now bo) (bo_date_of bo) fi = (Ok (), fi1)" and f: "fi' = with_rows fi1 (ad_db a)"
  have "present m fi2" if "m \<in> set (migrations (bo_now bo) (bo_date_of bo))" for m
  proof -
    have "present m fi1" using that run_migrations_present m unfolding RunMigrations_def by blast
    then show ?thesis
      by (rule present_grows) (simp add: assms(3) f with_rows_def)
  qed
  moreover have "raw_settled (fl_db fi2)"
    using events_keep_process [OF started_sound [OF assms(1,2)], of sg es]
    by (simp add: assms(3) with_rows_def process_ok_def)
  ultimately show ?thesis
    unfolding RunMigrations_def using assms(4) by (intro run_all_done) (auto intro: all_done)
qed

section \<open>The password switch\<close>

lemma login_status:
  assumes "healthy db" "select_one (\<lambda>u. u_username u = ''admin'') (users db) = Some u"
    and "bcrypt_ok cr (bytes_of (u_password_hash u)) (bytes_of pw)" "pw \<noteq> ''''"
    and "\<forall>s \<in> set (admin_sessions db). s_token s \<noteq> GenerateSessionToken rb"
  shows "rs_status (fst (HandleLogin cr now rb hours secure (Some \<lparr>lr_username = ''admin'', lr_password = pw\<rparr>) db)) = 200 \<longleftrightarrow>
    u_role u = ''admin'' \<and> u_status u \<noteq> ''disabled''"
proof -
  have "select_one (\<lambda>s. s_token s = GenerateSessionToken rb) (admin_sessions db) = None"
    using assms(5) by (simp add: select_one_None_iff)
  then show ?thesis
    using assms(1-4)
    by (simp add: HandleLogin_def GetUserByUsername_def CreateSession_def json_error_def writeJSON_def with_cookie_def
        Let_def sql_simps)
qed

lemma select_updated:
  "select_one P rows = Some r \<Longrightarrow> (\<And>x. P (f x) = P x) \<Longrightarrow> select_one P (update_where P f rows) = Some (f r)"
  by (induction rows) (auto split: if_splits)

lemma admin_created:
  assumes "healthy db" "accounts_ok db" "CreateUser now n db = (Ok x, db')"
  shows "db' = after_create now (user_defaults n) db"
  using assms(3)
proof (cases rule: create_user_cases)
  case (ok x' db1)
  obtain f where "db1 = db\<lparr>db_faults := f\<rparr>" by (rule same_tablesE [OF ok(2)])
  then have "user_conflict (user_row (user_defaults n) (fmt_rfc3339 now) (users_seq db + 1)) db = None"
    using ok(4) by (simp add: user_conflict_def)
  from create_run [OF assms(1,2) this] show ?thesis using assms(3) by auto
qed simp

text \<open>
  Property C39.  After the password switch has set a password, a login as \<open>admin\<close> with it succeeds, when the
  new session's token is fresh, if there was no account of that name; if there was one, it succeeds exactly
  when that account is an administrator and not disabled: the switch sets the password of whatever account
  has the name, and neither promotes nor enables it.
\<close>

theorem password_switch_opens_the_panel:
  assumes "healthy db" "accounts_ok db"
    and init: "initAdminPassword cr now rb hash_of pw db = (Ok (), db')"
    and "hash_of pw = Some h" "bcrypt_ok cr (bytes_of h) (bytes_of pw)"
    and fresh: "\<forall>s \<in> set (admin_sessions db). s_token s \<noteq> GenerateSessionToken rb2"
  shows "rs_status (fst (HandleLogin cr now2 rb2 hours secure (Some \<lparr>lr_username = ''admin'', lr_password = pw\<rparr>) db')) = 200 \<longleftrightarrow>
    (case select_one (\<lambda>u. u_username u = ''admin'') (users db) of None \<Rightarrow> True
     | Some u \<Rightarrow> u_role u = ''admin'' \<and> u_status u \<noteq> ''disabled'')"
proof -
  have pw: "pw \<noteq> ''''" using init by (auto simp: initAdminPassword_def)
  show ?thesis
  proof (cases "select_one (\<lambda>u. u_username u = ''admin'') (users db)")
    case (Some u)
    let ?f = "\<lambda>u. u\<lparr>u_password_hash := h, u_updated_at := Now now\<rparr>"
    have "db' = set_users (\<lambda>u. u_username u = ''admin'') ?f db"
      using init pw assms(1,4) Some
      by (simp add: initAdminPassword_def GetUserByUsername_def set_admin_password_def sql_simps)
    then show ?thesis
      using login_status [of db' "?f u" cr pw rb2 now2 hours secure] select_updated [OF Some, of ?f] assms Some pw
      by (simp add: set_users_def)
  next
    case None
    then obtain x where c: "CreateUser now (admin_account cr rb h) db = (Ok x, db')"
      using init pw assms(1,4)
      by (auto simp: initAdminPassword_def GetUserByUsername_def sql_simps elim!: and_then_cases)
    have e: "db' = after_create now (user_defaults (admin_account cr rb h)) db"
      by (rule admin_created [OF assms(1,2) c])
    let ?u = "user_row (user_defaults (admin_account cr rb h)) (fmt_rfc3339 now) (users_seq db + 1)"
    have u: "users db' = users db @ [?u]" "healthy db'" "admin_sessions db' = admin_sessions db"
      using assms(1) by (simp_all add: e after_create_def insert_row_def Let_def)
    have f: "u_username ?u = ''admin''" "u_role ?u = ''admin''" "u_status ?u = ''active''" "u_password_hash ?u = h"
      by (simp_all add: user_row_def user_defaults_def admin_account_def Let_def)
    have "select_one (\<lambda>u. u_username u = ''admin'') (users db') = Some ?u"
      using None f(1) by (simp add: u(1) select_one_append)
    from login_status [OF u(2) this, of cr pw rb2 now2 hours secure] show ?thesis
      using assms(5,6) pw None f u(3) by simp
  qed
qed

section \<open>Witnesses\<close>

definition sample_boot :: boot where
  "sample_boot = \<lparr>bo_crypto = toy_crypto, bo_getenv = (\<lambda>_. ''secret''), bo_decode = (\<lambda>_ cfg. Some cfg),
     bo_config_file = Some '''', bo_pings = True, bo_now = noon 2, bo_date_of = day_of, bo_nonce = (\<lambda>_. None),
     bo_order = (\<lambda>ks. ks), bo_random = [1], bo_hash = Some, bo_password = '''',
     bo_pages = (blank_page, blank_page, blank_page), bo_static = (\<lambda>_. blank_page), bo_user_files = (\<lambda>_. blank_page),
     bo_yaml = \<lparr>yl_decode = (\<lambda>_. None), yl_encode = (\<lambda>_. None)\<rparr>\<rparr>"

definition sample_config :: Config where
  "sample_config = default_config\<lparr>cf_api := (cf_api default_config)\<lparr>ac_zhipu_api_key := ''secret''\<rparr>\<rparr>"

lemma sample_load: "Load (bo_decode sample_boot) (bo_getenv sample_boot) (bo_config_file sample_boot) = Ok sample_config"
  by (simp add: Load_def sample_boot_def sample_config_def Let_def)

lemma sample_config_fields: "cf_providers sample_config = []" "cf_model_mappings sample_config = []"
  "qc_reset_interval_hours (cf_quota sample_config) = 5"
  by (simp_all add: sample_config_def default_config_def)

lemma new_file_startable: "startable od [] new_file"
  by (simp add: startable_def tidy_file_def no_rows_def new_file_def panel_ok_def accounts_ok_def admins_def
      store_ok_def users_wf_def names_wf_def hashes_wf_def providers_wf_def one_default_def mappings_wf_def empty_db_def)

lemma seed_nothing: "healthy db \<Longrightarrow> SeedFromConfig cr kek getenv now [] [] db = (Ok (), db)"
  by (simp add: SeedFromConfig_def and_then_def sql_simps)

lemma router_healthy: "healthy db \<Longrightarrow> \<exists>t. NewRouter cr kek order True db = (t, db)"
  using unchanged.table
  by (auto simp: NewRouter_def Reload_def BuildProviderTable_def ListRoutingRules_def and_then_def sql_simps Let_def
      split: sum.split prod.split)

lemma sample_starts: "\<exists>sg a fi'. main sample_boot new_file = Running sg a fi' \<and> healthy (ad_db a)"
proof -
  have u: "older_file new_file" "upgradable day_of (fl_db new_file)"
    by code_simp (simp add: upgradable_def slugs_distinct_def mappings_distinct_def new_file_def empty_db_def)
  obtain fi1 where m: "RunMigrations (noon 2) day_of new_file = (Ok (), fi1)" "healthy (fl_db fi1)"
    using upgrade_runs [OF u] unfolding upgradable_def by metis
  obtain t where r: "NewRouter toy_crypto (sha256 toy_crypto (bytes_of ''secret'')) (\<lambda>ks. ks) True (fl_db fi1) = (t, fl_db fi1)"
    using router_healthy [OF m(2)] by blast
  have k: "length (sha256 toy_crypto (bytes_of ''secret'')) = 32" by code_simp
  have "healthy (compensate 5 (noon 2) (fl_db fi1))"
    using m(2) by (simp add: compensate_def CompensateQuotaReset_def exec_quotas_def log_err_def sql_simps set_quotas_def)
  moreover have b: "bo_crypto sample_boot = toy_crypto" "bo_getenv sample_boot = (\<lambda>_. ''secret'')" "bo_pings sample_boot"
    "bo_now sample_boot = noon 2" "bo_date_of sample_boot = day_of" "bo_order sample_boot = (\<lambda>ks. ks)"
    "bo_password sample_boot = ''''"
    by (simp_all add: sample_boot_def)
  moreover have "seed_input sample_boot sample_config = []" "seed_triples sample_boot sample_config = []"
    by (simp_all add: seed_input_def seed_triples_def sample_config_fields)
  ultimately show ?thesis
    using sample_load m r k
    by (simp add: main_def DeriveKEK_def Open_db_def NewProviderStore_def start_serving_def
        sample_config_fields seed_nothing with_rows_def Let_def)
qed


lemma every_life_keeps_the_tables_consistent_witness:
  "\<exists>sg a fi'. main sample_boot new_file = Running sg a fi' \<and>
    process_ok True [] (ad_db (run_events sg [Arrives sample_arrival (sample_http ''GET'' ''/v1/quota'' ''sk-1'' ''''), Ticks (noon 3)] a))"
proof -
  obtain sg a fi' where m: "main sample_boot new_file = Running sg a fi'" using sample_starts by blast
  have "one_default (providers (fl_db new_file))" using new_file_startable [of True] by (simp add: startable_def store_ok_default)
  moreover have "length (filter cp_is_default (cf_providers sample_config)) \<le> 1" by (simp add: sample_config_fields)
  ultimately show ?thesis
    using every_life_keeps_the_tables_consistent [OF m new_file_startable,
      of "[Arrives sample_arrival (sample_http ''GET'' ''/v1/quota'' ''sk-1'' ''''), Ticks (noon 3)]"] m sample_load
    by (auto simp: process_ok_def store_ok_default simp del: run_events.simps)
qed

lemma quiet_life: "healthy (ad_db a) \<Longrightarrow> healthy (ad_db (run_events sg [Ticks now] a))"
  by (simp add: tryReset_def log_err_def Reset5hQuota_def exec_quotas_def sql_simps set_quotas_def)

lemma restart_changes_nothing_witness:
  "\<exists>sg a fi'. main sample_boot new_file = Running sg a fi' \<and>
    RunMigrations (noon 4) day_of (with_rows fi' (ad_db (run_events sg [Ticks (noon 3)] a)))
      = (Ok (), with_rows fi' (ad_db (run_events sg [Ticks (noon 3)] a)))"
proof -
  obtain sg a fi' where m: "main sample_boot new_file = Running sg a fi'" "healthy (ad_db a)"
    using sample_starts by blast
  have h: "healthy (fl_db (with_rows fi' (ad_db (run_events sg [Ticks (noon 3)] a))))"
    using quiet_life [OF m(2)] by (simp add: with_rows_def)
  from restart_changes_nothing [OF m(1) new_file_startable refl h] m(1) show ?thesis by blast
qed

lemma password_switch_opens_the_panel_witness:
  "\<exists>db'. initAdminPassword toy_crypto (noon 1) [1] Some ''pw'' empty_db = (Ok (), db') \<and>
    rs_status (fst (HandleLogin toy_crypto (noon 2) [2] 24 True (Some \<lparr>lr_username = ''admin'', lr_password = ''pw''\<rparr>) db')) = 200"
proof -
  have a: "healthy empty_db" "accounts_ok empty_db"
    by (simp_all add: empty_db_def accounts_ok_def users_wf_def names_wf_def hashes_wf_def)
  have "user_conflict (user_row (user_defaults (admin_account toy_crypto [1] ''pw'')) (fmt_rfc3339 (noon 1))
      (users_seq empty_db + 1)) empty_db = None"
    by (simp add: user_conflict_def empty_db_def)
  from create_run [OF a this] obtain x where
    "CreateUser (noon 1) (admin_account toy_crypto [1] ''pw'') empty_db
      = (Ok x, after_create (noon 1) (user_defaults (admin_account toy_crypto [1] ''pw'')) empty_db)" by blast
  then have i: "initAdminPassword toy_crypto (noon 1) [1] Some ''pw'' empty_db
      = (Ok (), after_create (noon 1) (user_defaults (admin_account toy_crypto [1] ''pw'')) empty_db)"
    using a(1) by (simp add: initAdminPassword_def GetUserByUsername_def sql_simps) (simp add: empty_db_def)
  have "bcrypt_ok toy_crypto (bytes_of ''pw'') (bytes_of ''pw'')" by (simp add: toy_crypto_def)
  from password_switch_opens_the_panel [OF a i refl this] i show ?thesis by (simp add: empty_db_def)
qed

end
