(* ===== verification/Spec2Isabelle.thy ===== *)
theory Spec2Isabelle
  imports QuotaProperties AccountProperties EngineProperties StoreInvariant RouterProperties
    ConcurrencyProperties ChatProperties StatsProperties AdminProperties SelfServiceProperties
    MigrationProperties UpdateProperties GatewayProperties StartupProperties
begin

text \<open>
  Verification library of the LLM API gateway (Go, under \<open>src/\<close>).

  The gateway sells access to upstream LLM providers: an account holds a sub-key and a quota row, a
  request with the key passes the authentication middleware, a cap on requests in flight, a quota gate that
  charges calls in one SQL statement, and the router, which picks a provider; the request is then forwarded
  (chat completions with their bodies rewritten, or a raw passthrough), refunded on failure and billed in
  tokens on success.  Administrators manage accounts, providers, mappings, routing rules and multipliers in
  a panel; key holders read their own quota and calls; a scheduler empties the five-hour windows.

  \<^bold>\<open>Parts and theories.\<close>
  \<^item> \<open>Prelude\<close>: tables as lists of rows with the SQL statements on them, the locales \<open>keyed_table\<close> and
    \<open>comparator\<close>, Go maps as association lists, stable sorting, errors.
  \<^item> \<open>GoString\<close>, \<open>GoTime\<close>, \<open>GoFormat\<close>, \<open>GoFloat\<close>: what the source uses of Go's \<open>strings\<close>, \<open>strconv\<close>,
    \<open>time\<close> and \<open>float64\<close>.  A time is an instant in nanoseconds with a fixed zone offset; a \<open>float64\<close> is a
    finite number rounded to 53 bits, without overflow, infinities and NaN.
  \<^item> \<open>Timeutil\<close>: \<open>internal/timeutil\<close> and \<open>models/expiry.go\<close>.
  \<^item> \<open>Schema\<close>: the tables of \<open>internal/db/migrations.go\<close> as the record \<open>db\<close>, statements, transactions, and
    \<open>preserves\<close>, the invariants of operations.  \<open>db_faults\<close> scripts which of the next statements fail, so
    that every error path runs; an empty script is a healthy database.
  \<^item> \<open>QuotaModel\<close>, \<open>QuotaLaws\<close>, \<open>QuotaHistory\<close>, \<open>QuotaProperties\<close>: \<open>models/quota.go\<close>: the gate, refunds, token
    accounting, caps, anchors and resets; the abstract buckets the gate refines; sequences of any of these
    operations (\<open>quota_step\<close>), in which no counter grows beyond its cap, although an administrator may set
    the cap below what is used.
  \<^item> \<open>UserModel\<close>, \<open>SessionModel\<close>, \<open>Security\<close>, \<open>Auth\<close>, \<open>AccountProperties\<close>: \<open>models/user.go\<close>,
    \<open>session.go\<close>, \<open>call_log.go\<close>, \<open>internal/security\<close>, \<open>internal/auth\<close>, \<open>admin/login.go\<close>.  SHA-256, AES-GCM
    and bcrypt are the parameter \<open>crypto\<close>.
  \<^item> \<open>QuotaEngine\<close>, \<open>EngineProperties\<close>: \<open>internal/quota\<close>.
  \<^item> \<open>Http\<close>, \<open>JsonText\<close>, \<open>JsonRaw\<close>: responses, the JSON texts of header columns, and JSON texts kept raw.
  \<^item> \<open>ProviderStore\<close>, \<open>StoreProperties\<close>, \<open>StoreInvariant\<close>: \<open>internal/provider\<close>, \<open>models/provider.go\<close>.
    The invariant \<open>store_ok\<close> (unique slugs, mappings that refer to providers) holds from any seeding on; with
    its argument \<open>True\<close> it adds that at most one provider is the default, which a configuration that marks
    two breaks, since nothing checks it (\<open>two_defaults_are_seeded\<close>).
  \<^item> \<open>Router\<close>, \<open>RouterProperties\<close>: \<open>internal/router\<close>.
  \<^item> \<open>Concurrency\<close>, \<open>ConcurrencyProperties\<close>: the counters of \<open>proxy/handler.go\<close>, one request at a time and as
    interleaved atomic actions (\<open>conc_step\<close>).
  \<^item> \<open>Passthrough\<close>, \<open>PassthroughProperties\<close>: \<open>proxy/passthrough.go\<close> and \<open>passthrough_request.go\<close>: what a
    request costs on every way out, and that no credential of the client goes upstream.
  \<^item> \<open>ChatBody\<close>, \<open>ChatProxy\<close>, \<open>ChatProperties\<close>: \<open>proxy/handler.go\<close>, \<open>stream.go\<close>, \<open>upstream.go\<close>, \<open>models.go\<close>.
    The upstream is a function from the request built to a response.  What a request costs on every way out,
    what a stream relays (specified by its lines, apart from the code) and bills, and the compaction.
  \<^item> \<open>CallStats\<close>, \<open>ProviderUsage\<close>, \<open>StatsProperties\<close>: \<open>models/call_stats.go\<close> and \<open>provider_usage.go\<close>.
  \<^item> \<open>Panel\<close>, \<open>AdminUsers\<close>, \<open>AdminConsole\<close>, \<open>Requests\<close>, \<open>AdminApi\<close>: \<open>internal/admin\<close>, from the text of a
    request to the answer and the new state (\<open>serve_admin\<close>); \<open>PanelLaws\<close>, \<open>AdminLaws\<close>, \<open>AdminProperties\<close>:
    the invariants every request keeps, stated as the locales \<open>table_invariant\<close>, \<open>account_invariant\<close>,
    \<open>row_invariant\<close> and \<open>panel_invariant\<close> and interpreted on the account tables and those of the store;
    \<open>UpdateProperties\<close>: what a change of an account writes, step by step by rules for total correctness.
  \<^item> \<open>SelfService\<close>, \<open>SelfServiceProperties\<close>: \<open>internal/handler\<close>.
  \<^item> \<open>Migrations\<close>, \<open>MigrationLaws\<close>, \<open>MigrationProperties\<close>: \<open>internal/db\<close>: a database file is its schema with
    its rows, the migration script is a list of statements, each of which says when SQLite accepts it and
    what it does; what an upgrade completes, bills (against the gateway's own rounding, of which the SQL of
    the upgrade may fall one token short per call) and leaves alone, and what an interrupted one loses.
  \<^item> \<open>Config\<close>, \<open>Gateway\<close>, \<open>Startup\<close>: \<open>internal/config\<close> and \<open>main.go\<close>: loading, the password switch and the
    start (\<open>main\<close>), the routes with their middleware (\<open>serve_gateway\<close>), and the life of the process as a
    sequence of requests and scheduler ticks (\<open>run_events\<close>).  \<open>GatewayLaws\<close> joins the invariants of all parts
    (\<open>served_invariant\<close>, \<open>process_invariant\<close>, \<open>process_ok\<close>); \<open>GatewayProperties\<close> and \<open>StartupProperties\<close> state
    what holds of whole requests and of whole lives of the process.

  \<^bold>\<open>State.\<close>  \<open>db\<close> is the SQLite database; \<open>ProviderTable\<close> and \<open>Router\<close> hold the in-memory snapshot of
  providers; \<open>counters\<close> is the \<open>sync.Map\<close> of requests in flight; \<open>admin\<close> joins them with the credentials and
  the configuration file; \<open>dbfile\<close> is the database on disk between two lives of the process.  Operations take
  the state and return it changed, with an error as \<open>Inl\<close>.

  \<^bold>\<open>Conventions.\<close>  A handler reads the clock once; the order in which Go ranges over a map is an argument;
  integers are unbounded except where the code's wrap-around is visible (\<open>billed_tokens\<close>); JSON member
  names are folded in ASCII; \<open>%q\<close> is modelled on printable UTF-8; texts of driver errors are not modelled
  beyond their context.  Recursion is structural, or over a length, or has its own termination proof; no fuel
  bounds an observable result (the digits of \<open>shortest\<close> are at most 17, which a \<open>float64\<close> never exceeds).

  \<^bold>\<open>Not modelled.\<close>  The listener and the graceful shutdown of \<open>main.go\<close>, the pragmas of \<open>Open\<close> and the log
  of requests, which change no state of the model; the SQL engine itself (\<open>DATE\<close> is an argument, foreign keys
  act where the code relies on their cascades); the YAML library (\<open>Load\<close> is over a decoder); the contents of
  static and embedded pages (arguments of \<open>serve_admin\<close> and \<open>serve_gateway\<close>); logs; \<open>DumpConfig\<close>, which
  only prints.  Requests are handled one after the other, except in \<open>conc_step\<close>.
\<close>

end
